(* ===== verification/Prelude.thy ===== *)
theory Prelude
  imports Main "HOL-Library.Char_ord" "HOL-Library.List_Lexorder"
begin

text \<open>
  What every component shares: results that carry a thrown error, the combinators the
  source's \<open>throw\<close>, early return and \<open>Array.map\<close> become, and the string operations of
  the JavaScript standard library the kernel uses.

  A JavaScript string is a HOL \<open>string\<close>: a list of code units below 256, so \<open>trim\<close>
  and \<open>toLowerCase\<close> are those of the Latin-1 range.  The order on strings is the
  lexicographic order of code units, the order of \<open>Array.prototype.sort\<close>.
\<close>

named_theorems result_simps \<open>when a combinator returns normally\<close>
named_theorems sound_rules \<open>what a parser guarantees of its result\<close>
named_theorems codec_rules \<open>a parser applied to a serialised value\<close>

section \<open>Results\<close>

type_synonym ('e, 'a) result = "'e + 'a"

text \<open>Sequencing: \<open>bindE m f\<close> runs \<open>m\<close> and passes its value on; a thrown error ends it.\<close>

definition bindE :: "('e, 'a) result \<Rightarrow> ('a \<Rightarrow> ('e, 'b) result) \<Rightarrow> ('e, 'b) result" where
  "bindE m f = (case m of Inl e \<Rightarrow> Inl e | Inr a \<Rightarrow> f a)"

text \<open>\<open>throwIf c e k\<close> is \<open>if (c) throw e;\<close> followed by \<open>k\<close>.\<close>

definition throwIf :: "bool \<Rightarrow> 'e \<Rightarrow> ('e, 'a) result \<Rightarrow> ('e, 'a) result" where
  "throwIf c e k = (if c then Inl e else k)"

text \<open>\<open>mapE f xs\<close> is \<open>xs.map(f)\<close> for a callback that may throw.\<close>

fun mapE :: "('a \<Rightarrow> ('e, 'b) result) \<Rightarrow> 'a list \<Rightarrow> ('e, 'b list) result" where
  "mapE f [] = Inr []"
| "mapE f (x # xs) = bindE (f x) (\<lambda>y. bindE (mapE f xs) (\<lambda>ys. Inr (y # ys)))"

text \<open>\<open>eachE f xs\<close> is a \<open>for\<close> loop whose body only checks.\<close>

fun eachE :: "('a \<Rightarrow> ('e, unit) result) \<Rightarrow> 'a list \<Rightarrow> ('e, unit) result" where
  "eachE f [] = Inr ()"
| "eachE f (x # xs) = bindE (f x) (\<lambda>_. eachE f xs)"

text \<open>\<open>foldE f xs s\<close> is a \<open>for\<close> loop over \<open>xs\<close> that updates \<open>s\<close> and may throw.\<close>

fun foldE :: "('s \<Rightarrow> 'a \<Rightarrow> ('e, 's) result) \<Rightarrow> 'a list \<Rightarrow> 's \<Rightarrow> ('e, 's) result" where
  "foldE f [] s = Inr s"
| "foldE f (x # xs) s = bindE (f s x) (foldE f xs)"

text \<open>\<open>orNull f x\<close> is \<open>x === null ? null : f(x)\<close> once the test has been made.\<close>

definition whenE :: "bool \<Rightarrow> ('e, 'a) result \<Rightarrow> ('e, 'a option) result" where
  "whenE c m = (if c then bindE m (\<lambda>x. Inr (Some x)) else Inr None)"

lemma bindE_simps [simp]:
  "bindE (Inl e) f = Inl e" "bindE (Inr a) f = f a"
  by (simp_all add: bindE_def)

lemma throwIf_simps [simp]:
  "throwIf True e k = Inl e" "throwIf False e k = k"
  by (simp_all add: throwIf_def)

lemma whenE_simps [simp]:
  "whenE False m = Inr None" "whenE True m = bindE m (\<lambda>x. Inr (Some x))"
  by (simp_all add: whenE_def)

lemma bindE_eq_Inr [result_simps]: "bindE m f = Inr b \<longleftrightarrow> (\<exists>a. m = Inr a \<and> f a = Inr b)"
  by (cases m) simp_all

lemma throwIf_eq_Inr [result_simps]: "throwIf c e k = Inr b \<longleftrightarrow> \<not> c \<and> k = Inr b"
  by (simp add: throwIf_def)

lemma whenE_eq_Inr [result_simps]:
  "whenE c m = Inr b \<longleftrightarrow> (if c then (\<exists>x. m = Inr x \<and> b = Some x) else b = None)"
  by (cases m) (auto simp: whenE_def)

lemma if_eq_Inr: "(if c then Inl e else k) = Inr b \<longleftrightarrow> \<not> c \<and> k = Inr b"
  by simp

lemma bindE_cong [fundef_cong]:
  "m = m' \<Longrightarrow> (\<And>a. m' = Inr a \<Longrightarrow> f a = f' a) \<Longrightarrow> bindE m f = bindE m' f'"
  by (cases m') simp_all

lemma mapE_cong [fundef_cong]:
  "xs = ys \<Longrightarrow> (\<And>x. x \<in> set ys \<Longrightarrow> f x = g x) \<Longrightarrow> mapE f xs = mapE g ys"
proof (induction ys arbitrary: xs)
  case (Cons y ys)
  from Cons.prems have "f y = g y" and "mapE f ys = mapE g ys" by (auto intro: Cons.IH)
  then show ?case using Cons.prems(1) by simp
qed simp

lemma foldE_cong [fundef_cong]:
  assumes "xs = ys" and "s = t" and "\<And>u y. y \<in> set ys \<Longrightarrow> f u y = g u y"
  shows "foldE f xs s = foldE g ys t"
proof -
  have "foldE f ys u = foldE g ys u" for u
    using assms(3) by (induction ys arbitrary: u) (simp_all add: bindE_def split: sum.split)
  with assms(1,2) show ?thesis by simp
qed

lemma mapE_eq_Inr:
  "mapE f xs = Inr ys \<longleftrightarrow> list_all2 (\<lambda>x y. f x = Inr y) xs ys"
proof (induction xs arbitrary: ys)
  case (Cons x xs)
  show ?case by (cases ys) (auto simp: result_simps Cons.IH)
qed auto

lemma mapE_length: "mapE f xs = Inr ys \<Longrightarrow> length ys = length xs"
  by (auto simp: mapE_eq_Inr dest: list_all2_lengthD)

lemma mapE_all:
  assumes "mapE f xs = Inr ys" and "\<And>x y. x \<in> set xs \<Longrightarrow> f x = Inr y \<Longrightarrow> P y"
  shows "list_all P ys"
  using assms
proof (induction xs arbitrary: ys)
  case (Cons x xs)
  from Cons.prems(1) obtain z zs
    where z: "f x = Inr z" and zs: "mapE f xs = Inr zs" and ys: "ys = z # zs"
    by (auto simp: result_simps)
  have "list_all P zs" using zs by (rule Cons.IH) (auto intro: Cons.prems(2))
  moreover have "P z" using z by (rule Cons.prems(2) [OF list.set_intros(1)])
  ultimately show ?case by (simp add: ys)
qed simp

text \<open>The codec rule for arrays: if each element parses back, so does the array.\<close>

lemma mapE_map:
  assumes "\<And>x. x \<in> set xs \<Longrightarrow> f (g x) = Inr (h x)"
  shows "mapE f (map g xs) = Inr (map h xs)"
  using assms by (induction xs) auto

lemma mapE_map_id:
  assumes "\<And>x. x \<in> set xs \<Longrightarrow> f (g x) = Inr x"
  shows "mapE f (map g xs) = Inr xs"
  using mapE_map [of xs f g "\<lambda>x. x"] assms by simp

lemma eachE_eq_Inr [result_simps]: "eachE f xs = Inr u \<longleftrightarrow> (\<forall>x \<in> set xs. f x = Inr ())"
  by (induction xs) (auto simp: result_simps)

section \<open>Strings\<close>

text \<open>White space of \<open>String.prototype.trim\<close> and of \<open>\s\<close>, below 256.\<close>

definition is_space :: "char \<Rightarrow> bool" where
  "is_space c \<longleftrightarrow> c \<in> set [CHR 0x09, CHR 0x0A, CHR 0x0B, CHR 0x0C, CHR 0x0D, CHR 0x20, CHR 0xA0]"

definition trim :: "string \<Rightarrow> string" where
  "trim s = rev (dropWhile is_space (rev (dropWhile is_space s)))"

text \<open>\<open>!value.trim()\<close>\<close>

definition blank :: "string \<Rightarrow> bool" where
  "blank s \<longleftrightarrow> trim s = []"

definition lower_char :: "char \<Rightarrow> char" where
  "lower_char c = (let n = of_char c :: nat in
     if 65 \<le> n \<and> n \<le> 90 \<or> 192 \<le> n \<and> n \<le> 222 \<and> n \<noteq> 215 then char_of (n + 32) else c)"

definition to_lower :: "string \<Rightarrow> string" where
  "to_lower s = map lower_char s"

definition starts_with :: "string \<Rightarrow> string \<Rightarrow> bool" where
  "starts_with p s \<longleftrightarrow> take (length p) s = p"

definition ends_with :: "string \<Rightarrow> string \<Rightarrow> bool" where
  "ends_with p s \<longleftrightarrow> starts_with (rev p) (rev s)"

fun split_on :: "char \<Rightarrow> string \<Rightarrow> string list" where
  "split_on c [] = [[]]"
| "split_on c (x # xs) =
     (if x = c then [] # split_on c xs
      else (case split_on c xs of [] \<Rightarrow> [[x]] | y # ys \<Rightarrow> (x # y) # ys))"

fun join_with :: "string \<Rightarrow> string list \<Rightarrow> string" where
  "join_with sep [] = []"
| "join_with sep [s] = s"
| "join_with sep (s # t # ss) = s @ sep @ join_with sep (t # ss)"

text \<open>\<open>s.replace(/\\/g, "/")\<close>\<close>

definition forward_slashes :: "string \<Rightarrow> string" where
  "forward_slashes s = map (\<lambda>c. if c = CHR 0x5C then CHR ''/'' else c) s"

definition is_hex_lower :: "char \<Rightarrow> bool" where
  "is_hex_lower c \<longleftrightarrow> c \<in> set ''0123456789abcdef''"

definition is_slug_char :: "char \<Rightarrow> bool" where
  "is_slug_char c \<longleftrightarrow> c \<in> set ''abcdefghijklmnopqrstuvwxyz0123456789''"

definition is_digit :: "char \<Rightarrow> bool" where
  "is_digit c \<longleftrightarrow> c \<in> set ''0123456789''"

definition is_letter :: "char \<Rightarrow> bool" where
  "is_letter c \<longleftrightarrow> c \<in> set ''abcdefghijklmnopqrstuvwxyzABCDEFGHIJKLMNOPQRSTUVWXYZ''"

lemma eq_char_by_code: "c = d \<longleftrightarrow> (of_char c :: nat) = of_char d"
  by simp

lemma of_char_of: "(of_char (char_of (n :: nat)) :: nat) = n mod 256"
  by simp

lemma starts_with_iff: "starts_with p s \<longleftrightarrow> (\<exists>t. s = p @ t)"
  unfolding starts_with_def
  by (metis append_eq_conv_conj append_take_drop_id)

lemma starts_with_append [simp]: "starts_with p (p @ t)"
  by (simp add: starts_with_def)

lemma blank_iff: "blank s \<longleftrightarrow> list_all is_space s"
proof
  assume "blank s"
  then have "dropWhile is_space (rev (dropWhile is_space s)) = []"
    by (simp only: blank_def trim_def rev_is_Nil_conv)
  then have "\<forall>c \<in> set (dropWhile is_space s). is_space c"
    by (simp only: dropWhile_eq_Nil_conv set_rev)
  moreover have "dropWhile is_space s = [] \<or> \<not> is_space (hd (dropWhile is_space s))"
    using hd_dropWhile by blast
  ultimately have "dropWhile is_space s = []"
    by (metis list.set_sel(1))
  then show "list_all is_space s" by (simp only: list_all_iff dropWhile_eq_Nil_conv)
next
  assume "list_all is_space s"
  then have "dropWhile is_space s = []" by (simp only: list_all_iff dropWhile_eq_Nil_conv)
  then show "blank s" by (simp only: blank_def trim_def rev.simps dropWhile.simps)
qed

lemma not_blank_trim: "\<not> blank s \<Longrightarrow> trim s \<noteq> []"
  by (simp add: blank_def)

lemma blank_trim [simp]: "blank (trim s) \<longleftrightarrow> blank s"
proof
  assume "blank (trim s)"
  show "blank s"
  proof (rule ccontr)
    assume "\<not> blank s"
    then have ne: "dropWhile is_space (rev (dropWhile is_space s)) \<noteq> []"
      by (simp add: blank_def trim_def)
    then have "\<not> is_space (hd (dropWhile is_space (rev (dropWhile is_space s))))"
      using hd_dropWhile by blast
    moreover have "hd (dropWhile is_space (rev (dropWhile is_space s))) \<in> set (trim s)"
      using ne by (simp add: trim_def)
    ultimately show False using \<open>blank (trim s)\<close> by (auto simp: blank_iff list_all_iff)
  qed
next
  assume "blank s"
  then have "trim s = []" by (simp add: blank_def)
  then show "blank (trim s)" by (simp add: blank_iff)
qed

text \<open>Lower case is stable, and keeps white space.\<close>

lemma lower_char_idem [simp]: "lower_char (lower_char c) = lower_char c"
  by (auto simp: lower_char_def Let_def of_char_of)

lemma to_lower_idem [simp]: "to_lower (to_lower s) = to_lower s"
  by (simp add: to_lower_def)

lemma is_space_code:
  "is_space c \<longleftrightarrow> (of_char c :: nat) \<in> {9, 10, 11, 12, 13, 32, 160}"
proof -
  have "c = CHR 0x09 \<longleftrightarrow> (of_char c :: nat) = 9" "c = CHR 0x0A \<longleftrightarrow> (of_char c :: nat) = 10"
    "c = CHR 0x0B \<longleftrightarrow> (of_char c :: nat) = 11" "c = CHR 0x0C \<longleftrightarrow> (of_char c :: nat) = 12"
    "c = CHR 0x0D \<longleftrightarrow> (of_char c :: nat) = 13" "c = CHR 0x20 \<longleftrightarrow> (of_char c :: nat) = 32"
    "c = CHR 0xA0 \<longleftrightarrow> (of_char c :: nat) = 160"
    by (simp_all add: eq_char_by_code)
  then show ?thesis by (simp add: is_space_def)
qed

lemma is_space_lower [simp]: "is_space (lower_char c) \<longleftrightarrow> is_space c"
  by (auto simp: is_space_code lower_char_def Let_def of_char_of)

lemma blank_to_lower [simp]: "blank (to_lower s) \<longleftrightarrow> blank s"
  by (simp add: blank_iff to_lower_def list_all_length)

lemma split_on_not_Nil [simp]: "split_on c s \<noteq> []"
  by (cases s) (auto split: list.splits)

lemma join_split [simp]: "join_with [c] (split_on c s) = s"
proof (induction s)
  case (Cons x xs)
  then show ?case
    by (cases "split_on c xs"; cases "tl (split_on c xs)") (auto split: list.splits)
qed simp

lemma split_on_set: "seg \<in> set (split_on c s) \<Longrightarrow> c \<notin> set seg"
proof (induction s arbitrary: seg)
  case (Cons x xs)
  then show ?case by (auto split: if_splits list.splits)
qed simp

lemma set_forward_slashes: "CHR 0x5C \<notin> set (forward_slashes s)"
  by (auto simp: forward_slashes_def)

lemma forward_slashes_id: "CHR 0x5C \<notin> set s \<Longrightarrow> forward_slashes s = s"
  by (auto simp: forward_slashes_def intro: map_idI)

lemma forward_slashes_idem [simp]: "forward_slashes (forward_slashes s) = forward_slashes s"
  by (rule forward_slashes_id) (rule set_forward_slashes)

section \<open>Lists\<close>

text \<open>\<open>[...new Set(xs)]\<close>: the first occurrence of each element, in order.\<close>

fun unique :: "'a list \<Rightarrow> 'a list" where
  "unique [] = []"
| "unique (x # xs) = x # unique (filter (\<lambda>y. y \<noteq> x) xs)"

text \<open>\<open>xs.at(-1)\<close>\<close>

definition last_opt :: "'a list \<Rightarrow> 'a option" where
  "last_opt xs = (if xs = [] then None else Some (last xs))"

text \<open>\<open>xs.findIndex(p)\<close>, with \<open>None\<close> for \<open>-1\<close>.\<close>

fun find_index :: "('a \<Rightarrow> bool) \<Rightarrow> 'a list \<Rightarrow> nat option" where
  "find_index p [] = None"
| "find_index p (x # xs) = (if p x then Some 0 else map_option Suc (find_index p xs))"

lemma set_unique [simp]: "set (unique xs) = set xs"
  by (induction xs rule: unique.induct) auto

lemma distinct_unique [simp]: "distinct (unique xs)"
  by (induction xs rule: unique.induct) auto

lemma filter_unique: "unique (filter p xs) = filter p (unique xs)"
proof (induction xs rule: unique.induct)
  case (2 x xs)
  then show ?case
    by (auto simp: filter_filter conj_commute) (metis (mono_tags, lifting) filter_cong)
qed simp

lemma unique_distinct_id: "distinct xs \<Longrightarrow> unique xs = xs"
proof (induction xs rule: unique.induct)
  case (2 x xs)
  then have "filter (\<lambda>y. y \<noteq> x) xs = xs" by (auto intro: filter_True)
  with 2 show ?case by simp
qed simp

lemma length_unique_eq: "length (unique xs) = length xs \<longleftrightarrow> distinct xs"
  by (metis distinct_card card_distinct distinct_unique set_unique unique_distinct_id)

lemma length_unique_le: "length (unique xs) \<le> length xs"
  by (metis card_length distinct_card distinct_unique set_unique)

lemma unique_append_length:
  "length (unique (xs @ ys)) = length xs \<longleftrightarrow> distinct xs \<and> set ys \<subseteq> set xs"
  if "distinct xs"
proof -
  have "length (unique (xs @ ys)) = card (set xs \<union> set ys)"
    by (metis distinct_card distinct_unique set_append set_unique)
  moreover have "length xs = card (set xs)" using that by (simp add: distinct_card)
  moreover have "card (set xs \<union> set ys) = card (set xs) \<longleftrightarrow> set ys \<subseteq> set xs"
    by (metis List.finite_set card_subset_eq finite_Un sup.absorb_iff1 sup_ge1)
  ultimately show ?thesis using that by simp
qed

lemma last_opt_simps [simp]:
  "last_opt [] = None" "last_opt (xs @ [x]) = Some x"
  by (simp_all add: last_opt_def)

lemma last_opt_eq_Some: "last_opt xs = Some x \<longleftrightarrow> xs \<noteq> [] \<and> last xs = x"
  by (auto simp: last_opt_def)

lemma last_opt_snocE:
  assumes "last_opt xs = Some x"
  obtains ys where "xs = ys @ [x]"
  using assms by (auto simp: last_opt_eq_Some) (metis append_butlast_last_id)

lemma last_opt_in_set: "last_opt xs = Some x \<Longrightarrow> x \<in> set xs"
  by (auto simp: last_opt_eq_Some)

lemma find_index_Some:
  "find_index p xs = Some i \<longleftrightarrow> i < length xs \<and> p (xs ! i) \<and> (\<forall>j < i. \<not> p (xs ! j))"
proof (induction xs arbitrary: i)
  case (Cons x xs)
  show ?case
  proof (cases "p x")
    case True
    then show ?thesis by (cases i) auto
  next
    case False
    then show ?thesis
      by (cases i) (auto simp: Cons.IH less_Suc_eq_0_disj)
  qed
qed simp

lemma find_index_None: "find_index p xs = None \<longleftrightarrow> (\<forall>x \<in> set xs. \<not> p x)"
  by (induction xs) auto

lemma find_Some_in_set: "List.find p xs = Some x \<Longrightarrow> x \<in> set xs \<and> p x"
  by (auto simp: find_Some_iff in_set_conv_nth)

lemma find_append:
  "List.find p (xs @ ys) = (case List.find p xs of Some x \<Rightarrow> Some x | None \<Rightarrow> List.find p ys)"
  by (induction xs) auto

text \<open>A key that occurs once is found where it is.\<close>

lemma find_unique_key:
  assumes "distinct (map f xs)" and "x \<in> set xs" and "f x = k"
  shows "List.find (\<lambda>y. f y = k) xs = Some x"
  using assms by (induction xs) (auto simp: image_iff)

lemma distinct_map_update_same_key:
  "i < length xs \<Longrightarrow> f x = f (xs ! i) \<Longrightarrow> map f (xs[i := x]) = map f xs"
  by (simp add: map_update list_update_same_conv)

lemma list_all_update:
  "list_all P xs \<Longrightarrow> P x \<Longrightarrow> list_all P (xs[i := x])"
  by (auto simp: list_all_iff dest!: set_update_subset_insert [THEN subsetD])

lemma last_opt_update:
  "i < length xs \<Longrightarrow> last_opt (xs[i := x]) = (if i = length xs - 1 then Some x else last_opt xs)"
  by (auto simp: last_opt_def last_list_update)

lemma set_update_cases: "y \<in> set (xs[i := x]) \<Longrightarrow> y = x \<or> y \<in> set xs"
  by (auto dest!: set_update_subset_insert [THEN subsetD])

lemma sum_list_filter_le:
  "sum_list (map f (filter p xs)) \<le> (sum_list (map f xs) :: nat)"
  by (induction xs) auto

text \<open>Association lists: a JavaScript object is its own properties in enumeration order.\<close>

definition assoc_set :: "'k \<Rightarrow> 'v \<Rightarrow> ('k \<times> 'v) list \<Rightarrow> ('k \<times> 'v) list" where
  "assoc_set k v kvs =
     (if k \<in> fst ` set kvs then map (\<lambda>(k', v'). if k' = k then (k', v) else (k', v')) kvs
      else kvs @ [(k, v)])"

lemma map_of_assoc_set: "map_of (assoc_set k v kvs) = (map_of kvs)(k \<mapsto> v)"
proof (cases "k \<in> fst ` set kvs")
  case True
  have other: "map_of (map (\<lambda>(k', v'). if k' = k then (k', v) else (k', v')) kvs) k' = map_of kvs k'"
    if "k' \<noteq> k" for k'
    using that by (induction kvs) auto
  have "map_of (map (\<lambda>(k', v'). if k' = k then (k', v) else (k', v')) kvs) k = Some v"
    using True by (induction kvs) auto
  with True other show ?thesis by (auto simp: assoc_set_def fun_eq_iff)
next
  case False
  then have "map_of kvs k = None" by (simp add: map_of_eq_None_iff)
  with False show ?thesis by (auto simp: assoc_set_def map_add_def fun_eq_iff split: option.splits)
qed

end
