(* ===== verification/Js_Value.thy ===== *)
theory Js_Value
  imports Prelude "HOL-Library.Sorting_Algorithms"
begin

text \<open>
  The values the kernel reads and writes: a JavaScript value as \<open>JSON.parse\<close> returns it, or as
  a caller's request object carries it; the serialisation \<open>stableJson\<close> over which fingerprints
  are taken; and the platform the code runs on.

  A number is an integer or a non-integral number kept by its text, which is all the code
  distinguishes (\<open>Number.isInteger\<close>).  An object is the list of its own enumerable properties
  in enumeration order; keys occur once.
\<close>

section \<open>Values\<close>

datatype jsnum = JInt int | JFrac string

datatype jsval =
    JUndef
  | JNull
  | JBool bool
  | JNum jsnum
  | JStr string
  | JArr "jsval list"
  | JObj "(string \<times> jsval) list"

type_synonym jsobj = "(string \<times> jsval) list"

text \<open>\<open>input.key\<close>: a missing property reads \<open>undefined\<close>.\<close>

definition getprop :: "jsobj \<Rightarrow> string \<Rightarrow> jsval" where
  "getprop obj k = (case map_of obj k of None \<Rightarrow> JUndef | Some v \<Rightarrow> v)"

text \<open>\<open>{ ...obj, key: v }\<close>: an existing key keeps its place, a new one goes last.\<close>

definition with_prop :: "jsobj \<Rightarrow> string \<Rightarrow> jsval \<Rightarrow> jsobj" where
  "with_prop obj k v = assoc_set k v obj"

definition isPlainObject :: "jsval \<Rightarrow> bool" where
  "isPlainObject v = (case v of JObj _ \<Rightarrow> True | _ \<Rightarrow> False)"

definition is_nullish :: "jsval \<Rightarrow> bool" where
  "is_nullish v \<longleftrightarrow> v = JUndef \<or> v = JNull"

text \<open>
  \<open>v ?? d\<close>, \<open>v?.k\<close>, truthiness, and the properties \<open>{ ...v }\<close> copies.  Spreading an array or a
  string copies its indices, which no code here reads by name.
\<close>

definition or_default :: "jsval \<Rightarrow> jsval \<Rightarrow> jsval" where
  "or_default v d = (if is_nullish v then d else v)"

definition opt_prop :: "jsval \<Rightarrow> string \<Rightarrow> jsval" where
  "opt_prop v k = (case v of JObj fs \<Rightarrow> getprop fs k | _ \<Rightarrow> JUndef)"

fun truthy :: "jsval \<Rightarrow> bool" where
  "truthy JUndef = False"
| "truthy JNull = False"
| "truthy (JBool b) = b"
| "truthy (JNum n) = (n \<noteq> JInt 0)"
| "truthy (JStr s) = (s \<noteq> [])"
| "truthy (JArr _) = True"
| "truthy (JObj _) = True"

definition spread :: "jsval \<Rightarrow> jsobj" where
  "spread v = (case v of JObj fs \<Rightarrow> fs | _ \<Rightarrow> [])"

definition nat_val :: "nat \<Rightarrow> jsval" where
  "nat_val n = JNum (JInt (int n))"

definition strs_val :: "string list \<Rightarrow> jsval" where
  "strs_val ss = JArr (map JStr ss)"

text \<open>\<open>x ?? null\<close> for a value of the model that is absent when \<open>None\<close>.\<close>

definition nullable :: "('a \<Rightarrow> jsval) \<Rightarrow> 'a option \<Rightarrow> jsval" where
  "nullable f x = (case x of None \<Rightarrow> JNull | Some y \<Rightarrow> f y)"

text \<open>\<open>...(x === undefined ? {} : { key: f(x) })\<close>\<close>

definition optional_prop :: "string \<Rightarrow> ('a \<Rightarrow> jsval) \<Rightarrow> 'a option \<Rightarrow> jsobj" where
  "optional_prop k f x = (case x of None \<Rightarrow> [] | Some y \<Rightarrow> [(k, f y)])"

lemma prop_simps [simp]:
  "getprop [] k = JUndef"
  "getprop ((k', v) # obj) k = (if k = k' then v else getprop obj k)"
  by (simp_all add: getprop_def)

lemma prop_append: "getprop (xs @ ys) k = (if k \<in> fst ` set xs then getprop xs k else getprop ys k)"
  by (auto simp: getprop_def map_add_def split: option.splits)
     (auto simp: map_of_eq_None_iff dest!: map_of_SomeD intro: rev_image_eqI)

lemma prop_with_prop: "getprop (with_prop obj k v) k' = (if k' = k then v else getprop obj k')"
  by (simp add: getprop_def with_prop_def map_of_assoc_set)

lemma nat_val_inject [simp]: "nat_val m = nat_val n \<longleftrightarrow> m = n"
  by (simp add: nat_val_def)

lemma nullable_simps [simp]: "nullable f None = JNull" "nullable f (Some x) = f x"
  by (simp_all add: nullable_def)

lemma optional_prop_simps [simp]:
  "optional_prop k f None = []" "optional_prop k f (Some x) = [(k, f x)]"
  by (simp_all add: optional_prop_def)

section \<open>Text\<close>

definition digit_char :: "nat \<Rightarrow> char" where
  "digit_char d = char_of (48 + d)"

fun nat_text :: "nat \<Rightarrow> string" where
  "nat_text n = (if n < 10 then [digit_char n] else nat_text (n div 10) @ [digit_char (n mod 10)])"

declare nat_text.simps [simp del]

definition int_text :: "int \<Rightarrow> string" where
  "int_text i = (if i < 0 then CHR ''-'' # nat_text (nat (- i)) else nat_text (nat i))"

fun num_text :: "jsnum \<Rightarrow> string" where
  "num_text (JInt i) = int_text i"
| "num_text (JFrac s) = s"

definition hex_char :: "nat \<Rightarrow> char" where
  "hex_char d = (if d < 10 then char_of (48 + d) else char_of (87 + d))"

text \<open>\<open>JSON.stringify\<close> of a string: the short escapes, and \<open>\u00XX\<close> below \<open>0x20\<close>.\<close>

definition escape_char :: "char \<Rightarrow> string" where
  "escape_char c = (let n = of_char c :: nat in
     if n = 34 then [CHR 0x5C, CHR 0x22]
     else if n = 92 then [CHR 0x5C, CHR 0x5C]
     else if n = 8 then [CHR 0x5C, CHR ''b'']
     else if n = 9 then [CHR 0x5C, CHR ''t'']
     else if n = 10 then [CHR 0x5C, CHR ''n'']
     else if n = 12 then [CHR 0x5C, CHR ''f'']
     else if n = 13 then [CHR 0x5C, CHR ''r'']
     else if n < 32 then [CHR 0x5C, CHR ''u'', CHR ''0'', CHR ''0'', hex_char (n div 16), hex_char (n mod 16)]
     else [c])"

definition quoted :: "string \<Rightarrow> string" where
  "quoted s = CHR 0x22 # concat (map escape_char s) @ [CHR 0x22]"

text \<open>
  \<open>stableJson\<close>: arrays in order, the keys of an object sorted, primitives as
  \<open>JSON.stringify\<close> prints them (\<open>undefined\<close> in a template prints \<open>undefined\<close>).
\<close>

definition obj_text :: "(string \<times> string) list \<Rightarrow> string" where
  "obj_text kvs = ''{'' @ join_with '','' (map (\<lambda>(k, t). quoted k @ '':'' @ t) (sort_key fst kvs)) @ ''}''"

fun stableJson :: "jsval \<Rightarrow> string" where
  "stableJson JUndef = ''undefined''"
| "stableJson JNull = ''null''"
| "stableJson (JBool b) = (if b then ''true'' else ''false'')"
| "stableJson (JNum n) = num_text n"
| "stableJson (JStr s) = quoted s"
| "stableJson (JArr vs) = ''['' @ join_with '','' (map stableJson vs) @ '']''"
| "stableJson (JObj kvs) = obj_text (map (\<lambda>(k, v). (k, stableJson v)) kvs)"

text \<open>
  \<open>JSON.stringify\<close> of a value without \<open>undefined\<close> keeps the enumeration order of keys.
\<close>

fun jsonText :: "jsval \<Rightarrow> string" where
  "jsonText JUndef = ''undefined''"
| "jsonText JNull = ''null''"
| "jsonText (JBool b) = (if b then ''true'' else ''false'')"
| "jsonText (JNum n) = num_text n"
| "jsonText (JStr s) = quoted s"
| "jsonText (JArr vs) = ''['' @ join_with '','' (map jsonText vs) @ '']''"
| "jsonText (JObj kvs) =
     ''{'' @ join_with '','' (map (\<lambda>(k, v). quoted k @ '':'' @ jsonText v) kvs) @ ''}''"

text \<open>
  Two values are the same up to the order of object keys.  \<open>reorder\<close> lists one step of
  reordering at any depth; it is what a client that rebuilds a request may do.
\<close>

inductive same_upto_order :: "jsval \<Rightarrow> jsval \<Rightarrow> bool" where
  refl_order: "same_upto_order v v"
| arr_order: "list_all2 same_upto_order vs ws \<Longrightarrow> same_upto_order (JArr vs) (JArr ws)"
| obj_order: "map fst kvs = map fst kws \<Longrightarrow>
    list_all2 same_upto_order (map snd kvs) (map snd kws) \<Longrightarrow>
    mset kws = mset kws' \<Longrightarrow> distinct (map fst kws) \<Longrightarrow>
    same_upto_order (JObj kvs) (JObj kws')"

section \<open>Platform\<close>

text \<open>
  What the code takes from Node.js and its host.  The \<open>n\<close>-th random UUID and the \<open>n\<close>-th
  reading of the clock are functions of a ticket \<open>n\<close> the operations thread; \<open>sha256hex\<close> is
  \<open>createHash("sha256").update(s).digest("hex")\<close>; \<open>localeCmp\<close> is the collation of
  \<open>localeCompare\<close>; \<open>parseURL\<close> is the WHATWG parser \<open>new URL(s)\<close>, \<open>None\<close> where it
  throws; \<open>dateParses s\<close> says that \<open>Date.parse(s)\<close> is finite; \<open>win32\<close> that the platform is
  Windows.
\<close>

record url =
  url_href :: string
  url_protocol :: string
  url_origin :: string
  url_hostname :: string
  url_username :: string
  url_password :: string
  url_pathname :: string
  url_search :: string
  url_hash :: string

record platform =
  randomUUID :: "nat \<Rightarrow> string"
  isoNow :: "nat \<Rightarrow> string"
  sha256hex :: "string \<Rightarrow> string"
  localeCmp :: "string comparator"
  parseURL :: "string \<Rightarrow> url option"
  dateParses :: "string \<Rightarrow> bool"
  win32 :: bool

text \<open>
  What the WHATWG URL standard says of a parsed URL: its serialisation parses to the same URL.
\<close>

definition url_stable :: "platform \<Rightarrow> bool" where
  "url_stable pl \<longleftrightarrow>
     (\<forall>s u. parseURL pl s = Some u \<longrightarrow> \<not> blank (url_href u) \<and> parseURL pl (url_href u) = Some u)"

text \<open>\<open>path.isAbsolute\<close> on POSIX and on Windows\<close>

definition isAbsolute :: "platform \<Rightarrow> string \<Rightarrow> bool" where
  "isAbsolute pl s =
     (if win32 pl then
        (case s of
           [] \<Rightarrow> False
         | c # r \<Rightarrow> c \<in> {CHR ''/'', CHR 0x5C} \<or>
             is_letter c \<and> (case r of d # e # _ \<Rightarrow> d = CHR '':'' \<and> e \<in> {CHR ''/'', CHR 0x5C} | _ \<Rightarrow> False))
      else starts_with ''/'' s)"

definition fingerprintTaskValue :: "platform \<Rightarrow> jsval \<Rightarrow> string" where
  "fingerprintTaskValue pl v = sha256hex pl (stableJson v)"

lemma obj_text_perm:
  assumes "mset kvs = mset kws" and "distinct (map fst kvs)"
  shows "obj_text kvs = obj_text kws"
proof -
  have "inj_on fst (set kvs)" using assms(2) by (simp add: distinct_map)
  then have "sort_key fst kvs = sort_key fst kws"
    using assms(1) by (intro sort_key_inj_key_eq) simp_all
  then show ?thesis by (simp add: obj_text_def)
qed

text \<open>The fingerprint of a request does not depend on the order its objects' keys come in.\<close>

lemma stableJson_order: "same_upto_order v w \<Longrightarrow> stableJson v = stableJson w"
proof (induction rule: same_upto_order.induct)
  case (arr_order vs ws)
  then have "map stableJson vs = map stableJson ws"
    by (auto simp: list_all2_conv_all_nth intro: nth_equalityI)
  then show ?case by simp
next
  case (obj_order kvs kws kws')
  let ?f = "\<lambda>(k, v). (k, stableJson v)"
  have "map ?f kvs = map ?f kws"
  proof (rule nth_equalityI)
    have len: "length kvs = length kws" using obj_order.hyps(1) by (rule map_eq_imp_length_eq)
    then show "length (map ?f kvs) = length (map ?f kws)" by simp
    fix i assume "i < length (map ?f kvs)"
    then have i: "i < length kvs" "i < length kws" using len by simp_all
    have "fst (kvs ! i) = fst (kws ! i)"
      using arg_cong [OF obj_order.hyps(1), of "\<lambda>xs. xs ! i"] i by simp
    moreover have "stableJson (snd (kvs ! i)) = stableJson (snd (kws ! i))"
      using list_all2_nthD [OF obj_order.IH, of i] i by simp
    ultimately show "map ?f kvs ! i = map ?f kws ! i" using i by (simp add: split_beta)
  qed
  moreover have "mset (map ?f kws) = mset (map ?f kws')"
    using obj_order.hyps(2) by simp
  moreover have "distinct (map fst (map ?f kws))"
    using obj_order.hyps(3) by (simp add: split_beta comp_def)
  ultimately show ?case by (simp add: obj_text_perm)
qed simp

end
