(* ===== verification/Kernel_Contract.thy ===== *)
theory Kernel_Contract
  imports Js_Value
begin

text \<open>
  The Stage 1 contract of \<open>core/task/kernel-contract.ts\<close>: phases, conditions, outcomes, error
  codes, the legal phase edges, the state each phase stands for, the hops of start and close,
  and the small validators every module of the kernel calls.

  A thrown \<open>KernelError\<close> keeps its code and drops its message; \<open>ExternalError\<close> is an error of
  another class (\<open>ProjectFileObservationError\<close>, \<open>GitCandidateObservationError\<close>, a
  \<open>TypeError\<close>), with its code or name as text.
\<close>

section \<open>Enumerations of strings\<close>

text \<open>\<open>names.includes(value)\<close> for an \<open>as const\<close> array, returning the member.\<close>

definition enum_of :: "('a \<Rightarrow> string) \<Rightarrow> 'a list \<Rightarrow> jsval \<Rightarrow> 'a option" where
  "enum_of nm xs v = (case v of JStr s \<Rightarrow> List.find (\<lambda>x. nm x = s) xs | _ \<Rightarrow> None)"

lemma enum_of_SomeD: "enum_of nm xs v = Some x \<Longrightarrow> v = JStr (nm x) \<and> x \<in> set xs"
  by (auto simp: enum_of_def split: jsval.splits dest!: find_Some_in_set)

lemma enum_of_name: "x \<in> set xs \<Longrightarrow> distinct (map nm xs) \<Longrightarrow> enum_of nm xs (JStr (nm x)) = Some x"
  by (simp add: enum_of_def find_unique_key)

lemma enum_of_iff:
  assumes "\<And>x. x \<in> set xs" and "distinct (map nm xs)"
  shows "enum_of nm xs v = Some x \<longleftrightarrow> v = JStr (nm x)"
  using enum_of_SomeD [of nm xs v x] enum_of_name [OF assms] by auto

section \<open>Phases, conditions, outcomes\<close>

datatype kernel_phase =
  PhOpen | PhDefine | PhApprove | PhExecute | PhVerify | PhIntegrate | PhClose

definition KERNEL_PHASES :: "kernel_phase list" where
  "KERNEL_PHASES = [PhOpen, PhDefine, PhApprove, PhExecute, PhVerify, PhIntegrate, PhClose]"

fun phase_name :: "kernel_phase \<Rightarrow> string" where
  "phase_name PhOpen = ''open''"
| "phase_name PhDefine = ''define''"
| "phase_name PhApprove = ''approve''"
| "phase_name PhExecute = ''execute''"
| "phase_name PhVerify = ''verify''"
| "phase_name PhIntegrate = ''integrate''"
| "phase_name PhClose = ''close''"

datatype kernel_condition = CndReady | CndActive | CndWaiting | CndBlocked

definition KERNEL_CONDITIONS :: "kernel_condition list" where
  "KERNEL_CONDITIONS = [CndReady, CndActive, CndWaiting, CndBlocked]"

fun condition_name :: "kernel_condition \<Rightarrow> string" where
  "condition_name CndReady = ''ready''"
| "condition_name CndActive = ''active''"
| "condition_name CndWaiting = ''waiting''"
| "condition_name CndBlocked = ''blocked''"

datatype kernel_outcome = OutCompleted | OutCancelled | OutFailed

definition KERNEL_OUTCOMES :: "kernel_outcome list" where
  "KERNEL_OUTCOMES = [OutCompleted, OutCancelled, OutFailed]"

fun outcome_name :: "kernel_outcome \<Rightarrow> string" where
  "outcome_name OutCompleted = ''completed''"
| "outcome_name OutCancelled = ''cancelled''"
| "outcome_name OutFailed = ''failed''"

definition isKernelPhase :: "jsval \<Rightarrow> kernel_phase option" where
  "isKernelPhase v = enum_of phase_name KERNEL_PHASES v"

definition isKernelCondition :: "jsval \<Rightarrow> kernel_condition option" where
  "isKernelCondition v = enum_of condition_name KERNEL_CONDITIONS v"

definition isKernelOutcome :: "jsval \<Rightarrow> kernel_outcome option" where
  "isKernelOutcome v = enum_of outcome_name KERNEL_OUTCOMES v"

lemma KERNEL_PHASES_all [simp]: "p \<in> set KERNEL_PHASES"
  by (cases p) (simp_all add: KERNEL_PHASES_def)

lemma KERNEL_CONDITIONS_all [simp]: "c \<in> set KERNEL_CONDITIONS"
  by (cases c) (simp_all add: KERNEL_CONDITIONS_def)

lemma KERNEL_OUTCOMES_all [simp]: "x \<in> set KERNEL_OUTCOMES"
  by (cases x) (simp_all add: KERNEL_OUTCOMES_def)

lemma isKernelPhase_iff [result_simps]: "isKernelPhase v = Some p \<longleftrightarrow> v = JStr (phase_name p)"
  unfolding isKernelPhase_def by (rule enum_of_iff) (simp, simp add: KERNEL_PHASES_def)

lemma isKernelPhase_name [codec_rules]: "isKernelPhase (JStr (phase_name p)) = Some p"
  by (simp add: isKernelPhase_iff)

lemma isKernelCondition_iff [result_simps]: "isKernelCondition v = Some c \<longleftrightarrow> v = JStr (condition_name c)"
  unfolding isKernelCondition_def by (rule enum_of_iff) (simp, simp add: KERNEL_CONDITIONS_def)

lemma isKernelCondition_name [codec_rules]: "isKernelCondition (JStr (condition_name c)) = Some c"
  by (simp add: isKernelCondition_iff)

lemma isKernelOutcome_iff [result_simps]: "isKernelOutcome v = Some x \<longleftrightarrow> v = JStr (outcome_name x)"
  unfolding isKernelOutcome_def by (rule enum_of_iff) (simp, simp add: KERNEL_OUTCOMES_def)

lemma isKernelOutcome_name [codec_rules]: "isKernelOutcome (JStr (outcome_name x)) = Some x"
  by (simp add: isKernelOutcome_iff)

section \<open>Errors\<close>

datatype kernel_error_code =
    INVALID_REQUEST
  | NOT_FOUND
  | REVISION_CONFLICT
  | INVALID_TRANSITION
  | GATE_HOOK_UNIMPLEMENTED
  | POLICY_HOOK_UNIMPLEMENTED
  | IDEMPOTENCY_MISMATCH
  | CORRUPT_STATE
  | LOCK_TIMEOUT
  | HALF_CONVERSION
  | DEPENDENCY_UNSATISFIED
  | TASK_GATE_UNSATISFIED
  | ACCEPTANCE_EVIDENCE_MISSING
  | CANDIDATE_MISMATCH
  | REVIEW_NOT_INDEPENDENT
  | INVALID_DELIVERY_EVIDENCE
  | LEGACY_TASK_REQUIRES_DEFINITION
  | LEGACY_TASK_REQUIRES_COORDINATION

datatype failure = KernelError kernel_error_code | ExternalError string

abbreviation corrupt :: failure where
  "corrupt \<equiv> KernelError CORRUPT_STATE"

abbreviation invalid_request :: failure where
  "invalid_request \<equiv> KernelError INVALID_REQUEST"

type_synonym 'a outcome = "(failure, 'a) result"

section \<open>State\<close>

record kernel_state =
  st_phase :: kernel_phase
  st_condition :: kernel_condition
  st_outcome :: "kernel_outcome option"

definition KERNEL_PHASE_EDGES :: "(kernel_phase \<times> kernel_phase) list" where
  "KERNEL_PHASE_EDGES =
     [(PhOpen, PhDefine), (PhDefine, PhApprove), (PhApprove, PhExecute), (PhExecute, PhVerify),
      (PhVerify, PhIntegrate), (PhVerify, PhClose), (PhIntegrate, PhClose)]"

text \<open>The set of edges is a set of strings \<open>from->to\<close>.\<close>

definition edge_text :: "kernel_phase \<Rightarrow> kernel_phase \<Rightarrow> string" where
  "edge_text p q = phase_name p @ ''->'' @ phase_name q"

definition isLegalPhaseEdge :: "kernel_phase \<Rightarrow> kernel_phase \<Rightarrow> bool" where
  "isLegalPhaseEdge p q \<longleftrightarrow> edge_text p q \<in> set (map (\<lambda>(a, b). edge_text a b) KERNEL_PHASE_EDGES)"

fun deriveStateForPhase :: "kernel_phase \<Rightarrow> kernel_state" where
  "deriveStateForPhase PhOpen = \<lparr>st_phase = PhOpen, st_condition = CndReady, st_outcome = None\<rparr>"
| "deriveStateForPhase PhDefine = \<lparr>st_phase = PhDefine, st_condition = CndReady, st_outcome = None\<rparr>"
| "deriveStateForPhase PhApprove = \<lparr>st_phase = PhApprove, st_condition = CndWaiting, st_outcome = None\<rparr>"
| "deriveStateForPhase PhVerify = \<lparr>st_phase = PhVerify, st_condition = CndWaiting, st_outcome = None\<rparr>"
| "deriveStateForPhase PhIntegrate =
     \<lparr>st_phase = PhIntegrate, st_condition = CndWaiting, st_outcome = None\<rparr>"
| "deriveStateForPhase PhExecute = \<lparr>st_phase = PhExecute, st_condition = CndActive, st_outcome = None\<rparr>"
| "deriveStateForPhase PhClose =
     \<lparr>st_phase = PhClose, st_condition = CndReady, st_outcome = Some OutCompleted\<rparr>"

definition projectLegacyStatus :: "string \<Rightarrow> kernel_state" where
  "projectLegacyStatus status =
     (if status = ''planning'' then deriveStateForPhase PhDefine
      else if status = ''in_progress'' then deriveStateForPhase PhExecute
      else if status = ''review'' then deriveStateForPhase PhVerify
      else if status = ''completed'' \<or> status = ''done'' then deriveStateForPhase PhClose
      else deriveStateForPhase PhOpen)"

fun kernelPhaseToLegacyStatus :: "kernel_phase \<Rightarrow> string" where
  "kernelPhaseToLegacyStatus PhOpen = ''planning''"
| "kernelPhaseToLegacyStatus PhDefine = ''planning''"
| "kernelPhaseToLegacyStatus PhApprove = ''planning''"
| "kernelPhaseToLegacyStatus PhExecute = ''in_progress''"
| "kernelPhaseToLegacyStatus PhVerify = ''review''"
| "kernelPhaseToLegacyStatus PhIntegrate = ''review''"
| "kernelPhaseToLegacyStatus PhClose = ''completed''"

definition EXECUTE_PATH :: "kernel_phase list" where
  "EXECUTE_PATH = [PhOpen, PhDefine, PhApprove, PhExecute]"

definition CLOSE_PATH :: "kernel_phase list" where
  "CLOSE_PATH = [PhOpen, PhDefine, PhApprove, PhExecute, PhVerify, PhClose]"

definition hopsToExecute :: "kernel_phase \<Rightarrow> kernel_phase list outcome" where
  "hopsToExecute p =
     (if p = PhExecute then Inr []
      else case find_index (\<lambda>q. q = p) EXECUTE_PATH of
        None \<Rightarrow> Inl (KernelError INVALID_TRANSITION)
      | Some i \<Rightarrow> Inr (drop (i + 1) EXECUTE_PATH))"

definition hopsToClose :: "kernel_phase \<Rightarrow> kernel_phase list outcome" where
  "hopsToClose p =
     (if p = PhClose then Inr []
      else if p = PhIntegrate then Inr [PhClose]
      else case find_index (\<lambda>q. q = p) CLOSE_PATH of
        None \<Rightarrow> Inl (KernelError INVALID_TRANSITION)
      | Some i \<Rightarrow> Inr (drop (i + 1) CLOSE_PATH))"

text \<open>A list of phases that follows legal edges from \<open>p\<close>, and the phase it ends in.\<close>

fun legal_walk :: "kernel_phase \<Rightarrow> kernel_phase list \<Rightarrow> bool" where
  "legal_walk p [] \<longleftrightarrow> True"
| "legal_walk p (q # qs) \<longleftrightarrow> isLegalPhaseEdge p q \<and> legal_walk q qs"

section \<open>Validators\<close>

definition isNonNegativeInt :: "jsval \<Rightarrow> nat option" where
  "isNonNegativeInt v = (case v of JNum (JInt i) \<Rightarrow> if 0 \<le> i then Some (nat i) else None | _ \<Rightarrow> None)"

definition requireNonEmptyString :: "jsval \<Rightarrow> string outcome" where
  "requireNonEmptyString v =
     (case v of JStr s \<Rightarrow> if blank s then Inl invalid_request else Inr s | _ \<Rightarrow> Inl invalid_request)"

definition hookIsPresent :: "jsval \<Rightarrow> bool" where
  "hookIsPresent v =
     (case v of
        JUndef \<Rightarrow> False
      | JNull \<Rightarrow> False
      | JStr s \<Rightarrow> \<not> blank s
      | JBool b \<Rightarrow> b
      | JNum _ \<Rightarrow> True
      | JArr vs \<Rightarrow> vs \<noteq> []
      | JObj kvs \<Rightarrow> kvs \<noteq> [])"

lemma isNonNegativeInt_iff [simp]: "isNonNegativeInt v = Some n \<longleftrightarrow> v = nat_val n"
  by (auto simp: isNonNegativeInt_def nat_val_def split: jsval.splits jsnum.splits)

lemma isNonNegativeInt_nat_val [simp]: "isNonNegativeInt (nat_val n) = Some n"
  by simp

lemma requireNonEmptyString_iff [result_simps]:
  "requireNonEmptyString v = Inr s \<longleftrightarrow> v = JStr s \<and> \<not> blank s"
  by (auto simp: requireNonEmptyString_def split: jsval.splits)

lemma isLegalPhaseEdge_iff: "isLegalPhaseEdge p q \<longleftrightarrow> (p, q) \<in> set KERNEL_PHASE_EDGES"
  by (cases p; cases q)
     (simp_all add: isLegalPhaseEdge_def KERNEL_PHASE_EDGES_def edge_text_def)

end
