(* ===== verification/Kernel_Types.thy ===== *)
theory Kernel_Types
  imports Kernel_Contract
begin

text \<open>
  The records of \<open>core/task/task-kernel-types.ts\<close>: the Task definition, Runs with their
  input, authorization, workspace and host bindings, candidate snapshots, Reviews, the closure,
  the audit and event entries, and the snapshot \<open>TaskKernelSnapshotV2\<close> that holds them.

  A nullable or optional field is an \<open>option\<close>; the literal fields (\<open>schemaVersion: 1\<close>,
  \<open>independent: true\<close>, the fixed \<open>source\<close> tags) have one value and are written by the
  serialisers only.
\<close>

section \<open>Enumerations\<close>

datatype delivery_level = LocalResult | PullRequest | MergedResult | Documentation

definition TASK_DELIVERY_LEVELS :: "delivery_level list" where
  "TASK_DELIVERY_LEVELS = [LocalResult, PullRequest, MergedResult, Documentation]"

fun level_name :: "delivery_level \<Rightarrow> string" where
  "level_name LocalResult = ''local-result''"
| "level_name PullRequest = ''pull-request''"
| "level_name MergedResult = ''merged-result''"
| "level_name Documentation = ''documentation''"

datatype run_state = RunWaiting | RunRunning | RunCompleted | RunFailed | RunBlocked | RunCancelled

definition RUN_STATES :: "run_state list" where
  "RUN_STATES = [RunWaiting, RunRunning, RunCompleted, RunFailed, RunBlocked, RunCancelled]"

fun run_state_name :: "run_state \<Rightarrow> string" where
  "run_state_name RunWaiting = ''waiting''"
| "run_state_name RunRunning = ''running''"
| "run_state_name RunCompleted = ''completed''"
| "run_state_name RunFailed = ''failed''"
| "run_state_name RunBlocked = ''blocked''"
| "run_state_name RunCancelled = ''cancelled''"

datatype review_decision = DecPass | DecFail | DecNeedsChanges

definition REVIEW_DECISIONS :: "review_decision list" where
  "REVIEW_DECISIONS = [DecPass, DecFail, DecNeedsChanges]"

fun decision_name :: "review_decision \<Rightarrow> string" where
  "decision_name DecPass = ''pass''"
| "decision_name DecFail = ''fail''"
| "decision_name DecNeedsChanges = ''needs-changes''"

datatype run_evidence_source = RunEvCandidate | RunEvTask

definition RUN_EVIDENCE_SOURCES :: "run_evidence_source list" where
  "RUN_EVIDENCE_SOURCES = [RunEvCandidate, RunEvTask]"

fun run_evidence_source_name :: "run_evidence_source \<Rightarrow> string" where
  "run_evidence_source_name RunEvCandidate = ''candidate-snapshot''"
| "run_evidence_source_name RunEvTask = ''task-evidence''"

datatype review_evidence_source = RevEvCandidate | RevEvRun | RevEvTask | RevEvReceipt

definition REVIEW_EVIDENCE_SOURCES :: "review_evidence_source list" where
  "REVIEW_EVIDENCE_SOURCES = [RevEvCandidate, RevEvRun, RevEvTask, RevEvReceipt]"

fun review_evidence_source_name :: "review_evidence_source \<Rightarrow> string" where
  "review_evidence_source_name RevEvCandidate = ''candidate-snapshot''"
| "review_evidence_source_name RevEvRun = ''run-evidence''"
| "review_evidence_source_name RevEvTask = ''task-evidence''"
| "review_evidence_source_name RevEvReceipt = ''pactile-receipt''"

datatype integration_state = NotIntegrated | Integrated

definition INTEGRATION_STATES :: "integration_state list" where
  "INTEGRATION_STATES = [NotIntegrated, Integrated]"

fun integration_state_name :: "integration_state \<Rightarrow> string" where
  "integration_state_name NotIntegrated = ''not-integrated''"
| "integration_state_name Integrated = ''integrated''"

datatype reclamation_state = RecNotRequested | RecPending | RecReclaimed | RecFailed | RecRecovery

definition RECLAMATION_STATES :: "reclamation_state list" where
  "RECLAMATION_STATES = [RecNotRequested, RecPending, RecReclaimed, RecFailed, RecRecovery]"

fun reclamation_state_name :: "reclamation_state \<Rightarrow> string" where
  "reclamation_state_name RecNotRequested = ''not-requested''"
| "reclamation_state_name RecPending = ''pending''"
| "reclamation_state_name RecReclaimed = ''reclaimed''"
| "reclamation_state_name RecFailed = ''failed''"
| "reclamation_state_name RecRecovery = ''recovery-required''"

datatype manager_source = MgrCreated | MgrAdopted

definition MANAGER_SOURCES :: "manager_source list" where
  "MANAGER_SOURCES = [MgrCreated, MgrAdopted]"

fun manager_source_name :: "manager_source \<Rightarrow> string" where
  "manager_source_name MgrCreated = ''created''"
| "manager_source_name MgrAdopted = ''adopted''"

datatype lease_state = LeaseHeld | LeaseReclaimed | LeaseRetained | LeasePartial | LeaseRecovery

definition LEASE_STATES :: "lease_state list" where
  "LEASE_STATES = [LeaseHeld, LeaseReclaimed, LeaseRetained, LeasePartial, LeaseRecovery]"

fun lease_state_name :: "lease_state \<Rightarrow> string" where
  "lease_state_name LeaseHeld = ''held''"
| "lease_state_name LeaseReclaimed = ''reclaimed''"
| "lease_state_name LeaseRetained = ''retained''"
| "lease_state_name LeasePartial = ''partial-removal''"
| "lease_state_name LeaseRecovery = ''recovery-required''"

datatype stop_candidate_source = StopCaptured | StopDerived

definition STOP_CANDIDATE_SOURCES :: "stop_candidate_source list" where
  "STOP_CANDIDATE_SOURCES = [StopCaptured, StopDerived]"

fun stop_candidate_source_name :: "stop_candidate_source \<Rightarrow> string" where
  "stop_candidate_source_name StopCaptured = ''captured''"
| "stop_candidate_source_name StopDerived = ''derived''"

datatype candidate_source = GitWorkingTree | ProjectFiles

definition CANDIDATE_SOURCES :: "candidate_source list" where
  "CANDIDATE_SOURCES = [GitWorkingTree, ProjectFiles]"

fun candidate_source_name :: "candidate_source \<Rightarrow> string" where
  "candidate_source_name GitWorkingTree = ''git-working-tree-v1''"
| "candidate_source_name ProjectFiles = ''project-files-v1''"

datatype pr_state = PrOpen | PrClosed

definition PR_STATES :: "pr_state list" where
  "PR_STATES = [PrOpen, PrClosed]"

fun pr_state_name :: "pr_state \<Rightarrow> string" where
  "pr_state_name PrOpen = ''open''"
| "pr_state_name PrClosed = ''closed''"

datatype event_type =
    EvTaskCreated | EvDependencyAdded | EvRunQueued | EvRunStarted | EvRunResumed | EvRunCompleted
  | EvRunFailed | EvRunBlocked | EvRunCancelled | EvHostBound | EvHostSettlementRecorded
  | EvHostSettled | EvWorkspaceBound | EvWorkspaceClaimRefused | EvWorkspaceIntegrated
  | EvCleanupAcquired | EvWorkspaceReclaimed | EvCleanupRefused | EvWorkspaceRetained
  | EvWorkspaceRecovery | EvReviewRecorded | EvTaskClosed

definition EVENT_TYPES :: "event_type list" where
  "EVENT_TYPES =
     [EvTaskCreated, EvDependencyAdded, EvRunQueued, EvRunStarted, EvRunResumed, EvRunCompleted,
      EvRunFailed, EvRunBlocked, EvRunCancelled, EvHostBound, EvHostSettlementRecorded,
      EvHostSettled, EvWorkspaceBound, EvWorkspaceClaimRefused, EvWorkspaceIntegrated,
      EvCleanupAcquired, EvWorkspaceReclaimed, EvCleanupRefused, EvWorkspaceRetained,
      EvWorkspaceRecovery, EvReviewRecorded, EvTaskClosed]"

fun event_type_name :: "event_type \<Rightarrow> string" where
  "event_type_name EvTaskCreated = ''task.created''"
| "event_type_name EvDependencyAdded = ''task.dependency-added''"
| "event_type_name EvRunQueued = ''run.queued''"
| "event_type_name EvRunStarted = ''run.started''"
| "event_type_name EvRunResumed = ''run.resumed''"
| "event_type_name EvRunCompleted = ''run.completed''"
| "event_type_name EvRunFailed = ''run.failed''"
| "event_type_name EvRunBlocked = ''run.blocked''"
| "event_type_name EvRunCancelled = ''run.cancelled''"
| "event_type_name EvHostBound = ''run.host-bound''"
| "event_type_name EvHostSettlementRecorded = ''run.host-settlement-recorded''"
| "event_type_name EvHostSettled = ''run.host-settled''"
| "event_type_name EvWorkspaceBound = ''run.workspace-bound''"
| "event_type_name EvWorkspaceClaimRefused = ''run.workspace-claim-refused''"
| "event_type_name EvWorkspaceIntegrated = ''run.workspace-integrated''"
| "event_type_name EvCleanupAcquired = ''run.workspace-cleanup-acquired''"
| "event_type_name EvWorkspaceReclaimed = ''run.workspace-reclaimed''"
| "event_type_name EvCleanupRefused = ''run.workspace-cleanup-refused''"
| "event_type_name EvWorkspaceRetained = ''run.workspace-retained''"
| "event_type_name EvWorkspaceRecovery = ''run.workspace-recovery-required''"
| "event_type_name EvReviewRecorded = ''review.recorded''"
| "event_type_name EvTaskClosed = ''task.closed''"

text \<open>Each name is read back to its constructor.\<close>

lemma TASK_DELIVERY_LEVELS_all [simp]: "x \<in> set TASK_DELIVERY_LEVELS"
  by (cases x) (simp_all add: TASK_DELIVERY_LEVELS_def)

lemma RUN_STATES_all [simp]: "x \<in> set RUN_STATES"
  by (cases x) (simp_all add: RUN_STATES_def)

lemma REVIEW_DECISIONS_all [simp]: "x \<in> set REVIEW_DECISIONS"
  by (cases x) (simp_all add: REVIEW_DECISIONS_def)

lemma RUN_EVIDENCE_SOURCES_all [simp]: "x \<in> set RUN_EVIDENCE_SOURCES"
  by (cases x) (simp_all add: RUN_EVIDENCE_SOURCES_def)

lemma REVIEW_EVIDENCE_SOURCES_all [simp]: "x \<in> set REVIEW_EVIDENCE_SOURCES"
  by (cases x) (simp_all add: REVIEW_EVIDENCE_SOURCES_def)

lemma INTEGRATION_STATES_all [simp]: "x \<in> set INTEGRATION_STATES"
  by (cases x) (simp_all add: INTEGRATION_STATES_def)

lemma RECLAMATION_STATES_all [simp]: "x \<in> set RECLAMATION_STATES"
  by (cases x) (simp_all add: RECLAMATION_STATES_def)

lemma MANAGER_SOURCES_all [simp]: "x \<in> set MANAGER_SOURCES"
  by (cases x) (simp_all add: MANAGER_SOURCES_def)

lemma LEASE_STATES_all [simp]: "x \<in> set LEASE_STATES"
  by (cases x) (simp_all add: LEASE_STATES_def)

lemma STOP_CANDIDATE_SOURCES_all [simp]: "x \<in> set STOP_CANDIDATE_SOURCES"
  by (cases x) (simp_all add: STOP_CANDIDATE_SOURCES_def)

lemma CANDIDATE_SOURCES_all [simp]: "x \<in> set CANDIDATE_SOURCES"
  by (cases x) (simp_all add: CANDIDATE_SOURCES_def)

lemma PR_STATES_all [simp]: "x \<in> set PR_STATES"
  by (cases x) (simp_all add: PR_STATES_def)

lemma EVENT_TYPES_all [simp]: "x \<in> set EVENT_TYPES"
  by (cases x) (simp_all add: EVENT_TYPES_def)

lemma level_name_iff [result_simps]: "enum_of level_name TASK_DELIVERY_LEVELS v = Some x \<longleftrightarrow> v = JStr (level_name x)"
  by (rule enum_of_iff) (simp, simp add: TASK_DELIVERY_LEVELS_def)

lemma run_state_name_iff [result_simps]: "enum_of run_state_name RUN_STATES v = Some x \<longleftrightarrow> v = JStr (run_state_name x)"
  by (rule enum_of_iff) (simp, simp add: RUN_STATES_def)

lemma decision_name_iff [result_simps]: "enum_of decision_name REVIEW_DECISIONS v = Some x \<longleftrightarrow> v = JStr (decision_name x)"
  by (rule enum_of_iff) (simp, simp add: REVIEW_DECISIONS_def)

lemma run_evidence_source_name_iff [result_simps]: "enum_of run_evidence_source_name RUN_EVIDENCE_SOURCES v = Some x \<longleftrightarrow> v = JStr (run_evidence_source_name x)"
  by (rule enum_of_iff) (simp, simp add: RUN_EVIDENCE_SOURCES_def)

lemma review_evidence_source_name_iff [result_simps]: "enum_of review_evidence_source_name REVIEW_EVIDENCE_SOURCES v = Some x \<longleftrightarrow> v = JStr (review_evidence_source_name x)"
  by (rule enum_of_iff) (simp, simp add: REVIEW_EVIDENCE_SOURCES_def)

lemma integration_state_name_iff [result_simps]: "enum_of integration_state_name INTEGRATION_STATES v = Some x \<longleftrightarrow> v = JStr (integration_state_name x)"
  by (rule enum_of_iff) (simp, simp add: INTEGRATION_STATES_def)

lemma reclamation_state_name_iff [result_simps]: "enum_of reclamation_state_name RECLAMATION_STATES v = Some x \<longleftrightarrow> v = JStr (reclamation_state_name x)"
  by (rule enum_of_iff) (simp, simp add: RECLAMATION_STATES_def)

lemma manager_source_name_iff [result_simps]: "enum_of manager_source_name MANAGER_SOURCES v = Some x \<longleftrightarrow> v = JStr (manager_source_name x)"
  by (rule enum_of_iff) (simp, simp add: MANAGER_SOURCES_def)

lemma lease_state_name_iff [result_simps]: "enum_of lease_state_name LEASE_STATES v = Some x \<longleftrightarrow> v = JStr (lease_state_name x)"
  by (rule enum_of_iff) (simp, simp add: LEASE_STATES_def)

lemma stop_candidate_source_name_iff [result_simps]: "enum_of stop_candidate_source_name STOP_CANDIDATE_SOURCES v = Some x \<longleftrightarrow> v = JStr (stop_candidate_source_name x)"
  by (rule enum_of_iff) (simp, simp add: STOP_CANDIDATE_SOURCES_def)

lemma candidate_source_name_iff [result_simps]: "enum_of candidate_source_name CANDIDATE_SOURCES v = Some x \<longleftrightarrow> v = JStr (candidate_source_name x)"
  by (rule enum_of_iff) (simp, simp add: CANDIDATE_SOURCES_def)

lemma pr_state_name_iff [result_simps]: "enum_of pr_state_name PR_STATES v = Some x \<longleftrightarrow> v = JStr (pr_state_name x)"
  by (rule enum_of_iff) (simp, simp add: PR_STATES_def)

lemma event_type_name_iff [result_simps]: "enum_of event_type_name EVENT_TYPES v = Some x \<longleftrightarrow> v = JStr (event_type_name x)"
  by (rule enum_of_iff) (simp, simp add: EVENT_TYPES_def)

lemma enum_codecs [codec_rules]:
  "enum_of level_name TASK_DELIVERY_LEVELS (JStr (level_name x0)) = Some x0"
  "enum_of run_state_name RUN_STATES (JStr (run_state_name x1)) = Some x1"
  "enum_of decision_name REVIEW_DECISIONS (JStr (decision_name x2)) = Some x2"
  "enum_of run_evidence_source_name RUN_EVIDENCE_SOURCES (JStr (run_evidence_source_name x3)) = Some x3"
  "enum_of review_evidence_source_name REVIEW_EVIDENCE_SOURCES (JStr (review_evidence_source_name x4)) = Some x4"
  "enum_of integration_state_name INTEGRATION_STATES (JStr (integration_state_name x5)) = Some x5"
  "enum_of reclamation_state_name RECLAMATION_STATES (JStr (reclamation_state_name x6)) = Some x6"
  "enum_of manager_source_name MANAGER_SOURCES (JStr (manager_source_name x7)) = Some x7"
  "enum_of lease_state_name LEASE_STATES (JStr (lease_state_name x8)) = Some x8"
  "enum_of stop_candidate_source_name STOP_CANDIDATE_SOURCES (JStr (stop_candidate_source_name x9)) = Some x9"
  "enum_of candidate_source_name CANDIDATE_SOURCES (JStr (candidate_source_name x10)) = Some x10"
  "enum_of pr_state_name PR_STATES (JStr (pr_state_name x11)) = Some x11"
  "enum_of event_type_name EVENT_TYPES (JStr (event_type_name x12)) = Some x12"
  by (simp_all add: result_simps)

section \<open>Definition\<close>

record acceptance_criterion =
  crit_id :: string
  crit_description :: string

record task_definition =
  def_taskId :: string
  def_title :: string
  def_description :: string
  def_deliverable :: string
  def_deliveryLevel :: delivery_level
  def_acceptanceCriteria :: "acceptance_criterion list"
  def_dependencies :: "string list"
  def_createdAt :: string
  def_createdBy :: string

section \<open>Candidates\<close>

record snapshot_entry =
  ent_ref :: string
  ent_fingerprint :: string

record candidate_snapshot =
  cand_id :: string
  cand_entries :: "snapshot_entry list"
  cand_fingerprint :: string

record candidate_observation =
  obs_snapshotId :: string
  obs_fingerprint :: string
  obs_observedBy :: string
  obs_observedAt :: string
  obs_source :: string
  obs_evidenceRef :: string

section \<open>Runs\<close>

record run_input =
  inp_summary :: string
  inp_references :: "string list"
  inp_fingerprint :: string

record run_authorization =
  auth_approvedBy :: string
  auth_approvedAt :: string
  auth_scope :: string
  auth_evidenceRef :: string

record run_durations =
  dur_executionMs :: "nat option"
  dur_waitingMs :: "nat option"
  dur_reviewMs :: "nat option"

record measurement_refs =
  msr_execution :: "string option"
  msr_waiting :: "string option"
  msr_review :: "string option"

record run_evidence_item =
  rei_ref :: string
  rei_sha256 :: string
  rei_sizeBytes :: nat
  rei_source :: run_evidence_source

record run_evidence_verification =
  rver_observedAt :: string
  rver_runId :: string
  rver_candidateSnapshotId :: string
  rver_candidateFingerprint :: string
  rver_items :: "run_evidence_item list"

record run_result =
  res_summary :: string
  res_evidenceRefs :: "string list"
  res_evidenceVerification :: "run_evidence_verification option"

record run_failure =
  fail_category :: string
  fail_message :: string
  fail_evidenceRef :: "string option"

record manager_binding =
  mgr_credentialId :: string
  mgr_projectRoot :: string
  mgr_commonDir :: string
  mgr_gitDir :: string
  mgr_source :: manager_source
  mgr_recordedAt :: string

record integration_receipt =
  rcpt_runId :: string
  rcpt_worktreeHeadSha :: string
  rcpt_targetRef :: string
  rcpt_targetBranch :: string
  rcpt_targetHeadSha :: string
  rcpt_verifiedAt :: string
  rcpt_resultEvidenceRefs :: "string list"
  rcpt_candidateSnapshotId :: string
  rcpt_candidateFingerprint :: string
  rcpt_contentFingerprint :: "string option"

record cleanup_lease =
  lease_leaseId :: string
  lease_state :: lease_state
  lease_processId :: nat
  lease_acquiredAt :: string
  lease_expectedHeadSha :: string
  lease_targetBranch :: string
  lease_targetHeadSha :: string
  lease_receiptRef :: string
  lease_reason :: "string option"
  lease_riskDisclosure :: "string option"

record workspace_binding =
  ws_ownerRunId :: string
  ws_canonicalPath :: string
  ws_branch :: string
  ws_baseSha :: string
  ws_writeSet :: "string list"
  ws_integrationState :: integration_state
  ws_reclamationState :: reclamation_state
  ws_manager :: "manager_binding option"
  ws_integrationReceipt :: "integration_receipt option"
  ws_cleanupLease :: "cleanup_lease option"

record host_stop_receipt =
  stop_source :: string
  stop_assurance :: string
  stop_evidenceLevel :: string
  stop_taskId :: string
  stop_runId :: string
  stop_sessionId :: "string option"
  stop_threadId :: "string option"
  stop_startRequestId :: string
  stop_settleReceiptId :: string
  stop_terminalStatus :: string
  stop_requestKernelRevision :: nat
  stop_receiptKernelRevision :: nat
  stop_contractFingerprint :: string
  stop_contractStale :: bool
  stop_candidateSnapshotId :: "string option"
  stop_candidateFingerprint :: "string option"
  stop_candidateSource :: "stop_candidate_source option"
  stop_receiptRef :: string
  stop_evidenceRef :: string
  stop_recordedAt :: string

record host_binding =
  host_host :: string
  host_role :: string
  host_sessionId :: "string option"
  host_hostId :: "string option"
  host_threadId :: "string option"
  host_kernelRevision :: nat
  host_contractFingerprint :: string
  host_requestRefs :: "string list"
  host_eventRefs :: "string list"
  host_resultRefs :: "string list"
  host_assuranceSource :: "string option"
  host_stopReceipt :: "host_stop_receipt option"

record baseline_entry =
  bent_path :: string
  bent_sizeBytes :: nat
  bent_sha256 :: string

record file_baseline =
  base_rootIdentitySha256 :: string
  base_files :: "baseline_entry list"
  base_fingerprint :: string

record task_run =
  run_id :: string
  run_taskId :: string
  run_attempt :: nat
  run_sequence :: nat
  run_state :: run_state
  run_startedAt :: string
  run_startedBy :: string
  run_input :: run_input
  run_authorization :: run_authorization
  run_writeSetSnapshot :: "string list"
  run_estimatedDurations :: run_durations
  run_measurementRefs :: measurement_refs
  run_candidateBaseSha :: "string option"
  run_candidateBaseBranch :: "string option"
  run_candidateFileBaseline :: "file_baseline option"
  run_workspace :: "workspace_binding option"
  run_host :: "host_binding option"
  run_candidateSnapshot :: "candidate_snapshot option"
  run_result :: "run_result option"
  run_failure :: "run_failure option"
  run_completedAt :: "string option"

section \<open>Reviews\<close>

type_synonym evidence_map = "(string \<times> string list) list"

record review_evidence_item =
  vei_ref :: string
  vei_sha256 :: string
  vei_sizeBytes :: nat
  vei_source :: review_evidence_source

record review_evidence_verification =
  vver_observedAt :: string
  vver_runId :: string
  vver_candidateSnapshotId :: string
  vver_candidateFingerprint :: string
  vver_items :: "review_evidence_item list"

record task_review =
  rev_id :: string
  rev_taskId :: string
  rev_runId :: string
  rev_candidateSnapshotId :: string
  rev_candidateFingerprint :: string
  rev_reviewer :: string
  rev_decision :: review_decision
  rev_evidenceRefs :: "string list"
  rev_acceptanceEvidence :: evidence_map
  rev_evidenceVerification :: "review_evidence_verification option"
  rev_unresolvedBlockers :: "string list"
  rev_reviewedAt :: string

section \<open>Closure\<close>

record delivery_evidence =
  dev_level :: delivery_level
  dev_reference :: string
  dev_summary :: string
  dev_path :: "string option"
  dev_targetBranch :: "string option"

record pull_request_fact =
  pr_url :: string
  pr_repository :: string
  pr_number :: int
  pr_state :: pr_state
  pr_draft :: bool
  pr_headSha :: string
  pr_baseBranch :: string
  pr_merged :: bool
  pr_mergeCommitSha :: "string option"

record delivery_verification =
  dver_observedAt :: string
  dver_candidateFingerprint :: string
  dver_candidateSource :: candidate_source
  dver_candidateHead :: "string option"
  dver_level :: delivery_level
  dver_path :: string
  dver_fileSha256 :: string
  dver_gitBlobSha256 :: "string option"
  dver_targetBranch :: "string option"
  dver_targetSha :: "string option"
  dver_integrationCommitSha :: "string option"
  dver_ancestryVerified :: "bool option"
  dver_pullRequest :: "pull_request_fact option"

record task_closure =
  clo_runId :: string
  clo_reviewId :: string
  clo_candidateSnapshotId :: string
  clo_candidateFingerprint :: string
  clo_candidateObservation :: candidate_observation
  clo_deliveryEvidence :: delivery_evidence
  clo_deliveryVerification :: "delivery_verification option"
  clo_acceptanceEvidence :: evidence_map
  clo_closedAt :: string
  clo_closedBy :: string

section \<open>The kernel\<close>

text \<open>\<open>KernelState & { revision: number }\<close>\<close>

record state_revision = kernel_state +
  st_revision :: nat

record kernel_audit =
  aud_id :: string
  aud_at :: string
  aud_actor :: string
  aud_idempotencyKey :: string
  aud_evidence :: "string option"
  aud_from :: state_revision
  aud_to :: state_revision

record kernel_event =
  evt_id :: string
  evt_revision :: nat
  evt_at :: string
  evt_actor :: string
  evt_idempotencyKey :: string
  evt_type :: event_type
  evt_entityId :: string
  evt_requestFingerprint :: string

record task_kernel =
  ker_taskId :: string
  ker_revision :: nat
  ker_phase :: kernel_phase
  ker_condition :: kernel_condition
  ker_outcome :: "kernel_outcome option"
  ker_definition :: task_definition
  ker_runs :: "task_run list"
  ker_reviews :: "task_review list"
  ker_closure :: "task_closure option"
  ker_audit :: "kernel_audit list"
  ker_events :: "kernel_event list"

text \<open>Runs in \<open>waiting\<close> or \<open>running\<close> are active; the other states are terminal.\<close>

definition active_run :: "task_run \<Rightarrow> bool" where
  "active_run r \<longleftrightarrow> run_state r = RunWaiting \<or> run_state r = RunRunning"

text \<open>\<open>getOwnRecordValue(record, key)\<close>\<close>

definition getOwnRecordValue :: "(string \<times> 'a) list \<Rightarrow> string \<Rightarrow> 'a option" where
  "getOwnRecordValue kvs k = map_of kvs k"

definition TASK_RUN_WORKSPACE_CLEANUP_RISK_DISCLOSURE :: string where
  "TASK_RUN_WORKSPACE_CLEANUP_RISK_DISCLOSURE =
     ''An external writer may create an ignored file after the final check and before Git recursively removes this worktree; non-force git worktree remove may then delete that file.''"

lemma TASK_RUN_WORKSPACE_CLEANUP_RISK_DISCLOSURE_not_blank [simp]:
  "\<not> blank TASK_RUN_WORKSPACE_CLEANUP_RISK_DISCLOSURE"
  unfolding TASK_RUN_WORKSPACE_CLEANUP_RISK_DISCLOSURE_def by (simp add: blank_iff is_space_def)

end
