(* ===== verification/Write_Set.thy ===== *)
theory Write_Set
  imports Kernel_Types
begin

text \<open>
  Repository-relative paths and write sets: the path guards of \<open>task-kernel-schema.ts\<close>,
  \<open>task-candidate-observer.ts\<close> and \<open>project-file-observer.ts\<close>, the write set a Run's path
  list stands for, the membership test of both observers, and the check of a file baseline.

  Three modules guard paths on their own; what they share is \<open>plain_path\<close>, and what the guard
  is for is \<open>resolve_inside\<close>: a guarded path, resolved against a root, stays below the root.
\<close>

section \<open>Path guards\<close>

definition drive_prefix :: "string \<Rightarrow> bool" where
  "drive_prefix s = (case s of c # d # _ \<Rightarrow> is_letter c \<and> d = CHR '':'' | _ \<Rightarrow> False)"

definition dot_segment :: "string \<Rightarrow> bool" where
  "dot_segment seg \<longleftrightarrow> seg = [] \<or> seg = ''.'' \<or> seg = ''..''"

text \<open>\<open>parseRepositoryRelativePath\<close> of \<open>task-kernel-schema.ts\<close>\<close>

definition parseRepositoryRelativePath :: "jsval \<Rightarrow> string outcome" where
  "parseRepositoryRelativePath v =
     bindE (requireNonEmptyString v) (\<lambda>input.
       let normalized = forward_slashes input;
           segments = split_on CHR ''/'' normalized
       in throwIf (starts_with ''/'' normalized \<or> drive_prefix normalized \<or> list_ex dot_segment segments)
            corrupt
            (Inr (join_with ''/'' segments)))"

text \<open>\<open>normalizeRepositoryPath\<close> of \<open>task-candidate-observer.ts\<close>\<close>

definition normalizeRepositoryPath :: "string \<Rightarrow> string outcome" where
  "normalizeRepositoryPath s =
     throwIf (s = [] \<or> CHR 0x00 \<in> set s) (ExternalError ''invalid-write-set'')
       (let normalized = forward_slashes s;
            segments = split_on CHR ''/'' normalized
        in throwIf (starts_with ''/'' normalized \<or> drive_prefix normalized)
             (ExternalError ''invalid-write-set'')
             (throwIf (list_ex dot_segment segments) (ExternalError ''invalid-write-set'')
               (Inr (join_with ''/'' segments))))"

text \<open>\<open>safeRelativePath\<close> of \<open>project-file-observer.ts\<close>\<close>

definition MAX_PATH_LENGTH :: nat where
  "MAX_PATH_LENGTH = 4096"

definition control_char :: "char \<Rightarrow> bool" where
  "control_char c \<longleftrightarrow> (of_char c :: nat) \<le> 0x1f \<or> (of_char c :: nat) = 0x7f"

definition safeRelativePath :: "string \<Rightarrow> string outcome" where
  "safeRelativePath s =
     (let normalized = forward_slashes s;
          segments = split_on CHR ''/'' normalized
      in throwIf (normalized = [] \<or> MAX_PATH_LENGTH < length normalized \<or>
                  starts_with ''/'' normalized \<or> drive_prefix normalized \<or>
                  list_ex (\<lambda>seg. dot_segment seg \<or> list_ex control_char seg) segments)
           (ExternalError ''invalid-write-set'')
           (Inr (join_with ''/'' segments)))"

text \<open>What a guarded path is: relative, with forward slashes and plain segments only.\<close>

definition plain_path :: "string \<Rightarrow> bool" where
  "plain_path s \<longleftrightarrow> forward_slashes s = s \<and> \<not> starts_with ''/'' s \<and> \<not> drive_prefix s \<and>
     \<not> list_ex dot_segment (split_on CHR ''/'' s)"

text \<open>
  \<open>path.resolve(root, p)\<close> of a relative POSIX path on the segments of an absolute root:
  \<open>.\<close> and empty segments drop out, \<open>..\<close> goes up.
\<close>

fun resolve_segments :: "string list \<Rightarrow> string list \<Rightarrow> string list" where
  "resolve_segments root [] = root"
| "resolve_segments root (seg # segs) =
     resolve_segments
       (if seg = [] \<or> seg = ''.'' then root else if seg = ''..'' then butlast root else root @ [seg]) segs"

lemma parseRepositoryRelativePath_iff:
  "parseRepositoryRelativePath v = Inr p \<longleftrightarrow>
     (\<exists>s. v = JStr s \<and> \<not> blank s \<and> p = forward_slashes s \<and> plain_path p)"
  by (auto simp: parseRepositoryRelativePath_def result_simps Let_def plain_path_def)

lemma normalizeRepositoryPath_iff:
  "normalizeRepositoryPath s = Inr p \<longleftrightarrow>
     s \<noteq> [] \<and> CHR 0x00 \<notin> set s \<and> p = forward_slashes s \<and> plain_path p"
  by (auto simp: normalizeRepositoryPath_def result_simps Let_def plain_path_def)

lemma list_ex_or: "list_ex (\<lambda>x. P x \<or> Q x) xs \<longleftrightarrow> list_ex P xs \<or> list_ex Q xs"
  by (induction xs) auto

lemma safeRelativePath_iff:
  "safeRelativePath s = Inr p \<longleftrightarrow>
     p = forward_slashes s \<and> p \<noteq> [] \<and> length p \<le> MAX_PATH_LENGTH \<and> plain_path p \<and>
     \<not> list_ex (list_ex control_char) (split_on CHR ''/'' p)"
  by (auto simp: safeRelativePath_def result_simps Let_def plain_path_def list_ex_or)

lemma plain_path_not_Nil: "plain_path s \<Longrightarrow> s \<noteq> []"
  by (auto simp: plain_path_def dot_segment_def)

lemma resolve_segments_plain:
  "\<not> list_ex dot_segment segs \<Longrightarrow> resolve_segments root segs = root @ segs"
  by (induction segs arbitrary: root) (auto simp: dot_segment_def)

lemma resolve_inside:
  "plain_path p \<Longrightarrow> resolve_segments root (split_on CHR ''/'' p) = root @ split_on CHR ''/'' p"
  by (simp add: resolve_segments_plain plain_path_def)

lemma safeRelativePath_idem: "safeRelativePath s = Inr p \<Longrightarrow> safeRelativePath p = Inr p"
  by (auto simp: safeRelativePath_iff plain_path_def)

lemma set_forward_slashes_sub: "c \<in> set (forward_slashes s) \<Longrightarrow> c \<in> set s \<or> c = CHR ''/''"
  by (auto simp: forward_slashes_def split: if_splits)

lemma normalizeRepositoryPath_idem:
  "normalizeRepositoryPath s = Inr p \<Longrightarrow> normalizeRepositoryPath p = Inr p"
  by (auto simp: normalizeRepositoryPath_iff dest: set_forward_slashes_sub plain_path_not_Nil)

text \<open>A blank path is all spaces, and slashes are not.\<close>

lemma forward_slashes_blank [simp]: "blank (forward_slashes s) \<longleftrightarrow> blank s"
proof -
  have "is_space (if c = CHR 0x5C then CHR ''/'' else c) \<longleftrightarrow> is_space c" for c
    by (simp add: is_space_def)
  then show ?thesis by (simp add: blank_iff forward_slashes_def list_all_length)
qed

lemma parseRepositoryRelativePath_plain [codec_rules]:
  "plain_path p \<Longrightarrow> \<not> blank p \<Longrightarrow> parseRepositoryRelativePath (JStr p) = Inr p"
  by (simp add: parseRepositoryRelativePath_iff plain_path_def)

section \<open>Excluded project paths\<close>

definition EXCLUDED_DIRECTORIES :: "string list" where
  "EXCLUDED_DIRECTORIES =
     [''.git'', ''.pactile'', ''.tmp'', ''.tools'', ''.codegraph'', ''.cache'', ''.pnpm-store'',
      ''.pytest_cache'', ''.mypy_cache'', ''.ruff_cache'', ''.tox'', ''.nox'', ''.venv'', ''.next'',
      ''.nuxt'', ''.turbo'', ''.svelte-kit'', ''.ssh'', ''.aws'', ''.azure'', ''.kube'', ''.gnupg'',
      ''node_modules'', ''vendor'', ''venv'', ''dist'', ''build'', ''out'', ''coverage'',
      ''__pycache__'', ''target'']"

definition SECRET_FILE_SUFFIXES :: "string list" where
  "SECRET_FILE_SUFFIXES = [''.pem'', ''.key'', ''.p12'', ''.pfx'']"

definition excludedFileName :: "string \<Rightarrow> bool" where
  "excludedFileName name =
     (let lower = to_lower name in
      lower = ''.env'' \<or> starts_with ''.env.'' lower \<or>
      list_ex (\<lambda>suffix. ends_with suffix lower) SECRET_FILE_SUFFIXES \<or>
      starts_with ''id_rsa'' lower \<or> starts_with ''id_ed25519'' lower)"

definition isExcludedProjectPath :: "string \<Rightarrow> bool" where
  "isExcludedProjectPath s =
     (case safeRelativePath s of
        Inl _ \<Rightarrow> True
      | Inr normalized \<Rightarrow>
          (let segments = split_on CHR ''/'' normalized in
           list_ex (\<lambda>seg. to_lower seg \<in> set (map to_lower EXCLUDED_DIRECTORIES)) segments \<or>
           excludedFileName (last segments)))"

section \<open>Write sets\<close>

record write_set =
  exactPaths :: "string list"
  directoryPrefixes :: "string list"

text \<open>On Windows paths compare without case.\<close>

definition platform_path :: "platform \<Rightarrow> string \<Rightarrow> string" where
  "platform_path pl s = (if win32 pl then to_lower s else s)"

definition trailing_slash :: "string \<Rightarrow> bool" where
  "trailing_slash s \<longleftrightarrow> s \<noteq> [] \<and> (last s = CHR ''/'' \<or> last s = CHR 0x5C)"

text \<open>\<open>normalizeWriteSet\<close> and \<open>writeSetFromTaskPaths\<close> of \<open>task-candidate-observer.ts\<close>\<close>

definition MAX_CHANGED_PATHS :: nat where
  "MAX_CHANGED_PATHS = 1000"

definition normalizeWriteSet :: "write_set \<Rightarrow> write_set outcome" where
  "normalizeWriteSet ws =
     bindE (mapE normalizeRepositoryPath (exactPaths ws)) (\<lambda>exact.
     bindE (mapE normalizeRepositoryPath (directoryPrefixes ws)) (\<lambda>dirs.
     throwIf (length (unique (exact @ dirs)) \<noteq> length exact + length dirs)
       (ExternalError ''invalid-write-set'')
     (throwIf (MAX_CHANGED_PATHS < length exact + length dirs)
       (ExternalError ''observation-limit-exceeded'')
     (Inr \<lparr>exactPaths = List.sort exact, directoryPrefixes = List.sort dirs\<rparr>))))"

fun collectTaskPaths :: "string list \<Rightarrow> write_set \<Rightarrow> write_set outcome" where
  "collectTaskPaths [] ws = Inr ws"
| "collectTaskPaths (entry # entries) ws =
     (if trailing_slash entry then
        bindE (normalizeRepositoryPath (butlast entry)) (\<lambda>p.
          collectTaskPaths entries (ws\<lparr>directoryPrefixes := directoryPrefixes ws @ [p]\<rparr>))
      else
        bindE (normalizeRepositoryPath entry) (\<lambda>p.
          collectTaskPaths entries (ws\<lparr>exactPaths := exactPaths ws @ [p]\<rparr>)))"

definition writeSetFromTaskPaths :: "string list \<Rightarrow> write_set outcome" where
  "writeSetFromTaskPaths paths =
     bindE (collectTaskPaths paths \<lparr>exactPaths = [], directoryPrefixes = []\<rparr>) normalizeWriteSet"

definition pathIsAllowed :: "string \<Rightarrow> write_set \<Rightarrow> bool" where
  "pathIsAllowed p ws \<longleftrightarrow>
     p \<in> set (exactPaths ws) \<or> list_ex (\<lambda>d. starts_with (d @ ''/'') p) (directoryPrefixes ws)"

text \<open>
  \<open>sameWriteSet\<close> compares the fingerprints of two sorted key lists; the model compares the lists.
\<close>

definition write_set_keys :: "platform \<Rightarrow> write_set \<Rightarrow> string list" where
  "write_set_keys pl ws =
     List.sort (map (platform_path pl) (unique (exactPaths ws @ directoryPrefixes ws)))"

definition sameWriteSet :: "platform \<Rightarrow> write_set \<Rightarrow> write_set \<Rightarrow> bool" where
  "sameWriteSet pl l r \<longleftrightarrow> write_set_keys pl l = write_set_keys pl r"

text \<open>
  \<open>isTaskRunPathInWriteSet\<close>: \<open>Inl\<close> where the write set or the path is malformed.
\<close>

definition isTaskRunPathInWriteSet :: "platform \<Rightarrow> task_run \<Rightarrow> string \<Rightarrow> bool outcome" where
  "isTaskRunPathInWriteSet pl r p =
     bindE (writeSetFromTaskPaths (run_writeSetSnapshot r)) (\<lambda>ws.
       let rest = bindE (normalizeRepositoryPath p) (\<lambda>np.
             Inr (if run_candidateFileBaseline r \<noteq> None \<and> isExcludedProjectPath np then False
                  else pathIsAllowed np ws))
       in case run_workspace r of
            None \<Rightarrow> rest
          | Some w \<Rightarrow>
              if ws_ownerRunId w \<noteq> run_id r then Inr False
              else bindE (writeSetFromTaskPaths (ws_writeSet w)) (\<lambda>wws.
                if \<not> sameWriteSet pl ws wws then Inr False else rest))"

text \<open>\<open>normalizeWriteSet\<close> of \<open>project-file-observer.ts\<close>\<close>

definition MAX_AFFECTED_PATHS :: nat where
  "MAX_AFFECTED_PATHS = 1000"

fun collectProjectPaths :: "string list \<Rightarrow> write_set \<Rightarrow> write_set outcome" where
  "collectProjectPaths [] ws = Inr ws"
| "collectProjectPaths (entry # entries) ws =
     bindE (safeRelativePath (if trailing_slash entry then butlast entry else entry)) (\<lambda>p.
       throwIf (isExcludedProjectPath p) (ExternalError ''invalid-write-set'')
         (collectProjectPaths entries
           (if trailing_slash entry then ws\<lparr>directoryPrefixes := directoryPrefixes ws @ [p]\<rparr>
            else ws\<lparr>exactPaths := exactPaths ws @ [p]\<rparr>)))"

definition normalizeProjectWriteSet :: "platform \<Rightarrow> string list \<Rightarrow> write_set outcome" where
  "normalizeProjectWriteSet pl paths =
     throwIf (MAX_AFFECTED_PATHS < length paths) (ExternalError ''observation-limit-exceeded'')
     (bindE (collectProjectPaths paths \<lparr>exactPaths = [], directoryPrefixes = []\<rparr>) (\<lambda>ws.
       throwIf (length (unique (map (platform_path pl) (exactPaths ws @ directoryPrefixes ws))) \<noteq>
                length (exactPaths ws) + length (directoryPrefixes ws))
         (ExternalError ''invalid-write-set'')
         (Inr \<lparr>exactPaths = sort_key (platform_path pl) (exactPaths ws),
               directoryPrefixes = sort_key (platform_path pl) (directoryPrefixes ws)\<rparr>)))"

definition projectPathIsAllowed :: "platform \<Rightarrow> string \<Rightarrow> write_set \<Rightarrow> bool" where
  "projectPathIsAllowed pl p ws \<longleftrightarrow>
     (let candidate = platform_path pl p in
      list_ex (\<lambda>entry. platform_path pl entry = candidate) (exactPaths ws) \<or>
      list_ex (\<lambda>entry. let prefix = platform_path pl entry in
                 candidate = prefix \<or> starts_with (prefix @ ''/'') candidate) (directoryPrefixes ws))"

definition writeSetTouchesExcludedPath :: "platform \<Rightarrow> string \<Rightarrow> write_set \<Rightarrow> bool" where
  "writeSetTouchesExcludedPath pl p ws \<longleftrightarrow>
     (let excluded = platform_path pl p in
      projectPathIsAllowed pl p ws \<or>
      list_ex (\<lambda>entry. starts_with (excluded @ ''/'') (platform_path pl entry)) (exactPaths ws) \<or>
      list_ex (\<lambda>entry. let prefix = platform_path pl entry in
                 prefix = excluded \<or> starts_with (excluded @ ''/'') prefix \<or>
                 starts_with (prefix @ ''/'') excluded) (directoryPrefixes ws))"

definition assertNoExcludedWriteSetOverlap ::
    "platform \<Rightarrow> string list \<Rightarrow> write_set \<Rightarrow> unit outcome" where
  "assertNoExcludedWriteSetOverlap pl paths ws =
     (case List.find (\<lambda>p. writeSetTouchesExcludedPath pl p ws) paths of
        None \<Rightarrow> Inr ()
      | Some _ \<Rightarrow> Inl (ExternalError ''invalid-write-set''))"

section \<open>File baselines\<close>

definition stableFingerprint :: "platform \<Rightarrow> jsval \<Rightarrow> string" where
  "stableFingerprint pl v = sha256hex pl (jsonText v)"

definition baseline_entry_json :: "baseline_entry \<Rightarrow> jsval" where
  "baseline_entry_json e =
     JObj [(''path'', JStr (bent_path e)), (''sizeBytes'', nat_val (bent_sizeBytes e)),
           (''sha256'', JStr (bent_sha256 e))]"

definition baselineBody :: "string \<Rightarrow> baseline_entry list \<Rightarrow> jsobj" where
  "baselineBody rootIdentity files =
     [(''schemaVersion'', nat_val 1),
      (''source'', JStr ''pactile-project-file-baseline-v1''),
      (''policy'', JStr ''project-files-bounded-v1''),
      (''rootIdentitySha256'', JStr rootIdentity),
      (''files'', JArr (map baseline_entry_json files))]"

definition PROJECT_FILE_SNAPSHOT_MAX_FILES :: nat where
  "PROJECT_FILE_SNAPSHOT_MAX_FILES = 4096"

definition PROJECT_FILE_SNAPSHOT_MAX_FILE_BYTES :: nat where
  "PROJECT_FILE_SNAPSHOT_MAX_FILE_BYTES = 2 * 1024 * 1024"

definition PROJECT_FILE_SNAPSHOT_MAX_TOTAL_BYTES :: nat where
  "PROJECT_FILE_SNAPSHOT_MAX_TOTAL_BYTES = 32 * 1024 * 1024"

definition is_fingerprint :: "string \<Rightarrow> bool" where
  "is_fingerprint s \<longleftrightarrow> length s = 64 \<and> list_all is_hex_lower s"

text \<open>
  The loop of \<open>verifyProjectFileBaseline\<close>, with its \<open>seen\<close> keys, the \<open>previous\<close> path
  (\<open>""\<close> at first) and the running total; \<open>False\<close> where the code returns \<open>false\<close> or throws.
\<close>

fun baseline_entries_ok :: "platform \<Rightarrow> string list \<Rightarrow> string \<Rightarrow> nat \<Rightarrow> baseline_entry list \<Rightarrow> bool" where
  "baseline_entries_ok pl seen previous bytes [] \<longleftrightarrow> True"
| "baseline_entries_ok pl seen previous bytes (entry # entries) \<longleftrightarrow>
     (case safeRelativePath (bent_path entry) of
        Inl _ \<Rightarrow> False
      | Inr p \<Rightarrow>
          \<not> isExcludedProjectPath p \<and> platform_path pl p \<notin> set seen \<and>
          \<not> (previous \<noteq> [] \<and> platform_path pl p < platform_path pl previous) \<and>
          bent_sizeBytes entry \<le> PROJECT_FILE_SNAPSHOT_MAX_FILE_BYTES \<and>
          is_fingerprint (bent_sha256 entry) \<and>
          bytes + bent_sizeBytes entry \<le> PROJECT_FILE_SNAPSHOT_MAX_TOTAL_BYTES \<and>
          baseline_entries_ok pl (platform_path pl p # seen) p (bytes + bent_sizeBytes entry) entries)"

definition verifyProjectFileBaseline :: "platform \<Rightarrow> file_baseline \<Rightarrow> bool" where
  "verifyProjectFileBaseline pl b \<longleftrightarrow>
     is_fingerprint (base_rootIdentitySha256 b) \<and>
     length (base_files b) \<le> PROJECT_FILE_SNAPSHOT_MAX_FILES \<and>
     baseline_entries_ok pl [] [] 0 (base_files b) \<and>
     stableFingerprint pl (JObj (baselineBody (base_rootIdentitySha256 b) (base_files b))) =
       base_fingerprint b"

text \<open>The walk passes over a directory of an excluded name (\<open>EXCLUDED_DIRECTORY_NAMES\<close>).\<close>

definition excluded_directory :: "string \<Rightarrow> bool" where
  "excluded_directory name \<longleftrightarrow> to_lower name \<in> set (map to_lower EXCLUDED_DIRECTORIES)"

text \<open>
  \<open>isExcludedProjectPath\<close> excludes a regular file that bears the name of an excluded directory; the
  walk that captures a baseline does not.
\<close>

definition named_as_directory :: "baseline_entry \<Rightarrow> bool" where
  "named_as_directory e \<longleftrightarrow> excluded_directory (last (split_on CHR ''/'' (bent_path e)))"

section \<open>Facts about write sets\<close>

lemma split_on_append: "split_on c (d @ c # r) = split_on c d @ split_on c r"
proof (induction d)
  case (Cons x d)
  then show ?case by (cases "split_on c d") auto
qed simp

text \<open>A path below a directory prefix has the directory's segments in front of its own.\<close>

lemma below_prefix_segments:
  "starts_with (d @ ''/'') p \<Longrightarrow>
   \<exists>segs. segs \<noteq> [] \<and> split_on CHR ''/'' p = split_on CHR ''/'' d @ segs"
  by (auto simp: starts_with_iff split_on_append)

lemma pathIsAllowed_resolve:
  assumes "pathIsAllowed p ws" and "plain_path p" and "\<forall>d \<in> set (directoryPrefixes ws). plain_path d"
  shows "p \<in> set (exactPaths ws) \<or>
    (\<exists>d \<in> set (directoryPrefixes ws). \<exists>segs. segs \<noteq> [] \<and>
       resolve_segments root (split_on CHR ''/'' p) =
       resolve_segments root (split_on CHR ''/'' d) @ segs)"
proof (cases "p \<in> set (exactPaths ws)")
  case False
  then obtain d where d: "d \<in> set (directoryPrefixes ws)" "starts_with (d @ ''/'') p"
    using assms(1) by (auto simp: pathIsAllowed_def list_ex_iff)
  obtain segs where "segs \<noteq> []" "split_on CHR ''/'' p = split_on CHR ''/'' d @ segs"
    using below_prefix_segments [OF d(2)] by blast
  moreover have "plain_path d" using assms(3) d(1) by blast
  ultimately have "resolve_segments root (split_on CHR ''/'' p) =
      resolve_segments root (split_on CHR ''/'' d) @ segs"
    using resolve_inside [OF assms(2), of root] by (simp add: resolve_inside)
  with d(1) \<open>segs \<noteq> []\<close> show ?thesis by blast
qed simp

lemma mapE_normalize_idem:
  "mapE normalizeRepositoryPath xs = Inr ys \<Longrightarrow> mapE normalizeRepositoryPath ys = Inr ys"
  by (induction xs arbitrary: ys) (auto simp: result_simps dest: normalizeRepositoryPath_idem)

lemma mapE_normalize_plain: "mapE normalizeRepositoryPath xs = Inr ys \<Longrightarrow> \<forall>y \<in> set ys. plain_path y"
  by (induction xs arbitrary: ys) (auto simp: result_simps normalizeRepositoryPath_iff)

text \<open>What the path list of a Run stands for.\<close>

definition file_entries :: "string list \<Rightarrow> string list" where
  "file_entries paths = map forward_slashes (filter (\<lambda>e. \<not> trailing_slash e) paths)"

definition directory_entries :: "string list \<Rightarrow> string list" where
  "directory_entries paths = map (forward_slashes \<circ> butlast) (filter trailing_slash paths)"

lemma collectTaskPaths_eq:
  "collectTaskPaths paths ws = Inr ws' \<Longrightarrow>
     exactPaths ws' = exactPaths ws @ file_entries paths \<and>
     directoryPrefixes ws' = directoryPrefixes ws @ directory_entries paths"
  by (induction paths ws rule: collectTaskPaths.induct)
     (auto simp: result_simps normalizeRepositoryPath_iff file_entries_def directory_entries_def
       split: if_splits)

lemma normalizeRepositoryPath_plain:
  "normalizeRepositoryPath s = Inr p \<Longrightarrow> p = forward_slashes s \<and> plain_path p \<and> CHR 0x00 \<notin> set p"
  using set_forward_slashes_sub [of "CHR 0x00" s] by (auto simp: normalizeRepositoryPath_iff)

lemma collectTaskPaths_plain:
  "collectTaskPaths paths ws = Inr ws' \<Longrightarrow>
     \<forall>p \<in> set (file_entries paths @ directory_entries paths).
       plain_path p \<and> CHR 0x00 \<notin> set p"
proof (induction paths ws rule: collectTaskPaths.induct)
  case (2 entry entries ws)
  show ?case
  proof (cases "trailing_slash entry")
    case True
    with 2 obtain p where "normalizeRepositoryPath (butlast entry) = Inr p"
      and "\<forall>p \<in> set (file_entries entries @ directory_entries entries). plain_path p \<and> CHR 0x00 \<notin> set p"
      by (auto simp: result_simps)
    with True normalizeRepositoryPath_plain show ?thesis
      by (auto simp: file_entries_def directory_entries_def)
  next
    case False
    with 2 obtain p where "normalizeRepositoryPath entry = Inr p"
      and "\<forall>p \<in> set (file_entries entries @ directory_entries entries). plain_path p \<and> CHR 0x00 \<notin> set p"
      by (auto simp: result_simps)
    with False normalizeRepositoryPath_plain show ?thesis
      by (auto simp: file_entries_def directory_entries_def)
  qed
qed (simp add: file_entries_def directory_entries_def)

lemma mapE_normalize_plain_id:
  "\<forall>p \<in> set ps. plain_path p \<and> CHR 0x00 \<notin> set p \<Longrightarrow> mapE normalizeRepositoryPath ps = Inr ps"
  by (induction ps) (auto simp: normalizeRepositoryPath_iff result_simps plain_path_def dot_segment_def)

lemma writeSetFromTaskPaths_eq:
  assumes "writeSetFromTaskPaths paths = Inr ws"
  shows "exactPaths ws = List.sort (file_entries paths)"
    and "directoryPrefixes ws = List.sort (directory_entries paths)"
    and "distinct (exactPaths ws @ directoryPrefixes ws)"
    and "\<forall>p \<in> set (exactPaths ws @ directoryPrefixes ws). plain_path p"
    and "length paths \<le> MAX_CHANGED_PATHS"
proof -
  from assms obtain ws' where c: "collectTaskPaths paths \<lparr>exactPaths = [], directoryPrefixes = []\<rparr> = Inr ws'"
    and n: "normalizeWriteSet ws' = Inr ws"
    by (auto simp: writeSetFromTaskPaths_def result_simps)
  have f: "exactPaths ws' = file_entries paths" "directoryPrefixes ws' = directory_entries paths"
    using collectTaskPaths_eq [OF c] by simp_all
  have pl: "\<forall>p \<in> set (file_entries paths @ directory_entries paths). plain_path p \<and> CHR 0x00 \<notin> set p"
    using collectTaskPaths_plain [OF c] .
  have "mapE normalizeRepositoryPath (file_entries paths) = Inr (file_entries paths)"
    and "mapE normalizeRepositoryPath (directory_entries paths) = Inr (directory_entries paths)"
    using pl by (auto intro!: mapE_normalize_plain_id)
  with n f have ws: "ws = \<lparr>exactPaths = List.sort (file_entries paths),
      directoryPrefixes = List.sort (directory_entries paths)\<rparr>"
    and u: "length (unique (file_entries paths @ directory_entries paths)) =
      length (file_entries paths @ directory_entries paths)"
    and m: "length (file_entries paths) + length (directory_entries paths) \<le> MAX_CHANGED_PATHS"
    by (auto simp: normalizeWriteSet_def result_simps)
  show "exactPaths ws = List.sort (file_entries paths)"
    and "directoryPrefixes ws = List.sort (directory_entries paths)" by (simp_all add: ws)
  show "distinct (exactPaths ws @ directoryPrefixes ws)"
    using u by (simp only: length_unique_eq) (simp add: ws)
  show "\<forall>p \<in> set (exactPaths ws @ directoryPrefixes ws). plain_path p" using pl by (simp add: ws)
  have "length (file_entries paths) + length (directory_entries paths) = length paths"
    by (induction paths) (auto simp: file_entries_def directory_entries_def)
  with m show "length paths \<le> MAX_CHANGED_PATHS" by simp
qed

section \<open>Facts about file baselines\<close>

lemma baseline_entries_ok_bytes:
  "baseline_entries_ok pl seen previous bytes es \<Longrightarrow> bytes \<le> PROJECT_FILE_SNAPSHOT_MAX_TOTAL_BYTES \<Longrightarrow>
   bytes + sum_list (map bent_sizeBytes es) \<le> PROJECT_FILE_SNAPSHOT_MAX_TOTAL_BYTES"
  by (induction pl seen previous bytes es rule: baseline_entries_ok.induct)
     (auto split: sum.splits simp: add.assoc)

abbreviation entry_path :: "baseline_entry \<Rightarrow> string" where
  "entry_path e \<equiv> forward_slashes (bent_path e)"

lemma baseline_entries_ok_each:
  "baseline_entries_ok pl seen previous bytes es \<Longrightarrow>
   \<forall>e \<in> set es. plain_path (entry_path e) \<and> \<not> isExcludedProjectPath (entry_path e) \<and>
     bent_sizeBytes e \<le> PROJECT_FILE_SNAPSHOT_MAX_FILE_BYTES \<and> is_fingerprint (bent_sha256 e) \<and>
     platform_path pl (entry_path e) \<notin> set seen"
  by (induction pl seen previous bytes es rule: baseline_entries_ok.induct)
     (auto split: sum.splits simp: safeRelativePath_iff)

lemma baseline_entries_ok_distinct:
  "baseline_entries_ok pl seen previous bytes es \<Longrightarrow>
   distinct (map (\<lambda>e. platform_path pl (entry_path e)) es)"
proof (induction pl seen previous bytes es rule: baseline_entries_ok.induct)
  case (2 pl seen previous bytes entry entries)
  then obtain p where p: "safeRelativePath (bent_path entry) = Inr p"
    and rest: "baseline_entries_ok pl (platform_path pl p # seen) p (bytes + bent_sizeBytes entry) entries"
    by (auto split: sum.splits)
  with 2 have "distinct (map (\<lambda>e. platform_path pl (entry_path e)) entries)" by simp
  with baseline_entries_ok_each [OF rest] p show ?case
    by (auto simp: safeRelativePath_iff)
qed simp

lemma baseline_entries_ok_sorted:
  "baseline_entries_ok pl seen previous bytes es \<Longrightarrow>
   sorted_wrt (\<le>) (map (\<lambda>e. platform_path pl (entry_path e)) es) \<and>
   (previous \<noteq> [] \<longrightarrow> (\<forall>e \<in> set es. platform_path pl previous \<le> platform_path pl (entry_path e)))"
proof (induction pl seen previous bytes es rule: baseline_entries_ok.induct)
  case (2 pl seen previous bytes entry entries)
  then obtain p where p: "safeRelativePath (bent_path entry) = Inr p"
    and le: "previous \<noteq> [] \<Longrightarrow> platform_path pl previous \<le> platform_path pl p"
    and rest: "baseline_entries_ok pl (platform_path pl p # seen) p (bytes + bent_sizeBytes entry) entries"
    by (auto split: sum.splits simp: not_less)
  have IH: "sorted_wrt (\<le>) (map (\<lambda>e. platform_path pl (entry_path e)) entries)"
    "p \<noteq> [] \<longrightarrow> (\<forall>e \<in> set entries. platform_path pl p \<le> platform_path pl (entry_path e))"
    using 2(1) [OF p rest] by simp_all
  have "p \<noteq> []" "p = entry_path entry" using p by (auto simp: safeRelativePath_iff)
  with IH le show ?case by (auto intro: order_trans)
qed simp

end
