(* ===== verification/Schema_Base.thy ===== *)
theory Schema_Base
  imports Write_Set
begin

text \<open>
  The elementary decoders of \<open>core/task/task-kernel-schema.ts\<close> and the rules the record decoders
  are proved with.  Each decoder runs its checks in the order of the source, so that the first
  failing check decides the error.

  Every record decoder \<open>parseX\<close> comes with a serialiser \<open>x_json\<close> (the value
  \<open>JSON.stringify\<close> writes and \<open>JSON.parse\<close> reads), a well-formedness predicate \<open>wf_x\<close>, and two
  lemmas: what it returns is well-formed, and a well-formed record reads back from its
  serialisation unchanged.
\<close>

section \<open>Combinators for optional fields\<close>

definition orThrow :: "'a option \<Rightarrow> 'e \<Rightarrow> ('a \<Rightarrow> ('e, 'b) result) \<Rightarrow> ('e, 'b) result" where
  "orThrow x e k = (case x of None \<Rightarrow> Inl e | Some a \<Rightarrow> k a)"

text \<open>\<open>v === null ? null : p(v)\<close>, the same for \<open>undefined\<close>, and for either\<close>

definition nullE :: "(jsval \<Rightarrow> ('e, 'a) result) \<Rightarrow> jsval \<Rightarrow> ('e, 'a option) result" where
  "nullE p v = whenE (v \<noteq> JNull) (p v)"

definition undefE :: "(jsval \<Rightarrow> ('e, 'a) result) \<Rightarrow> jsval \<Rightarrow> ('e, 'a option) result" where
  "undefE p v = whenE (v \<noteq> JUndef) (p v)"

definition nullishE :: "(jsval \<Rightarrow> ('e, 'a) result) \<Rightarrow> jsval \<Rightarrow> ('e, 'a option) result" where
  "nullishE p v = whenE (\<not> is_nullish v) (p v)"

lemma orThrow_simps [simp]: "orThrow None e k = Inl e" "orThrow (Some a) e k = k a"
  by (simp_all add: orThrow_def)

lemma orThrow_eq_Inr [result_simps]: "orThrow x e k = Inr b \<longleftrightarrow> (\<exists>a. x = Some a \<and> k a = Inr b)"
  by (cases x) simp_all

lemma nullE_simps [simp]:
  "nullE p JNull = Inr None"
  "nullE p JUndef = bindE (p JUndef) (\<lambda>x. Inr (Some x))"
  "nullE p (JStr s) = bindE (p (JStr s)) (\<lambda>x. Inr (Some x))"
  "nullE p (JObj fs) = bindE (p (JObj fs)) (\<lambda>x. Inr (Some x))"
  by (simp_all add: nullE_def)

lemma undefE_simps [simp]:
  "undefE p JUndef = Inr None"
  "undefE p JNull = bindE (p JNull) (\<lambda>x. Inr (Some x))"
  "undefE p (JStr s) = bindE (p (JStr s)) (\<lambda>x. Inr (Some x))"
  "undefE p (JObj fs) = bindE (p (JObj fs)) (\<lambda>x. Inr (Some x))"
  by (simp_all add: undefE_def)

lemma is_nullish_simps [simp]:
  "is_nullish JUndef" "is_nullish JNull" "\<not> is_nullish (JStr s)" "\<not> is_nullish (JObj fs)"
  "\<not> is_nullish (JArr vs)" "\<not> is_nullish (JNum n)" "\<not> is_nullish (JBool b)"
  "\<not> is_nullish (nat_val m)"
  by (simp_all add: is_nullish_def nat_val_def)

text \<open>What the decoders of an optional field guarantee, from what \<open>p\<close> guarantees.\<close>

lemma nullE_sound: "nullE p v = Inr x \<Longrightarrow> (\<And>y. p v = Inr y \<Longrightarrow> P y) \<Longrightarrow> pred_option P x"
  by (auto simp: nullE_def result_simps split: if_splits)

lemma undefE_sound: "undefE p v = Inr x \<Longrightarrow> (\<And>y. p v = Inr y \<Longrightarrow> P y) \<Longrightarrow> pred_option P x"
  by (auto simp: undefE_def result_simps split: if_splits)

lemma nullishE_sound: "nullishE p v = Inr x \<Longrightarrow> (\<And>y. p v = Inr y \<Longrightarrow> P y) \<Longrightarrow> pred_option P x"
  by (auto simp: nullishE_def result_simps split: if_splits)

text \<open>Reading back an optional field: \<open>f\<close> serialises, \<open>p\<close> decodes.\<close>

lemma nullE_nullable:
  assumes "pred_option P x" and "\<And>y. P y \<Longrightarrow> f y \<noteq> JNull \<and> p (f y) = Inr y"
  shows "nullE p (nullable f x) = Inr x"
  using assms by (cases x) (auto simp: nullE_def)

lemma nullishE_nullable:
  assumes "pred_option P x" and "\<And>y. P y \<Longrightarrow> \<not> is_nullish (f y) \<and> p (f y) = Inr y"
  shows "nullishE p (nullable f x) = Inr x"
  using assms by (cases x) (auto simp: nullishE_def)

definition undefinable :: "('a \<Rightarrow> jsval) \<Rightarrow> 'a option \<Rightarrow> jsval" where
  "undefinable f x = (case x of None \<Rightarrow> JUndef | Some y \<Rightarrow> f y)"

lemma undefinable_simps [simp]: "undefinable f None = JUndef" "undefinable f (Some y) = f y"
  by (simp_all add: undefinable_def)

lemma undefE_undefinable:
  assumes "pred_option P x" and "\<And>y. P y \<Longrightarrow> f y \<noteq> JUndef \<and> p (f y) = Inr y"
  shows "undefE p (undefinable f x) = Inr x"
  using assms by (cases x) (auto simp: undefE_def)

lemma getprop_optional [simp]:
  "k' \<noteq> k \<Longrightarrow> getprop (optional_prop k f x @ rest) k' = getprop rest k'"
  "getprop rest k = JUndef \<Longrightarrow> getprop (optional_prop k f x @ rest) k = undefinable f x"
  "k' \<noteq> k \<Longrightarrow> getprop (optional_prop k f x) k' = JUndef"
  "getprop (optional_prop k f x) k = undefinable f x"
  by (cases x; simp)+

section \<open>Elementary decoders\<close>

definition parseObject :: "jsval \<Rightarrow> jsobj outcome" where
  "parseObject v = (case v of JObj fs \<Rightarrow> Inr fs | _ \<Rightarrow> Inl corrupt)"

definition parseArray :: "failure \<Rightarrow> jsval \<Rightarrow> jsval list outcome" where
  "parseArray e v = (case v of JArr vs \<Rightarrow> Inr vs | _ \<Rightarrow> Inl e)"

text \<open>\<open>typeof item !== "string" || !item.trim()\<close>\<close>

definition nonblank_str :: "jsval \<Rightarrow> bool" where
  "nonblank_str v = (case v of JStr s \<Rightarrow> \<not> blank s | _ \<Rightarrow> False)"

fun str_of :: "jsval \<Rightarrow> string" where
  "str_of (JStr s) = s"
| "str_of _ = []"

definition parseStringArray :: "bool \<Rightarrow> jsval \<Rightarrow> string list outcome" where
  "parseStringArray allowEmpty v =
     (case v of
        JArr vs \<Rightarrow>
          throwIf (list_ex (\<lambda>x. \<not> nonblank_str x) vs) invalid_request
            (throwIf (\<not> allowEmpty \<and> vs = []) invalid_request
              (Inr (map str_of vs)))
      | _ \<Rightarrow> Inl invalid_request)"

definition requireString :: "bool \<Rightarrow> jsval \<Rightarrow> string outcome" where
  "requireString allowEmpty v =
     (case v of
        JStr s \<Rightarrow> throwIf (\<not> allowEmpty \<and> blank s) invalid_request (Inr s)
      | _ \<Rightarrow> Inl invalid_request)"

text \<open>\<open>/^[a-z0-9]+(?:-[a-z0-9]+)*$/\<close>: non-empty runs of letters and digits joined by \<open>-\<close>\<close>

definition is_task_id :: "string \<Rightarrow> bool" where
  "is_task_id s \<longleftrightarrow>
     list_all (\<lambda>seg. seg \<noteq> [] \<and> list_all is_slug_char seg) (split_on CHR ''-'' s)"

definition requireTaskId :: "jsval \<Rightarrow> string outcome" where
  "requireTaskId v =
     bindE (requireNonEmptyString v) (\<lambda>s. throwIf (\<not> is_task_id s) invalid_request (Inr s))"

definition requireFingerprint :: "jsval \<Rightarrow> string outcome" where
  "requireFingerprint v =
     (case v of
        JStr s \<Rightarrow> throwIf (\<not> is_fingerprint s) invalid_request (Inr s)
      | _ \<Rightarrow> Inl invalid_request)"

definition requirePositiveInt :: "jsval \<Rightarrow> nat outcome" where
  "requirePositiveInt v =
     orThrow (isNonNegativeInt v) corrupt (\<lambda>n. throwIf (n < 1) corrupt (Inr n))"

definition is_commit_sha :: "string \<Rightarrow> bool" where
  "is_commit_sha s \<longleftrightarrow> (length s = 40 \<or> length s = 64) \<and> list_all is_hex_lower s"

definition parseCommitSha :: "jsval \<Rightarrow> string outcome" where
  "parseCommitSha v =
     bindE (requireNonEmptyString v) (\<lambda>s.
       let sha = to_lower s in throwIf (\<not> is_commit_sha sha) corrupt (Inr sha))"

text \<open>\<open>requireArrayEntry\<close>\<close>

definition requireArrayEntry :: "'a option \<Rightarrow> 'a outcome" where
  "requireArrayEntry x = orThrow x corrupt Inr"

definition isTaskDeliveryLevel :: "jsval \<Rightarrow> delivery_level option" where
  "isTaskDeliveryLevel v = enum_of level_name TASK_DELIVERY_LEVELS v"

text \<open>\<open>new Set(xs).size !== xs.length\<close>\<close>

definition has_duplicates :: "'a list \<Rightarrow> bool" where
  "has_duplicates xs \<longleftrightarrow> length (unique xs) \<noteq> length xs"

section \<open>Their rules\<close>

lemma has_duplicates_iff [simp]: "has_duplicates xs \<longleftrightarrow> \<not> distinct xs"
  by (simp add: has_duplicates_def length_unique_eq)

lemma parseObject_iff [result_simps]: "parseObject v = Inr fs \<longleftrightarrow> v = JObj fs"
  by (cases v) (auto simp: parseObject_def)

lemma parseObject_JObj [simp]: "parseObject (JObj fs) = Inr fs"
  by (simp add: parseObject_def)

lemma parseArray_iff [result_simps]: "parseArray e v = Inr vs \<longleftrightarrow> v = JArr vs"
  by (cases v) (auto simp: parseArray_def)

lemma parseArray_JArr [simp]: "parseArray e (JArr vs) = Inr vs"
  by (simp add: parseArray_def)

lemma nonblank_str_JStr [simp]: "nonblank_str (JStr s) \<longleftrightarrow> \<not> blank s"
  by (simp add: nonblank_str_def)

lemma nonblank_str_iff: "nonblank_str v \<longleftrightarrow> (\<exists>s. v = JStr s \<and> \<not> blank s)"
  by (cases v) (auto simp: nonblank_str_def)

lemma nonblank_list:
  "\<not> list_ex (\<lambda>x. \<not> nonblank_str x) vs \<longleftrightarrow>
     (\<exists>ss. vs = map JStr ss \<and> list_all (\<lambda>s. \<not> blank s) ss)"
proof
  assume *: "\<not> list_ex (\<lambda>x. \<not> nonblank_str x) vs"
  then have "vs = map JStr (map str_of vs)"
    by (induction vs) (auto simp: nonblank_str_iff)
  moreover from * have "list_all (\<lambda>s. \<not> blank s) (map str_of vs)"
    by (induction vs) (auto simp: nonblank_str_iff)
  ultimately show "\<exists>ss. vs = map JStr ss \<and> list_all (\<lambda>s. \<not> blank s) ss" by blast
next
  assume "\<exists>ss. vs = map JStr ss \<and> list_all (\<lambda>s. \<not> blank s) ss"
  then show "\<not> list_ex (\<lambda>x. \<not> nonblank_str x) vs" by (auto simp: list_all_iff list_ex_iff)
qed

lemma parseStringArray_iff [result_simps]:
  "parseStringArray e v = Inr ss \<longleftrightarrow>
     v = strs_val ss \<and> list_all (\<lambda>s. \<not> blank s) ss \<and> (e \<or> ss \<noteq> [])"
proof (cases v)
  case (JArr vs)
  have "\<not> list_ex (\<lambda>x. \<not> nonblank_str x) vs \<and> map str_of vs = ss \<longleftrightarrow>
      vs = map JStr ss \<and> list_all (\<lambda>s. \<not> blank s) ss"
    unfolding nonblank_list by (auto simp: comp_def list.map_id)
  then show ?thesis
    unfolding JArr by (auto simp: parseStringArray_def strs_val_def result_simps)
qed (auto simp: parseStringArray_def strs_val_def)

lemma requireString_iff [result_simps]:
  "requireString e v = Inr s \<longleftrightarrow> v = JStr s \<and> (e \<or> \<not> blank s)"
  by (cases v) (auto simp: requireString_def result_simps)

lemma slug_not_space: "is_slug_char c \<Longrightarrow> \<not> is_space c"
  by (auto simp: is_slug_char_def is_space_def)

lemma hex_not_space: "is_hex_lower c \<Longrightarrow> \<not> is_space c"
  by (auto simp: is_hex_lower_def is_space_def)

lemma nonspace_not_blank: "s \<noteq> [] \<Longrightarrow> \<not> is_space (hd s) \<Longrightarrow> \<not> blank s"
  by (cases s) (auto simp: blank_iff)

lemma is_task_id_not_blank: "is_task_id s \<Longrightarrow> \<not> blank s"
proof -
  assume id: "is_task_id s"
  have "s \<noteq> []" using id by (auto simp: is_task_id_def)
  moreover have "\<not> is_space (hd s)"
  proof (cases s)
    case (Cons c r)
    then show ?thesis using id
      by (auto simp: is_task_id_def slug_not_space split: if_splits list.splits)
  qed (use \<open>s \<noteq> []\<close> in simp)
  ultimately show ?thesis by (rule nonspace_not_blank)
qed

lemma requireTaskId_iff [result_simps]: "requireTaskId v = Inr s \<longleftrightarrow> v = JStr s \<and> is_task_id s"
  using is_task_id_not_blank by (auto simp: requireTaskId_def result_simps)

lemma requireFingerprint_iff [result_simps]:
  "requireFingerprint v = Inr s \<longleftrightarrow> v = JStr s \<and> is_fingerprint s"
  by (cases v) (auto simp: requireFingerprint_def result_simps)

lemma requirePositiveInt_iff [result_simps]: "requirePositiveInt v = Inr n \<longleftrightarrow> v = nat_val n \<and> 0 < n"
  by (auto simp: requirePositiveInt_def result_simps)

lemma is_fingerprint_not_blank: "is_fingerprint s \<Longrightarrow> \<not> blank s"
  by (cases s) (auto simp: is_fingerprint_def blank_iff hex_not_space)

lemma is_commit_sha_not_blank: "is_commit_sha s \<Longrightarrow> \<not> blank s"
  by (cases s) (auto simp: is_commit_sha_def blank_iff hex_not_space)

lemma lower_char_hex: "is_hex_lower c \<Longrightarrow> lower_char c = c"
  by (auto simp: is_hex_lower_def lower_char_def)

lemma to_lower_hex: "list_all is_hex_lower s \<Longrightarrow> to_lower s = s"
  by (induction s) (auto simp: to_lower_def lower_char_hex)

lemma to_lower_commit_sha: "is_commit_sha s \<Longrightarrow> to_lower s = s"
  by (simp add: is_commit_sha_def to_lower_hex)

lemma parseCommitSha_sound: "parseCommitSha v = Inr s \<Longrightarrow> is_commit_sha s"
  by (auto simp: parseCommitSha_def result_simps Let_def)

lemma isTaskDeliveryLevel_iff [result_simps]:
  "isTaskDeliveryLevel v = Some l \<longleftrightarrow> v = JStr (level_name l)"
  by (simp add: isTaskDeliveryLevel_def result_simps)

lemma isTaskDeliveryLevel_name [codec_rules]: "isTaskDeliveryLevel (JStr (level_name l)) = Some l"
  by (simp add: isTaskDeliveryLevel_iff)

text \<open>Reading back the elementary fields.\<close>

lemma elementary_codecs [codec_rules]:
  "\<not> blank s \<Longrightarrow> requireNonEmptyString (JStr s) = Inr s"
  "requireString True (JStr s) = Inr s"
  "is_task_id s \<Longrightarrow> requireTaskId (JStr s) = Inr s"
  "is_fingerprint s \<Longrightarrow> requireFingerprint (JStr s) = Inr s"
  "0 < n \<Longrightarrow> requirePositiveInt (nat_val n) = Inr n"
  "list_all (\<lambda>s. \<not> blank s) ss \<Longrightarrow> parseStringArray True (strs_val ss) = Inr ss"
  "list_all (\<lambda>s. \<not> blank s) ss \<Longrightarrow> ss \<noteq> [] \<Longrightarrow> parseStringArray False (strs_val ss) = Inr ss"
  by (simp_all add: result_simps)

lemma parseCommitSha_codec [codec_rules]: "is_commit_sha s \<Longrightarrow> parseCommitSha (JStr s) = Inr s"
  by (simp add: parseCommitSha_def result_simps is_commit_sha_not_blank to_lower_commit_sha)

lemma optional_string_codecs [codec_rules]:
  "pred_option (\<lambda>s. \<not> blank s) x \<Longrightarrow> nullE requireNonEmptyString (nullable JStr x) = Inr x"
  "pred_option (\<lambda>s. \<not> blank s) x \<Longrightarrow> nullishE requireNonEmptyString (nullable JStr x) = Inr x"
  "pred_option is_fingerprint x \<Longrightarrow> nullE requireFingerprint (nullable JStr x) = Inr x"
  "pred_option is_commit_sha x \<Longrightarrow> nullE parseCommitSha (nullable JStr x) = Inr x"
  "pred_option is_commit_sha x \<Longrightarrow> nullishE parseCommitSha (nullable JStr x) = Inr x"
  "pred_option is_fingerprint x \<Longrightarrow> undefE requireFingerprint (undefinable JStr x) = Inr x"
  "pred_option (\<lambda>s. \<not> blank s) x \<Longrightarrow> undefE requireNonEmptyString (undefinable JStr x) = Inr x"
  by (cases x; simp add: codec_rules nullE_def nullishE_def undefE_def)+

lemma optional_string_sound [sound_rules]:
  "nullE requireNonEmptyString v = Inr x \<Longrightarrow> pred_option (\<lambda>s. \<not> blank s) x"
  "nullishE requireNonEmptyString v = Inr x \<Longrightarrow> pred_option (\<lambda>s. \<not> blank s) x"
  "undefE requireNonEmptyString v = Inr x \<Longrightarrow> pred_option (\<lambda>s. \<not> blank s) x"
  "nullE requireFingerprint v = Inr x \<Longrightarrow> pred_option is_fingerprint x"
  "undefE requireFingerprint v = Inr x \<Longrightarrow> pred_option is_fingerprint x"
  "nullE parseCommitSha v = Inr x \<Longrightarrow> pred_option is_commit_sha x"
  "nullishE parseCommitSha v = Inr x \<Longrightarrow> pred_option is_commit_sha x"
  by (auto simp: nullE_def undefE_def nullishE_def result_simps dest: parseCommitSha_sound split: if_splits)

end
