(* ===== verification/Run_Schema.thy ===== *)
theory Run_Schema
  imports Schema_Base
begin

text \<open>
  The decoders of a Run and of everything inside it, from \<open>core/task/task-kernel-schema.ts\<close>:
  input, authorization, candidate snapshot, durations, result with its evidence verification,
  failure, workspace binding with manager, integration receipt and cleanup lease, host binding
  with stop receipt, file baseline, and \<open>parseRun\<close> itself.
\<close>

section \<open>Input, authorization, durations, failure\<close>

definition run_input_body :: "string \<Rightarrow> string list \<Rightarrow> jsval" where
  "run_input_body summary references =
     JObj [(''summary'', JStr summary), (''references'', strs_val references)]"

definition parseRunInput :: "platform \<Rightarrow> jsval \<Rightarrow> run_input outcome" where
  "parseRunInput pl v =
     bindE (parseObject v) (\<lambda>input.
     bindE (requireNonEmptyString (getprop input ''summary'')) (\<lambda>summary.
     bindE (parseStringArray True (getprop input ''references'')) (\<lambda>references.
     let expected = fingerprintTaskValue pl (run_input_body summary references) in
     throwIf (getprop input ''fingerprint'' \<noteq> JUndef \<and> getprop input ''fingerprint'' \<noteq> JStr expected)
       invalid_request
     (Inr \<lparr>inp_summary = summary, inp_references = references, inp_fingerprint = expected\<rparr>))))"

definition run_input_json :: "run_input \<Rightarrow> jsval" where
  "run_input_json i =
     JObj [(''summary'', JStr (inp_summary i)), (''references'', strs_val (inp_references i)),
           (''fingerprint'', JStr (inp_fingerprint i))]"

definition wf_run_input :: "platform \<Rightarrow> run_input \<Rightarrow> bool" where
  "wf_run_input pl i \<longleftrightarrow>
     \<not> blank (inp_summary i) \<and> list_all (\<lambda>s. \<not> blank s) (inp_references i) \<and>
     inp_fingerprint i = fingerprintTaskValue pl (run_input_body (inp_summary i) (inp_references i))"

definition parseAuthorization :: "jsval \<Rightarrow> run_authorization outcome" where
  "parseAuthorization v =
     bindE (parseObject v) (\<lambda>input.
     bindE (requireNonEmptyString (getprop input ''approvedBy'')) (\<lambda>approvedBy.
     bindE (requireNonEmptyString (getprop input ''approvedAt'')) (\<lambda>approvedAt.
     bindE (requireNonEmptyString (getprop input ''scope'')) (\<lambda>scope.
     bindE (requireNonEmptyString (getprop input ''evidenceRef'')) (\<lambda>evidenceRef.
     Inr \<lparr>auth_approvedBy = approvedBy, auth_approvedAt = approvedAt, auth_scope = scope,
          auth_evidenceRef = evidenceRef\<rparr>)))))"

definition authorization_json :: "run_authorization \<Rightarrow> jsval" where
  "authorization_json a =
     JObj [(''approvedBy'', JStr (auth_approvedBy a)), (''approvedAt'', JStr (auth_approvedAt a)),
           (''scope'', JStr (auth_scope a)), (''evidenceRef'', JStr (auth_evidenceRef a))]"

definition wf_authorization :: "run_authorization \<Rightarrow> bool" where
  "wf_authorization a \<longleftrightarrow> \<not> blank (auth_approvedBy a) \<and> \<not> blank (auth_approvedAt a) \<and>
     \<not> blank (auth_scope a) \<and> \<not> blank (auth_evidenceRef a)"

definition parse_duration :: "jsval \<Rightarrow> nat option outcome" where
  "parse_duration raw = nullishE (\<lambda>v. orThrow (isNonNegativeInt v) invalid_request Inr) raw"

definition parseDurations :: "jsval \<Rightarrow> run_durations outcome" where
  "parseDurations v =
     bindE (parseObject v) (\<lambda>input.
     bindE (parse_duration (getprop input ''executionMs'')) (\<lambda>executionMs.
     bindE (parse_duration (getprop input ''waitingMs'')) (\<lambda>waitingMs.
     bindE (parse_duration (getprop input ''reviewMs'')) (\<lambda>reviewMs.
     Inr \<lparr>dur_executionMs = executionMs, dur_waitingMs = waitingMs, dur_reviewMs = reviewMs\<rparr>))))"

definition durations_json :: "run_durations \<Rightarrow> jsval" where
  "durations_json d =
     JObj [(''executionMs'', nullable nat_val (dur_executionMs d)),
           (''waitingMs'', nullable nat_val (dur_waitingMs d)),
           (''reviewMs'', nullable nat_val (dur_reviewMs d))]"

definition parseMeasurementRefs :: "jsval \<Rightarrow> measurement_refs outcome" where
  "parseMeasurementRefs v =
     bindE (parseObject v) (\<lambda>input.
     bindE (nullishE requireNonEmptyString (getprop input ''execution'')) (\<lambda>execution.
     bindE (nullishE requireNonEmptyString (getprop input ''waiting'')) (\<lambda>waiting.
     bindE (nullishE requireNonEmptyString (getprop input ''review'')) (\<lambda>review.
     Inr \<lparr>msr_execution = execution, msr_waiting = waiting, msr_review = review\<rparr>))))"

definition measurement_refs_json :: "measurement_refs \<Rightarrow> jsval" where
  "measurement_refs_json m =
     JObj [(''execution'', nullable JStr (msr_execution m)),
           (''waiting'', nullable JStr (msr_waiting m)),
           (''review'', nullable JStr (msr_review m))]"

definition wf_measurement_refs :: "measurement_refs \<Rightarrow> bool" where
  "wf_measurement_refs m \<longleftrightarrow> pred_option (\<lambda>s. \<not> blank s) (msr_execution m) \<and>
     pred_option (\<lambda>s. \<not> blank s) (msr_waiting m) \<and> pred_option (\<lambda>s. \<not> blank s) (msr_review m)"

definition parseFailure :: "jsval \<Rightarrow> run_failure outcome" where
  "parseFailure v =
     bindE (parseObject v) (\<lambda>input.
     bindE (requireNonEmptyString (getprop input ''category'')) (\<lambda>category.
     bindE (requireNonEmptyString (getprop input ''message'')) (\<lambda>message.
     bindE (nullishE requireNonEmptyString (getprop input ''evidenceRef'')) (\<lambda>evidenceRef.
     Inr \<lparr>fail_category = category, fail_message = message, fail_evidenceRef = evidenceRef\<rparr>))))"

definition failure_json :: "run_failure \<Rightarrow> jsval" where
  "failure_json f =
     JObj [(''category'', JStr (fail_category f)), (''message'', JStr (fail_message f)),
           (''evidenceRef'', nullable JStr (fail_evidenceRef f))]"

definition wf_failure :: "run_failure \<Rightarrow> bool" where
  "wf_failure f \<longleftrightarrow> \<not> blank (fail_category f) \<and> \<not> blank (fail_message f) \<and>
     pred_option (\<lambda>s. \<not> blank s) (fail_evidenceRef f)"

lemma parseRunInput_sound [sound_rules]: "parseRunInput pl v = Inr i \<Longrightarrow> wf_run_input pl i"
  by (auto simp: parseRunInput_def wf_run_input_def result_simps Let_def)

lemma parseRunInput_codec [codec_rules]:
  "wf_run_input pl i \<Longrightarrow> parseRunInput pl (run_input_json i) = Inr i"
  by (simp add: parseRunInput_def run_input_json_def wf_run_input_def codec_rules)

lemma parseAuthorization_sound [sound_rules]: "parseAuthorization v = Inr a \<Longrightarrow> wf_authorization a"
  by (auto simp: parseAuthorization_def wf_authorization_def result_simps)

lemma parseAuthorization_codec [codec_rules]:
  "wf_authorization a \<Longrightarrow> parseAuthorization (authorization_json a) = Inr a"
  by (simp add: parseAuthorization_def authorization_json_def wf_authorization_def codec_rules)

lemma parse_duration_codec [codec_rules]: "parse_duration (nullable nat_val x) = Inr x"
  unfolding parse_duration_def by (rule nullishE_nullable [of "\<lambda>_. True"]) (simp_all add: option.pred_True)

lemma parseDurations_codec [codec_rules]: "parseDurations (durations_json d) = Inr d"
  by (simp add: parseDurations_def durations_json_def codec_rules)

lemma parseMeasurementRefs_sound [sound_rules]:
  "parseMeasurementRefs v = Inr m \<Longrightarrow> wf_measurement_refs m"
  by (auto simp: parseMeasurementRefs_def wf_measurement_refs_def result_simps dest: sound_rules)

lemma parseMeasurementRefs_codec [codec_rules]:
  "wf_measurement_refs m \<Longrightarrow> parseMeasurementRefs (measurement_refs_json m) = Inr m"
  by (simp add: parseMeasurementRefs_def measurement_refs_json_def wf_measurement_refs_def codec_rules)

lemma parseFailure_sound [sound_rules]: "parseFailure v = Inr f \<Longrightarrow> wf_failure f"
  by (auto simp: parseFailure_def wf_failure_def result_simps dest: sound_rules)

lemma parseFailure_codec [codec_rules]: "wf_failure f \<Longrightarrow> parseFailure (failure_json f) = Inr f"
  by (simp add: parseFailure_def failure_json_def wf_failure_def codec_rules)

section \<open>Candidate snapshots\<close>

definition parse_entry :: "jsval \<Rightarrow> snapshot_entry outcome" where
  "parse_entry v =
     bindE (parseObject v) (\<lambda>input.
     bindE (requireNonEmptyString (getprop input ''ref'')) (\<lambda>ref.
     bindE (requireFingerprint (getprop input ''fingerprint'')) (\<lambda>fingerprint.
     Inr \<lparr>ent_ref = ref, ent_fingerprint = fingerprint\<rparr>)))"

definition entry_json :: "snapshot_entry \<Rightarrow> jsval" where
  "entry_json e = JObj [(''ref'', JStr (ent_ref e)), (''fingerprint'', JStr (ent_fingerprint e))]"

definition wf_entry :: "snapshot_entry \<Rightarrow> bool" where
  "wf_entry e \<longleftrightarrow> \<not> blank (ent_ref e) \<and> is_fingerprint (ent_fingerprint e)"

definition by_ref :: "platform \<Rightarrow> snapshot_entry comparator" where
  "by_ref pl = Comparator.key ent_ref (localeCmp pl)"

definition parseSnapshotEntries :: "platform \<Rightarrow> jsval \<Rightarrow> snapshot_entry list outcome" where
  "parseSnapshotEntries pl v =
     bindE (parseArray invalid_request v) (\<lambda>vs.
     bindE (mapE parse_entry vs) (\<lambda>parsed.
     let entries = Sorting_Algorithms.sort (by_ref pl) parsed in
     throwIf (has_duplicates (map ent_ref entries)) invalid_request (Inr entries)))"

definition entries_json :: "snapshot_entry list \<Rightarrow> jsval" where
  "entries_json es = JArr (map entry_json es)"

definition wf_entries :: "platform \<Rightarrow> snapshot_entry list \<Rightarrow> bool" where
  "wf_entries pl es \<longleftrightarrow> list_all wf_entry es \<and> Sorting_Algorithms.sorted (by_ref pl) es \<and>
     distinct (map ent_ref es)"

definition parseCandidateSnapshot :: "platform \<Rightarrow> jsval \<Rightarrow> candidate_snapshot outcome" where
  "parseCandidateSnapshot pl v =
     bindE (parseObject v) (\<lambda>input.
     bindE (parseSnapshotEntries pl (getprop input ''entries'')) (\<lambda>entries.
     throwIf (entries = []) corrupt
     (let fingerprint = fingerprintTaskValue pl (entries_json entries) in
     throwIf (getprop input ''fingerprint'' \<noteq> JStr fingerprint) corrupt
     (bindE (requireNonEmptyString (getprop input ''id'')) (\<lambda>id.
     Inr \<lparr>cand_id = id, cand_entries = entries, cand_fingerprint = fingerprint\<rparr>)))))"

definition candidate_json :: "candidate_snapshot \<Rightarrow> jsval" where
  "candidate_json c =
     JObj [(''id'', JStr (cand_id c)), (''entries'', entries_json (cand_entries c)),
           (''fingerprint'', JStr (cand_fingerprint c))]"

definition wf_candidate :: "platform \<Rightarrow> candidate_snapshot \<Rightarrow> bool" where
  "wf_candidate pl c \<longleftrightarrow> \<not> blank (cand_id c) \<and> wf_entries pl (cand_entries c) \<and>
     cand_entries c \<noteq> [] \<and>
     cand_fingerprint c = fingerprintTaskValue pl (entries_json (cand_entries c))"

text \<open>\<open>createTaskCandidateSnapshot(entries)\<close>, with the ticket of its random id.\<close>

definition createTaskCandidateSnapshot ::
    "platform \<Rightarrow> jsval \<Rightarrow> nat \<Rightarrow> (candidate_snapshot \<times> nat) outcome" where
  "createTaskCandidateSnapshot pl v n =
     bindE (parseSnapshotEntries pl v) (\<lambda>parsed.
     throwIf (parsed = []) invalid_request
     (Inr (\<lparr>cand_id = randomUUID pl n, cand_entries = parsed,
            cand_fingerprint = fingerprintTaskValue pl (entries_json parsed)\<rparr>, n + 1)))"

lemma parse_entry_sound: "parse_entry v = Inr e \<Longrightarrow> wf_entry e"
  by (auto simp: parse_entry_def wf_entry_def result_simps)

lemma parse_entry_codec: "wf_entry e \<Longrightarrow> parse_entry (entry_json e) = Inr e"
  by (simp add: parse_entry_def entry_json_def wf_entry_def codec_rules)

lemma sort_sorted_id: "Sorting_Algorithms.sorted cmp xs \<Longrightarrow> Sorting_Algorithms.sort cmp xs = xs"
  by (rule sort_eqI) simp_all

lemma list_all_sort: "list_all P xs \<Longrightarrow> list_all P (Sorting_Algorithms.sort cmp xs)"
  by (simp add: list_all_iff)

lemma parseSnapshotEntries_sound [sound_rules]: "parseSnapshotEntries pl v = Inr es \<Longrightarrow> wf_entries pl es"
  by (auto simp: parseSnapshotEntries_def wf_entries_def result_simps Let_def
      intro!: list_all_sort elim!: mapE_all intro: parse_entry_sound)

lemma parseSnapshotEntries_codec [codec_rules]:
  assumes "wf_entries pl es"
  shows "parseSnapshotEntries pl (entries_json es) = Inr es"
proof -
  have "mapE parse_entry (map entry_json es) = Inr es"
    using assms by (intro mapE_map_id parse_entry_codec) (auto simp: wf_entries_def list_all_iff)
  then show ?thesis
    using assms by (simp add: parseSnapshotEntries_def entries_json_def sort_sorted_id wf_entries_def)
qed

lemma parseCandidateSnapshot_sound [sound_rules]:
  "parseCandidateSnapshot pl v = Inr c \<Longrightarrow> wf_candidate pl c"
  by (auto simp: parseCandidateSnapshot_def wf_candidate_def result_simps Let_def dest: sound_rules)

lemma candidate_json_neq [simp]:
  "candidate_json c \<noteq> JNull" "candidate_json c \<noteq> JUndef" "failure_json f \<noteq> JNull"
  by (simp_all add: candidate_json_def failure_json_def)

lemma parseCandidateSnapshot_codec [codec_rules]:
  "wf_candidate pl c \<Longrightarrow> parseCandidateSnapshot pl (candidate_json c) = Inr c"
  by (simp add: parseCandidateSnapshot_def candidate_json_def wf_candidate_def codec_rules)

lemma createTaskCandidateSnapshot_wf [sound_rules]:
  "createTaskCandidateSnapshot pl v n = Inr (c, m) \<Longrightarrow> \<not> blank (randomUUID pl n) \<Longrightarrow>
     wf_candidate pl c \<and> m = n + 1 \<and> cand_id c = randomUUID pl n"
  by (auto simp: createTaskCandidateSnapshot_def wf_candidate_def result_simps dest: sound_rules)

section \<open>Results and their evidence\<close>

definition parse_run_evidence_item :: "jsval \<Rightarrow> run_evidence_item outcome" where
  "parse_run_evidence_item v =
     bindE (parseObject v) (\<lambda>item.
     orThrow (enum_of run_evidence_source_name RUN_EVIDENCE_SOURCES (getprop item ''source'')) corrupt (\<lambda>source.
     orThrow (isNonNegativeInt (getprop item ''sizeBytes'')) corrupt (\<lambda>sizeBytes.
     throwIf (8 * 1024 * 1024 < sizeBytes) corrupt
     (bindE (requireNonEmptyString (getprop item ''ref'')) (\<lambda>ref.
     bindE (requireFingerprint (getprop item ''sha256'')) (\<lambda>sha256.
     Inr \<lparr>rei_ref = ref, rei_sha256 = sha256, rei_sizeBytes = sizeBytes, rei_source = source\<rparr>))))))"

definition run_evidence_item_json :: "run_evidence_item \<Rightarrow> jsval" where
  "run_evidence_item_json i =
     JObj [(''ref'', JStr (rei_ref i)), (''sha256'', JStr (rei_sha256 i)),
           (''sizeBytes'', nat_val (rei_sizeBytes i)),
           (''source'', JStr (run_evidence_source_name (rei_source i)))]"

definition wf_run_evidence_item :: "run_evidence_item \<Rightarrow> bool" where
  "wf_run_evidence_item i \<longleftrightarrow> \<not> blank (rei_ref i) \<and> is_fingerprint (rei_sha256 i) \<and>
     rei_sizeBytes i \<le> 8 * 1024 * 1024"

definition parseTaskRunEvidenceVerificationV1 :: "jsval \<Rightarrow> run_evidence_verification outcome" where
  "parseTaskRunEvidenceVerificationV1 v =
     bindE (parseObject v) (\<lambda>input.
     throwIf (getprop input ''schemaVersion'' \<noteq> nat_val 1 \<or>
              getprop input ''source'' \<noteq> JStr ''pactile-task-run-evidence-v1'') corrupt
     (bindE (parseArray corrupt (getprop input ''items'')) (\<lambda>raw.
     throwIf (128 < length raw) corrupt
     (bindE (mapE parse_run_evidence_item raw) (\<lambda>items.
     throwIf (has_duplicates (map rei_ref items)) corrupt
     (throwIf (32 * 1024 * 1024 < sum_list (map rei_sizeBytes items)) corrupt
     (bindE (requireNonEmptyString (getprop input ''observedAt'')) (\<lambda>observedAt.
     bindE (requireNonEmptyString (getprop input ''runId'')) (\<lambda>runId.
     bindE (requireNonEmptyString (getprop input ''candidateSnapshotId'')) (\<lambda>candidateSnapshotId.
     bindE (requireFingerprint (getprop input ''candidateFingerprint'')) (\<lambda>candidateFingerprint.
     Inr \<lparr>rver_observedAt = observedAt, rver_runId = runId,
          rver_candidateSnapshotId = candidateSnapshotId,
          rver_candidateFingerprint = candidateFingerprint, rver_items = items\<rparr>)))))))))))"

definition run_evidence_verification_json :: "run_evidence_verification \<Rightarrow> jsval" where
  "run_evidence_verification_json r =
     JObj [(''schemaVersion'', nat_val 1), (''source'', JStr ''pactile-task-run-evidence-v1''),
           (''observedAt'', JStr (rver_observedAt r)), (''runId'', JStr (rver_runId r)),
           (''candidateSnapshotId'', JStr (rver_candidateSnapshotId r)),
           (''candidateFingerprint'', JStr (rver_candidateFingerprint r)),
           (''items'', JArr (map run_evidence_item_json (rver_items r)))]"

definition wf_run_evidence_verification :: "run_evidence_verification \<Rightarrow> bool" where
  "wf_run_evidence_verification r \<longleftrightarrow>
     \<not> blank (rver_observedAt r) \<and> \<not> blank (rver_runId r) \<and> \<not> blank (rver_candidateSnapshotId r) \<and>
     is_fingerprint (rver_candidateFingerprint r) \<and>
     list_all wf_run_evidence_item (rver_items r) \<and> length (rver_items r) \<le> 128 \<and>
     distinct (map rei_ref (rver_items r)) \<and>
     sum_list (map rei_sizeBytes (rver_items r)) \<le> 32 * 1024 * 1024"

definition parseRunResult :: "jsval \<Rightarrow> run_result outcome" where
  "parseRunResult v =
     bindE (parseObject v) (\<lambda>input.
     bindE (parseStringArray True (getprop input ''evidenceRefs'')) (\<lambda>evidenceRefs.
     bindE (undefE parseTaskRunEvidenceVerificationV1 (getprop input ''evidenceVerification'')) (\<lambda>verification.
     bindE (requireNonEmptyString (getprop input ''summary'')) (\<lambda>summary.
     Inr \<lparr>res_summary = summary, res_evidenceRefs = evidenceRefs,
          res_evidenceVerification = verification\<rparr>))))"

definition run_result_json :: "run_result \<Rightarrow> jsval" where
  "run_result_json r =
     JObj ((''summary'', JStr (res_summary r)) # (''evidenceRefs'', strs_val (res_evidenceRefs r)) #
           optional_prop ''evidenceVerification'' run_evidence_verification_json (res_evidenceVerification r))"

definition wf_run_result :: "run_result \<Rightarrow> bool" where
  "wf_run_result r \<longleftrightarrow> \<not> blank (res_summary r) \<and> list_all (\<lambda>s. \<not> blank s) (res_evidenceRefs r) \<and>
     pred_option wf_run_evidence_verification (res_evidenceVerification r)"

lemma run_evidence_verification_json_neq [simp]: "run_evidence_verification_json r \<noteq> JUndef"
  by (simp add: run_evidence_verification_json_def)

lemma parse_run_evidence_item_sound: "parse_run_evidence_item v = Inr i \<Longrightarrow> wf_run_evidence_item i"
  by (auto simp: parse_run_evidence_item_def wf_run_evidence_item_def result_simps)

lemma parse_run_evidence_item_codec:
  "wf_run_evidence_item i \<Longrightarrow> parse_run_evidence_item (run_evidence_item_json i) = Inr i"
  by (simp add: parse_run_evidence_item_def run_evidence_item_json_def wf_run_evidence_item_def codec_rules)

lemma parseTaskRunEvidenceVerificationV1_sound [sound_rules]:
  "parseTaskRunEvidenceVerificationV1 v = Inr r \<Longrightarrow> wf_run_evidence_verification r"
  by (auto simp: parseTaskRunEvidenceVerificationV1_def wf_run_evidence_verification_def result_simps
      dest: mapE_length elim!: mapE_all intro: parse_run_evidence_item_sound)

lemma parseTaskRunEvidenceVerificationV1_codec [codec_rules]:
  assumes "wf_run_evidence_verification r"
  shows "parseTaskRunEvidenceVerificationV1 (run_evidence_verification_json r) = Inr r"
proof -
  have "mapE parse_run_evidence_item (map run_evidence_item_json (rver_items r)) = Inr (rver_items r)"
    using assms by (intro mapE_map_id parse_run_evidence_item_codec)
      (auto simp: wf_run_evidence_verification_def list_all_iff)
  then show ?thesis
    using assms by (simp add: parseTaskRunEvidenceVerificationV1_def run_evidence_verification_json_def
        wf_run_evidence_verification_def codec_rules)
qed

lemma parseRunResult_sound [sound_rules]: "parseRunResult v = Inr r \<Longrightarrow> wf_run_result r"
  by (auto simp: parseRunResult_def wf_run_result_def result_simps
      elim!: undefE_sound intro: parseTaskRunEvidenceVerificationV1_sound)

lemma parseRunResult_codec [codec_rules]:
  assumes "wf_run_result r"
  shows "parseRunResult (run_result_json r) = Inr r"
proof -
  have "undefE parseTaskRunEvidenceVerificationV1
      (undefinable run_evidence_verification_json (res_evidenceVerification r)) =
      Inr (res_evidenceVerification r)"
    using assms by (intro undefE_undefinable [of wf_run_evidence_verification])
      (simp_all add: wf_run_result_def codec_rules)
  then show ?thesis
    using assms by (simp add: parseRunResult_def run_result_json_def wf_run_result_def codec_rules)
qed

lemma run_result_json_neq [simp]: "run_result_json r \<noteq> JNull"
  by (simp add: run_result_json_def)

section \<open>Workspace bindings\<close>

definition require_absolute :: "platform \<Rightarrow> failure \<Rightarrow> jsval \<Rightarrow> string outcome" where
  "require_absolute pl e v =
     bindE (requireNonEmptyString v) (\<lambda>s. throwIf (\<not> isAbsolute pl s) e (Inr s))"

definition parseWorkspaceManagerBinding :: "platform \<Rightarrow> jsval \<Rightarrow> manager_binding outcome" where
  "parseWorkspaceManagerBinding pl v =
     bindE (parseObject v) (\<lambda>input.
     throwIf (getprop input ''version'' \<noteq> nat_val 1) corrupt
     (orThrow (enum_of manager_source_name MANAGER_SOURCES (getprop input ''source'')) corrupt (\<lambda>source.
     bindE (require_absolute pl corrupt (getprop input ''projectRoot'')) (\<lambda>projectRoot.
     bindE (require_absolute pl corrupt (getprop input ''commonDir'')) (\<lambda>commonDir.
     bindE (require_absolute pl corrupt (getprop input ''gitDir'')) (\<lambda>gitDir.
     bindE (requireNonEmptyString (getprop input ''credentialId'')) (\<lambda>credentialId.
     bindE (requireNonEmptyString (getprop input ''recordedAt'')) (\<lambda>recordedAt.
     Inr \<lparr>mgr_credentialId = credentialId, mgr_projectRoot = projectRoot, mgr_commonDir = commonDir,
          mgr_gitDir = gitDir, mgr_source = source, mgr_recordedAt = recordedAt\<rparr>))))))))"

definition manager_json :: "manager_binding \<Rightarrow> jsval" where
  "manager_json m =
     JObj [(''version'', nat_val 1), (''credentialId'', JStr (mgr_credentialId m)),
           (''projectRoot'', JStr (mgr_projectRoot m)), (''commonDir'', JStr (mgr_commonDir m)),
           (''gitDir'', JStr (mgr_gitDir m)), (''source'', JStr (manager_source_name (mgr_source m))),
           (''recordedAt'', JStr (mgr_recordedAt m))]"

definition wf_manager :: "platform \<Rightarrow> manager_binding \<Rightarrow> bool" where
  "wf_manager pl m \<longleftrightarrow> \<not> blank (mgr_credentialId m) \<and> \<not> blank (mgr_recordedAt m) \<and>
     \<not> blank (mgr_projectRoot m) \<and> isAbsolute pl (mgr_projectRoot m) \<and>
     \<not> blank (mgr_commonDir m) \<and> isAbsolute pl (mgr_commonDir m) \<and>
     \<not> blank (mgr_gitDir m) \<and> isAbsolute pl (mgr_gitDir m)"

definition parseWorkspaceIntegrationReceipt :: "jsval \<Rightarrow> integration_receipt outcome" where
  "parseWorkspaceIntegrationReceipt v =
     bindE (parseObject v) (\<lambda>input.
     bindE (requireNonEmptyString (getprop input ''runId'')) (\<lambda>runId.
     bindE (requireNonEmptyString (getprop input ''worktreeHeadSha'')) (\<lambda>worktreeHeadSha.
     bindE (requireNonEmptyString (getprop input ''targetRef'')) (\<lambda>targetRef.
     bindE (requireNonEmptyString (getprop input ''targetBranch'')) (\<lambda>targetBranch.
     bindE (requireNonEmptyString (getprop input ''targetHeadSha'')) (\<lambda>targetHeadSha.
     bindE (requireNonEmptyString (getprop input ''verifiedAt'')) (\<lambda>verifiedAt.
     bindE (parseStringArray False (getprop input ''resultEvidenceRefs'')) (\<lambda>resultEvidenceRefs.
     bindE (requireNonEmptyString (getprop input ''candidateSnapshotId'')) (\<lambda>candidateSnapshotId.
     bindE (requireFingerprint (getprop input ''candidateFingerprint'')) (\<lambda>candidateFingerprint.
     bindE (undefE requireFingerprint (getprop input ''contentFingerprint'')) (\<lambda>contentFingerprint.
     Inr \<lparr>rcpt_runId = runId, rcpt_worktreeHeadSha = worktreeHeadSha, rcpt_targetRef = targetRef,
          rcpt_targetBranch = targetBranch, rcpt_targetHeadSha = targetHeadSha,
          rcpt_verifiedAt = verifiedAt, rcpt_resultEvidenceRefs = resultEvidenceRefs,
          rcpt_candidateSnapshotId = candidateSnapshotId,
          rcpt_candidateFingerprint = candidateFingerprint,
          rcpt_contentFingerprint = contentFingerprint\<rparr>)))))))))))"

definition receipt_json :: "integration_receipt \<Rightarrow> jsval" where
  "receipt_json r =
     JObj ([(''runId'', JStr (rcpt_runId r)), (''worktreeHeadSha'', JStr (rcpt_worktreeHeadSha r)),
            (''targetRef'', JStr (rcpt_targetRef r)), (''targetBranch'', JStr (rcpt_targetBranch r)),
            (''targetHeadSha'', JStr (rcpt_targetHeadSha r)), (''verifiedAt'', JStr (rcpt_verifiedAt r)),
            (''resultEvidenceRefs'', strs_val (rcpt_resultEvidenceRefs r)),
            (''candidateSnapshotId'', JStr (rcpt_candidateSnapshotId r)),
            (''candidateFingerprint'', JStr (rcpt_candidateFingerprint r))] @
           optional_prop ''contentFingerprint'' JStr (rcpt_contentFingerprint r))"

definition wf_receipt :: "integration_receipt \<Rightarrow> bool" where
  "wf_receipt r \<longleftrightarrow> \<not> blank (rcpt_runId r) \<and> \<not> blank (rcpt_worktreeHeadSha r) \<and>
     \<not> blank (rcpt_targetRef r) \<and> \<not> blank (rcpt_targetBranch r) \<and> \<not> blank (rcpt_targetHeadSha r) \<and>
     \<not> blank (rcpt_verifiedAt r) \<and> rcpt_resultEvidenceRefs r \<noteq> [] \<and>
     list_all (\<lambda>s. \<not> blank s) (rcpt_resultEvidenceRefs r) \<and> \<not> blank (rcpt_candidateSnapshotId r) \<and>
     is_fingerprint (rcpt_candidateFingerprint r) \<and> pred_option is_fingerprint (rcpt_contentFingerprint r)"

definition parseWorkspaceCleanupLease :: "jsval \<Rightarrow> cleanup_lease outcome" where
  "parseWorkspaceCleanupLease v =
     bindE (parseObject v) (\<lambda>input.
     throwIf (getprop input ''riskDisclosure'' \<noteq> JUndef \<and>
              getprop input ''riskDisclosure'' \<noteq> JStr TASK_RUN_WORKSPACE_CLEANUP_RISK_DISCLOSURE) corrupt
     (orThrow (enum_of lease_state_name LEASE_STATES (getprop input ''state'')) corrupt (\<lambda>state.
     orThrow (isNonNegativeInt (getprop input ''processId'')) corrupt (\<lambda>processId.
     throwIf (processId = 0) corrupt
     (bindE (requireNonEmptyString (getprop input ''leaseId'')) (\<lambda>leaseId.
     bindE (requireNonEmptyString (getprop input ''acquiredAt'')) (\<lambda>acquiredAt.
     bindE (requireNonEmptyString (getprop input ''expectedHeadSha'')) (\<lambda>expectedHeadSha.
     bindE (requireNonEmptyString (getprop input ''targetBranch'')) (\<lambda>targetBranch.
     bindE (requireNonEmptyString (getprop input ''targetHeadSha'')) (\<lambda>targetHeadSha.
     bindE (requireNonEmptyString (getprop input ''receiptRef'')) (\<lambda>receiptRef.
     bindE (nullE requireNonEmptyString (getprop input ''reason'')) (\<lambda>reason.
     bindE (undefE requireNonEmptyString (getprop input ''riskDisclosure'')) (\<lambda>riskDisclosure.
     Inr \<lparr>lease_leaseId = leaseId, lease_state = state, lease_processId = processId,
          lease_acquiredAt = acquiredAt, lease_expectedHeadSha = expectedHeadSha,
          lease_targetBranch = targetBranch, lease_targetHeadSha = targetHeadSha,
          lease_receiptRef = receiptRef, lease_reason = reason,
          lease_riskDisclosure = riskDisclosure\<rparr>)))))))))))))"

definition lease_json :: "cleanup_lease \<Rightarrow> jsval" where
  "lease_json l =
     JObj ([(''leaseId'', JStr (lease_leaseId l)), (''state'', JStr (lease_state_name (lease_state l))),
            (''processId'', nat_val (lease_processId l)), (''acquiredAt'', JStr (lease_acquiredAt l)),
            (''expectedHeadSha'', JStr (lease_expectedHeadSha l)),
            (''targetBranch'', JStr (lease_targetBranch l)),
            (''targetHeadSha'', JStr (lease_targetHeadSha l)), (''receiptRef'', JStr (lease_receiptRef l)),
            (''reason'', nullable JStr (lease_reason l))] @
           optional_prop ''riskDisclosure'' JStr (lease_riskDisclosure l))"

definition wf_lease :: "cleanup_lease \<Rightarrow> bool" where
  "wf_lease l \<longleftrightarrow> \<not> blank (lease_leaseId l) \<and> 0 < lease_processId l \<and> \<not> blank (lease_acquiredAt l) \<and>
     \<not> blank (lease_expectedHeadSha l) \<and> \<not> blank (lease_targetBranch l) \<and>
     \<not> blank (lease_targetHeadSha l) \<and> \<not> blank (lease_receiptRef l) \<and>
     pred_option (\<lambda>s. \<not> blank s) (lease_reason l) \<and>
     pred_option (\<lambda>s. s = TASK_RUN_WORKSPACE_CLEANUP_RISK_DISCLOSURE) (lease_riskDisclosure l)"

text \<open>
  \<open>String(value)\<close> where \<open>parseWorkspaceBinding\<close> compares it: a string is itself, an array
  its elements joined by commas.  An array of one name passes the test and is kept as it is;
  the model keeps the name.  Other values never print a reclamation state.
\<close>

fun js_String :: "jsval \<Rightarrow> string" where
  "js_String (JStr s) = s"
| "js_String (JArr vs) = join_with '','' (map (\<lambda>v. if is_nullish v then [] else js_String v) vs)"
| "js_String (JNum n) = num_text n"
| "js_String (JBool b) = (if b then ''true'' else ''false'')"
| "js_String JNull = ''null''"
| "js_String JUndef = ''undefined''"
| "js_String (JObj _) = ''[object Object]''"

definition parseWorkspaceBinding :: "platform \<Rightarrow> string \<Rightarrow> jsval \<Rightarrow> workspace_binding outcome" where
  "parseWorkspaceBinding pl runId v =
     bindE (parseObject v) (\<lambda>input.
     throwIf (getprop input ''ownerRunId'' \<noteq> JStr runId) corrupt
     (bindE (require_absolute pl invalid_request (getprop input ''canonicalPath'')) (\<lambda>canonicalPath.
     orThrow (enum_of integration_state_name INTEGRATION_STATES (getprop input ''integrationState'')) corrupt
       (\<lambda>integrationState.
     orThrow (List.find (\<lambda>x. reclamation_state_name x = js_String (getprop input ''reclamationState''))
         RECLAMATION_STATES) corrupt (\<lambda>reclamationState.
     bindE (requireNonEmptyString (getprop input ''branch'')) (\<lambda>branch.
     bindE (requireNonEmptyString (getprop input ''baseSha'')) (\<lambda>baseSha.
     bindE (parseStringArray True (getprop input ''writeSet'')) (\<lambda>writeSet.
     bindE (nullishE (parseWorkspaceManagerBinding pl) (getprop input ''manager'')) (\<lambda>manager.
     bindE (nullishE parseWorkspaceIntegrationReceipt (getprop input ''integrationReceipt'')) (\<lambda>receipt.
     bindE (nullishE parseWorkspaceCleanupLease (getprop input ''cleanupLease'')) (\<lambda>lease.
     Inr \<lparr>ws_ownerRunId = runId, ws_canonicalPath = canonicalPath, ws_branch = branch,
          ws_baseSha = baseSha, ws_writeSet = writeSet, ws_integrationState = integrationState,
          ws_reclamationState = reclamationState, ws_manager = manager,
          ws_integrationReceipt = receipt, ws_cleanupLease = lease\<rparr>)))))))))))"

definition workspace_json :: "workspace_binding \<Rightarrow> jsval" where
  "workspace_json w =
     JObj [(''ownerRunId'', JStr (ws_ownerRunId w)), (''canonicalPath'', JStr (ws_canonicalPath w)),
           (''branch'', JStr (ws_branch w)), (''baseSha'', JStr (ws_baseSha w)),
           (''writeSet'', strs_val (ws_writeSet w)),
           (''integrationState'', JStr (integration_state_name (ws_integrationState w))),
           (''reclamationState'', JStr (reclamation_state_name (ws_reclamationState w))),
           (''manager'', nullable manager_json (ws_manager w)),
           (''integrationReceipt'', nullable receipt_json (ws_integrationReceipt w)),
           (''cleanupLease'', nullable lease_json (ws_cleanupLease w))]"

definition wf_workspace :: "platform \<Rightarrow> string \<Rightarrow> workspace_binding \<Rightarrow> bool" where
  "wf_workspace pl runId w \<longleftrightarrow> ws_ownerRunId w = runId \<and>
     \<not> blank (ws_canonicalPath w) \<and> isAbsolute pl (ws_canonicalPath w) \<and>
     \<not> blank (ws_branch w) \<and> \<not> blank (ws_baseSha w) \<and> list_all (\<lambda>s. \<not> blank s) (ws_writeSet w) \<and>
     pred_option (wf_manager pl) (ws_manager w) \<and> pred_option wf_receipt (ws_integrationReceipt w) \<and>
     pred_option wf_lease (ws_cleanupLease w)"

lemma json_neq [simp]:
  "\<not> is_nullish (manager_json m)" "\<not> is_nullish (receipt_json r)" "\<not> is_nullish (lease_json l)"
  "workspace_json w \<noteq> JNull"
  by (simp_all add: manager_json_def receipt_json_def lease_json_def workspace_json_def)

lemma require_absolute_iff [result_simps]:
  "require_absolute pl e v = Inr s \<longleftrightarrow> v = JStr s \<and> \<not> blank s \<and> isAbsolute pl s"
  by (auto simp: require_absolute_def result_simps)

lemma parseWorkspaceManagerBinding_sound [sound_rules]:
  "parseWorkspaceManagerBinding pl v = Inr m \<Longrightarrow> wf_manager pl m"
  by (auto simp: parseWorkspaceManagerBinding_def wf_manager_def result_simps)

lemma parseWorkspaceManagerBinding_codec [codec_rules]:
  "wf_manager pl m \<Longrightarrow> parseWorkspaceManagerBinding pl (manager_json m) = Inr m"
  by (simp add: parseWorkspaceManagerBinding_def manager_json_def wf_manager_def require_absolute_def
      codec_rules)

lemma parseWorkspaceIntegrationReceipt_sound [sound_rules]:
  "parseWorkspaceIntegrationReceipt v = Inr r \<Longrightarrow> wf_receipt r"
  by (auto simp: parseWorkspaceIntegrationReceipt_def wf_receipt_def result_simps dest: sound_rules)

lemma parseWorkspaceIntegrationReceipt_codec [codec_rules]:
  "wf_receipt r \<Longrightarrow> parseWorkspaceIntegrationReceipt (receipt_json r) = Inr r"
  by (simp add: parseWorkspaceIntegrationReceipt_def receipt_json_def wf_receipt_def codec_rules)

lemma parseWorkspaceCleanupLease_sound [sound_rules]:
  "parseWorkspaceCleanupLease v = Inr l \<Longrightarrow> wf_lease l"
  by (auto simp: parseWorkspaceCleanupLease_def wf_lease_def result_simps undefE_def
      dest: sound_rules split: if_splits)

lemma parseWorkspaceCleanupLease_codec [codec_rules]:
  "wf_lease l \<Longrightarrow> parseWorkspaceCleanupLease (lease_json l) = Inr l"
  by (cases "lease_riskDisclosure l")
     (simp_all add: parseWorkspaceCleanupLease_def lease_json_def wf_lease_def codec_rules)

lemma parseWorkspaceBinding_sound [sound_rules]:
  "parseWorkspaceBinding pl runId v = Inr w \<Longrightarrow> wf_workspace pl runId w"
  by (auto simp: parseWorkspaceBinding_def wf_workspace_def result_simps
      elim!: nullishE_sound intro: sound_rules)

lemma find_reclamation_state [simp]:
  "List.find (\<lambda>x. reclamation_state_name x = reclamation_state_name y) RECLAMATION_STATES = Some y"
  by (cases y) (simp_all add: RECLAMATION_STATES_def)

lemma parseWorkspaceBinding_codec [codec_rules]:
  assumes "wf_workspace pl runId w"
  shows "parseWorkspaceBinding pl runId (workspace_json w) = Inr w"
proof -
  have "nullishE (parseWorkspaceManagerBinding pl) (nullable manager_json (ws_manager w)) = Inr (ws_manager w)"
    using assms by (intro nullishE_nullable [of "wf_manager pl"]) (simp_all add: wf_workspace_def codec_rules)
  moreover have "nullishE parseWorkspaceIntegrationReceipt (nullable receipt_json (ws_integrationReceipt w)) =
      Inr (ws_integrationReceipt w)"
    using assms by (intro nullishE_nullable [of wf_receipt]) (simp_all add: wf_workspace_def codec_rules)
  moreover have "nullishE parseWorkspaceCleanupLease (nullable lease_json (ws_cleanupLease w)) =
      Inr (ws_cleanupLease w)"
    using assms by (intro nullishE_nullable [of wf_lease]) (simp_all add: wf_workspace_def codec_rules)
  ultimately show ?thesis
    using assms by (simp add: parseWorkspaceBinding_def workspace_json_def wf_workspace_def
        require_absolute_def codec_rules)
qed

section \<open>Host bindings\<close>

definition parseHostStopReceipt :: "jsval \<Rightarrow> host_stop_receipt outcome" where
  "parseHostStopReceipt v =
     bindE (parseObject v) (\<lambda>input.
     orThrow (case getprop input ''contractStale'' of JBool b \<Rightarrow> Some b | _ \<Rightarrow> None) corrupt (\<lambda>contractStale.
     orThrow (isNonNegativeInt (getprop input ''requestKernelRevision'')) corrupt (\<lambda>requestKernelRevision.
     orThrow (isNonNegativeInt (getprop input ''receiptKernelRevision'')) corrupt (\<lambda>receiptKernelRevision.
     bindE (nullE (\<lambda>x. orThrow (enum_of stop_candidate_source_name STOP_CANDIDATE_SOURCES x) corrupt Inr)
         (getprop input ''candidateSource'')) (\<lambda>candidateSource.
     bindE (requireNonEmptyString (getprop input ''source'')) (\<lambda>source.
     bindE (requireNonEmptyString (getprop input ''assurance'')) (\<lambda>assurance.
     bindE (requireNonEmptyString (getprop input ''evidenceLevel'')) (\<lambda>evidenceLevel.
     bindE (requireTaskId (getprop input ''taskId'')) (\<lambda>taskId.
     bindE (requireNonEmptyString (getprop input ''runId'')) (\<lambda>runId.
     bindE (nullE requireNonEmptyString (getprop input ''sessionId'')) (\<lambda>sessionId.
     bindE (nullE requireNonEmptyString (getprop input ''threadId'')) (\<lambda>threadId.
     bindE (requireNonEmptyString (getprop input ''startRequestId'')) (\<lambda>startRequestId.
     bindE (requireNonEmptyString (getprop input ''settleReceiptId'')) (\<lambda>settleReceiptId.
     bindE (requireNonEmptyString (getprop input ''terminalStatus'')) (\<lambda>terminalStatus.
     bindE (requireFingerprint (getprop input ''contractFingerprint'')) (\<lambda>contractFingerprint.
     bindE (nullE requireNonEmptyString (getprop input ''candidateSnapshotId'')) (\<lambda>candidateSnapshotId.
     bindE (nullE requireFingerprint (getprop input ''candidateFingerprint'')) (\<lambda>candidateFingerprint.
     bindE (requireNonEmptyString (getprop input ''receiptRef'')) (\<lambda>receiptRef.
     bindE (requireNonEmptyString (getprop input ''evidenceRef'')) (\<lambda>evidenceRef.
     bindE (requireNonEmptyString (getprop input ''recordedAt'')) (\<lambda>recordedAt.
     Inr \<lparr>stop_source = source, stop_assurance = assurance, stop_evidenceLevel = evidenceLevel,
          stop_taskId = taskId, stop_runId = runId, stop_sessionId = sessionId, stop_threadId = threadId,
          stop_startRequestId = startRequestId, stop_settleReceiptId = settleReceiptId,
          stop_terminalStatus = terminalStatus, stop_requestKernelRevision = requestKernelRevision,
          stop_receiptKernelRevision = receiptKernelRevision,
          stop_contractFingerprint = contractFingerprint, stop_contractStale = contractStale,
          stop_candidateSnapshotId = candidateSnapshotId,
          stop_candidateFingerprint = candidateFingerprint, stop_candidateSource = candidateSource,
          stop_receiptRef = receiptRef, stop_evidenceRef = evidenceRef,
          stop_recordedAt = recordedAt\<rparr>)))))))))))))))))))))"

definition stop_receipt_json :: "host_stop_receipt \<Rightarrow> jsval" where
  "stop_receipt_json r =
     JObj [(''source'', JStr (stop_source r)), (''assurance'', JStr (stop_assurance r)),
           (''evidenceLevel'', JStr (stop_evidenceLevel r)), (''taskId'', JStr (stop_taskId r)),
           (''runId'', JStr (stop_runId r)), (''sessionId'', nullable JStr (stop_sessionId r)),
           (''threadId'', nullable JStr (stop_threadId r)),
           (''startRequestId'', JStr (stop_startRequestId r)),
           (''settleReceiptId'', JStr (stop_settleReceiptId r)),
           (''terminalStatus'', JStr (stop_terminalStatus r)),
           (''requestKernelRevision'', nat_val (stop_requestKernelRevision r)),
           (''receiptKernelRevision'', nat_val (stop_receiptKernelRevision r)),
           (''contractFingerprint'', JStr (stop_contractFingerprint r)),
           (''contractStale'', JBool (stop_contractStale r)),
           (''candidateSnapshotId'', nullable JStr (stop_candidateSnapshotId r)),
           (''candidateFingerprint'', nullable JStr (stop_candidateFingerprint r)),
           (''candidateSource'', nullable (\<lambda>x. JStr (stop_candidate_source_name x)) (stop_candidateSource r)),
           (''receiptRef'', JStr (stop_receiptRef r)), (''evidenceRef'', JStr (stop_evidenceRef r)),
           (''recordedAt'', JStr (stop_recordedAt r))]"

definition wf_stop_receipt :: "host_stop_receipt \<Rightarrow> bool" where
  "wf_stop_receipt r \<longleftrightarrow> \<not> blank (stop_source r) \<and> \<not> blank (stop_assurance r) \<and>
     \<not> blank (stop_evidenceLevel r) \<and> is_task_id (stop_taskId r) \<and> \<not> blank (stop_runId r) \<and>
     pred_option (\<lambda>s. \<not> blank s) (stop_sessionId r) \<and> pred_option (\<lambda>s. \<not> blank s) (stop_threadId r) \<and>
     \<not> blank (stop_startRequestId r) \<and> \<not> blank (stop_settleReceiptId r) \<and>
     \<not> blank (stop_terminalStatus r) \<and> is_fingerprint (stop_contractFingerprint r) \<and>
     pred_option (\<lambda>s. \<not> blank s) (stop_candidateSnapshotId r) \<and>
     pred_option is_fingerprint (stop_candidateFingerprint r) \<and> \<not> blank (stop_receiptRef r) \<and>
     \<not> blank (stop_evidenceRef r) \<and> \<not> blank (stop_recordedAt r)"

text \<open>\<open>v ?? []\<close>\<close>

definition or_empty_array :: "jsval \<Rightarrow> jsval" where
  "or_empty_array v = (if is_nullish v then JArr [] else v)"

definition parseHostBinding :: "jsval \<Rightarrow> host_binding outcome" where
  "parseHostBinding v =
     bindE (parseObject v) (\<lambda>input.
     orThrow (isNonNegativeInt (getprop input ''kernelRevision'')) corrupt (\<lambda>kernelRevision.
     bindE (requireNonEmptyString (getprop input ''host'')) (\<lambda>host.
     bindE (requireNonEmptyString (getprop input ''role'')) (\<lambda>role.
     bindE (nullishE requireNonEmptyString (getprop input ''sessionId'')) (\<lambda>sessionId.
     bindE (nullishE requireNonEmptyString (getprop input ''threadId'')) (\<lambda>threadId.
     bindE (requireFingerprint (getprop input ''contractFingerprint'')) (\<lambda>contractFingerprint.
     bindE (parseStringArray True (or_empty_array (getprop input ''requestRefs''))) (\<lambda>requestRefs.
     bindE (parseStringArray True (or_empty_array (getprop input ''eventRefs''))) (\<lambda>eventRefs.
     bindE (parseStringArray True (or_empty_array (getprop input ''resultRefs''))) (\<lambda>resultRefs.
     bindE (nullishE requireNonEmptyString (getprop input ''assuranceSource'')) (\<lambda>assuranceSource.
     bindE (nullishE requireNonEmptyString (getprop input ''hostId'')) (\<lambda>hostId.
     bindE (nullishE parseHostStopReceipt (getprop input ''stopReceipt'')) (\<lambda>stopReceipt.
     Inr \<lparr>host_host = host, host_role = role, host_sessionId = sessionId, host_hostId = hostId,
          host_threadId = threadId, host_kernelRevision = kernelRevision,
          host_contractFingerprint = contractFingerprint, host_requestRefs = requestRefs,
          host_eventRefs = eventRefs, host_resultRefs = resultRefs,
          host_assuranceSource = assuranceSource, host_stopReceipt = stopReceipt\<rparr>)))))))))))))"

definition host_json :: "host_binding \<Rightarrow> jsval" where
  "host_json h =
     JObj [(''host'', JStr (host_host h)), (''role'', JStr (host_role h)),
           (''sessionId'', nullable JStr (host_sessionId h)),
           (''threadId'', nullable JStr (host_threadId h)),
           (''kernelRevision'', nat_val (host_kernelRevision h)),
           (''contractFingerprint'', JStr (host_contractFingerprint h)),
           (''requestRefs'', strs_val (host_requestRefs h)),
           (''eventRefs'', strs_val (host_eventRefs h)),
           (''resultRefs'', strs_val (host_resultRefs h)),
           (''assuranceSource'', nullable JStr (host_assuranceSource h)),
           (''hostId'', nullable JStr (host_hostId h)),
           (''stopReceipt'', nullable stop_receipt_json (host_stopReceipt h))]"

definition wf_host :: "host_binding \<Rightarrow> bool" where
  "wf_host h \<longleftrightarrow> \<not> blank (host_host h) \<and> \<not> blank (host_role h) \<and>
     pred_option (\<lambda>s. \<not> blank s) (host_sessionId h) \<and> pred_option (\<lambda>s. \<not> blank s) (host_hostId h) \<and>
     pred_option (\<lambda>s. \<not> blank s) (host_threadId h) \<and> is_fingerprint (host_contractFingerprint h) \<and>
     list_all (\<lambda>s. \<not> blank s) (host_requestRefs h) \<and> list_all (\<lambda>s. \<not> blank s) (host_eventRefs h) \<and>
     list_all (\<lambda>s. \<not> blank s) (host_resultRefs h) \<and>
     pred_option (\<lambda>s. \<not> blank s) (host_assuranceSource h) \<and>
     pred_option wf_stop_receipt (host_stopReceipt h)"

lemma stop_receipt_json_neq [simp]: "\<not> is_nullish (stop_receipt_json r)" "host_json h \<noteq> JNull"
  by (simp_all add: stop_receipt_json_def host_json_def)

lemma parseHostStopReceipt_sound [sound_rules]: "parseHostStopReceipt v = Inr r \<Longrightarrow> wf_stop_receipt r"
  by (auto simp: parseHostStopReceipt_def wf_stop_receipt_def result_simps dest: sound_rules)

lemma stop_candidate_source_codec [codec_rules]:
  "nullE (\<lambda>x. orThrow (enum_of stop_candidate_source_name STOP_CANDIDATE_SOURCES x) corrupt Inr)
     (nullable (\<lambda>x. JStr (stop_candidate_source_name x)) y) = Inr y"
  by (rule nullE_nullable [of "\<lambda>_. True"]) (simp_all add: option.pred_True codec_rules)

lemma parseHostStopReceipt_codec [codec_rules]:
  "wf_stop_receipt r \<Longrightarrow> parseHostStopReceipt (stop_receipt_json r) = Inr r"
  by (simp add: parseHostStopReceipt_def stop_receipt_json_def wf_stop_receipt_def codec_rules)

lemma or_empty_array_strs [simp]: "or_empty_array (strs_val ss) = strs_val ss"
  by (simp add: or_empty_array_def strs_val_def)

lemma parseHostBinding_sound [sound_rules]: "parseHostBinding v = Inr h \<Longrightarrow> wf_host h"
  by (auto simp: parseHostBinding_def wf_host_def result_simps dest: sound_rules
      elim!: nullishE_sound intro: parseHostStopReceipt_sound)

lemma parseHostBinding_codec [codec_rules]:
  assumes "wf_host h"
  shows "parseHostBinding (host_json h) = Inr h"
proof -
  have "nullishE parseHostStopReceipt (nullable stop_receipt_json (host_stopReceipt h)) =
      Inr (host_stopReceipt h)"
    using assms by (intro nullishE_nullable [of wf_stop_receipt]) (simp_all add: wf_host_def codec_rules)
  then show ?thesis
    using assms by (simp add: parseHostBinding_def host_json_def wf_host_def codec_rules)
qed

section \<open>File baselines\<close>

definition parse_baseline_entry :: "jsval \<Rightarrow> baseline_entry outcome" where
  "parse_baseline_entry v =
     bindE (parseObject v) (\<lambda>entry.
     orThrow (isNonNegativeInt (getprop entry ''sizeBytes'')) corrupt (\<lambda>sizeBytes.
     bindE (requireNonEmptyString (getprop entry ''path'')) (\<lambda>path.
     bindE (requireFingerprint (getprop entry ''sha256'')) (\<lambda>sha256.
     Inr \<lparr>bent_path = path, bent_sizeBytes = sizeBytes, bent_sha256 = sha256\<rparr>))))"

definition parseProjectFileBaseline :: "platform \<Rightarrow> jsval \<Rightarrow> file_baseline outcome" where
  "parseProjectFileBaseline pl v =
     bindE (parseObject v) (\<lambda>input.
     throwIf (getprop input ''schemaVersion'' \<noteq> nat_val 1 \<or>
              getprop input ''source'' \<noteq> JStr ''pactile-project-file-baseline-v1'' \<or>
              getprop input ''policy'' \<noteq> JStr ''project-files-bounded-v1'') corrupt
     (bindE (parseArray corrupt (getprop input ''files'')) (\<lambda>raw.
     bindE (mapE parse_baseline_entry raw) (\<lambda>files.
     bindE (requireFingerprint (getprop input ''rootIdentitySha256'')) (\<lambda>rootIdentity.
     bindE (requireFingerprint (getprop input ''fingerprint'')) (\<lambda>fingerprint.
     let baseline = \<lparr>base_rootIdentitySha256 = rootIdentity, base_files = files,
                     base_fingerprint = fingerprint\<rparr> in
     throwIf (\<not> verifyProjectFileBaseline pl baseline) corrupt (Inr baseline)))))))"

definition baseline_json :: "file_baseline \<Rightarrow> jsval" where
  "baseline_json b =
     JObj (baselineBody (base_rootIdentitySha256 b) (base_files b) @
           [(''fingerprint'', JStr (base_fingerprint b))])"

definition wf_baseline :: "platform \<Rightarrow> file_baseline \<Rightarrow> bool" where
  "wf_baseline pl b \<longleftrightarrow> is_fingerprint (base_fingerprint b) \<and>
     list_all (\<lambda>e. \<not> blank (bent_path e)) (base_files b) \<and> verifyProjectFileBaseline pl b"

lemma baseline_json_neq [simp]: "\<not> is_nullish (baseline_json b)"
  by (simp add: baseline_json_def)

lemma parse_baseline_entry_sound:
  "parse_baseline_entry v = Inr e \<Longrightarrow> \<not> blank (bent_path e)"
  by (auto simp: parse_baseline_entry_def result_simps)

lemma parseProjectFileBaseline_sound [sound_rules]:
  "parseProjectFileBaseline pl v = Inr b \<Longrightarrow> wf_baseline pl b"
  by (auto simp: parseProjectFileBaseline_def wf_baseline_def result_simps Let_def
      elim!: mapE_all dest: parse_baseline_entry_sound)

lemma verify_entry_fingerprint:
  "verifyProjectFileBaseline pl b \<Longrightarrow> e \<in> set (base_files b) \<Longrightarrow> is_fingerprint (bent_sha256 e)"
  by (auto simp: verifyProjectFileBaseline_def dest!: baseline_entries_ok_each)

lemma parseProjectFileBaseline_codec [codec_rules]:
  assumes "wf_baseline pl b"
  shows "parseProjectFileBaseline pl (baseline_json b) = Inr b"
proof -
  have "mapE parse_baseline_entry (map baseline_entry_json (base_files b)) = Inr (base_files b)"
    using assms by (intro mapE_map_id)
      (auto simp: wf_baseline_def list_all_iff parse_baseline_entry_def baseline_entry_json_def
        codec_rules verify_entry_fingerprint)
  moreover have "is_fingerprint (base_rootIdentitySha256 b)"
    using assms by (simp add: wf_baseline_def verifyProjectFileBaseline_def)
  ultimately show ?thesis
    using assms by (cases b) (simp add: parseProjectFileBaseline_def baseline_json_def baselineBody_def
        wf_baseline_def codec_rules)
qed

section \<open>Runs\<close>

definition is_str :: "jsval \<Rightarrow> bool" where
  "is_str v = (case v of JStr _ \<Rightarrow> True | _ \<Rightarrow> False)"

text \<open>The evidence of a result binds exactly to its Run, candidate snapshot and references.\<close>

definition evidence_bound ::
    "string \<Rightarrow> candidate_snapshot option \<Rightarrow> run_result \<Rightarrow> run_evidence_verification \<Rightarrow> bool" where
  "evidence_bound runId snapshot result ver \<longleftrightarrow>
     (case snapshot of
        None \<Rightarrow> False
      | Some c \<Rightarrow> rver_runId ver = runId \<and> rver_candidateSnapshotId ver = cand_id c \<and>
          rver_candidateFingerprint ver = cand_fingerprint c \<and>
          map rei_ref (rver_items ver) = res_evidenceRefs result)"

text \<open>The checks of \<open>parseRun\<close>, each on the fields it reads.\<close>

definition evidence_unbound :: "string \<Rightarrow> candidate_snapshot option \<Rightarrow> run_result option \<Rightarrow> bool" where
  "evidence_unbound runId snapshot result \<longleftrightarrow>
     (case result of
        None \<Rightarrow> False
      | Some r \<Rightarrow> (case res_evidenceVerification r of
          None \<Rightarrow> False
        | Some ver \<Rightarrow> \<not> evidence_bound runId snapshot r ver))"

definition active_with_terminal_data ::
    "run_state \<Rightarrow> candidate_snapshot option \<Rightarrow> run_result option \<Rightarrow> run_failure option \<Rightarrow> jsval \<Rightarrow> bool" where
  "active_with_terminal_data state snapshot result failure completedAt \<longleftrightarrow>
     (state = RunRunning \<or> state = RunWaiting) \<and>
     (snapshot \<noteq> None \<or> result \<noteq> None \<or> failure \<noteq> None \<or> completedAt \<noteq> JNull)"

definition completed_without_data ::
    "run_state \<Rightarrow> candidate_snapshot option \<Rightarrow> run_result option \<Rightarrow> run_failure option \<Rightarrow> jsval \<Rightarrow> bool" where
  "completed_without_data state snapshot result failure completedAt \<longleftrightarrow>
     state = RunCompleted \<and>
     (snapshot = None \<or> result = None \<or> failure \<noteq> None \<or> \<not> is_str completedAt)"

definition failed_without_data ::
    "run_state \<Rightarrow> run_result option \<Rightarrow> run_failure option \<Rightarrow> jsval \<Rightarrow> bool" where
  "failed_without_data state result failure completedAt \<longleftrightarrow>
     (state = RunFailed \<or> state = RunBlocked \<or> state = RunCancelled) \<and>
     (failure = None \<or> \<not> is_str completedAt \<or>
      (case result of None \<Rightarrow> False | Some r \<Rightarrow> res_summary r = []))"

definition untrimmed_branch :: "string option \<Rightarrow> bool" where
  "untrimmed_branch branch \<longleftrightarrow> (case branch of None \<Rightarrow> False | Some b \<Rightarrow> b \<noteq> trim b)"

definition mixed_baseline ::
    "file_baseline option \<Rightarrow> workspace_binding option \<Rightarrow> string option \<Rightarrow> string option \<Rightarrow> bool" where
  "mixed_baseline baseline workspace sha branch \<longleftrightarrow>
     baseline \<noteq> None \<and> (workspace \<noteq> None \<or> sha \<noteq> None \<or> branch \<noteq> None)"

definition workspace_mismatch :: "workspace_binding option \<Rightarrow> string option \<Rightarrow> string option \<Rightarrow> bool" where
  "workspace_mismatch workspace sha branch \<longleftrightarrow>
     (case workspace of
        None \<Rightarrow> False
      | Some w \<Rightarrow> map_option to_lower sha \<noteq> Some (to_lower (ws_baseSha w)) \<or>
          branch \<noteq> Some (ws_branch w))"

lemmas run_guard_defs =
  evidence_unbound_def active_with_terminal_data_def completed_without_data_def
  failed_without_data_def untrimmed_branch_def mixed_baseline_def workspace_mismatch_def

text \<open>\<open>v === undefined || v === null ? fallback : p(v)\<close>\<close>

definition nullishOr :: "(jsval \<Rightarrow> ('e, 'a) result) \<Rightarrow> 'a option \<Rightarrow> jsval \<Rightarrow> ('e, 'a option) result" where
  "nullishOr p fallback v = (if is_nullish v then Inr fallback else bindE (p v) (\<lambda>x. Inr (Some x)))"

definition parseRun :: "platform \<Rightarrow> jsval \<Rightarrow> task_run outcome" where
  "parseRun pl v =
     bindE (parseObject v) (\<lambda>input.
     orThrow (enum_of run_state_name RUN_STATES (getprop input ''state'')) corrupt (\<lambda>state.
     bindE (nullE (parseCandidateSnapshot pl) (getprop input ''candidateSnapshot'')) (\<lambda>snapshot.
     bindE (nullE parseRunResult (getprop input ''result'')) (\<lambda>result.
     bindE (requireNonEmptyString (getprop input ''id'')) (\<lambda>runId.
     bindE (nullE (parseWorkspaceBinding pl runId) (getprop input ''workspace'')) (\<lambda>workspace.
     throwIf (evidence_unbound runId snapshot result) corrupt
     (bindE (nullE parseFailure (getprop input ''failure'')) (\<lambda>failure.
     throwIf (active_with_terminal_data state snapshot result failure (getprop input ''completedAt'')) corrupt
     (throwIf (completed_without_data state snapshot result failure (getprop input ''completedAt'')) corrupt
     (throwIf (failed_without_data state result failure (getprop input ''completedAt'')) corrupt
     (bindE (nullishOr parseCommitSha (map_option ws_baseSha workspace) (getprop input ''candidateBaseSha''))
       (\<lambda>candidateBaseSha.
     bindE (nullishOr requireNonEmptyString (map_option ws_branch workspace)
         (getprop input ''candidateBaseBranch'')) (\<lambda>candidateBaseBranch.
     throwIf (untrimmed_branch candidateBaseBranch) corrupt
     (bindE (nullishE (parseProjectFileBaseline pl) (getprop input ''candidateFileBaseline'')) (\<lambda>baseline.
     throwIf (mixed_baseline baseline workspace candidateBaseSha candidateBaseBranch) corrupt
     (throwIf (workspace_mismatch workspace candidateBaseSha candidateBaseBranch) corrupt
     (bindE (requireTaskId (getprop input ''taskId'')) (\<lambda>taskId.
     bindE (requirePositiveInt (getprop input ''attempt'')) (\<lambda>attempt.
     bindE (requirePositiveInt (getprop input ''sequence'')) (\<lambda>sequence.
     bindE (requireNonEmptyString (getprop input ''startedAt'')) (\<lambda>startedAt.
     bindE (requireNonEmptyString (getprop input ''startedBy'')) (\<lambda>startedBy.
     bindE (parseRunInput pl (getprop input ''input'')) (\<lambda>runInput.
     bindE (parseAuthorization (getprop input ''authorization'')) (\<lambda>authorization.
     bindE (parseStringArray True (getprop input ''writeSetSnapshot'')) (\<lambda>writeSet.
     bindE (parseDurations (getprop input ''estimatedDurations'')) (\<lambda>durations.
     bindE (parseMeasurementRefs (getprop input ''measurementRefs'')) (\<lambda>measurements.
     bindE (nullE parseHostBinding (getprop input ''host'')) (\<lambda>host.
     bindE (nullE requireNonEmptyString (getprop input ''completedAt'')) (\<lambda>completedAt.
     Inr \<lparr>run_id = runId, run_taskId = taskId, run_attempt = attempt, run_sequence = sequence,
          run_state = state, run_startedAt = startedAt, run_startedBy = startedBy,
          run_input = runInput, run_authorization = authorization,
          run_writeSetSnapshot = writeSet, run_estimatedDurations = durations,
          run_measurementRefs = measurements, run_candidateBaseSha = candidateBaseSha,
          run_candidateBaseBranch = candidateBaseBranch, run_candidateFileBaseline = baseline,
          run_workspace = workspace, run_host = host, run_candidateSnapshot = snapshot,
          run_result = result, run_failure = failure,
          run_completedAt = completedAt\<rparr>)))))))))))))))))))))))))))))"

definition run_json :: "task_run \<Rightarrow> jsval" where
  "run_json r =
     JObj [(''id'', JStr (run_id r)), (''taskId'', JStr (run_taskId r)),
           (''attempt'', nat_val (run_attempt r)), (''sequence'', nat_val (run_sequence r)),
           (''state'', JStr (run_state_name (run_state r))), (''startedAt'', JStr (run_startedAt r)),
           (''startedBy'', JStr (run_startedBy r)), (''input'', run_input_json (run_input r)),
           (''authorization'', authorization_json (run_authorization r)),
           (''writeSetSnapshot'', strs_val (run_writeSetSnapshot r)),
           (''estimatedDurations'', durations_json (run_estimatedDurations r)),
           (''measurementRefs'', measurement_refs_json (run_measurementRefs r)),
           (''candidateBaseSha'', nullable JStr (run_candidateBaseSha r)),
           (''candidateBaseBranch'', nullable JStr (run_candidateBaseBranch r)),
           (''candidateFileBaseline'', nullable baseline_json (run_candidateFileBaseline r)),
           (''workspace'', nullable workspace_json (run_workspace r)),
           (''host'', nullable host_json (run_host r)),
           (''candidateSnapshot'', nullable candidate_json (run_candidateSnapshot r)),
           (''result'', nullable run_result_json (run_result r)),
           (''failure'', nullable failure_json (run_failure r)),
           (''completedAt'', nullable JStr (run_completedAt r))]"

text \<open>
  What \<open>parseRun\<close> guarantees: \<open>wf_run_fields\<close> of the fields alone, \<open>run_phase_ok\<close> of the
  terminal data a state needs or forbids, \<open>run_baseline_ok\<close> of the candidate baseline.
\<close>

definition wf_run_fields :: "platform \<Rightarrow> task_run \<Rightarrow> bool" where
  "wf_run_fields pl r \<longleftrightarrow>
     \<not> blank (run_id r) \<and> is_task_id (run_taskId r) \<and> 0 < run_attempt r \<and> 0 < run_sequence r \<and>
     \<not> blank (run_startedAt r) \<and> \<not> blank (run_startedBy r) \<and> wf_run_input pl (run_input r) \<and>
     wf_authorization (run_authorization r) \<and>
     list_all (\<lambda>s. \<not> blank s) (run_writeSetSnapshot r) \<and>
     wf_measurement_refs (run_measurementRefs r) \<and>
     pred_option (wf_workspace pl (run_id r)) (run_workspace r) \<and>
     pred_option wf_host (run_host r) \<and>
     pred_option (wf_candidate pl) (run_candidateSnapshot r) \<and>
     pred_option wf_run_result (run_result r) \<and> pred_option wf_failure (run_failure r) \<and>
     pred_option (\<lambda>s. \<not> blank s) (run_completedAt r) \<and>
     pred_option (wf_baseline pl) (run_candidateFileBaseline r)"

definition terminal_failure :: "run_state \<Rightarrow> bool" where
  "terminal_failure s \<longleftrightarrow> s = RunFailed \<or> s = RunBlocked \<or> s = RunCancelled"

definition run_phase_ok :: "task_run \<Rightarrow> bool" where
  "run_phase_ok r \<longleftrightarrow>
     (active_run r \<longrightarrow> run_candidateSnapshot r = None \<and> run_result r = None \<and>
        run_failure r = None \<and> run_completedAt r = None) \<and>
     (run_state r = RunCompleted \<longrightarrow> run_candidateSnapshot r \<noteq> None \<and> run_result r \<noteq> None \<and>
        run_failure r = None \<and> run_completedAt r \<noteq> None) \<and>
     (terminal_failure (run_state r) \<longrightarrow> run_failure r \<noteq> None \<and> run_completedAt r \<noteq> None) \<and>
     (\<forall>res ver. run_result r = Some res \<longrightarrow> res_evidenceVerification res = Some ver \<longrightarrow>
        evidence_bound (run_id r) (run_candidateSnapshot r) res ver)"

definition run_baseline_ok :: "task_run \<Rightarrow> bool" where
  "run_baseline_ok r \<longleftrightarrow>
     (\<forall>b. run_candidateBaseBranch r = Some b \<longrightarrow> \<not> blank b \<and> b = trim b) \<and>
     (run_candidateFileBaseline r \<noteq> None \<longrightarrow> run_workspace r = None \<and>
        run_candidateBaseSha r = None \<and> run_candidateBaseBranch r = None) \<and>
     (\<forall>w. run_workspace r = Some w \<longrightarrow>
        map_option to_lower (run_candidateBaseSha r) = Some (to_lower (ws_baseSha w)) \<and>
        run_candidateBaseBranch r = Some (ws_branch w))"

text \<open>The base commit is a full lower-case object name, which reading back insists on.\<close>

definition run_base_sha_ok :: "task_run \<Rightarrow> bool" where
  "run_base_sha_ok r \<longleftrightarrow> pred_option is_commit_sha (run_candidateBaseSha r)"

definition wf_run :: "platform \<Rightarrow> task_run \<Rightarrow> bool" where
  "wf_run pl r \<longleftrightarrow> wf_run_fields pl r \<and> run_phase_ok r \<and> run_baseline_ok r"

lemmas run_part_sound [sound_rules] =
  nullE_sound [OF _ parseCandidateSnapshot_sound]
  nullE_sound [OF _ parseRunResult_sound]
  nullE_sound [OF _ parseWorkspaceBinding_sound]
  nullE_sound [OF _ parseFailure_sound]
  nullE_sound [OF _ parseHostBinding_sound]
  nullishE_sound [OF _ parseProjectFileBaseline_sound]

lemma parseRun_fields: "parseRun pl v = Inr r \<Longrightarrow> wf_run_fields pl r"
  unfolding parseRun_def wf_run_fields_def
  by (clarsimp simp: result_simps) (intro conjI; erule sound_rules)

lemma nullE_str: "nullE requireNonEmptyString v = Inr x \<Longrightarrow> is_str v \<longleftrightarrow> x \<noteq> None"
  by (auto simp: nullE_def result_simps is_str_def split: if_splits)

lemma parseRun_phase: "parseRun pl v = Inr r \<Longrightarrow> run_phase_ok r"
  unfolding parseRun_def run_phase_ok_def active_run_def terminal_failure_def
  by (clarsimp simp: result_simps nullE_str run_guard_defs) (auto split: option.splits)

lemma parseRun_baseline: "parseRun pl v = Inr r \<Longrightarrow> run_baseline_ok r"
proof -
  assume p: "parseRun pl v = Inr r"
  have "pred_option (wf_workspace pl (run_id r)) (run_workspace r)"
    using parseRun_fields [OF p] by (simp add: wf_run_fields_def)
  then have "\<forall>w. run_workspace r = Some w \<longrightarrow> \<not> blank (ws_branch w)"
    by (auto simp: wf_workspace_def)
  with p show ?thesis
    unfolding parseRun_def run_baseline_ok_def
    by (clarsimp simp: result_simps run_guard_defs nullishOr_def)
       (auto simp: result_simps split: option.splits if_splits)
qed

lemma parseRun_sound [sound_rules]: "parseRun pl v = Inr r \<Longrightarrow> wf_run pl r"
  by (simp add: wf_run_def parseRun_fields parseRun_phase parseRun_baseline)

text \<open>A well-formed Run with a full base commit reads back from its serialisation.\<close>

lemma run_part_codec [codec_rules]:
  "pred_option (wf_candidate pl) c \<Longrightarrow> nullE (parseCandidateSnapshot pl) (nullable candidate_json c) = Inr c"
  "pred_option wf_run_result res \<Longrightarrow> nullE parseRunResult (nullable run_result_json res) = Inr res"
  "pred_option (wf_workspace pl i) w \<Longrightarrow>
     nullE (parseWorkspaceBinding pl i) (nullable workspace_json w) = Inr w"
  "pred_option wf_failure f \<Longrightarrow> nullE parseFailure (nullable failure_json f) = Inr f"
  "pred_option wf_host h \<Longrightarrow> nullE parseHostBinding (nullable host_json h) = Inr h"
  "pred_option (wf_baseline pl) b \<Longrightarrow>
     nullishE (parseProjectFileBaseline pl) (nullable baseline_json b) = Inr b"
  by (erule nullE_nullable nullishE_nullable; simp add: codec_rules)+

lemma is_str_nullable [simp]: "is_str (nullable JStr x) \<longleftrightarrow> x \<noteq> None"
  by (cases x) (simp_all add: is_str_def)

lemma nullable_eq_JNull [simp]: "nullable JStr x = JNull \<longleftrightarrow> x = None"
  by (cases x) simp_all

lemma nullishOr_codec:
  assumes "pred_option P x" and "x = None \<Longrightarrow> fallback = None" and "\<And>s. P s \<Longrightarrow> p (JStr s) = Inr s"
  shows "nullishOr p fallback (nullable JStr x) = Inr x"
  using assms by (cases x) (simp_all add: nullishOr_def)

lemma run_guards:
  assumes "wf_run pl r"
  shows "\<not> evidence_unbound (run_id r) (run_candidateSnapshot r) (run_result r)"
    and "\<not> active_with_terminal_data (run_state r) (run_candidateSnapshot r) (run_result r)
           (run_failure r) (nullable JStr (run_completedAt r))"
    and "\<not> completed_without_data (run_state r) (run_candidateSnapshot r) (run_result r)
           (run_failure r) (nullable JStr (run_completedAt r))"
    and "\<not> failed_without_data (run_state r) (run_result r) (run_failure r)
           (nullable JStr (run_completedAt r))"
    and "\<not> untrimmed_branch (run_candidateBaseBranch r)"
    and "\<not> mixed_baseline (run_candidateFileBaseline r) (run_workspace r) (run_candidateBaseSha r)
           (run_candidateBaseBranch r)"
    and "\<not> workspace_mismatch (run_workspace r) (run_candidateBaseSha r) (run_candidateBaseBranch r)"
proof -
  have phase: "run_phase_ok r" and base: "run_baseline_ok r"
    and result: "pred_option wf_run_result (run_result r)"
    using assms by (simp_all add: wf_run_def wf_run_fields_def)
  show "\<not> evidence_unbound (run_id r) (run_candidateSnapshot r) (run_result r)"
    using phase by (simp add: run_phase_ok_def evidence_unbound_def split: option.splits)
  show "\<not> active_with_terminal_data (run_state r) (run_candidateSnapshot r) (run_result r)
      (run_failure r) (nullable JStr (run_completedAt r))"
    using phase by (simp add: run_phase_ok_def active_with_terminal_data_def active_run_def) blast
  show "\<not> completed_without_data (run_state r) (run_candidateSnapshot r) (run_result r)
      (run_failure r) (nullable JStr (run_completedAt r))"
    using phase by (simp add: run_phase_ok_def completed_without_data_def)
  have "\<forall>res. run_result r = Some res \<longrightarrow> res_summary res \<noteq> []"
    using result by (auto simp: wf_run_result_def blank_iff)
  then show "\<not> failed_without_data (run_state r) (run_result r) (run_failure r)
      (nullable JStr (run_completedAt r))"
    using phase by (cases "run_result r"; cases "terminal_failure (run_state r)")
      (simp_all add: run_phase_ok_def failed_without_data_def flip: terminal_failure_def)
  show "\<not> untrimmed_branch (run_candidateBaseBranch r)"
    using base by (simp add: run_baseline_ok_def untrimmed_branch_def split: option.splits)
  show "\<not> mixed_baseline (run_candidateFileBaseline r) (run_workspace r) (run_candidateBaseSha r)
      (run_candidateBaseBranch r)"
    using base by (cases "run_candidateFileBaseline r") (simp_all add: run_baseline_ok_def mixed_baseline_def)
  show "\<not> workspace_mismatch (run_workspace r) (run_candidateBaseSha r) (run_candidateBaseBranch r)"
    using base by (simp add: run_baseline_ok_def workspace_mismatch_def split: option.splits)
qed

lemma run_base_codec:
  assumes "wf_run pl r" and "run_base_sha_ok r"
  shows "nullishOr parseCommitSha (map_option ws_baseSha (run_workspace r))
      (nullable JStr (run_candidateBaseSha r)) = Inr (run_candidateBaseSha r)"
    and "nullishOr requireNonEmptyString (map_option ws_branch (run_workspace r))
      (nullable JStr (run_candidateBaseBranch r)) = Inr (run_candidateBaseBranch r)"
proof -
  have ws: "run_candidateBaseSha r = None \<Longrightarrow> run_workspace r = None"
    "run_candidateBaseBranch r = None \<Longrightarrow> run_workspace r = None"
    and branch: "pred_option (\<lambda>s. \<not> blank s) (run_candidateBaseBranch r)"
    using assms(1) by (cases "run_workspace r"; cases "run_candidateBaseBranch r";
        auto simp: wf_run_def run_baseline_ok_def)+
  show "nullishOr parseCommitSha (map_option ws_baseSha (run_workspace r))
      (nullable JStr (run_candidateBaseSha r)) = Inr (run_candidateBaseSha r)"
    using assms(2) ws by (intro nullishOr_codec [of is_commit_sha]) (auto simp: run_base_sha_ok_def codec_rules)
  show "nullishOr requireNonEmptyString (map_option ws_branch (run_workspace r))
      (nullable JStr (run_candidateBaseBranch r)) = Inr (run_candidateBaseBranch r)"
    using branch ws by (intro nullishOr_codec [of "\<lambda>s. \<not> blank s"]) (auto simp: codec_rules)
qed

lemma parseRun_codec [codec_rules]:
  assumes "wf_run pl r" and "run_base_sha_ok r"
  shows "parseRun pl (run_json r) = Inr r"
proof -
  have "wf_run_fields pl r" using assms by (simp add: wf_run_def)
  then show ?thesis
    using run_guards [OF assms(1)] run_base_codec [OF assms]
    by (simp add: parseRun_def run_json_def wf_run_fields_def codec_rules)
qed

end
