(* ===== verification/Review_Schema.thy ===== *)
theory Review_Schema
  imports Run_Schema
begin

text \<open>
  The decoders of Reviews and of the closure, from \<open>core/task/task-kernel-schema.ts\<close>: the
  acceptance evidence map, the evidence verification of a Review, delivery evidence and its
  machine verification with the Pull Request facts, and the closure.
\<close>

section \<open>Acceptance evidence\<close>

text \<open>\<open>parseEvidenceMap\<close>: the entries of the object, in enumeration order\<close>

definition parse_evidence_entry :: "bool \<Rightarrow> string \<times> jsval \<Rightarrow> (string \<times> string list) outcome" where
  "parse_evidence_entry allowEmpty kv =
     bindE (requireNonEmptyString (JStr (fst kv))) (\<lambda>k.
     bindE (parseStringArray allowEmpty (snd kv)) (\<lambda>refs. Inr (k, refs)))"

definition parseEvidenceMap :: "bool \<Rightarrow> jsval \<Rightarrow> evidence_map outcome" where
  "parseEvidenceMap allowEmpty v =
     bindE (parseObject v) (\<lambda>input. mapE (parse_evidence_entry allowEmpty) input)"

definition evidence_map_json :: "evidence_map \<Rightarrow> jsval" where
  "evidence_map_json m = JObj (map (\<lambda>(k, refs). (k, strs_val refs)) m)"

definition wf_evidence_map :: "bool \<Rightarrow> evidence_map \<Rightarrow> bool" where
  "wf_evidence_map allowEmpty m \<longleftrightarrow>
     list_all (\<lambda>(k, refs). \<not> blank k \<and> list_all (\<lambda>s. \<not> blank s) refs \<and> (allowEmpty \<or> refs \<noteq> [])) m"

text \<open>\<open>!getOwnRecordValue(evidence, criterion.id)?.length\<close>\<close>

definition lacks_evidence :: "evidence_map \<Rightarrow> acceptance_criterion \<Rightarrow> bool" where
  "lacks_evidence m c \<longleftrightarrow>
     (case getOwnRecordValue m (crit_id c) of None \<Rightarrow> True | Some refs \<Rightarrow> refs = [])"

definition parseAcceptanceEvidence ::
    "jsval \<Rightarrow> acceptance_criterion list \<Rightarrow> bool \<Rightarrow> evidence_map outcome" where
  "parseAcceptanceEvidence v criteria requireComplete =
     bindE (parseEvidenceMap (\<not> requireComplete) v) (\<lambda>evidence.
     throwIf (list_ex (\<lambda>kv. fst kv \<notin> set (map crit_id criteria)) evidence) invalid_request
     (throwIf (requireComplete \<and> filter (lacks_evidence evidence) criteria \<noteq> [])
       (KernelError ACCEPTANCE_EVIDENCE_MISSING)
     (Inr evidence)))"

lemma parse_evidence_entry_iff:
  "parse_evidence_entry e kv = Inr kr \<longleftrightarrow>
     fst kr = fst kv \<and> snd kv = strs_val (snd kr) \<and> \<not> blank (fst kr) \<and>
     list_all (\<lambda>s. \<not> blank s) (snd kr) \<and> (e \<or> snd kr \<noteq> [])"
  by (cases kr) (auto simp: parse_evidence_entry_def result_simps)

lemma parseEvidenceMap_sound [sound_rules]: "parseEvidenceMap e v = Inr m \<Longrightarrow> wf_evidence_map e m"
  by (auto simp: parseEvidenceMap_def wf_evidence_map_def result_simps case_prod_beta
      elim!: mapE_all simp: parse_evidence_entry_iff)

lemma parseEvidenceMap_codec [codec_rules]:
  assumes "wf_evidence_map e m"
  shows "parseEvidenceMap e (evidence_map_json m) = Inr m"
proof -
  have "mapE (parse_evidence_entry e) (map (\<lambda>(k, refs). (k, strs_val refs)) m) = Inr m"
    using assms by (intro mapE_map_id) (auto simp: wf_evidence_map_def list_all_iff parse_evidence_entry_iff)
  then show ?thesis by (simp add: parseEvidenceMap_def evidence_map_json_def)
qed

lemma wf_evidence_map_mono: "wf_evidence_map False m \<Longrightarrow> wf_evidence_map e m"
  by (auto simp: wf_evidence_map_def list_all_iff)

lemma parseAcceptanceEvidence_sound:
  assumes "parseAcceptanceEvidence v criteria complete = Inr m"
  shows "wf_evidence_map (\<not> complete) m"
    and "set (map fst m) \<subseteq> set (map crit_id criteria)"
    and "complete \<Longrightarrow> c \<in> set criteria \<Longrightarrow> \<exists>refs. map_of m (crit_id c) = Some refs \<and> refs \<noteq> []"
  using assms
  by (auto simp: parseAcceptanceEvidence_def result_simps list_ex_iff filter_empty_conv lacks_evidence_def
      getOwnRecordValue_def split: option.splits dest: sound_rules)

section \<open>The evidence verification of a Review\<close>

definition parse_review_evidence_item :: "jsval \<Rightarrow> review_evidence_item outcome" where
  "parse_review_evidence_item v =
     bindE (parseObject v) (\<lambda>item.
     orThrow (enum_of review_evidence_source_name REVIEW_EVIDENCE_SOURCES (getprop item ''source'')) corrupt
       (\<lambda>source.
     orThrow (isNonNegativeInt (getprop item ''sizeBytes'')) corrupt (\<lambda>sizeBytes.
     bindE (parseRepositoryRelativePath (getprop item ''ref'')) (\<lambda>ref.
     bindE (requireFingerprint (getprop item ''sha256'')) (\<lambda>sha256.
     Inr \<lparr>vei_ref = ref, vei_sha256 = sha256, vei_sizeBytes = sizeBytes, vei_source = source\<rparr>)))))"

definition review_evidence_item_json :: "review_evidence_item \<Rightarrow> jsval" where
  "review_evidence_item_json i =
     JObj [(''ref'', JStr (vei_ref i)), (''sha256'', JStr (vei_sha256 i)),
           (''sizeBytes'', nat_val (vei_sizeBytes i)),
           (''source'', JStr (review_evidence_source_name (vei_source i)))]"

definition wf_review_evidence_item :: "review_evidence_item \<Rightarrow> bool" where
  "wf_review_evidence_item i \<longleftrightarrow> \<not> blank (vei_ref i) \<and> plain_path (vei_ref i) \<and>
     is_fingerprint (vei_sha256 i)"

text \<open>Every reference a Review makes, once, in code unit order.\<close>

definition review_expected_refs :: "string list \<Rightarrow> evidence_map \<Rightarrow> string list" where
  "review_expected_refs evidenceRefs acceptance =
     List.sort (unique (evidenceRefs @ concat (map snd acceptance)))"

definition parseReviewEvidenceVerification ::
    "platform \<Rightarrow> string \<Rightarrow> string \<Rightarrow> string \<Rightarrow> string list \<Rightarrow> evidence_map \<Rightarrow> jsval \<Rightarrow>
     review_evidence_verification outcome" where
  "parseReviewEvidenceVerification pl boundRun boundSnapshot boundFingerprint evidenceRefs acceptance v =
     bindE (parseObject v) (\<lambda>input.
     throwIf (getprop input ''schemaVersion'' \<noteq> nat_val 1 \<or>
              getprop input ''source'' \<noteq> JStr ''pactile-task-review-evidence-v1'') corrupt
     (bindE (requireNonEmptyString (getprop input ''observedAt'')) (\<lambda>observedAt.
     throwIf (\<not> dateParses pl observedAt) corrupt
     (bindE (requireNonEmptyString (getprop input ''runId'')) (\<lambda>runId.
     bindE (requireNonEmptyString (getprop input ''candidateSnapshotId'')) (\<lambda>snapshotId.
     bindE (requireFingerprint (getprop input ''candidateFingerprint'')) (\<lambda>fingerprint.
     throwIf (runId \<noteq> boundRun \<or> snapshotId \<noteq> boundSnapshot \<or> fingerprint \<noteq> boundFingerprint) corrupt
     (bindE (parseArray corrupt (getprop input ''items'')) (\<lambda>raw.
     bindE (mapE parse_review_evidence_item raw) (\<lambda>items.
     throwIf (has_duplicates (map vei_ref items)) corrupt
     (throwIf (List.sort (map vei_ref items) \<noteq> review_expected_refs evidenceRefs acceptance) corrupt
     (Inr \<lparr>vver_observedAt = observedAt, vver_runId = runId, vver_candidateSnapshotId = snapshotId,
           vver_candidateFingerprint = fingerprint, vver_items = items\<rparr>))))))))))))"

definition review_evidence_verification_json :: "review_evidence_verification \<Rightarrow> jsval" where
  "review_evidence_verification_json r =
     JObj [(''schemaVersion'', nat_val 1), (''source'', JStr ''pactile-task-review-evidence-v1''),
           (''observedAt'', JStr (vver_observedAt r)), (''runId'', JStr (vver_runId r)),
           (''candidateSnapshotId'', JStr (vver_candidateSnapshotId r)),
           (''candidateFingerprint'', JStr (vver_candidateFingerprint r)),
           (''items'', JArr (map review_evidence_item_json (vver_items r)))]"

definition wf_review_evidence_verification ::
    "platform \<Rightarrow> string \<Rightarrow> string \<Rightarrow> string \<Rightarrow> string list \<Rightarrow> evidence_map \<Rightarrow>
     review_evidence_verification \<Rightarrow> bool" where
  "wf_review_evidence_verification pl boundRun boundSnapshot boundFingerprint evidenceRefs acceptance r \<longleftrightarrow>
     \<not> blank (vver_observedAt r) \<and> dateParses pl (vver_observedAt r) \<and>
     vver_runId r = boundRun \<and> \<not> blank boundRun \<and>
     vver_candidateSnapshotId r = boundSnapshot \<and> \<not> blank boundSnapshot \<and>
     vver_candidateFingerprint r = boundFingerprint \<and> is_fingerprint boundFingerprint \<and>
     list_all wf_review_evidence_item (vver_items r) \<and> distinct (map vei_ref (vver_items r)) \<and>
     List.sort (map vei_ref (vver_items r)) = review_expected_refs evidenceRefs acceptance"

lemma parse_review_evidence_item_sound:
  "parse_review_evidence_item v = Inr i \<Longrightarrow> wf_review_evidence_item i"
proof -
  assume p: "parse_review_evidence_item v = Inr i"
  then obtain w where "parseRepositoryRelativePath w = Inr (vei_ref i)" "is_fingerprint (vei_sha256 i)"
    by (auto simp: parse_review_evidence_item_def result_simps)
  then show ?thesis by (auto simp: wf_review_evidence_item_def parseRepositoryRelativePath_iff)
qed

lemma parse_review_evidence_item_codec:
  "wf_review_evidence_item i \<Longrightarrow> parse_review_evidence_item (review_evidence_item_json i) = Inr i"
  by (simp add: parse_review_evidence_item_def review_evidence_item_json_def wf_review_evidence_item_def
      codec_rules)

lemma review_evidence_verification_json_neq [simp]: "review_evidence_verification_json r \<noteq> JUndef"
  by (simp add: review_evidence_verification_json_def)

lemma parseReviewEvidenceVerification_sound:
  "parseReviewEvidenceVerification pl b s f refs acc v = Inr r \<Longrightarrow>
     wf_review_evidence_verification pl b s f refs acc r"
  by (auto simp: parseReviewEvidenceVerification_def wf_review_evidence_verification_def result_simps
      elim!: mapE_all intro: parse_review_evidence_item_sound)

lemma parseReviewEvidenceVerification_codec:
  assumes "wf_review_evidence_verification pl b s f refs acc r"
  shows "parseReviewEvidenceVerification pl b s f refs acc (review_evidence_verification_json r) = Inr r"
proof -
  have "mapE parse_review_evidence_item (map review_evidence_item_json (vver_items r)) = Inr (vver_items r)"
    using assms by (intro mapE_map_id parse_review_evidence_item_codec)
      (auto simp: wf_review_evidence_verification_def list_all_iff)
  then show ?thesis
    using assms by (simp add: parseReviewEvidenceVerification_def review_evidence_verification_json_def
        wf_review_evidence_verification_def codec_rules)
qed

section \<open>Reviews\<close>

definition parseReview :: "platform \<Rightarrow> jsval \<Rightarrow> task_review outcome" where
  "parseReview pl v =
     bindE (parseObject v) (\<lambda>input.
     orThrow (enum_of decision_name REVIEW_DECISIONS (getprop input ''decision'')) corrupt (\<lambda>decision.
     throwIf (getprop input ''independent'' \<noteq> JBool True) corrupt
     (bindE (parseStringArray True (getprop input ''unresolvedBlockers'')) (\<lambda>blockers.
     throwIf (decision = DecPass \<and> blockers \<noteq> []) corrupt
     (bindE (requireNonEmptyString (getprop input ''id'')) (\<lambda>id.
     bindE (requireTaskId (getprop input ''taskId'')) (\<lambda>taskId.
     bindE (requireNonEmptyString (getprop input ''runId'')) (\<lambda>runId.
     bindE (requireNonEmptyString (getprop input ''candidateSnapshotId'')) (\<lambda>snapshotId.
     bindE (requireFingerprint (getprop input ''candidateFingerprint'')) (\<lambda>fingerprint.
     bindE (requireNonEmptyString (getprop input ''reviewer'')) (\<lambda>reviewer.
     bindE (parseStringArray False (getprop input ''evidenceRefs'')) (\<lambda>evidenceRefs.
     bindE (parseEvidenceMap (decision \<noteq> DecPass) (getprop input ''acceptanceEvidence'')) (\<lambda>acceptance.
     bindE (undefE (parseReviewEvidenceVerification pl runId snapshotId fingerprint evidenceRefs acceptance)
         (getprop input ''evidenceVerification'')) (\<lambda>verification.
     bindE (requireNonEmptyString (getprop input ''reviewedAt'')) (\<lambda>reviewedAt.
     Inr \<lparr>rev_id = id, rev_taskId = taskId, rev_runId = runId, rev_candidateSnapshotId = snapshotId,
          rev_candidateFingerprint = fingerprint, rev_reviewer = reviewer, rev_decision = decision,
          rev_evidenceRefs = evidenceRefs, rev_acceptanceEvidence = acceptance,
          rev_evidenceVerification = verification, rev_unresolvedBlockers = blockers,
          rev_reviewedAt = reviewedAt\<rparr>)))))))))))))))"

definition review_json :: "task_review \<Rightarrow> jsval" where
  "review_json r =
     JObj ([(''id'', JStr (rev_id r)), (''taskId'', JStr (rev_taskId r)), (''runId'', JStr (rev_runId r)),
            (''candidateSnapshotId'', JStr (rev_candidateSnapshotId r)),
            (''candidateFingerprint'', JStr (rev_candidateFingerprint r)),
            (''reviewer'', JStr (rev_reviewer r)), (''independent'', JBool True),
            (''decision'', JStr (decision_name (rev_decision r))),
            (''evidenceRefs'', strs_val (rev_evidenceRefs r)),
            (''acceptanceEvidence'', evidence_map_json (rev_acceptanceEvidence r))] @
           optional_prop ''evidenceVerification'' review_evidence_verification_json (rev_evidenceVerification r) @
           [(''unresolvedBlockers'', strs_val (rev_unresolvedBlockers r)),
            (''reviewedAt'', JStr (rev_reviewedAt r))])"

definition wf_review :: "platform \<Rightarrow> task_review \<Rightarrow> bool" where
  "wf_review pl r \<longleftrightarrow>
     \<not> blank (rev_id r) \<and> is_task_id (rev_taskId r) \<and> \<not> blank (rev_runId r) \<and>
     \<not> blank (rev_candidateSnapshotId r) \<and> is_fingerprint (rev_candidateFingerprint r) \<and>
     \<not> blank (rev_reviewer r) \<and> list_all (\<lambda>s. \<not> blank s) (rev_evidenceRefs r) \<and>
     rev_evidenceRefs r \<noteq> [] \<and>
     wf_evidence_map (rev_decision r \<noteq> DecPass) (rev_acceptanceEvidence r) \<and>
     pred_option (wf_review_evidence_verification pl (rev_runId r) (rev_candidateSnapshotId r)
       (rev_candidateFingerprint r) (rev_evidenceRefs r) (rev_acceptanceEvidence r))
       (rev_evidenceVerification r) \<and>
     list_all (\<lambda>s. \<not> blank s) (rev_unresolvedBlockers r) \<and>
     (rev_decision r = DecPass \<longrightarrow> rev_unresolvedBlockers r = []) \<and> \<not> blank (rev_reviewedAt r)"

lemma review_json_neq [simp]: "review_json r \<noteq> JNull"
  by (simp add: review_json_def)

lemma parseReview_sound [sound_rules]: "parseReview pl v = Inr r \<Longrightarrow> wf_review pl r"
  by (auto simp: parseReview_def wf_review_def result_simps
      elim!: undefE_sound intro: parseReviewEvidenceVerification_sound sound_rules)

lemma parseReview_codec [codec_rules]:
  assumes "wf_review pl r"
  shows "parseReview pl (review_json r) = Inr r"
proof -
  have "undefE (parseReviewEvidenceVerification pl (rev_runId r) (rev_candidateSnapshotId r)
      (rev_candidateFingerprint r) (rev_evidenceRefs r) (rev_acceptanceEvidence r))
      (undefinable review_evidence_verification_json (rev_evidenceVerification r)) =
      Inr (rev_evidenceVerification r)"
    using assms by (intro undefE_undefinable [of "wf_review_evidence_verification pl (rev_runId r)
        (rev_candidateSnapshotId r) (rev_candidateFingerprint r) (rev_evidenceRefs r)
        (rev_acceptanceEvidence r)"])
      (simp_all add: wf_review_def parseReviewEvidenceVerification_codec)
  then show ?thesis
    using assms by (simp add: parseReview_def review_json_def wf_review_def codec_rules throwIf_eq_Inr)
qed

section \<open>Delivery evidence\<close>

text \<open>
  \<open>https_url\<close>: \<open>new URL(s)\<close> does not throw and the protocol is HTTPS; the code throws the same
  error for either.
\<close>

definition https_url :: "platform \<Rightarrow> string \<Rightarrow> bool" where
  "https_url pl s \<longleftrightarrow> (case parseURL pl s of None \<Rightarrow> False | Some u \<Rightarrow> url_protocol u = ''https:'')"

definition remote_level :: "delivery_level \<Rightarrow> bool" where
  "remote_level l \<longleftrightarrow> l = PullRequest \<or> l = MergedResult"

definition parseDeliveryEvidence ::
    "platform \<Rightarrow> delivery_level option \<Rightarrow> jsval \<Rightarrow> delivery_evidence outcome" where
  "parseDeliveryEvidence pl expected v =
     bindE (parseObject v) (\<lambda>input.
     orThrow (isTaskDeliveryLevel (getprop input ''level'')) (KernelError INVALID_DELIVERY_EVIDENCE) (\<lambda>level.
     throwIf (case expected of None \<Rightarrow> False | Some l \<Rightarrow> level \<noteq> l) (KernelError INVALID_DELIVERY_EVIDENCE)
     (bindE (requireNonEmptyString (getprop input ''reference'')) (\<lambda>reference.
     bindE (requireNonEmptyString (getprop input ''summary'')) (\<lambda>summary.
     throwIf (remote_level level \<and> \<not> https_url pl reference) (KernelError INVALID_DELIVERY_EVIDENCE)
     (bindE (undefE parseRepositoryRelativePath (getprop input ''path'')) (\<lambda>path.
     bindE (undefE requireNonEmptyString (getprop input ''targetBranch'')) (\<lambda>targetBranch.
     Inr \<lparr>dev_level = level, dev_reference = reference, dev_summary = summary, dev_path = path,
          dev_targetBranch = targetBranch\<rparr>))))))))"

definition delivery_evidence_json :: "delivery_evidence \<Rightarrow> jsval" where
  "delivery_evidence_json d =
     JObj ([(''level'', JStr (level_name (dev_level d))), (''reference'', JStr (dev_reference d)),
            (''summary'', JStr (dev_summary d))] @
           optional_prop ''path'' JStr (dev_path d) @
           optional_prop ''targetBranch'' JStr (dev_targetBranch d))"

definition wf_delivery_evidence :: "platform \<Rightarrow> delivery_evidence \<Rightarrow> bool" where
  "wf_delivery_evidence pl d \<longleftrightarrow>
     \<not> blank (dev_reference d) \<and> \<not> blank (dev_summary d) \<and>
     (remote_level (dev_level d) \<longrightarrow> https_url pl (dev_reference d)) \<and>
     pred_option (\<lambda>p. plain_path p \<and> \<not> blank p) (dev_path d) \<and>
     pred_option (\<lambda>s. \<not> blank s) (dev_targetBranch d)"

lemma undefE_path_sound [sound_rules]:
  "undefE parseRepositoryRelativePath v = Inr x \<Longrightarrow> pred_option (\<lambda>p. plain_path p \<and> \<not> blank p) x"
  by (auto simp: undefE_def result_simps parseRepositoryRelativePath_iff split: if_splits)

lemma undefE_path_codec [codec_rules]:
  "pred_option (\<lambda>p. plain_path p \<and> \<not> blank p) x \<Longrightarrow>
     undefE parseRepositoryRelativePath (undefinable JStr x) = Inr x"
  by (cases x) (simp_all add: codec_rules)

lemma parseDeliveryEvidence_sound [sound_rules]:
  "parseDeliveryEvidence pl expected v = Inr d \<Longrightarrow>
     wf_delivery_evidence pl d \<and> (\<forall>l. expected = Some l \<longrightarrow> dev_level d = l)"
  by (auto simp: parseDeliveryEvidence_def wf_delivery_evidence_def result_simps dest: sound_rules)

lemma parseDeliveryEvidence_codec [codec_rules]:
  "wf_delivery_evidence pl d \<Longrightarrow> parseDeliveryEvidence pl None (delivery_evidence_json d) = Inr d"
  by (simp add: parseDeliveryEvidence_def delivery_evidence_json_def wf_delivery_evidence_def
      codec_rules throwIf_eq_Inr)

section \<open>Pull Request facts\<close>

text \<open>\<open>Number(s)\<close> of a digit string\<close>

definition digits_value :: "string \<Rightarrow> int" where
  "digits_value s = foldl (\<lambda>n c. 10 * n + (int (of_char c) - 48)) 0 s"

definition js_bool :: "jsval \<Rightarrow> bool option" where
  "js_bool v = (case v of JBool b \<Rightarrow> Some b | _ \<Rightarrow> None)"

definition safe_positive_int :: "jsval \<Rightarrow> int option" where
  "safe_positive_int v =
     (case v of JNum (JInt i) \<Rightarrow> if 1 \<le> i \<and> i \<le> 9007199254740991 then Some i else None | _ \<Rightarrow> None)"

text \<open>
  \<open>new URL(requireNonEmptyString(...))\<close> inside \<open>try\<close>: any error becomes the one of \<open>catch\<close>.
\<close>

definition parse_pr_url :: "platform \<Rightarrow> jsval \<Rightarrow> url outcome" where
  "parse_pr_url pl v =
     (case requireNonEmptyString v of
        Inl _ \<Rightarrow> Inl corrupt
      | Inr s \<Rightarrow> orThrow (parseURL pl s) corrupt Inr)"

definition parsePullRequestFact :: "platform \<Rightarrow> jsval \<Rightarrow> pull_request_fact outcome" where
  "parsePullRequestFact pl v =
     bindE (parseObject v) (\<lambda>pr.
     throwIf (getprop pr ''source'' \<noteq> JStr ''github-rest-pull-request-v1'') corrupt
     (orThrow (enum_of pr_state_name PR_STATES (getprop pr ''state'')) corrupt (\<lambda>state.
     orThrow (js_bool (getprop pr ''draft'')) corrupt (\<lambda>draft.
     orThrow (js_bool (getprop pr ''merged'')) corrupt (\<lambda>merged.
     orThrow (safe_positive_int (getprop pr ''number'')) corrupt (\<lambda>number.
     bindE (parse_pr_url pl (getprop pr ''url'')) (\<lambda>url.
     throwIf (url_protocol url \<noteq> ''https:'') corrupt
     (bindE (requireNonEmptyString (getprop pr ''repository'')) (\<lambda>repository.
     bindE (parseCommitSha (getprop pr ''headSha'')) (\<lambda>headSha.
     bindE (requireNonEmptyString (getprop pr ''baseBranch'')) (\<lambda>baseBranch.
     bindE (nullE parseCommitSha (getprop pr ''mergeCommitSha'')) (\<lambda>mergeCommitSha.
     throwIf (merged \<and> state \<noteq> PrClosed) corrupt
     (Inr \<lparr>pr_url = url_href url, pr_repository = to_lower repository, pr_number = number,
           pr_state = state, pr_draft = draft, pr_headSha = headSha, pr_baseBranch = baseBranch,
           pr_merged = merged, pr_mergeCommitSha = mergeCommitSha\<rparr>)))))))))))))"

definition pull_request_json :: "pull_request_fact \<Rightarrow> jsval" where
  "pull_request_json p =
     JObj [(''source'', JStr ''github-rest-pull-request-v1''), (''url'', JStr (pr_url p)),
           (''repository'', JStr (pr_repository p)), (''number'', JNum (JInt (pr_number p))),
           (''state'', JStr (pr_state_name (pr_state p))), (''draft'', JBool (pr_draft p)),
           (''headSha'', JStr (pr_headSha p)), (''baseBranch'', JStr (pr_baseBranch p)),
           (''merged'', JBool (pr_merged p)), (''mergeCommitSha'', nullable JStr (pr_mergeCommitSha p))]"

definition wf_pull_request :: "platform \<Rightarrow> pull_request_fact \<Rightarrow> bool" where
  "wf_pull_request pl p \<longleftrightarrow>
     \<not> blank (pr_url p) \<and>
     (\<exists>u. parseURL pl (pr_url p) = Some u \<and> url_protocol u = ''https:'' \<and> pr_url p = url_href u) \<and>
     \<not> blank (pr_repository p) \<and> pr_repository p = to_lower (pr_repository p) \<and>
     1 \<le> pr_number p \<and> pr_number p \<le> 9007199254740991 \<and> is_commit_sha (pr_headSha p) \<and>
     \<not> blank (pr_baseBranch p) \<and> pred_option is_commit_sha (pr_mergeCommitSha p) \<and>
     (pr_merged p \<longrightarrow> pr_state p = PrClosed)"

section \<open>Delivery verification\<close>

text \<open>
  The URL check after the fields: \<open>new URL(pullRequest.url)\<close> is outside any \<open>try\<close>, so a URL
  that no longer parses throws a \<open>TypeError\<close>.
\<close>

definition nth_or_empty :: "string list \<Rightarrow> nat \<Rightarrow> string" where
  "nth_or_empty xs i = (if i < length xs then xs ! i else [])"

definition check_pr_url :: "platform \<Rightarrow> pull_request_fact option \<Rightarrow> unit outcome" where
  "check_pr_url pl pull =
     (case pull of
        None \<Rightarrow> Inr ()
      | Some p \<Rightarrow>
          orThrow (parseURL pl (pr_url p)) (ExternalError ''TypeError'') (\<lambda>url.
            let parts = filter (\<lambda>s. s \<noteq> []) (split_on CHR ''/'' (url_pathname url));
                repository = to_lower (nth_or_empty parts 0 @ ''/'' @ nth_or_empty parts 1);
                number = nth_or_empty parts 3
            in throwIf (url_origin url \<noteq> ''https://github.com'' \<or> url_search url \<noteq> [] \<or>
                  url_hash url \<noteq> [] \<or> length parts \<noteq> 4 \<or>
                  to_lower (nth_or_empty parts 2) \<noteq> ''pull'' \<or>
                  \<not> (number \<noteq> [] \<and> list_all is_digit number) \<or>
                  repository \<noteq> pr_repository p \<or> digits_value number \<noteq> pr_number p) corrupt (Inr ())))"

text \<open>
  \<open>level_facts_ok\<close>: the facts each delivery level needs.  Pull Request delivery is an open,
  unmerged, ready request at the candidate head whose file is the candidate's; merged delivery is
  the closed and merged request with its merge commit on the target branch; the local levels
  carry none of it.
\<close>

definition level_facts_ok ::
    "delivery_level \<Rightarrow> candidate_source \<Rightarrow> string option \<Rightarrow> string \<Rightarrow> string option \<Rightarrow>
     string option \<Rightarrow> string option \<Rightarrow> string option \<Rightarrow> bool option \<Rightarrow> pull_request_fact option \<Rightarrow> bool" where
  "level_facts_ok level source head fileSha blobSha branch targetSha integrationSha ancestry pull \<longleftrightarrow>
     (case level of
        PullRequest \<Rightarrow>
          source = GitWorkingTree \<and>
          (case pull of
             None \<Rightarrow> False
           | Some p \<Rightarrow> pr_state p = PrOpen \<and> \<not> pr_merged p \<and> \<not> pr_draft p \<and> Some (pr_headSha p) = head) \<and>
          blobSha = Some fileSha \<and> branch = None \<and> targetSha = None \<and> integrationSha = None \<and> ancestry = None
      | MergedResult \<Rightarrow>
          source = GitWorkingTree \<and>
          (case pull of
             None \<Rightarrow> False
           | Some p \<Rightarrow> pr_state p = PrClosed \<and> pr_merged p \<and> \<not> pr_draft p \<and> Some (pr_headSha p) = head \<and>
               pr_mergeCommitSha p \<noteq> None \<and> integrationSha = pr_mergeCommitSha p) \<and>
          blobSha = Some fileSha \<and> branch \<noteq> None \<and> targetSha \<noteq> None \<and> ancestry = Some True
      | _ \<Rightarrow> pull = None \<and> branch = None \<and> targetSha = None \<and> integrationSha = None \<and> ancestry = None)"

definition nongit_facts ::
    "delivery_level \<Rightarrow> string option \<Rightarrow> string option \<Rightarrow> string option \<Rightarrow> string option \<Rightarrow>
     bool option \<Rightarrow> pull_request_fact option \<Rightarrow> bool" where
  "nongit_facts level blobSha branch targetSha integrationSha ancestry pull \<longleftrightarrow>
     \<not> remote_level level \<and> blobSha = None \<and> pull = None \<and> branch = None \<and> targetSha = None \<and>
     integrationSha = None \<and> ancestry = None"

definition parse_candidate_source :: "jsobj \<Rightarrow> candidate_source outcome" where
  "parse_candidate_source input =
     (if getprop input ''candidateSource'' = JUndef
      then if getprop input ''candidateHead'' = JNull then Inl corrupt else Inr GitWorkingTree
      else orThrow (enum_of candidate_source_name CANDIDATE_SOURCES (getprop input ''candidateSource''))
             corrupt Inr)"

definition source_head_mismatch :: "candidate_source \<Rightarrow> string option \<Rightarrow> bool" where
  "source_head_mismatch source head \<longleftrightarrow>
     (source = GitWorkingTree \<and> head = None) \<or> (source = ProjectFiles \<and> head \<noteq> None)"

definition parseDeliveryVerification :: "platform \<Rightarrow> jsval \<Rightarrow> delivery_verification outcome" where
  "parseDeliveryVerification pl v =
     bindE (parseObject v) (\<lambda>input.
     throwIf (getprop input ''schemaVersion'' \<noteq> nat_val 1 \<or>
              getprop input ''source'' \<noteq> JStr ''pactile-task-delivery-observer-v1'') corrupt
     (orThrow (isTaskDeliveryLevel (getprop input ''level'')) corrupt (\<lambda>level.
     bindE (nullE (parsePullRequestFact pl) (getprop input ''pullRequest'')) (\<lambda>pull.
     bindE (nullE (\<lambda>x. orThrow (js_bool x) corrupt Inr) (getprop input ''ancestryVerified'')) (\<lambda>ancestry.
     bindE (requireFingerprint (getprop input ''candidateFingerprint'')) (\<lambda>candidateFingerprint.
     bindE (parse_candidate_source input) (\<lambda>source.
     bindE (nullE parseCommitSha (getprop input ''candidateHead'')) (\<lambda>head.
     throwIf (source_head_mismatch source head) corrupt
     (bindE (parseRepositoryRelativePath (getprop input ''path'')) (\<lambda>path.
     bindE (requireFingerprint (getprop input ''fileSha256'')) (\<lambda>fileSha.
     bindE (nullE requireFingerprint (getprop input ''gitBlobSha256'')) (\<lambda>blobSha.
     bindE (nullE requireNonEmptyString (getprop input ''targetBranch'')) (\<lambda>branch.
     bindE (nullE parseCommitSha (getprop input ''targetSha'')) (\<lambda>targetSha.
     bindE (nullE parseCommitSha (getprop input ''integrationCommitSha'')) (\<lambda>integrationSha.
     throwIf (source = ProjectFiles \<and>
              \<not> nongit_facts level blobSha branch targetSha integrationSha ancestry pull) corrupt
     (bindE (check_pr_url pl pull) (\<lambda>_.
     throwIf (\<not> level_facts_ok level source head fileSha blobSha branch targetSha integrationSha ancestry pull)
       corrupt
     (bindE (requireNonEmptyString (getprop input ''observedAt'')) (\<lambda>observedAt.
     Inr \<lparr>dver_observedAt = observedAt, dver_candidateFingerprint = candidateFingerprint,
          dver_candidateSource = source, dver_candidateHead = head, dver_level = level,
          dver_path = path, dver_fileSha256 = fileSha, dver_gitBlobSha256 = blobSha,
          dver_targetBranch = branch, dver_targetSha = targetSha,
          dver_integrationCommitSha = integrationSha, dver_ancestryVerified = ancestry,
          dver_pullRequest = pull\<rparr>)))))))))))))))))))"

definition delivery_verification_json :: "delivery_verification \<Rightarrow> jsval" where
  "delivery_verification_json d =
     JObj [(''schemaVersion'', nat_val 1), (''source'', JStr ''pactile-task-delivery-observer-v1''),
           (''observedAt'', JStr (dver_observedAt d)),
           (''candidateFingerprint'', JStr (dver_candidateFingerprint d)),
           (''candidateSource'', JStr (candidate_source_name (dver_candidateSource d))),
           (''candidateHead'', nullable JStr (dver_candidateHead d)),
           (''level'', JStr (level_name (dver_level d))), (''path'', JStr (dver_path d)),
           (''fileSha256'', JStr (dver_fileSha256 d)),
           (''gitBlobSha256'', nullable JStr (dver_gitBlobSha256 d)),
           (''targetBranch'', nullable JStr (dver_targetBranch d)),
           (''targetSha'', nullable JStr (dver_targetSha d)),
           (''integrationCommitSha'', nullable JStr (dver_integrationCommitSha d)),
           (''ancestryVerified'', nullable JBool (dver_ancestryVerified d)),
           (''pullRequest'', nullable pull_request_json (dver_pullRequest d))]"

definition wf_delivery_verification :: "platform \<Rightarrow> delivery_verification \<Rightarrow> bool" where
  "wf_delivery_verification pl d \<longleftrightarrow>
     \<not> blank (dver_observedAt d) \<and> is_fingerprint (dver_candidateFingerprint d) \<and>
     \<not> source_head_mismatch (dver_candidateSource d) (dver_candidateHead d) \<and>
     pred_option is_commit_sha (dver_candidateHead d) \<and>
     \<not> blank (dver_path d) \<and> plain_path (dver_path d) \<and>
     is_fingerprint (dver_fileSha256 d) \<and> pred_option is_fingerprint (dver_gitBlobSha256 d) \<and>
     pred_option (\<lambda>s. \<not> blank s) (dver_targetBranch d) \<and>
     pred_option is_commit_sha (dver_targetSha d) \<and>
     pred_option is_commit_sha (dver_integrationCommitSha d) \<and>
     pred_option (wf_pull_request pl) (dver_pullRequest d) \<and>
     check_pr_url pl (dver_pullRequest d) = Inr () \<and>
     (dver_candidateSource d = ProjectFiles \<longrightarrow>
        nongit_facts (dver_level d) (dver_gitBlobSha256 d) (dver_targetBranch d) (dver_targetSha d)
          (dver_integrationCommitSha d) (dver_ancestryVerified d) (dver_pullRequest d)) \<and>
     level_facts_ok (dver_level d) (dver_candidateSource d) (dver_candidateHead d) (dver_fileSha256 d)
       (dver_gitBlobSha256 d) (dver_targetBranch d) (dver_targetSha d)
       (dver_integrationCommitSha d) (dver_ancestryVerified d) (dver_pullRequest d)"

lemma pull_request_json_neq [simp]: "pull_request_json p \<noteq> JNull" "delivery_verification_json d \<noteq> JUndef"
  by (simp_all add: pull_request_json_def delivery_verification_json_def)

lemma parse_pr_url_iff [result_simps]:
  "parse_pr_url pl v = Inr u \<longleftrightarrow> (\<exists>s. v = JStr s \<and> \<not> blank s \<and> parseURL pl s = Some u)"
  by (cases v) (auto simp: parse_pr_url_def requireNonEmptyString_def result_simps split: if_splits)

lemma js_bool_iff [result_simps]: "js_bool v = Some b \<longleftrightarrow> v = JBool b"
  by (cases v) (auto simp: js_bool_def)

lemma safe_positive_int_iff [result_simps]:
  "safe_positive_int v = Some i \<longleftrightarrow> v = JNum (JInt i) \<and> 1 \<le> i \<and> i \<le> 9007199254740991"
  by (auto simp: safe_positive_int_def split: jsval.splits jsnum.splits)

lemma parsePullRequestFact_sound:
  "url_stable pl \<Longrightarrow> parsePullRequestFact pl v = Inr p \<Longrightarrow> wf_pull_request pl p"
  by (auto simp: parsePullRequestFact_def wf_pull_request_def result_simps url_stable_def
      dest: parseCommitSha_sound sound_rules)

lemma parsePullRequestFact_codec:
  assumes "wf_pull_request pl p"
  shows "parsePullRequestFact pl (pull_request_json p) = Inr p"
proof -
  obtain u where u: "parseURL pl (pr_url p) = Some u" "url_protocol u = ''https:''" "pr_url p = url_href u"
    using assms by (auto simp: wf_pull_request_def)
  have "parse_pr_url pl (JStr (pr_url p)) = Inr u"
    using assms u by (simp add: result_simps wf_pull_request_def)
  moreover have "safe_positive_int (JNum (JInt (pr_number p))) = Some (pr_number p)"
    using assms by (simp add: result_simps wf_pull_request_def)
  ultimately show ?thesis
    using assms u by (simp add: parsePullRequestFact_def pull_request_json_def wf_pull_request_def
        codec_rules js_bool_def throwIf_eq_Inr)
qed

lemma parse_candidate_source_json [simp]:
  "getprop input ''candidateSource'' = JStr (candidate_source_name s) \<Longrightarrow>
     parse_candidate_source input = Inr s"
  by (simp add: parse_candidate_source_def codec_rules)

lemma ancestry_codec [codec_rules]:
  "nullE (\<lambda>x. orThrow (js_bool x) corrupt Inr) (nullable JBool b) = Inr b"
  by (rule nullE_nullable [of "\<lambda>_. True"]) (simp_all add: option.pred_True js_bool_def)

lemma parseDeliveryVerification_sound:
  assumes "url_stable pl" and "parseDeliveryVerification pl v = Inr d"
  shows "wf_delivery_verification pl d"
proof -
  note pull = nullE_sound [OF _ parsePullRequestFact_sound [OF assms(1)]]
  show ?thesis
    using assms(2) unfolding parseDeliveryVerification_def wf_delivery_verification_def
    by (clarsimp simp: result_simps parseRepositoryRelativePath_iff)
       (intro conjI; (erule pull sound_rules)?)
qed

lemma parseDeliveryVerification_codec:
  assumes wf: "wf_delivery_verification pl d"
  shows "parseDeliveryVerification pl (delivery_verification_json d) = Inr d"
proof -
  have "nullE (parsePullRequestFact pl) (nullable pull_request_json (dver_pullRequest d)) =
      Inr (dver_pullRequest d)"
    using wf by (intro nullE_nullable [of "wf_pull_request pl"])
      (simp_all add: wf_delivery_verification_def parsePullRequestFact_codec)
  then show ?thesis
    using wf by (simp add: parseDeliveryVerification_def delivery_verification_json_def
        wf_delivery_verification_def codec_rules throwIf_eq_Inr)
qed

section \<open>Candidate observations and the closure\<close>

definition parseCandidateObservation :: "jsval \<Rightarrow> candidate_observation outcome" where
  "parseCandidateObservation v =
     bindE (parseObject v) (\<lambda>input.
     bindE (requireNonEmptyString (getprop input ''snapshotId'')) (\<lambda>snapshotId.
     bindE (requireFingerprint (getprop input ''fingerprint'')) (\<lambda>fingerprint.
     bindE (requireNonEmptyString (getprop input ''observedBy'')) (\<lambda>observedBy.
     bindE (requireNonEmptyString (getprop input ''observedAt'')) (\<lambda>observedAt.
     bindE (requireNonEmptyString (getprop input ''source'')) (\<lambda>source.
     bindE (requireNonEmptyString (getprop input ''evidenceRef'')) (\<lambda>evidenceRef.
     Inr \<lparr>obs_snapshotId = snapshotId, obs_fingerprint = fingerprint, obs_observedBy = observedBy,
          obs_observedAt = observedAt, obs_source = source, obs_evidenceRef = evidenceRef\<rparr>)))))))"

definition observation_json :: "candidate_observation \<Rightarrow> jsval" where
  "observation_json b =
     JObj [(''snapshotId'', JStr (obs_snapshotId b)), (''fingerprint'', JStr (obs_fingerprint b)),
           (''observedBy'', JStr (obs_observedBy b)), (''observedAt'', JStr (obs_observedAt b)),
           (''source'', JStr (obs_source b)), (''evidenceRef'', JStr (obs_evidenceRef b))]"

definition wf_observation :: "candidate_observation \<Rightarrow> bool" where
  "wf_observation b \<longleftrightarrow> \<not> blank (obs_snapshotId b) \<and> is_fingerprint (obs_fingerprint b) \<and>
     \<not> blank (obs_observedBy b) \<and> \<not> blank (obs_observedAt b) \<and> \<not> blank (obs_source b) \<and>
     \<not> blank (obs_evidenceRef b)"

definition delivery_mismatch :: "delivery_verification option \<Rightarrow> delivery_evidence \<Rightarrow> bool" where
  "delivery_mismatch ver d \<longleftrightarrow>
     (case ver of
        None \<Rightarrow> False
      | Some x \<Rightarrow> dver_level x \<noteq> dev_level d \<or> Some (dver_path x) \<noteq> dev_path d)"

definition parseClosure :: "platform \<Rightarrow> jsval \<Rightarrow> task_closure outcome" where
  "parseClosure pl v =
     bindE (parseObject v) (\<lambda>input.
     bindE (parseDeliveryEvidence pl None (getprop input ''deliveryEvidence'')) (\<lambda>evidence.
     bindE (undefE (parseDeliveryVerification pl) (getprop input ''deliveryVerification'')) (\<lambda>verification.
     throwIf (delivery_mismatch verification evidence) corrupt
     (bindE (requireNonEmptyString (getprop input ''runId'')) (\<lambda>runId.
     bindE (requireNonEmptyString (getprop input ''reviewId'')) (\<lambda>reviewId.
     bindE (requireNonEmptyString (getprop input ''candidateSnapshotId'')) (\<lambda>snapshotId.
     bindE (requireFingerprint (getprop input ''candidateFingerprint'')) (\<lambda>fingerprint.
     bindE (parseCandidateObservation (getprop input ''candidateObservation'')) (\<lambda>observation.
     bindE (parseEvidenceMap False (getprop input ''acceptanceEvidence'')) (\<lambda>acceptance.
     bindE (requireNonEmptyString (getprop input ''closedAt'')) (\<lambda>closedAt.
     bindE (requireNonEmptyString (getprop input ''closedBy'')) (\<lambda>closedBy.
     Inr \<lparr>clo_runId = runId, clo_reviewId = reviewId, clo_candidateSnapshotId = snapshotId,
          clo_candidateFingerprint = fingerprint, clo_candidateObservation = observation,
          clo_deliveryEvidence = evidence, clo_deliveryVerification = verification,
          clo_acceptanceEvidence = acceptance, clo_closedAt = closedAt,
          clo_closedBy = closedBy\<rparr>))))))))))))"

definition closure_json :: "task_closure \<Rightarrow> jsval" where
  "closure_json c =
     JObj ([(''runId'', JStr (clo_runId c)), (''reviewId'', JStr (clo_reviewId c)),
            (''candidateSnapshotId'', JStr (clo_candidateSnapshotId c)),
            (''candidateFingerprint'', JStr (clo_candidateFingerprint c)),
            (''candidateObservation'', observation_json (clo_candidateObservation c)),
            (''deliveryEvidence'', delivery_evidence_json (clo_deliveryEvidence c)),
            (''acceptanceEvidence'', evidence_map_json (clo_acceptanceEvidence c))] @
           optional_prop ''deliveryVerification'' delivery_verification_json (clo_deliveryVerification c) @
           [(''closedAt'', JStr (clo_closedAt c)), (''closedBy'', JStr (clo_closedBy c))])"

definition wf_closure :: "platform \<Rightarrow> task_closure \<Rightarrow> bool" where
  "wf_closure pl c \<longleftrightarrow>
     \<not> blank (clo_runId c) \<and> \<not> blank (clo_reviewId c) \<and> \<not> blank (clo_candidateSnapshotId c) \<and>
     is_fingerprint (clo_candidateFingerprint c) \<and> wf_observation (clo_candidateObservation c) \<and>
     wf_delivery_evidence pl (clo_deliveryEvidence c) \<and>
     pred_option (wf_delivery_verification pl) (clo_deliveryVerification c) \<and>
     \<not> delivery_mismatch (clo_deliveryVerification c) (clo_deliveryEvidence c) \<and>
     wf_evidence_map False (clo_acceptanceEvidence c) \<and>
     \<not> blank (clo_closedAt c) \<and> \<not> blank (clo_closedBy c)"

lemma parseCandidateObservation_sound [sound_rules]:
  "parseCandidateObservation v = Inr b \<Longrightarrow> wf_observation b"
  by (auto simp: parseCandidateObservation_def wf_observation_def result_simps)

lemma parseCandidateObservation_codec [codec_rules]:
  "wf_observation b \<Longrightarrow> parseCandidateObservation (observation_json b) = Inr b"
  by (simp add: parseCandidateObservation_def observation_json_def wf_observation_def codec_rules)

lemma closure_json_neq [simp]: "closure_json c \<noteq> JNull"
  by (simp add: closure_json_def)

lemma parseClosure_sound:
  assumes "url_stable pl" and "parseClosure pl v = Inr c"
  shows "wf_closure pl c"
proof -
  note verification = undefE_sound [OF _ parseDeliveryVerification_sound [OF assms(1)]]
  show ?thesis
    using assms(2)
    by (auto simp: parseClosure_def wf_closure_def result_simps dest: verification sound_rules)
qed

lemma parseClosure_codec:
  assumes "wf_closure pl c"
  shows "parseClosure pl (closure_json c) = Inr c"
proof -
  have "undefE (parseDeliveryVerification pl)
      (undefinable delivery_verification_json (clo_deliveryVerification c)) = Inr (clo_deliveryVerification c)"
    using assms by (intro undefE_undefinable [of "wf_delivery_verification pl"])
      (simp_all add: wf_closure_def parseDeliveryVerification_codec)
  then show ?thesis
    using assms by (simp add: parseClosure_def closure_json_def wf_closure_def codec_rules)
qed

end
