(* ===== verification/Snapshot_Schema.thy ===== *)
theory Snapshot_Schema
  imports Review_Schema
begin

text \<open>
  The Task Kernel snapshot as a whole, from \<open>core/task/task-kernel-schema.ts\<close>: the Task
  definition, audit and domain events, the checks across records, \<open>parseTaskKernelSnapshotV2\<close>
  and the lifecycle projection.
\<close>

section \<open>Definition\<close>

definition parse_criterion :: "jsval \<Rightarrow> acceptance_criterion outcome" where
  "parse_criterion v =
     bindE (parseObject v) (\<lambda>criterion.
     bindE (requireNonEmptyString (getprop criterion ''id'')) (\<lambda>id.
     bindE (requireNonEmptyString (getprop criterion ''description'')) (\<lambda>description.
     Inr \<lparr>crit_id = id, crit_description = description\<rparr>)))"

definition criterion_json :: "acceptance_criterion \<Rightarrow> jsval" where
  "criterion_json c = JObj [(''id'', JStr (crit_id c)), (''description'', JStr (crit_description c))]"

definition parseDefinition :: "jsval \<Rightarrow> task_definition outcome" where
  "parseDefinition v =
     bindE (parseObject v) (\<lambda>input.
     bindE (requireTaskId (getprop input ''taskId'')) (\<lambda>taskId.
     orThrow (isTaskDeliveryLevel (getprop input ''deliveryLevel'')) invalid_request (\<lambda>level.
     bindE (parseArray invalid_request (getprop input ''acceptanceCriteria'')) (\<lambda>raw.
     throwIf (raw = []) invalid_request
     (bindE (mapE parse_criterion raw) (\<lambda>criteria.
     throwIf (has_duplicates (map crit_id criteria)) invalid_request
     (bindE (parseStringArray True (getprop input ''dependencies'')) (\<lambda>ids.
     bindE (mapE (\<lambda>s. requireTaskId (JStr s)) ids) (\<lambda>dependencies.
     throwIf (has_duplicates dependencies \<or> taskId \<in> set dependencies) invalid_request
     (bindE (requireNonEmptyString (getprop input ''title'')) (\<lambda>title.
     bindE (if getprop input ''description'' = JUndef then Inr []
             else requireString True (getprop input ''description'')) (\<lambda>description.
     bindE (requireNonEmptyString (getprop input ''deliverable'')) (\<lambda>deliverable.
     bindE (requireNonEmptyString (getprop input ''createdAt'')) (\<lambda>createdAt.
     bindE (requireNonEmptyString (getprop input ''createdBy'')) (\<lambda>createdBy.
     Inr \<lparr>def_taskId = taskId, def_title = title, def_description = description,
          def_deliverable = deliverable, def_deliveryLevel = level, def_acceptanceCriteria = criteria,
          def_dependencies = dependencies, def_createdAt = createdAt,
          def_createdBy = createdBy\<rparr>)))))))))))))))"

definition definition_json :: "task_definition \<Rightarrow> jsval" where
  "definition_json d =
     JObj [(''taskId'', JStr (def_taskId d)), (''title'', JStr (def_title d)),
           (''description'', JStr (def_description d)), (''deliverable'', JStr (def_deliverable d)),
           (''deliveryLevel'', JStr (level_name (def_deliveryLevel d))),
           (''acceptanceCriteria'', JArr (map criterion_json (def_acceptanceCriteria d))),
           (''dependencies'', strs_val (def_dependencies d)), (''createdAt'', JStr (def_createdAt d)),
           (''createdBy'', JStr (def_createdBy d))]"

definition wf_definition :: "task_definition \<Rightarrow> bool" where
  "wf_definition d \<longleftrightarrow>
     is_task_id (def_taskId d) \<and> \<not> blank (def_title d) \<and> \<not> blank (def_deliverable d) \<and>
     def_acceptanceCriteria d \<noteq> [] \<and>
     list_all (\<lambda>c. \<not> blank (crit_id c) \<and> \<not> blank (crit_description c)) (def_acceptanceCriteria d) \<and>
     distinct (map crit_id (def_acceptanceCriteria d)) \<and>
     list_all is_task_id (def_dependencies d) \<and> distinct (def_dependencies d) \<and>
     def_taskId d \<notin> set (def_dependencies d) \<and> \<not> blank (def_createdAt d) \<and> \<not> blank (def_createdBy d)"

lemma parse_criterion_sound:
  "parse_criterion v = Inr c \<Longrightarrow> \<not> blank (crit_id c) \<and> \<not> blank (crit_description c)"
  by (auto simp: parse_criterion_def result_simps)

lemma mapE_task_ids: "mapE (\<lambda>s. requireTaskId (JStr s)) ids = Inr ds \<longleftrightarrow> ds = ids \<and> list_all is_task_id ids"
  by (induction ids arbitrary: ds) (auto simp: result_simps)

lemma parseDefinition_sound [sound_rules]: "parseDefinition v = Inr d \<Longrightarrow> wf_definition d"
  by (auto simp: parseDefinition_def wf_definition_def result_simps mapE_task_ids
      dest: mapE_length elim!: mapE_all dest: parse_criterion_sound)

lemma parseDefinition_codec [codec_rules]:
  assumes "wf_definition d"
  shows "parseDefinition (definition_json d) = Inr d"
proof -
  have "mapE parse_criterion (map criterion_json (def_acceptanceCriteria d)) = Inr (def_acceptanceCriteria d)"
    using assms by (intro mapE_map_id)
      (auto simp: wf_definition_def list_all_iff parse_criterion_def criterion_json_def codec_rules)
  moreover have "list_all (\<lambda>s. \<not> blank s) (def_dependencies d)"
    using assms by (auto simp: wf_definition_def list_all_iff is_task_id_not_blank)
  moreover have "mapE (\<lambda>s. requireTaskId (JStr s)) (def_dependencies d) = Inr (def_dependencies d)"
    using assms by (simp add: mapE_task_ids wf_definition_def)
  ultimately show ?thesis
    using assms by (simp add: parseDefinition_def definition_json_def wf_definition_def codec_rules)
qed

section \<open>Events and audit\<close>

definition parseEvent :: "jsval \<Rightarrow> kernel_event outcome" where
  "parseEvent v =
     bindE (parseObject v) (\<lambda>input.
     orThrow (enum_of event_type_name EVENT_TYPES (getprop input ''type'')) corrupt (\<lambda>type.
     bindE (requireNonEmptyString (getprop input ''id'')) (\<lambda>id.
     bindE (requirePositiveInt (getprop input ''revision'')) (\<lambda>revision.
     bindE (requireNonEmptyString (getprop input ''at'')) (\<lambda>at.
     bindE (requireNonEmptyString (getprop input ''actor'')) (\<lambda>actor.
     bindE (requireNonEmptyString (getprop input ''idempotencyKey'')) (\<lambda>idempotencyKey.
     bindE (requireNonEmptyString (getprop input ''entityId'')) (\<lambda>entityId.
     bindE (requireFingerprint (getprop input ''requestFingerprint'')) (\<lambda>requestFingerprint.
     Inr \<lparr>evt_id = id, evt_revision = revision, evt_at = at, evt_actor = actor,
          evt_idempotencyKey = idempotencyKey, evt_type = type, evt_entityId = entityId,
          evt_requestFingerprint = requestFingerprint\<rparr>)))))))))"

definition event_json :: "kernel_event \<Rightarrow> jsval" where
  "event_json e =
     JObj [(''id'', JStr (evt_id e)), (''revision'', nat_val (evt_revision e)), (''at'', JStr (evt_at e)),
           (''actor'', JStr (evt_actor e)), (''idempotencyKey'', JStr (evt_idempotencyKey e)),
           (''type'', JStr (event_type_name (evt_type e))), (''entityId'', JStr (evt_entityId e)),
           (''requestFingerprint'', JStr (evt_requestFingerprint e))]"

definition wf_event :: "kernel_event \<Rightarrow> bool" where
  "wf_event e \<longleftrightarrow> \<not> blank (evt_id e) \<and> 0 < evt_revision e \<and> \<not> blank (evt_at e) \<and>
     \<not> blank (evt_actor e) \<and> \<not> blank (evt_idempotencyKey e) \<and> \<not> blank (evt_entityId e) \<and>
     is_fingerprint (evt_requestFingerprint e)"

definition parse_outcome :: "jsval \<Rightarrow> kernel_outcome option outcome" where
  "parse_outcome v = nullE (\<lambda>x. orThrow (isKernelOutcome x) corrupt Inr) v"

text \<open>The \<open>parseState\<close> closure of \<open>parseKernelAudit\<close>\<close>

definition parse_state_revision :: "jsval \<Rightarrow> state_revision outcome" where
  "parse_state_revision v =
     bindE (parseObject v) (\<lambda>state.
     orThrow (isKernelPhase (getprop state ''phase'')) corrupt (\<lambda>phase.
     orThrow (isKernelCondition (getprop state ''condition'')) corrupt (\<lambda>condition.
     orThrow (isNonNegativeInt (getprop state ''revision'')) corrupt (\<lambda>revision.
     bindE (parse_outcome (getprop state ''outcome'')) (\<lambda>outcome.
     Inr \<lparr>st_phase = phase, st_condition = condition, st_outcome = outcome,
          st_revision = revision\<rparr>)))))"

definition outcome_json :: "kernel_outcome option \<Rightarrow> jsval" where
  "outcome_json x = nullable (\<lambda>y. JStr (outcome_name y)) x"

definition state_revision_json :: "state_revision \<Rightarrow> jsval" where
  "state_revision_json s =
     JObj [(''phase'', JStr (phase_name (st_phase s))),
           (''condition'', JStr (condition_name (st_condition s))),
           (''outcome'', outcome_json (st_outcome s)), (''revision'', nat_val (st_revision s))]"

definition parse_audit_evidence :: "jsval \<Rightarrow> string option outcome" where
  "parse_audit_evidence v = nullE (\<lambda>x. case x of JStr s \<Rightarrow> Inr s | _ \<Rightarrow> Inl corrupt) v"

definition parseKernelAudit :: "jsval \<Rightarrow> kernel_audit outcome" where
  "parseKernelAudit v =
     bindE (parseObject v) (\<lambda>input.
     bindE (parse_audit_evidence (getprop input ''evidence'')) (\<lambda>evidence.
     bindE (requireNonEmptyString (getprop input ''id'')) (\<lambda>id.
     bindE (requireNonEmptyString (getprop input ''at'')) (\<lambda>at.
     bindE (requireNonEmptyString (getprop input ''actor'')) (\<lambda>actor.
     bindE (requireNonEmptyString (getprop input ''idempotencyKey'')) (\<lambda>idempotencyKey.
     bindE (parse_state_revision (getprop input ''from'')) (\<lambda>from.
     bindE (parse_state_revision (getprop input ''to'')) (\<lambda>to.
     Inr \<lparr>aud_id = id, aud_at = at, aud_actor = actor, aud_idempotencyKey = idempotencyKey,
          aud_evidence = evidence, aud_from = from, aud_to = to\<rparr>))))))))"

definition audit_json :: "kernel_audit \<Rightarrow> jsval" where
  "audit_json a =
     JObj [(''id'', JStr (aud_id a)), (''at'', JStr (aud_at a)), (''actor'', JStr (aud_actor a)),
           (''idempotencyKey'', JStr (aud_idempotencyKey a)),
           (''evidence'', nullable JStr (aud_evidence a)),
           (''from'', state_revision_json (aud_from a)), (''to'', state_revision_json (aud_to a))]"

definition wf_audit :: "kernel_audit \<Rightarrow> bool" where
  "wf_audit a \<longleftrightarrow> \<not> blank (aud_id a) \<and> \<not> blank (aud_at a) \<and> \<not> blank (aud_actor a) \<and>
     \<not> blank (aud_idempotencyKey a)"

lemma parseEvent_sound: "parseEvent v = Inr e \<Longrightarrow> wf_event e"
  by (auto simp: parseEvent_def wf_event_def result_simps)

lemma parseEvent_codec: "wf_event e \<Longrightarrow> parseEvent (event_json e) = Inr e"
  by (simp add: parseEvent_def event_json_def wf_event_def codec_rules)

lemma parse_outcome_codec [codec_rules]: "parse_outcome (outcome_json x) = Inr x"
  unfolding parse_outcome_def outcome_json_def
  by (rule nullE_nullable [of "\<lambda>_. True"]) (simp_all add: option.pred_True codec_rules)

lemma parse_state_revision_codec [codec_rules]: "parse_state_revision (state_revision_json s) = Inr s"
  by (simp add: parse_state_revision_def state_revision_json_def codec_rules)

lemma parse_audit_evidence_codec [codec_rules]: "parse_audit_evidence (nullable JStr x) = Inr x"
  by (cases x) (simp_all add: parse_audit_evidence_def)

lemma parseKernelAudit_sound: "parseKernelAudit v = Inr a \<Longrightarrow> wf_audit a"
  by (auto simp: parseKernelAudit_def wf_audit_def result_simps)

lemma parseKernelAudit_codec: "wf_audit a \<Longrightarrow> parseKernelAudit (audit_json a) = Inr a"
  by (simp add: parseKernelAudit_def audit_json_def wf_audit_def codec_rules)

section \<open>Checks across records\<close>

text \<open>
  \<open>validateAuditChain\<close>: each entry raises the revision by one and starts where the one before
  ended, and the last ends at the current revision.
\<close>

fun audit_contiguous :: "nat option \<Rightarrow> kernel_audit list \<Rightarrow> bool" where
  "audit_contiguous previous [] \<longleftrightarrow> True"
| "audit_contiguous previous (a # as) \<longleftrightarrow>
     st_revision (aud_to a) = st_revision (aud_from a) + 1 \<and>
     (case previous of None \<Rightarrow> True | Some r \<Rightarrow> r = st_revision (aud_from a)) \<and>
     audit_contiguous (Some (st_revision (aud_to a))) as"

definition validateAuditChain :: "kernel_audit list \<Rightarrow> nat \<Rightarrow> unit outcome" where
  "validateAuditChain audit revision =
     throwIf (audit = []) corrupt
     (throwIf (\<not> audit_contiguous None audit) corrupt
     (bindE (requireArrayEntry (last_opt audit)) (\<lambda>a.
      throwIf (st_revision (aud_to a) \<noteq> revision) corrupt (Inr ()))))"

fun events_ok :: "nat \<Rightarrow> string list \<Rightarrow> string list \<Rightarrow> kernel_event list \<Rightarrow> bool" where
  "events_ok revision keys ids [] \<longleftrightarrow> True"
| "events_ok revision keys ids (e # es) \<longleftrightarrow>
     evt_revision e \<le> revision \<and> evt_idempotencyKey e \<notin> set keys \<and> evt_id e \<notin> set ids \<and>
     events_ok revision (evt_idempotencyKey e # keys) (evt_id e # ids) es"

definition validateEvents :: "kernel_event list \<Rightarrow> nat \<Rightarrow> unit outcome" where
  "validateEvents events revision =
     throwIf (\<not> events_ok revision [] [] events) corrupt (throwIf (events = []) corrupt (Inr ()))"

fun runs_ok :: "string \<Rightarrow> string list \<Rightarrow> task_run list \<Rightarrow> bool" where
  "runs_ok taskId seen [] \<longleftrightarrow> True"
| "runs_ok taskId seen (r # rs) \<longleftrightarrow>
     run_taskId r = taskId \<and> run_id r \<notin> set seen \<and> runs_ok taskId (run_id r # seen) rs"

text \<open>A Review names the snapshot of the first Run with its id.\<close>

definition review_bound :: "task_run list \<Rightarrow> task_review \<Rightarrow> bool" where
  "review_bound runs v \<longleftrightarrow>
     (case List.find (\<lambda>r. run_id r = rev_runId v) runs of
        None \<Rightarrow> False
      | Some r \<Rightarrow> (case run_candidateSnapshot r of
          None \<Rightarrow> False
        | Some c \<Rightarrow> rev_candidateSnapshotId v = cand_id c \<and> rev_candidateFingerprint v = cand_fingerprint c))"

fun reviews_ok :: "string \<Rightarrow> task_run list \<Rightarrow> string list \<Rightarrow> task_review list \<Rightarrow> bool" where
  "reviews_ok taskId runs seen [] \<longleftrightarrow> True"
| "reviews_ok taskId runs seen (v # vs) \<longleftrightarrow>
     rev_taskId v = taskId \<and> rev_runId v \<in> set (map run_id runs) \<and> rev_id v \<notin> set seen \<and>
     review_bound runs v \<and> \<not> (rev_decision v = DecPass \<and> rev_unresolvedBlockers v \<noteq> []) \<and>
     reviews_ok taskId runs (rev_id v # seen) vs"

definition closure_bound :: "task_run list \<Rightarrow> task_review list \<Rightarrow> task_closure \<Rightarrow> bool" where
  "closure_bound runs reviews c \<longleftrightarrow>
     (case List.find (\<lambda>r. run_id r = clo_runId c) runs of
        None \<Rightarrow> False
      | Some r \<Rightarrow> (case List.find (\<lambda>v. rev_id v = clo_reviewId c) reviews of
          None \<Rightarrow> False
        | Some v \<Rightarrow> (case run_candidateSnapshot r of
            None \<Rightarrow> False
          | Some s \<Rightarrow>
              clo_candidateSnapshotId c = cand_id s \<and> clo_candidateFingerprint c = cand_fingerprint s \<and>
              rev_runId v = run_id r \<and> rev_candidateSnapshotId v = clo_candidateSnapshotId c \<and>
              rev_candidateFingerprint v = clo_candidateFingerprint c \<and>
              obs_snapshotId (clo_candidateObservation c) = clo_candidateSnapshotId c \<and>
              obs_fingerprint (clo_candidateObservation c) = clo_candidateFingerprint c)))"

lemma validateAuditChain_iff:
  "validateAuditChain audit revision = Inr u \<longleftrightarrow>
     audit \<noteq> [] \<and> audit_contiguous None audit \<and> st_revision (aud_to (last audit)) = revision"
  by (auto simp: validateAuditChain_def result_simps requireArrayEntry_def last_opt_def)

lemma validateEvents_iff:
  "validateEvents events revision = Inr u \<longleftrightarrow> events \<noteq> [] \<and> events_ok revision [] [] events"
  by (auto simp: validateEvents_def result_simps)

lemma audit_contiguous_append:
  "audit_contiguous p (xs @ ys) \<longleftrightarrow>
     audit_contiguous p xs \<and>
     audit_contiguous (if xs = [] then p else Some (st_revision (aud_to (last xs)))) ys"
  by (induction xs arbitrary: p) auto

lemma events_ok_iff:
  "events_ok revision keys ids es \<longleftrightarrow>
     list_all (\<lambda>e. evt_revision e \<le> revision) es \<and>
     distinct (map evt_idempotencyKey es) \<and> distinct (map evt_id es) \<and>
     set (map evt_idempotencyKey es) \<inter> set keys = {} \<and> set (map evt_id es) \<inter> set ids = {}"
  by (induction es arbitrary: keys ids) auto

lemma runs_ok_iff:
  "runs_ok taskId seen rs \<longleftrightarrow>
     list_all (\<lambda>r. run_taskId r = taskId) rs \<and> distinct (map run_id rs) \<and>
     set (map run_id rs) \<inter> set seen = {}"
  by (induction rs arbitrary: seen) auto

lemma reviews_ok_iff:
  "reviews_ok taskId runs seen vs \<longleftrightarrow>
     list_all (\<lambda>v. rev_taskId v = taskId \<and> review_bound runs v \<and>
       (rev_decision v = DecPass \<longrightarrow> rev_unresolvedBlockers v = [])) vs \<and>
     distinct (map rev_id vs) \<and> set (map rev_id vs) \<inter> set seen = {}"
proof (induction vs arbitrary: seen)
  case (Cons v vs)
  have "review_bound runs v \<Longrightarrow> rev_runId v \<in> set (map run_id runs)"
    by (auto simp: review_bound_def split: option.splits dest!: find_Some_in_set intro: rev_image_eqI)
  then show ?case by (auto simp: Cons.IH)
qed simp

section \<open>Snapshots\<close>

definition parseTaskKernelSnapshotV2 :: "platform \<Rightarrow> jsval \<Rightarrow> task_kernel outcome" where
  "parseTaskKernelSnapshotV2 pl v =
     bindE (parseObject v) (\<lambda>input.
     throwIf (getprop input ''schemaVersion'' \<noteq> nat_val 2) corrupt
     (bindE (parseObject (getprop input ''identity'')) (\<lambda>identity.
     bindE (requireTaskId (getprop identity ''taskId'')) (\<lambda>taskId.
     bindE (parseDefinition (getprop input ''definition'')) (\<lambda>task_def.
     throwIf (def_taskId task_def \<noteq> taskId) corrupt
     (orThrow (isNonNegativeInt (getprop input ''revision'')) corrupt (\<lambda>revision.
     orThrow (isKernelPhase (getprop input ''phase'')) corrupt (\<lambda>phase.
     orThrow (isKernelCondition (getprop input ''condition'')) corrupt (\<lambda>condition.
     bindE (parse_outcome (getprop input ''outcome'')) (\<lambda>outcome.
     bindE (parseArray corrupt (getprop input ''runs'')) (\<lambda>rawRuns.
     bindE (parseArray corrupt (getprop input ''reviews'')) (\<lambda>rawReviews.
     bindE (parseArray corrupt (getprop input ''audit'')) (\<lambda>rawAudit.
     bindE (parseArray corrupt (getprop input ''events'')) (\<lambda>rawEvents.
     bindE (mapE (parseRun pl) rawRuns) (\<lambda>runs.
     bindE (mapE (parseReview pl) rawReviews) (\<lambda>reviews.
     bindE (mapE parseKernelAudit rawAudit) (\<lambda>audit.
     bindE (mapE parseEvent rawEvents) (\<lambda>events.
     throwIf (\<not> runs_ok taskId [] runs) corrupt
     (throwIf (\<not> reviews_ok taskId runs [] reviews) corrupt
     (bindE (nullE (parseClosure pl) (getprop input ''closure'')) (\<lambda>closure.
     throwIf (case closure of None \<Rightarrow> False | Some c \<Rightarrow> \<not> closure_bound runs reviews c) corrupt
     (bindE (validateAuditChain audit revision) (\<lambda>_.
     bindE (validateEvents events revision) (\<lambda>_.
     Inr \<lparr>ker_taskId = taskId, ker_revision = revision, ker_phase = phase, ker_condition = condition,
          ker_outcome = outcome, ker_definition = task_def, ker_runs = runs, ker_reviews = reviews,
          ker_closure = closure, ker_audit = audit, ker_events = events\<rparr>))))))))))))))))))))))))"

definition snapshot_json :: "task_kernel \<Rightarrow> jsval" where
  "snapshot_json k =
     JObj [(''schemaVersion'', nat_val 2), (''identity'', JObj [(''taskId'', JStr (ker_taskId k))]),
           (''revision'', nat_val (ker_revision k)), (''phase'', JStr (phase_name (ker_phase k))),
           (''condition'', JStr (condition_name (ker_condition k))),
           (''outcome'', outcome_json (ker_outcome k)),
           (''definition'', definition_json (ker_definition k)),
           (''runs'', JArr (map run_json (ker_runs k))),
           (''reviews'', JArr (map review_json (ker_reviews k))),
           (''closure'', nullable closure_json (ker_closure k)),
           (''audit'', JArr (map audit_json (ker_audit k))),
           (''events'', JArr (map event_json (ker_events k)))]"

text \<open>The well-formedness of a snapshot: its records, and what holds across them.\<close>

definition wf_content :: "platform \<Rightarrow> task_kernel \<Rightarrow> bool" where
  "wf_content pl k \<longleftrightarrow>
     is_task_id (ker_taskId k) \<and> wf_definition (ker_definition k) \<and>
     def_taskId (ker_definition k) = ker_taskId k \<and>
     list_all (wf_run pl) (ker_runs k) \<and> list_all (wf_review pl) (ker_reviews k) \<and>
     runs_ok (ker_taskId k) [] (ker_runs k) \<and> reviews_ok (ker_taskId k) (ker_runs k) [] (ker_reviews k) \<and>
     pred_option (\<lambda>c. wf_closure pl c \<and> closure_bound (ker_runs k) (ker_reviews k) c) (ker_closure k)"

definition wf_journal :: "task_kernel \<Rightarrow> bool" where
  "wf_journal k \<longleftrightarrow>
     list_all wf_audit (ker_audit k) \<and> list_all wf_event (ker_events k) \<and>
     ker_audit k \<noteq> [] \<and> audit_contiguous None (ker_audit k) \<and>
     st_revision (aud_to (last (ker_audit k))) = ker_revision k \<and>
     ker_events k \<noteq> [] \<and> events_ok (ker_revision k) [] [] (ker_events k)"

definition wf_kernel :: "platform \<Rightarrow> task_kernel \<Rightarrow> bool" where
  "wf_kernel pl k \<longleftrightarrow> wf_content pl k \<and> wf_journal k"

lemmas wf_kernel_defs = wf_kernel_def wf_content_def wf_journal_def

definition base_shas_ok :: "task_kernel \<Rightarrow> bool" where
  "base_shas_ok k \<longleftrightarrow> list_all run_base_sha_ok (ker_runs k)"

lemma parseTaskKernelSnapshotV2_sound:
  assumes url: "url_stable pl" and p: "parseTaskKernelSnapshotV2 pl v = Inr k"
  shows "wf_kernel pl k"
proof -
  note closure = nullE_sound [OF _ parseClosure_sound [OF url]]
  have runs: "mapE (parseRun pl) xs = Inr rs \<Longrightarrow> list_all (wf_run pl) rs" for xs rs
    by (erule mapE_all) (rule parseRun_sound)
  have reviews: "mapE (parseReview pl) xs = Inr vs \<Longrightarrow> list_all (wf_review pl) vs" for xs vs
    by (erule mapE_all) (rule parseReview_sound)
  have audit: "mapE parseKernelAudit xs = Inr as \<Longrightarrow> list_all wf_audit as" for xs as
    by (erule mapE_all) (rule parseKernelAudit_sound)
  have events: "mapE parseEvent xs = Inr es \<Longrightarrow> list_all wf_event es" for xs es
    by (erule mapE_all) (rule parseEvent_sound)
  show ?thesis
    using p unfolding parseTaskKernelSnapshotV2_def wf_kernel_defs
    by (clarsimp simp: result_simps validateAuditChain_iff validateEvents_iff)
       (intro conjI; (erule runs reviews audit events parseDefinition_sound)?;
         auto dest: closure split: option.splits)
qed

lemma closure_codec: "pred_option (\<lambda>c. wf_closure pl c \<and> Q c) c \<Longrightarrow>
    nullE (parseClosure pl) (nullable closure_json c) = Inr c"
  by (cases c) (simp_all add: parseClosure_codec nullE_def)

lemma parseTaskKernelSnapshotV2_codec:
  assumes wf: "wf_kernel pl k" and sha: "base_shas_ok k"
  shows "parseTaskKernelSnapshotV2 pl (snapshot_json k) = Inr k"
proof -
  have "mapE (parseRun pl) (map run_json (ker_runs k)) = Inr (ker_runs k)"
    using wf sha by (intro mapE_map_id parseRun_codec) (auto simp: wf_kernel_defs base_shas_ok_def list_all_iff)
  moreover have "mapE (parseReview pl) (map review_json (ker_reviews k)) = Inr (ker_reviews k)"
    using wf by (intro mapE_map_id parseReview_codec) (auto simp: wf_kernel_defs list_all_iff)
  moreover have "mapE parseKernelAudit (map audit_json (ker_audit k)) = Inr (ker_audit k)"
    using wf by (intro mapE_map_id parseKernelAudit_codec) (auto simp: wf_kernel_defs list_all_iff)
  moreover have "mapE parseEvent (map event_json (ker_events k)) = Inr (ker_events k)"
    using wf by (intro mapE_map_id parseEvent_codec) (auto simp: wf_kernel_defs list_all_iff)
  moreover have "nullE (parseClosure pl) (nullable closure_json (ker_closure k)) = Inr (ker_closure k)"
    using wf by (intro closure_codec [of pl "closure_bound (ker_runs k) (ker_reviews k)"]) (simp add: wf_kernel_defs)
  moreover have "\<not> (case ker_closure k of None \<Rightarrow> False
      | Some c \<Rightarrow> \<not> closure_bound (ker_runs k) (ker_reviews k) c)"
    using wf by (auto simp: wf_kernel_defs split: option.splits)
  moreover have "validateAuditChain (ker_audit k) (ker_revision k) = Inr ()"
    "validateEvents (ker_events k) (ker_revision k) = Inr ()"
    using wf by (simp_all add: validateAuditChain_iff validateEvents_iff wf_kernel_defs)
  ultimately show ?thesis
    using wf by (simp add: parseTaskKernelSnapshotV2_def snapshot_json_def wf_kernel_defs codec_rules)
qed

end
