(* ===== verification/Kernel_Store.thy ===== *)
theory Kernel_Store
  imports Snapshot_Schema
begin

text \<open>
  The store of \<open>core/task/task-kernel-store-v2.ts\<close>: the project's task directories, the append
  operations every mutation is made of, idempotent replay, and \<open>mutateTaskKernel\<close>, the one way a
  kernel changes.

  A directory is known by its resolved path; \<open>canonicalProjectRoot\<close>, the containment check of
  \<open>resolveInsideTaskRoot\<close> and the lock around an operation belong to the host, and an operation
  runs alone on its directory.  \<open>kernel.json\<close> holds the value \<open>JSON.parse\<close> reads, and
  \<open>writeKernelStateDocument\<close> leaves the value it was given.

  For a directory imported from a legacy project the record carries the document its overlay, or
  else the staged copy, provides (\<open>imp_document\<close>); the journal that chains the overlay's bytes is
  not modelled beyond the two checks it makes on the new document.
\<close>

section \<open>Task directories\<close>

datatype kernel_file = NoFile | BadJson | Document jsval

datatype import_status = NeedsDefinition | NeedsCoordination | Imported

record import_record =
  imp_status :: import_status
  imp_legacyTaskId :: string
  imp_hardDependencies :: "string list"
  imp_document :: "jsval outcome"

text \<open>A located task: what \<open>findTaskById\<close> and a V1 kernel report of it.\<close>

record located_task =
  loc_dir :: string
  loc_taskId :: string
  loc_phase :: kernel_phase
  loc_outcome :: "kernel_outcome option"
  loc_dependencies :: "string list"

text \<open>
  \<open>td_legacy\<close> is what \<open>readKernel\<close> reports of a V1 directory, \<open>None\<close> where it throws;
  \<open>td_taskJson\<close> says that a V1 \<open>task.json\<close> is there; \<open>td_archived\<close> that the path runs through
  \<open>archive\<close>; \<open>td_superseded\<close> that a migrated source stands for it.
\<close>

record task_dir =
  td_dir :: string
  td_archived :: bool
  td_superseded :: bool
  td_taskJson :: bool
  td_import :: "import_record option"
  td_document :: kernel_file
  td_legacy :: "located_task option"

type_synonym project = "task_dir list"

definition find_dir :: "project \<Rightarrow> string \<Rightarrow> task_dir option" where
  "find_dir p dir = List.find (\<lambda>t. td_dir t = dir) p"

definition empty_dir :: "string \<Rightarrow> task_dir" where
  "empty_dir dir = \<lparr>td_dir = dir, td_archived = False, td_superseded = False, td_taskJson = False,
     td_import = None, td_document = NoFile, td_legacy = None\<rparr>"

text \<open>A directory that is not there yet is made by the lock file.\<close>

definition dir_or_empty :: "project \<Rightarrow> string \<Rightarrow> task_dir" where
  "dir_or_empty p dir = (case find_dir p dir of None \<Rightarrow> empty_dir dir | Some t \<Rightarrow> t)"

definition put_dir :: "project \<Rightarrow> task_dir \<Rightarrow> project" where
  "put_dir p t =
     (case find_index (\<lambda>u. td_dir u = td_dir t) p of None \<Rightarrow> p @ [t] | Some i \<Rightarrow> p[i := t])"

definition readKernelStateDocument :: "task_dir \<Rightarrow> jsval outcome" where
  "readKernelStateDocument t =
     (case td_document t of NoFile \<Rightarrow> Inr JNull | BadJson \<Rightarrow> Inl corrupt | Document v \<Rightarrow> Inr v)"

definition is_v2_document :: "jsval \<Rightarrow> bool" where
  "is_v2_document v \<longleftrightarrow> (case v of JObj fs \<Rightarrow> getprop fs ''schemaVersion'' = nat_val 2 | _ \<Rightarrow> False)"

section \<open>Appending\<close>

definition with_revision :: "kernel_state \<Rightarrow> nat \<Rightarrow> state_revision" where
  "with_revision s r = \<lparr>st_phase = st_phase s, st_condition = st_condition s,
     st_outcome = st_outcome s, st_revision = r\<rparr>"

definition kernel_state_of :: "task_kernel \<Rightarrow> kernel_state" where
  "kernel_state_of k = \<lparr>st_phase = ker_phase k, st_condition = ker_condition k, st_outcome = ker_outcome k\<rparr>"

definition makeAudit ::
    "platform \<Rightarrow> kernel_state \<Rightarrow> nat \<Rightarrow> kernel_state \<Rightarrow> nat \<Rightarrow> string \<Rightarrow> string \<Rightarrow> string \<Rightarrow> nat \<Rightarrow>
     kernel_audit \<times> nat" where
  "makeAudit pl from fromRevision to toRevision actor idem evidence n =
     (\<lparr>aud_id = randomUUID pl n, aud_at = isoNow pl (n + 1), aud_actor = actor,
       aud_idempotencyKey = idem, aud_evidence = Some evidence,
       aud_from = with_revision from fromRevision, aud_to = with_revision to toRevision\<rparr>, n + 2)"

definition makeEvent ::
    "platform \<Rightarrow> nat \<Rightarrow> string \<Rightarrow> string \<Rightarrow> event_type \<Rightarrow> string \<Rightarrow> string \<Rightarrow> nat \<Rightarrow> kernel_event \<times> nat" where
  "makeEvent pl revision actor idem type entityId fingerprint n =
     (\<lparr>evt_id = randomUUID pl n, evt_revision = revision, evt_at = isoNow pl (n + 1), evt_actor = actor,
       evt_idempotencyKey = idem, evt_type = type, evt_entityId = entityId,
       evt_requestFingerprint = fingerprint\<rparr>, n + 2)"

text \<open>
  The patch of \<open>appendMutation\<close>: the fields a caller passes.  Callers pass the definition, or
  nothing, or the closure with condition and outcome.
\<close>

record kernel_patch =
  pat_definition :: "task_definition option"
  pat_closure :: "task_closure option"
  pat_condition :: "kernel_condition option"
  pat_outcome :: "kernel_outcome option option"

definition no_patch :: kernel_patch where
  "no_patch = \<lparr>pat_definition = None, pat_closure = None, pat_condition = None, pat_outcome = None\<rparr>"

definition apply_patch :: "kernel_patch \<Rightarrow> task_kernel \<Rightarrow> task_kernel" where
  "apply_patch pat k =
     k\<lparr>ker_definition := (case pat_definition pat of None \<Rightarrow> ker_definition k | Some d \<Rightarrow> d),
       ker_closure := (case pat_closure pat of None \<Rightarrow> ker_closure k | Some c \<Rightarrow> Some c)\<rparr>"

definition patched_state :: "kernel_patch \<Rightarrow> task_kernel \<Rightarrow> kernel_state" where
  "patched_state pat k =
     \<lparr>st_phase = ker_phase k,
      st_condition = (case pat_condition pat of None \<Rightarrow> ker_condition k | Some c \<Rightarrow> c),
      st_outcome = (case pat_outcome pat of None \<Rightarrow> ker_outcome k | Some x \<Rightarrow> x)\<rparr>"

definition with_state :: "kernel_state \<Rightarrow> task_kernel \<Rightarrow> task_kernel" where
  "with_state s k = k\<lparr>ker_phase := st_phase s, ker_condition := st_condition s, ker_outcome := st_outcome s\<rparr>"

definition appendMutation ::
    "platform \<Rightarrow> task_kernel \<Rightarrow> string \<Rightarrow> string \<Rightarrow> event_type \<Rightarrow> string \<Rightarrow> string \<Rightarrow> kernel_patch \<Rightarrow>
     string \<Rightarrow> nat \<Rightarrow> task_kernel \<times> nat" where
  "appendMutation pl k actor idem type entityId fingerprint pat evidence n =
     (let revision = ker_revision k + 1;
          nextState = patched_state pat k;
          (audit, n1) = makeAudit pl (kernel_state_of k) (ker_revision k) nextState revision actor idem evidence n;
          (event, n2) = makeEvent pl revision actor idem type entityId fingerprint n1
      in ((with_state nextState (apply_patch pat k))
            \<lparr>ker_revision := revision, ker_audit := ker_audit k @ [audit],
             ker_events := ker_events k @ [event]\<rparr>, n2))"

definition appendDomainEvent ::
    "platform \<Rightarrow> task_kernel \<Rightarrow> string \<Rightarrow> string \<Rightarrow> event_type \<Rightarrow> string \<Rightarrow> string \<Rightarrow> nat \<Rightarrow> task_kernel \<times> nat" where
  "appendDomainEvent pl k actor idem type entityId fingerprint n =
     appendMutation pl k actor idem type entityId fingerprint no_patch (event_type_name type) n"

definition phase_allowed :: "kernel_phase \<Rightarrow> kernel_phase \<Rightarrow> bool" where
  "phase_allowed p target \<longleftrightarrow>
     p = target \<or>
     (p = PhDefine \<and> target = PhApprove) \<or> (p = PhApprove \<and> target = PhExecute) \<or>
     (p = PhDefine \<and> target = PhExecute) \<or> (p = PhVerify \<and> target = PhExecute) \<or>
     (p = PhExecute \<and> target = PhVerify) \<or> (p = PhVerify \<and> target = PhClose)"

definition appendPhase ::
    "platform \<Rightarrow> task_kernel \<Rightarrow> kernel_phase \<Rightarrow> string \<Rightarrow> string \<Rightarrow> string \<Rightarrow>
     kernel_condition option \<Rightarrow> kernel_outcome option option \<Rightarrow> nat \<Rightarrow> (task_kernel \<times> nat) outcome" where
  "appendPhase pl k target actor idem evidence condition outcome n =
     throwIf (\<not> phase_allowed (ker_phase k) target) (KernelError INVALID_TRANSITION)
     (let revision = ker_revision k + 1;
          derived = deriveStateForPhase target;
          to = derived\<lparr>st_condition := (case condition of None \<Rightarrow> st_condition derived | Some c \<Rightarrow> c),
                       st_outcome := (case outcome of None \<Rightarrow> st_outcome derived | Some x \<Rightarrow> x)\<rparr>;
          (audit, n1) = makeAudit pl (kernel_state_of k) (ker_revision k) to revision actor idem evidence n
      in Inr ((with_state to k)\<lparr>ker_revision := revision, ker_audit := ker_audit k @ [audit]\<rparr>, n1))"

section \<open>Replay\<close>

definition findIdempotent :: "task_kernel \<Rightarrow> string \<Rightarrow> string \<Rightarrow> kernel_event option outcome" where
  "findIdempotent k idem fingerprint =
     (case List.find (\<lambda>e. evt_idempotencyKey e = idem) (ker_events k) of
        None \<Rightarrow> Inr None
      | Some prior \<Rightarrow>
          throwIf (evt_requestFingerprint prior \<noteq> fingerprint) (KernelError IDEMPOTENCY_MISMATCH)
            (Inr (Some prior)))"

definition audit_of_key :: "string \<Rightarrow> kernel_audit \<Rightarrow> bool" where
  "audit_of_key idem a \<longleftrightarrow>
     aud_idempotencyKey a = idem \<or> starts_with (idem @ ''#'') (aud_idempotencyKey a)"

definition findAuditForKey :: "task_kernel \<Rightarrow> string \<Rightarrow> kernel_audit outcome" where
  "findAuditForKey k idem = orThrow (List.find (audit_of_key idem) (ker_audit k)) corrupt Inr"

record mutation_result =
  mut_kernel :: task_kernel
  mut_idempotent :: bool
  mut_audit :: kernel_audit
  mut_event :: kernel_event

section \<open>Mutation\<close>

type_synonym operation = "task_kernel \<Rightarrow> nat \<Rightarrow> (task_kernel \<times> nat) outcome"

text \<open>The document a mutation reads, and the directory after it has written \<open>next\<close>.\<close>

definition current_document :: "task_dir \<Rightarrow> jsval outcome" where
  "current_document t =
     (case td_import t of None \<Rightarrow> readKernelStateDocument t | Some r \<Rightarrow> imp_document r)"

definition commit_document :: "platform \<Rightarrow> task_dir \<Rightarrow> task_kernel \<Rightarrow> task_kernel \<Rightarrow> task_dir outcome" where
  "commit_document pl t current next =
     (case td_import t of
        None \<Rightarrow> Inr (t\<lparr>td_document := Document (snapshot_json next)\<rparr>)
      | Some r \<Rightarrow>
          bindE (parseTaskKernelSnapshotV2 pl (snapshot_json next)) (\<lambda>parsed.
            throwIf (ker_revision parsed \<le> ker_revision current) corrupt
              (Inr (t\<lparr>td_import := Some (r\<lparr>imp_document := Inr (snapshot_json next)\<rparr>)\<rparr>))))"

definition import_refusal :: "task_dir \<Rightarrow> failure option" where
  "import_refusal t =
     (case td_import t of
        None \<Rightarrow> None
      | Some r \<Rightarrow> (case imp_status r of
          NeedsDefinition \<Rightarrow> Some (KernelError LEGACY_TASK_REQUIRES_DEFINITION)
        | NeedsCoordination \<Rightarrow> Some (KernelError LEGACY_TASK_REQUIRES_COORDINATION)
        | Imported \<Rightarrow> None))"

definition mutateTaskKernel ::
    "platform \<Rightarrow> project \<Rightarrow> string \<Rightarrow> jsval \<Rightarrow> jsval \<Rightarrow> jsval \<Rightarrow> string \<Rightarrow> (string \<Rightarrow> operation) \<Rightarrow> nat \<Rightarrow>
     (mutation_result \<times> project \<times> nat) outcome" where
  "mutateTaskKernel pl p dir expectedRevision actorValue keyValue fingerprint operation n =
     bindE (requireNonEmptyString actorValue) (\<lambda>_.
     bindE (requireNonEmptyString keyValue) (\<lambda>idem.
     orThrow (isNonNegativeInt expectedRevision) invalid_request (\<lambda>expected.
     let t = dir_or_empty p dir in
     throwIf (td_archived t) invalid_request
     (case import_refusal t of
        Some e \<Rightarrow> Inl e
      | None \<Rightarrow>
          bindE (current_document t) (\<lambda>document.
          bindE (parseTaskKernelSnapshotV2 pl document) (\<lambda>current.
          bindE (findIdempotent current idem fingerprint) (\<lambda>prior.
          case prior of
            Some event \<Rightarrow>
              bindE (findAuditForKey current idem) (\<lambda>audit.
              Inr (\<lparr>mut_kernel = current, mut_idempotent = True, mut_audit = audit, mut_event = event\<rparr>, p, n))
          | None \<Rightarrow>
              throwIf (expected \<noteq> ker_revision current) (KernelError REVISION_CONFLICT)
              (bindE (operation idem current n) (\<lambda>(next, n').
               bindE (requireArrayEntry (last_opt (ker_audit next))) (\<lambda>audit.
               bindE (requireArrayEntry (last_opt (ker_events next))) (\<lambda>event.
               bindE (commit_document pl t current next) (\<lambda>t'.
               Inr (\<lparr>mut_kernel = next, mut_idempotent = False, mut_audit = audit, mut_event = event\<rparr>,
                    put_dir p t', n')))))))))))))"

end
