(* ===== verification/Kernel_Operation.thy ===== *)
theory Kernel_Operation
  imports Kernel_Store
begin

text \<open>
  The contract of a kernel operation and what \<open>mutateTaskKernel\<close> makes of it.

  An operation \<^emph>\<open>extends\<close> a kernel: it appends audit entries that continue the revision chain and
  carry the request's key and actor, then exactly one domain event at the new revision, and leaves
  the past alone.  The locale \<open>kernel_operation\<close> asks just that; \<open>wf_operation\<close> asks in addition
  that the content stays well-formed.  Every operation of the kernel is an interpretation of one
  of them, in the theory that defines it.
\<close>

section \<open>What the platform is relied on for\<close>

text \<open>
  \<open>platform_ok\<close>: random UUIDs differ, they and time stamps are printed, a printed time stamp
  parses, SHA-256 prints 64 lower-case hex digits, and URLs serialise stably.
\<close>

definition platform_ok :: "platform \<Rightarrow> bool" where
  "platform_ok pl \<longleftrightarrow>
     inj (randomUUID pl) \<and> (\<forall>n. \<not> blank (randomUUID pl n)) \<and> (\<forall>n. \<not> blank (isoNow pl n)) \<and>
     (\<forall>n. dateParses pl (isoNow pl n)) \<and> (\<forall>s. is_fingerprint (sha256hex pl s)) \<and> url_stable pl"

lemma platform_okD:
  assumes "platform_ok pl"
  shows "inj (randomUUID pl)" and "\<not> blank (randomUUID pl n)" and "\<not> blank (isoNow pl n)"
    and "dateParses pl (isoNow pl n)" and "is_fingerprint (sha256hex pl s)" and "url_stable pl"
    and "is_fingerprint (fingerprintTaskValue pl v)"
  using assms by (simp_all add: platform_ok_def fingerprintTaskValue_def)

section \<open>Extending a kernel\<close>

text \<open>Audit entries a request \<open>idem\<close> of \<open>actor\<close> adds.\<close>

definition own_audit :: "platform \<Rightarrow> string \<Rightarrow> string \<Rightarrow> kernel_audit \<Rightarrow> bool" where
  "own_audit pl actor idem a \<longleftrightarrow>
     audit_of_key idem a \<and> aud_actor a = actor \<and>
     (\<exists>m. aud_id a = randomUUID pl m) \<and> (\<exists>m. aud_at a = isoNow pl m)"

definition own_event :: "platform \<Rightarrow> string \<Rightarrow> string \<Rightarrow> string \<Rightarrow> nat \<Rightarrow> nat \<Rightarrow> kernel_event \<Rightarrow> bool" where
  "own_event pl actor idem fp n n' e \<longleftrightarrow>
     evt_actor e = actor \<and> evt_idempotencyKey e = idem \<and> evt_requestFingerprint e = fp \<and>
     (\<exists>m. n \<le> m \<and> m < n' \<and> evt_id e = randomUUID pl m) \<and> (\<exists>m. evt_at e = isoNow pl m)"

lemma own_eventI:
  "evt_actor e = actor \<Longrightarrow> evt_idempotencyKey e = idem \<Longrightarrow> evt_id e = randomUUID pl m \<Longrightarrow>
   evt_at e = isoNow pl t \<Longrightarrow> evt_requestFingerprint e = fp \<Longrightarrow> n \<le> m \<Longrightarrow> m < n' \<Longrightarrow>
   own_event pl actor idem fp n n' e"
  by (auto simp: own_event_def)

text \<open>\<open>advances\<close>: the steps before the event of the request.\<close>

definition advances ::
    "platform \<Rightarrow> string \<Rightarrow> string \<Rightarrow> task_kernel \<Rightarrow> nat \<Rightarrow> task_kernel \<Rightarrow> nat \<Rightarrow> bool" where
  "advances pl actor idem k n k' n' \<longleftrightarrow>
     ker_taskId k' = ker_taskId k \<and> ker_events k' = ker_events k \<and> n \<le> n' \<and>
     (\<exists>as. ker_audit k' = ker_audit k @ as \<and> audit_contiguous (Some (ker_revision k)) as \<and>
       list_all (own_audit pl actor idem) as \<and> ker_revision k' = ker_revision k + length as)"

definition extends ::
    "platform \<Rightarrow> string \<Rightarrow> string \<Rightarrow> string \<Rightarrow> task_kernel \<Rightarrow> nat \<Rightarrow> task_kernel \<Rightarrow> nat \<Rightarrow> bool" where
  "extends pl actor idem fp k n k' n' \<longleftrightarrow>
     ker_taskId k' = ker_taskId k \<and> n \<le> n' \<and>
     (\<exists>as e. as \<noteq> [] \<and> ker_audit k' = ker_audit k @ as \<and>
       audit_contiguous (Some (ker_revision k)) as \<and> list_all (own_audit pl actor idem) as \<and>
       ker_revision k' = ker_revision k + length as \<and>
       ker_events k' = ker_events k @ [e] \<and> own_event pl actor idem fp n n' e \<and>
       evt_revision e = ker_revision k')"

lemma contiguous_last:
  "audit_contiguous (Some r) as \<Longrightarrow> as \<noteq> [] \<Longrightarrow> st_revision (aud_to (last as)) = r + length as"
proof (induction as arbitrary: r)
  case (Cons a as)
  then show ?case by (cases as) auto
qed simp

lemma audit_of_key_simps [simp]:
  "audit_of_key idem \<lparr>aud_id = i, aud_at = t, aud_actor = a, aud_idempotencyKey = idem,
     aud_evidence = e, aud_from = x, aud_to = y\<rparr>"
  "audit_of_key idem \<lparr>aud_id = i, aud_at = t, aud_actor = a, aud_idempotencyKey = idem @ CHR ''#'' # s,
     aud_evidence = e, aud_from = x, aud_to = y\<rparr>"
  by (simp_all add: audit_of_key_def starts_with_iff)

lemma advances_refl: "n \<le> n' \<Longrightarrow> advances pl actor idem k n k n'"
  by (simp add: advances_def)

lemma advances_trans:
  assumes "advances pl actor idem k n k' n'" and "advances pl actor idem k' n' k'' n''"
  shows "advances pl actor idem k n k'' n''"
proof -
  obtain as where as: "ker_audit k' = ker_audit k @ as" "audit_contiguous (Some (ker_revision k)) as"
    "list_all (own_audit pl actor idem) as" "ker_revision k' = ker_revision k + length as"
    using assms(1) by (auto simp: advances_def)
  obtain bs where bs: "ker_audit k'' = ker_audit k' @ bs" "audit_contiguous (Some (ker_revision k')) bs"
    "list_all (own_audit pl actor idem) bs" "ker_revision k'' = ker_revision k' + length bs"
    using assms(2) by (auto simp: advances_def)
  have "audit_contiguous (Some (ker_revision k)) (as @ bs)"
    using as bs contiguous_last [OF as(2)] by (cases "as = []") (simp_all add: audit_contiguous_append)
  with as bs assms show ?thesis by (auto simp: advances_def)
qed

text \<open>Fields outside the journal may change freely.\<close>

definition same_journal :: "task_kernel \<Rightarrow> task_kernel \<Rightarrow> bool" where
  "same_journal k k' \<longleftrightarrow> ker_taskId k' = ker_taskId k \<and> ker_events k' = ker_events k \<and>
     ker_audit k' = ker_audit k \<and> ker_revision k' = ker_revision k"

lemma same_journal_update [simp]:
  "same_journal k (k\<lparr>ker_runs := rs\<rparr>)" "same_journal k (k\<lparr>ker_condition := c, ker_runs := rs\<rparr>)"
  "same_journal k (k\<lparr>ker_condition := c, ker_runs := rs, ker_reviews := vs\<rparr>)"
  by (simp_all add: same_journal_def)

lemma advances_same: "advances pl actor idem k n k' n' \<Longrightarrow> same_journal k' k'' \<Longrightarrow> advances pl actor idem k n k'' n'"
  by (auto simp: advances_def same_journal_def)

lemma appendPhase_advances:
  assumes "appendPhase pl k target actor (idem @ CHR ''#'' # s) evidence c x n = Inr (k', n')"
  shows "advances pl actor idem k n k' n'"
  using assms
  by (auto simp: appendPhase_def makeAudit_def advances_def result_simps Let_def with_state_def
      with_revision_def own_audit_def)

lemma appendMutation_extends:
  assumes "advances pl actor idem k n k1 n1"
    and "appendMutation pl k1 actor idem type entity fp pat evidence n1 = (k', n')"
  shows "extends pl actor idem fp k n k' n'"
proof -
  obtain as where as: "ker_audit k1 = ker_audit k @ as" "audit_contiguous (Some (ker_revision k)) as"
    "list_all (own_audit pl actor idem) as" "ker_revision k1 = ker_revision k + length as"
    and same: "ker_taskId k1 = ker_taskId k" "ker_events k1 = ker_events k" "n \<le> n1"
    using assms(1) by (auto simp: advances_def)
  define a where "a = fst (makeAudit pl (kernel_state_of k1) (ker_revision k1) (patched_state pat k1)
    (ker_revision k1 + 1) actor idem evidence n1)"
  define e where "e = fst (makeEvent pl (ker_revision k1 + 1) actor idem type entity fp (n1 + 2))"
  have k': "ker_audit k' = ker_audit k @ as @ [a]" "ker_events k' = ker_events k @ [e]"
    "ker_revision k' = ker_revision k + length (as @ [a])" "ker_taskId k' = ker_taskId k" "n' = n1 + 4"
    using assms(2) as same
    by (auto simp: appendMutation_def a_def e_def makeAudit_def makeEvent_def with_state_def
        apply_patch_def Let_def)
  have "audit_contiguous (Some (ker_revision k)) (as @ [a])"
    using as contiguous_last [OF as(2)]
    by (cases "as = []") (simp_all add: audit_contiguous_append a_def makeAudit_def with_revision_def)
  moreover have "own_audit pl actor idem a" by (auto simp: a_def makeAudit_def own_audit_def)
  moreover have "evt_id e = randomUUID pl (n1 + 2)" "evt_at e = isoNow pl (n1 + 3)"
    "evt_actor e = actor" "evt_idempotencyKey e = idem" "evt_requestFingerprint e = fp"
    "evt_revision e = ker_revision k'"
    using k' as by (simp_all add: e_def makeEvent_def eval_nat_numeral)
  moreover from this have "own_event pl actor idem fp n n' e"
    using k'(5) same(3) by (intro own_eventI [where m = "n1 + 2" and t = "n1 + 3"]) simp_all
  ultimately show ?thesis
    unfolding extends_def using k' as same
    by (intro conjI exI [of _ "as @ [a]"] exI [of _ e]) auto
qed

lemma appendDomainEvent_extends:
  "advances pl actor idem k n k1 n1 \<Longrightarrow>
   appendDomainEvent pl k1 actor idem type entity fp n1 = (k', n') \<Longrightarrow> extends pl actor idem fp k n k' n'"
  unfolding appendDomainEvent_def by (rule appendMutation_extends)

lemma apply_no_patch [simp]: "apply_patch no_patch k = k"
  by (simp add: apply_patch_def no_patch_def)

lemma patched_no_patch [simp]: "patched_state no_patch k = kernel_state_of k"
  by (simp add: patched_state_def no_patch_def kernel_state_of_def)

text \<open>What an append leaves of the rest of the kernel.\<close>

lemma appendMutation_content:
  assumes "appendMutation pl k actor idem type entity fp pat evidence n = (k', n')"
  shows "wf_content pl k' \<longleftrightarrow> wf_content pl (apply_patch pat k)"
    and "ker_runs k' = ker_runs k" and "ker_reviews k' = ker_reviews k"
    and "ker_definition k' = ker_definition (apply_patch pat k)"
    and "ker_closure k' = ker_closure (apply_patch pat k)" and "ker_phase k' = ker_phase k"
    and "ker_condition k' = st_condition (patched_state pat k)"
    and "ker_outcome k' = st_outcome (patched_state pat k)"
    and "evt_entityId (last (ker_events k')) = entity" and "evt_type (last (ker_events k')) = type"
    and "n' = n + 4" and "ker_taskId k' = ker_taskId k" and "ker_revision k' = ker_revision k + 1"
  using assms
  by (auto simp: appendMutation_def makeAudit_def makeEvent_def with_state_def apply_patch_def
      patched_state_def wf_content_def Let_def)

lemma appendDomainEvent_content:
  assumes "appendDomainEvent pl k actor idem type entity fp n = (k', n')"
  shows "wf_content pl k' \<longleftrightarrow> wf_content pl k"
    and "ker_runs k' = ker_runs k" and "ker_reviews k' = ker_reviews k"
    and "ker_definition k' = ker_definition k" and "ker_closure k' = ker_closure k"
    and "ker_phase k' = ker_phase k" and "ker_condition k' = ker_condition k"
    and "ker_outcome k' = ker_outcome k"
    and "evt_entityId (last (ker_events k')) = entity" and "evt_type (last (ker_events k')) = type"
    and "n' = n + 4" and "ker_taskId k' = ker_taskId k" and "ker_revision k' = ker_revision k + 1"
  using appendMutation_content [OF assms [unfolded appendDomainEvent_def]]
  by (simp_all add: kernel_state_of_def)

lemma appendPhase_content:
  assumes "appendPhase pl k target actor idem evidence c x n = Inr (k', n')"
  shows "wf_content pl k' \<longleftrightarrow> wf_content pl k"
    and "ker_runs k' = ker_runs k" and "ker_reviews k' = ker_reviews k"
    and "ker_definition k' = ker_definition k" and "ker_closure k' = ker_closure k"
    and "ker_phase k' = target" and "n' = n + 2" and "ker_taskId k' = ker_taskId k"
    and "phase_allowed (ker_phase k) target"
proof -
  have "st_phase (deriveStateForPhase target) = target" by (cases target) simp_all
  with assms show "wf_content pl k' \<longleftrightarrow> wf_content pl k"
    and "ker_runs k' = ker_runs k" and "ker_reviews k' = ker_reviews k"
    and "ker_definition k' = ker_definition k" and "ker_closure k' = ker_closure k"
    and "ker_phase k' = target" and "n' = n + 2" and "ker_taskId k' = ker_taskId k"
    and "phase_allowed (ker_phase k) target"
    by (auto simp: appendPhase_def makeAudit_def with_state_def wf_content_def result_simps Let_def)
qed

text \<open>What a request asked of the host before it appended does not matter.\<close>

lemma own_event_earlier: "own_event pl actor idem fp n1 n' e \<Longrightarrow> n \<le> n1 \<Longrightarrow> own_event pl actor idem fp n n' e"
  unfolding own_event_def by (blast intro: order_trans)

lemma extends_earlier: "extends pl actor idem fp k n1 k' n' \<Longrightarrow> n \<le> n1 \<Longrightarrow> extends pl actor idem fp k n k' n'"
  by (auto simp: extends_def intro: own_event_earlier)

lemma tickets_earlier:
  assumes "X \<subseteq> A \<union> randomUUID pl ` {n1..<n'}" and "n \<le> n1"
  shows "X \<subseteq> A \<union> randomUUID pl ` {n..<n'}"
proof -
  have "{n1..<n'} \<subseteq> {n..<n'}" using assms(2) by auto
  then show ?thesis using assms(1) by (blast dest: image_mono)
qed

lemma extends_revision: "extends pl actor idem fp k n k' n' \<Longrightarrow> ker_revision k < ker_revision k'"
  by (auto simp: extends_def)

section \<open>The journal stays well-formed\<close>

text \<open>Identifiers from ticket \<open>n\<close> on are not in use.\<close>

definition uuid_fresh :: "platform \<Rightarrow> nat \<Rightarrow> task_kernel \<Rightarrow> bool" where
  "uuid_fresh pl n k \<longleftrightarrow>
     (\<forall>m \<ge> n. randomUUID pl m \<notin> evt_id ` set (ker_events k) \<union> run_id ` set (ker_runs k))"

definition key_unused :: "string \<Rightarrow> task_kernel \<Rightarrow> bool" where
  "key_unused idem k \<longleftrightarrow> idem \<notin> evt_idempotencyKey ` set (ker_events k)"

lemma findIdempotent_None: "findIdempotent k idem fp = Inr None \<Longrightarrow> key_unused idem k"
  by (auto simp: findIdempotent_def key_unused_def find_None_iff result_simps split: option.splits)

lemma blank_append: "blank (s @ t) \<longleftrightarrow> blank s \<and> blank t"
  by (simp add: blank_iff)

lemma own_audit_wf:
  assumes "platform_ok pl" and "\<not> blank actor" and "\<not> blank idem" and "own_audit pl actor idem a"
  shows "wf_audit a"
  using assms platform_okD(2,3) [OF assms(1)]
  by (auto simp: own_audit_def wf_audit_def audit_of_key_def starts_with_iff blank_append)

lemma wf_journal_extends:
  assumes ok: "platform_ok pl" and k: "wf_journal k" and fresh: "uuid_fresh pl n k"
    and unused: "key_unused idem k" and actor: "\<not> blank actor" and idem: "\<not> blank idem"
    and fp: "is_fingerprint fp" and ext: "extends pl actor idem fp k n k' n'"
    and entity: "\<not> blank (evt_entityId (last (ker_events k')))"
  shows "wf_journal k'"
proof -
  obtain as e where as: "as \<noteq> []" "ker_audit k' = ker_audit k @ as"
      "audit_contiguous (Some (ker_revision k)) as" "list_all (own_audit pl actor idem) as"
      "ker_revision k' = ker_revision k + length as"
    and e: "ker_events k' = ker_events k @ [e]" "own_event pl actor idem fp n n' e"
      "evt_revision e = ker_revision k'"
    using ext by (auto simp: extends_def)
  obtain m t where m: "n \<le> m" "evt_id e = randomUUID pl m" and t: "evt_at e = isoNow pl t"
    using e(2) by (auto simp: own_event_def)
  have "audit_contiguous None (ker_audit k')"
    using as(2,3) k by (simp add: audit_contiguous_append wf_journal_def)
  moreover have "st_revision (aud_to (last (ker_audit k'))) = ker_revision k'"
    using as contiguous_last [OF as(3,1)] by simp
  moreover have "list_all wf_audit (ker_audit k')"
    using as(2,4) k own_audit_wf [OF ok actor idem] by (auto simp: wf_journal_def list_all_iff)
  moreover have "wf_event e"
    using e m t entity actor idem fp as(1,5) platform_okD(2,3) [OF ok]
    by (auto simp: wf_event_def own_event_def)
  moreover have "evt_id e \<notin> set (map evt_id (ker_events k))" "idem \<notin> set (map evt_idempotencyKey (ker_events k))"
    using fresh m unused by (auto simp: uuid_fresh_def key_unused_def)
  ultimately show ?thesis
    using k as e unfolding wf_journal_def events_ok_iff
    by (auto simp: own_event_def list_all_iff)
qed

section \<open>The project around a mutation\<close>

lemma find_dir_dir: "find_dir p dir = Some t \<Longrightarrow> td_dir t = dir"
  by (auto simp: find_dir_def dest!: find_Some_in_set)

lemma td_dir_dir_or_empty [simp]: "td_dir (dir_or_empty p dir) = dir"
  by (auto simp: dir_or_empty_def empty_dir_def split: option.splits dest: find_dir_dir)

lemma find_dir_update:
  "find_index (\<lambda>u. td_dir u = td_dir t) p = Some i \<Longrightarrow>
   find_dir (p[i := t]) dir = (if dir = td_dir t then Some t else find_dir p dir)"
  by (induction p arbitrary: i) (auto simp: find_dir_def split: if_splits)

lemma find_dir_append:
  "find_index (\<lambda>u. td_dir u = td_dir t) p = None \<Longrightarrow>
   find_dir (p @ [t]) dir = (if dir = td_dir t then Some t else find_dir p dir)"
  by (induction p) (auto simp: find_dir_def split: if_splits)

lemma find_dir_put: "find_dir (put_dir p t) dir = (if dir = td_dir t then Some t else find_dir p dir)"
  by (simp add: put_dir_def find_dir_update find_dir_append split: option.splits)

lemma dir_or_empty_put: "dir_or_empty (put_dir p t) (td_dir t) = t"
  by (simp add: dir_or_empty_def find_dir_put)

text \<open>
  What reading a Run or a Review back insists on and the operations do not ensure: a full base
  commit, a trimmed base branch, a recovery binding that says when it was recorded; a file baseline
  that stands alone and has no blank path and no file named as an excluded directory; evidence
  items within the size limit (the code bounds the size \<open>lstat\<close> reports, not the bytes read); and
  Review references that are written as their evidence items are.
\<close>

definition baseline_readable :: "task_run \<Rightarrow> bool" where
  "baseline_readable r \<longleftrightarrow>
     pred_option (\<lambda>b. list_all (\<lambda>e. \<not> blank (bent_path e) \<and> \<not> named_as_directory e) (base_files b) \<and>
         run_workspace r = None \<and> run_candidateBaseSha r = None \<and> run_candidateBaseBranch r = None)
       (run_candidateFileBaseline r)"

definition manager_readable :: "task_run \<Rightarrow> bool" where
  "manager_readable r \<longleftrightarrow>
     pred_option (\<lambda>w. pred_option (\<lambda>m. \<not> blank (mgr_recordedAt m)) (ws_manager w)) (run_workspace r)"

definition result_readable :: "task_run \<Rightarrow> bool" where
  "result_readable r \<longleftrightarrow>
     pred_option (\<lambda>res. pred_option (\<lambda>v. list_all (\<lambda>i. rei_sizeBytes i \<le> 8 * 1024 * 1024) (rver_items v))
         (res_evidenceVerification res)) (run_result r)"

definition run_readable :: "task_run \<Rightarrow> bool" where
  "run_readable r \<longleftrightarrow> run_base_sha_ok r \<and> \<not> untrimmed_branch (run_candidateBaseBranch r) \<and>
     manager_readable r \<and> baseline_readable r \<and> result_readable r"

definition review_readable :: "task_review \<Rightarrow> bool" where
  "review_readable v \<longleftrightarrow>
     pred_option (\<lambda>r. List.sort (map vei_ref (vver_items r)) =
         review_expected_refs (rev_evidenceRefs v) (rev_acceptanceEvidence v))
       (rev_evidenceVerification v)"

definition readable :: "task_kernel \<Rightarrow> bool" where
  "readable k \<longleftrightarrow> list_all run_readable (ker_runs k) \<and> list_all review_readable (ker_reviews k)"

lemma readable_base_shas: "readable k \<Longrightarrow> base_shas_ok k"
  by (auto simp: readable_def base_shas_ok_def run_readable_def list_all_iff)

text \<open>A directory holds a kernel when its document is the kernel's serialisation, and reads back.\<close>

definition holds :: "platform \<Rightarrow> task_dir \<Rightarrow> task_kernel \<Rightarrow> bool" where
  "holds pl t k \<longleftrightarrow> current_document t = Inr (snapshot_json k) \<and> wf_kernel pl k \<and> readable k"

lemma holds_parse: "holds pl t k \<Longrightarrow> parseTaskKernelSnapshotV2 pl (snapshot_json k) = Inr k"
  by (simp add: holds_def readable_base_shas parseTaskKernelSnapshotV2_codec)

lemma holds_find_dir:
  "holds pl (dir_or_empty p dir) k \<Longrightarrow> find_dir p dir = Some (dir_or_empty p dir)"
  by (cases "find_dir p dir")
     (simp_all add: dir_or_empty_def empty_dir_def holds_def current_document_def
        readKernelStateDocument_def snapshot_json_def)

lemma holds_reads:
  "holds pl t k \<Longrightarrow> current_document t = Inr v \<Longrightarrow> parseTaskKernelSnapshotV2 pl v = Inr k' \<longleftrightarrow> k' = k"
  using holds_parse [of pl t k] by (auto simp: holds_def)

lemma commit_document_current:
  "commit_document pl t current next = Inr t' \<Longrightarrow> current_document t' = Inr (snapshot_json next)"
  by (auto simp: commit_document_def current_document_def readKernelStateDocument_def result_simps
      split: option.splits)

lemma commit_document_dir:
  "commit_document pl t current next = Inr t' \<Longrightarrow>
     td_dir t' = td_dir t \<and> td_archived t' = td_archived t \<and> import_refusal t' = import_refusal t \<and>
     td_superseded t' = td_superseded t"
  by (auto simp: commit_document_def import_refusal_def result_simps split: option.splits)

section \<open>Mutations\<close>

text \<open>A mutation that returns has either replayed an earlier request or run its operation.\<close>

definition replays ::
    "platform \<Rightarrow> task_dir \<Rightarrow> string \<Rightarrow> string \<Rightarrow> mutation_result \<Rightarrow> bool" where
  "replays pl t idem fp res \<longleftrightarrow>
     (\<exists>v event. current_document t = Inr v \<and> parseTaskKernelSnapshotV2 pl v = Inr (mut_kernel res) \<and>
       findIdempotent (mut_kernel res) idem fp = Inr (Some event) \<and> mut_event res = event \<and>
       findAuditForKey (mut_kernel res) idem = Inr (mut_audit res) \<and> mut_idempotent res)"

definition performs ::
    "platform \<Rightarrow> task_dir \<Rightarrow> jsval \<Rightarrow> string \<Rightarrow> string \<Rightarrow> (string \<Rightarrow> operation) \<Rightarrow> nat \<Rightarrow>
     task_kernel \<Rightarrow> mutation_result \<Rightarrow> task_dir \<Rightarrow> nat \<Rightarrow> bool" where
  "performs pl t expected idem fp op n current res t' n' \<longleftrightarrow>
     (\<exists>v. current_document t = Inr v \<and> parseTaskKernelSnapshotV2 pl v = Inr current) \<and>
     findIdempotent current idem fp = Inr None \<and> expected = nat_val (ker_revision current) \<and>
     op idem current n = Inr (mut_kernel res, n') \<and> \<not> mut_idempotent res \<and>
     last_opt (ker_audit (mut_kernel res)) = Some (mut_audit res) \<and>
     last_opt (ker_events (mut_kernel res)) = Some (mut_event res) \<and>
     commit_document pl t current (mut_kernel res) = Inr t'"

lemma requireArrayEntry_iff: "requireArrayEntry x = Inr a \<longleftrightarrow> x = Some a"
  by (cases x) (simp_all add: requireArrayEntry_def)

lemma mutate_iff:
  "mutateTaskKernel pl p dir expected actorValue keyValue fp op n = Inr (res, p', n') \<longleftrightarrow>
     (\<exists>actor idem r. actorValue = JStr actor \<and> \<not> blank actor \<and> keyValue = JStr idem \<and> \<not> blank idem \<and>
       expected = nat_val r \<and> \<not> td_archived (dir_or_empty p dir) \<and>
       import_refusal (dir_or_empty p dir) = None \<and>
       (replays pl (dir_or_empty p dir) idem fp res \<and> p' = p \<and> n' = n \<or>
        (\<exists>current t'. performs pl (dir_or_empty p dir) expected idem fp op n current res t' n' \<and>
          p' = put_dir p t')))"
  by (cases res)
     (auto simp: mutateTaskKernel_def result_simps Let_def replays_def performs_def requireArrayEntry_iff
        split: option.splits;
      metis option.inject)

lemma performs_holds:
  "performs pl t expected idem fp op n current res t' n' \<Longrightarrow> holds pl t k \<Longrightarrow> current = k"
  by (auto simp: performs_def holds_reads)

lemma replays_holds:
  "replays pl t idem fp res \<Longrightarrow> holds pl t k \<Longrightarrow> mut_kernel res = k"
  by (auto simp: replays_def holds_reads)

lemma performs_commit:
  assumes "performs pl t expected idem fp op n current res t' n'"
  shows "current_document t' = Inr (snapshot_json (mut_kernel res))" and "td_dir t' = td_dir t"
    and "td_archived t' = td_archived t" and "import_refusal t' = import_refusal t"
    and "td_superseded t' = td_superseded t"
  using assms by (auto simp: performs_def dest: commit_document_current commit_document_dir)

text \<open>What every mutation leaves alone: the other directories, and the project when it replays.\<close>

lemma mutate_frame:
  assumes "mutateTaskKernel pl p dir expected a keyv fp op n = Inr (res, p', n')" and "d \<noteq> dir"
  shows "find_dir p' d = find_dir p d"
  using assms by (auto simp: mutate_iff find_dir_put performs_commit)

lemma mutate_replay_frame:
  "mutateTaskKernel pl p dir expected a keyv fp op n = Inr (res, p', n') \<Longrightarrow> mut_idempotent res \<Longrightarrow> p' = p"
  by (auto simp: mutate_iff performs_def)

section \<open>Operations\<close>

text \<open>
  What \<open>mutateTaskKernel\<close> asks of the operation it is given: it appends to the journal of the
  kernel, in the name of the request.
\<close>

locale kernel_operation =
  fixes pl :: platform and actor :: string and fp :: string and op :: "string \<Rightarrow> operation"
  assumes op_extends: "op idem k n = Inr (k', n') \<Longrightarrow> extends pl actor idem fp k n k' n'"
begin

text \<open>A mutation moves the kernel from the expected revision to a later one, and appends.\<close>

lemma mutate_appends:
  assumes "mutateTaskKernel pl p dir expected a keyv fp op n = Inr (res, p', n')"
    and "holds pl (dir_or_empty p dir) k" and "\<not> mut_idempotent res"
  shows "expected = nat_val (ker_revision k) \<and> ker_revision k < ker_revision (mut_kernel res) \<and>
    ker_taskId (mut_kernel res) = ker_taskId k \<and>
    (\<exists>as. ker_audit (mut_kernel res) = ker_audit k @ as \<and>
      ker_revision (mut_kernel res) = ker_revision k + length as) \<and>
    (\<exists>e. ker_events (mut_kernel res) = ker_events k @ [e] \<and> JStr (evt_idempotencyKey e) = keyv \<and>
      evt_requestFingerprint e = fp \<and> evt_actor e = actor \<and>
      evt_revision e = ker_revision (mut_kernel res) \<and> mut_event res = e)"
proof -
  obtain idem t' where p: "performs pl (dir_or_empty p dir) expected idem fp op n k res t' n'"
    and key: "keyv = JStr idem"
    using assms performs_holds [OF _ assms(2)] by (auto simp: mutate_iff replays_def)
  then have "extends pl actor idem fp k n (mut_kernel res) n'"
    by (auto simp: performs_def intro: op_extends)
  with p key show ?thesis
    by (auto simp: performs_def extends_def own_event_def last_opt_eq_Some)
qed

text \<open>
  Sending a performed request again returns the kernel it left and its event, whatever revision
  it expects, and changes nothing.
\<close>

lemma find_own_event:
  assumes "extends pl actor idem fp k n k' n'" and "findIdempotent k idem fp = Inr None"
  shows "findIdempotent k' idem fp = Inr (Some (last (ker_events k')))"
proof -
  have "List.find (\<lambda>e. evt_idempotencyKey e = idem) (ker_events k) = None"
    using findIdempotent_None [OF assms(2)] by (auto simp: find_None_iff key_unused_def)
  then show ?thesis
    using assms(1) by (auto simp: findIdempotent_def extends_def own_event_def find_append)
qed

lemma find_own_audit:
  assumes "extends pl actor idem fp k n k' n'"
  shows "\<exists>a. findAuditForKey k' idem = Inr a \<and> audit_of_key idem a"
proof -
  obtain as where "ker_audit k' = ker_audit k @ as" "as \<noteq> []" "list_all (own_audit pl actor idem) as"
    using assms by (auto simp: extends_def)
  then have "List.find (audit_of_key idem) (ker_audit k') \<noteq> None"
    by (cases as) (auto simp: find_None_iff own_audit_def)
  then show ?thesis
    by (auto simp: findAuditForKey_def dest: find_Some_in_set)
qed

lemma mutate_replay:
  assumes first: "mutateTaskKernel pl p dir expected a keyv fp op n = Inr (res, p', n')"
    and fresh: "\<not> mut_idempotent res" and wf: "wf_kernel pl (mut_kernel res)"
    and ok: "readable (mut_kernel res)"
  shows "\<exists>audit. mutateTaskKernel pl p' dir (nat_val r) a keyv fp op m =
    Inr (\<lparr>mut_kernel = mut_kernel res, mut_idempotent = True, mut_audit = audit,
          mut_event = mut_event res\<rparr>, p', m)"
proof -
  let ?t = "dir_or_empty p dir"
  obtain idem actor' current t' where p: "performs pl ?t expected idem fp op n current res t' n'"
    and p': "p' = put_dir p t'" and a: "a = JStr actor'" "\<not> blank actor'" "keyv = JStr idem" "\<not> blank idem"
    and t: "\<not> td_archived ?t" "import_refusal ?t = None"
    using first fresh by (auto simp: mutate_iff replays_def)
  note commit = performs_commit [OF p]
  have ext: "extends pl actor idem fp current n (mut_kernel res) n'"
    and unused: "findIdempotent current idem fp = Inr None"
    and event: "mut_event res = last (ker_events (mut_kernel res))"
    using p by (auto simp: performs_def last_opt_eq_Some intro: op_extends)
  have dir: "dir_or_empty p' dir = t'" using p' commit(2) dir_or_empty_put [of p t'] by simp
  obtain audit where "findAuditForKey (mut_kernel res) idem = Inr audit"
    using find_own_audit [OF ext] by blast
  moreover have "parseTaskKernelSnapshotV2 pl (snapshot_json (mut_kernel res)) = Inr (mut_kernel res)"
    using wf ok by (simp add: parseTaskKernelSnapshotV2_codec readable_base_shas)
  ultimately have "replays pl t' idem fp \<lparr>mut_kernel = mut_kernel res, mut_idempotent = True,
      mut_audit = audit, mut_event = mut_event res\<rparr>"
    using commit(1) find_own_event [OF ext unused] event by (simp add: replays_def)
  then show ?thesis using a t commit dir by (auto simp: mutate_iff)
qed

text \<open>The same key for another request is refused.\<close>

lemma mutate_mismatch:
  assumes "holds pl (dir_or_empty p dir) k" and "e \<in> set (ker_events k)"
    and "evt_idempotencyKey e = idem" and "evt_requestFingerprint e \<noteq> fp"
    and "\<not> blank idem" and "\<not> blank actor'" and "\<not> td_archived (dir_or_empty p dir)"
    and "import_refusal (dir_or_empty p dir) = None"
  shows "mutateTaskKernel pl p dir (nat_val r) (JStr actor') (JStr idem) fp op n =
    Inl (KernelError IDEMPOTENCY_MISMATCH)"
proof -
  have "distinct (map evt_idempotencyKey (ker_events k))"
    using assms(1) by (simp add: holds_def wf_kernel_defs events_ok_iff)
  then have "List.find (\<lambda>e. evt_idempotencyKey e = idem) (ker_events k) = Some e"
    using assms(2,3) by (intro find_unique_key)
  then have "findIdempotent k idem fp = Inl (KernelError IDEMPOTENCY_MISMATCH)"
    using assms(4) by (simp add: findIdempotent_def)
  then show ?thesis
    using assms holds_parse [OF assms(1)]
    by (simp add: mutateTaskKernel_def requireNonEmptyString_def Let_def holds_def)
qed

end

text \<open>
  An operation that keeps the content well-formed: its new identifiers come from the platform,
  the entity of its event is named, and it writes nothing a Run is not read back with, other than
  the input it does not check.
\<close>

locale wf_operation = kernel_operation +
  fixes input_ok :: bool
  assumes op_wf: "input_ok \<Longrightarrow> op idem k n = Inr (k', n') \<Longrightarrow> platform_ok pl \<Longrightarrow> \<not> blank actor \<Longrightarrow> wf_kernel pl k \<Longrightarrow>
      uuid_fresh pl n k \<Longrightarrow> readable k' \<Longrightarrow> wf_content pl k'"
    and op_entity: "input_ok \<Longrightarrow> op idem k n = Inr (k', n') \<Longrightarrow> platform_ok pl \<Longrightarrow> wf_kernel pl k \<Longrightarrow>
      \<not> blank (evt_entityId (last (ker_events k')))"
    and op_fresh: "op idem k n = Inr (k', n') \<Longrightarrow>
      run_id ` set (ker_runs k') \<subseteq> run_id ` set (ker_runs k) \<union> randomUUID pl ` {n..<n'}"
begin

lemma op_wf_kernel:
  assumes ok: input_ok and "op idem k n = Inr (k', n')" and "platform_ok pl" and "\<not> blank actor" and "\<not> blank idem"
    and "is_fingerprint fp" and "wf_kernel pl k" and "uuid_fresh pl n k" and "readable k'"
    and "findIdempotent k idem fp = Inr None"
  shows "wf_kernel pl k'" and "uuid_fresh pl n' k'"
proof -
  have ext: "extends pl actor idem fp k n k' n'" using assms(2) by (rule op_extends)
  have "wf_journal k'"
    using assms findIdempotent_None op_entity [OF ok assms(2,3,7)]
    by (intro wf_journal_extends [OF assms(3) _ assms(8) _ assms(4,5,6) ext]) (simp_all add: wf_kernel_def)
  moreover have "wf_content pl k'" using assms by (intro op_wf)
  ultimately show "wf_kernel pl k'" by (simp add: wf_kernel_def)
  have inj: "inj (randomUUID pl)" using assms(3) by (rule platform_okD)
  obtain e m where e: "ker_events k' = ker_events k @ [e]" "evt_id e = randomUUID pl m" "m < n'" "n \<le> n'"
    using ext by (auto simp: extends_def own_event_def)
  show "uuid_fresh pl n' k'"
  proof (unfold uuid_fresh_def, intro allI impI notI)
    fix j assume j: "n' \<le> j"
      and used: "randomUUID pl j \<in> evt_id ` set (ker_events k') \<union> run_id ` set (ker_runs k')"
    have "randomUUID pl j \<notin> evt_id ` set (ker_events k) \<union> run_id ` set (ker_runs k)"
      using assms(8) j e(4) by (auto simp: uuid_fresh_def)
    moreover have "randomUUID pl j \<noteq> evt_id e" "randomUUID pl j \<notin> randomUUID pl ` {n..<n'}"
      using j e(2,3) inj by (auto dest: injD)
    ultimately show False using used op_fresh [OF assms(2)] e(1) by auto
  qed
qed

text \<open>A mutation of a directory that holds a kernel leaves it holding the kernel it returns.\<close>

lemma mutate_holds:
  assumes input_ok and mutate: "mutateTaskKernel pl p dir expected (JStr actor) keyv fp op n = Inr (res, p', n')"
    and "platform_ok pl" and "is_fingerprint fp" and "holds pl (dir_or_empty p dir) k"
    and "uuid_fresh pl n k" and "readable (mut_kernel res)"
  shows "holds pl (dir_or_empty p' dir) (mut_kernel res) \<and> uuid_fresh pl n' (mut_kernel res)"
proof (cases "mut_idempotent res")
  case True
  then have "replays pl (dir_or_empty p dir) (str_of keyv) fp res" "p' = p" "n' = n"
    using mutate by (auto simp: mutate_iff performs_def)
  with assms replays_holds [OF _ assms(5)] show ?thesis by auto
next
  case False
  obtain idem t' where p: "performs pl (dir_or_empty p dir) expected idem fp op n k res t' n'"
    and p': "p' = put_dir p t'" and idem: "\<not> blank idem" "\<not> blank actor"
    using mutate False performs_holds [OF _ assms(5)] by (auto simp: mutate_iff replays_def)
  then have "op idem k n = Inr (mut_kernel res, n')" "findIdempotent k idem fp = Inr None"
    by (simp_all add: performs_def)
  moreover have "wf_kernel pl k" using assms(5) by (simp add: holds_def)
  moreover have "dir_or_empty p' dir = t'"
    using p' performs_commit(2) [OF p] dir_or_empty_put [of p t'] by simp
  ultimately show ?thesis
    using assms idem performs_commit(1) [OF p] by (auto simp: holds_def intro: op_wf_kernel)
qed

end

end
