(* ===== verification/Run_Update.thy ===== *)
theory Run_Update
  imports Kernel_Operation
begin

text \<open>
  Finding and replacing a Run of a kernel: \<open>runAt\<close> and \<open>replaceRun\<close> of
  \<open>core/task/task-kernel-host.ts\<close> and \<open>task-kernel-workspaces.ts\<close>, and what a replacement
  keeps of a well-formed kernel.
\<close>

definition runAt :: "task_kernel \<Rightarrow> string \<Rightarrow> (task_run \<times> nat) outcome" where
  "runAt k runId =
     orThrow (find_index (\<lambda>r. run_id r = runId) (ker_runs k)) (KernelError NOT_FOUND)
       (\<lambda>i. Inr (ker_runs k ! i, i))"

definition replaceRun :: "task_kernel \<Rightarrow> nat \<Rightarrow> task_run \<Rightarrow> task_kernel" where
  "replaceRun k i r = k\<lparr>ker_runs := (ker_runs k)[i := r]\<rparr>"

text \<open>\<open>current.runs.at(-1)?.id\<close>\<close>

definition latest_run_id :: "task_kernel \<Rightarrow> string option" where
  "latest_run_id k = map_option run_id (last_opt (ker_runs k))"

lemma runAt_iff:
  "runAt k runId = Inr (r, i) \<longleftrightarrow>
     i < length (ker_runs k) \<and> ker_runs k ! i = r \<and> run_id r = runId \<and>
     (\<forall>j < i. run_id (ker_runs k ! j) \<noteq> runId)"
  by (auto simp: runAt_def result_simps find_index_Some)

lemma runAt_mem: "runAt k runId = Inr (r, i) \<Longrightarrow> r \<in> set (ker_runs k)"
  by (auto simp: runAt_iff)

lemma same_journal_replaceRun [simp]: "same_journal k (replaceRun k i r)"
  by (simp add: replaceRun_def)

lemma replaceRun_ids:
  "i < length (ker_runs k) \<Longrightarrow> run_id r = run_id (ker_runs k ! i) \<Longrightarrow>
   map run_id (ker_runs (replaceRun k i r)) = map run_id (ker_runs k)"
  by (simp add: replaceRun_def distinct_map_update_same_key)

lemma replaceRun_id_set:
  "i < length (ker_runs k) \<Longrightarrow> run_id r = run_id (ker_runs k ! i) \<Longrightarrow>
   run_id ` set (ker_runs (replaceRun k i r)) = run_id ` set (ker_runs k)"
  using replaceRun_ids [of i k r] by (metis set_map)

lemma find_update:
  assumes "distinct (map run_id rs)" and "i < length rs" and "run_id r = run_id (rs ! i)"
  shows "List.find (\<lambda>x. run_id x = a) (rs[i := r]) =
    (if a = run_id r then Some r else List.find (\<lambda>x. run_id x = a) rs)"
proof (cases "a = run_id r")
  case True
  have "map run_id (rs[i := r]) = map run_id rs" using assms(2,3) by (rule distinct_map_update_same_key)
  then have "List.find (\<lambda>x. run_id x = a) (rs[i := r]) = Some r"
    using assms True by (intro find_unique_key) (simp_all add: set_update_memI)
  with True show ?thesis by simp
next
  case False
  with assms(2,3) have "List.find (\<lambda>x. run_id x = a) (rs[i := r]) = List.find (\<lambda>x. run_id x = a) rs"
  proof (induction rs arbitrary: i)
    case (Cons x rs)
    then show ?case by (cases i) auto
  qed simp
  with False show ?thesis by simp
qed

lemma replace_bound:
  assumes "distinct (map run_id rs)" and "i < length rs" and "run_id r = run_id (rs ! i)"
    and "run_candidateSnapshot (rs ! i) = None \<or> run_candidateSnapshot r = run_candidateSnapshot (rs ! i)"
  shows "review_bound rs v \<Longrightarrow> review_bound (rs[i := r]) v"
    and "closure_bound rs vs c \<Longrightarrow> closure_bound (rs[i := r]) vs c"
proof -
  have at: "List.find (\<lambda>x. run_id x = run_id r) rs = Some (rs ! i)"
    using assms(1-3) by (intro find_unique_key) auto
  show "review_bound rs v \<Longrightarrow> review_bound (rs[i := r]) v"
    using assms(4) at by (auto simp: review_bound_def find_update [OF assms(1-3)] split: option.splits if_splits)
  show "closure_bound rs vs c \<Longrightarrow> closure_bound (rs[i := r]) vs c"
    using assms(3,4) at by (auto simp: closure_bound_def find_update [OF assms(1-3)] split: option.splits if_splits)
qed

text \<open>
  A Run may be replaced by a well-formed one of the same identity that keeps the candidate
  snapshot, if there was one.
\<close>

lemma replaceRun_wf:
  assumes "wf_content pl k" and "i < length (ker_runs k)" and "run_id r = run_id (ker_runs k ! i)"
    and "run_taskId r = run_taskId (ker_runs k ! i)" and "wf_run pl r"
    and "run_candidateSnapshot (ker_runs k ! i) = None \<or>
      run_candidateSnapshot r = run_candidateSnapshot (ker_runs k ! i)"
  shows "wf_content pl (replaceRun k i r)"
proof -
  have dist: "distinct (map run_id (ker_runs k))" and task: "list_all (\<lambda>r. run_taskId r = ker_taskId k) (ker_runs k)"
    using assms(1) by (simp_all add: wf_content_def runs_ok_iff)
  have "run_taskId r = ker_taskId k" using task assms(2,4) by (auto simp: list_all_length)
  then have "runs_ok (ker_taskId k) [] ((ker_runs k)[i := r])"
    using dist task assms(2,3) by (simp add: runs_ok_iff list_all_update distinct_map_update_same_key)
  moreover have "reviews_ok (ker_taskId k) ((ker_runs k)[i := r]) [] (ker_reviews k)"
    using assms(1) replace_bound(1) [OF dist assms(2,3,6)]
    by (auto simp: wf_content_def reviews_ok_iff list_all_iff)
  moreover have "pred_option (\<lambda>c. wf_closure pl c \<and> closure_bound ((ker_runs k)[i := r]) (ker_reviews k) c) (ker_closure k)"
    using assms(1) replace_bound(2) [OF dist assms(2,3,6)]
    by (auto simp: wf_content_def pred_option_def)
  ultimately show ?thesis
    using assms(1,5) by (simp add: wf_content_def replaceRun_def list_all_update)
qed

lemma runAt_wf:
  assumes "runAt k runId = Inr (r, i)" and "wf_kernel pl k"
  shows "wf_run pl r" and "\<not> blank (run_id r)" and "wf_content pl k" and "run_taskId r = ker_taskId k"
proof -
  have "r \<in> set (ker_runs k)" using assms(1) by (rule runAt_mem)
  then show "wf_run pl r" "run_taskId r = ker_taskId k" using assms(2)
    by (auto simp: wf_kernel_defs list_all_iff runs_ok_iff)
  then show "\<not> blank (run_id r)" by (simp add: wf_run_def wf_run_fields_def)
  show "wf_content pl k" using assms(2) by (simp add: wf_kernel_def)
qed

text \<open>The commonest shape of an operation: a Run is replaced, then the event appended.\<close>

lemma replace_event:
  assumes "runAt k runId = Inr (r, i)" and "run_id r' = run_id r"
    and "appendDomainEvent pl (replaceRun k i r') actor idem type entity fp n = (k', n')"
  shows "extends pl actor idem fp k n k' n'"
    and "run_id ` set (ker_runs k') \<subseteq> run_id ` set (ker_runs k) \<union> randomUUID pl ` {n..<n'}"
    and "ker_runs k' = (ker_runs k)[i := r']" and "evt_entityId (last (ker_events k')) = entity"
    and "wf_kernel pl k \<Longrightarrow> wf_run pl r' \<Longrightarrow> run_taskId r' = run_taskId r \<Longrightarrow>
      run_candidateSnapshot r = None \<or> run_candidateSnapshot r' = run_candidateSnapshot r \<Longrightarrow> wf_content pl k'"
proof -
  note content = appendDomainEvent_content [OF assms(3)]
  have i: "i < length (ker_runs k)" "ker_runs k ! i = r" using assms(1) by (simp_all add: runAt_iff)
  show "extends pl actor idem fp k n k' n'"
    using advances_same [OF advances_refl same_journal_replaceRun] assms(3)
    by (rule appendDomainEvent_extends) simp
  show "ker_runs k' = (ker_runs k)[i := r']" by (simp add: content replaceRun_def)
  show "run_id ` set (ker_runs k') \<subseteq> run_id ` set (ker_runs k) \<union> randomUUID pl ` {n..<n'}"
    using i assms(2) by (simp add: content replaceRun_id_set)
  show "evt_entityId (last (ker_events k')) = entity" by (rule content)
  show "wf_content pl k'" if "wf_kernel pl k" "wf_run pl r'" "run_taskId r' = run_taskId r"
    "run_candidateSnapshot r = None \<or> run_candidateSnapshot r' = run_candidateSnapshot r"
    using that i assms(2) unfolding content(1)
    by (intro replaceRun_wf) (simp_all add: wf_kernel_def)
qed

text \<open>What a Run is started with and keeps for good\<close>

definition same_contract :: "task_run \<Rightarrow> task_run \<Rightarrow> bool" where
  "same_contract r r' \<longleftrightarrow>
     run_id r' = run_id r \<and> run_taskId r' = run_taskId r \<and> run_attempt r' = run_attempt r \<and>
     run_sequence r' = run_sequence r \<and> run_startedAt r' = run_startedAt r \<and>
     run_startedBy r' = run_startedBy r \<and> run_input r' = run_input r \<and>
     run_authorization r' = run_authorization r \<and> run_writeSetSnapshot r' = run_writeSetSnapshot r \<and>
     run_estimatedDurations r' = run_estimatedDurations r \<and>
     run_candidateFileBaseline r' = run_candidateFileBaseline r"

text \<open>Where a Run runs; its base is that of its workspace, once it is bound to one\<close>

definition same_place :: "task_run \<Rightarrow> task_run \<Rightarrow> bool" where
  "same_place r r' \<longleftrightarrow>
     run_workspace r' = run_workspace r \<and> run_host r' = run_host r \<and>
     run_candidateBaseSha r' = run_candidateBaseSha r \<and> run_candidateBaseBranch r' = run_candidateBaseBranch r"

lemma readable_replace:
  "readable k \<Longrightarrow> ker_runs k' = (ker_runs k)[i := r] \<Longrightarrow> ker_reviews k' = ker_reviews k \<Longrightarrow>
   run_readable r \<Longrightarrow> readable k'"
  by (simp add: readable_def list_all_update)

lemma readable_runAt: "readable k \<Longrightarrow> runAt k runId = Inr (r, i) \<Longrightarrow> run_readable r"
  by (auto simp: readable_def list_all_iff dest: runAt_mem)

end
