(* ===== verification/Host_World.thy ===== *)
theory Host_World
  imports Kernel_Operation
begin

text \<open>
  What the observers see of the host: the file system and the commands they run.  Nothing keeps
  the world still while they look, so every call carries a ticket, the same counter that numbers
  UUIDs and clock readings, and its answer is a function of that ticket.  A program over the world
  is a function of the next ticket; \<open>bindO\<close> threads it.

  Bytes and strings are both character lists: a string is its UTF-8 encoding, and \<open>w_utf8\<close> says
  which byte sequences are one.
\<close>

section \<open>Programs over the world\<close>

type_synonym 'a io = "nat \<Rightarrow> ('a \<times> nat) outcome"

definition okO :: "'a \<Rightarrow> 'a io" where
  "okO a n = Inr (a, n)"

definition bindO :: "'a io \<Rightarrow> ('a \<Rightarrow> 'b io) \<Rightarrow> 'b io" where
  "bindO m f n = bindE (m n) (\<lambda>(a, n'). f a n')"

definition liftO :: "'a outcome \<Rightarrow> 'a io" where
  "liftO m n = bindE m (\<lambda>a. Inr (a, n))"

definition throwO :: "bool \<Rightarrow> failure \<Rightarrow> 'a io \<Rightarrow> 'a io" where
  "throwO c e m n = throwIf c e (m n)"

definition failO :: "failure \<Rightarrow> 'a io" where
  "failO e n = Inl e"

definition needO :: "'a option \<Rightarrow> failure \<Rightarrow> ('a \<Rightarrow> 'b io) \<Rightarrow> 'b io" where
  "needO x e k n = orThrow x e (\<lambda>a. k a n)"

text \<open>A call of the host\<close>

definition askO :: "(nat \<Rightarrow> 'a) \<Rightarrow> 'a io" where
  "askO f n = Inr (f n, n + 1)"

text \<open>A call that throws where it answers \<open>None\<close>\<close>

definition tryO :: "failure \<Rightarrow> (nat \<Rightarrow> 'a option) \<Rightarrow> 'a io" where
  "tryO e f n = (case f n of None \<Rightarrow> Inl e | Some a \<Rightarrow> Inr (a, n + 1))"

fun mapO :: "('a \<Rightarrow> 'b io) \<Rightarrow> 'a list \<Rightarrow> 'b list io" where
  "mapO f [] n = Inr ([], n)"
| "mapO f (x # xs) n = bindE (f x n) (\<lambda>(y, n1). bindE (mapO f xs n1) (\<lambda>(ys, n2). Inr (y # ys, n2)))"

text \<open>A loop that carries a state\<close>

fun foldO :: "('s \<Rightarrow> 'a \<Rightarrow> 's io) \<Rightarrow> 'a list \<Rightarrow> 's \<Rightarrow> 's io" where
  "foldO f [] s n = Inr (s, n)"
| "foldO f (x # xs) s n = bindE (f s x n) (\<lambda>(s', n1). foldO f xs s' n1)"

lemma okO_eq_Inr [result_simps]: "okO a n = Inr (b, n') \<longleftrightarrow> b = a \<and> n' = n"
  by (auto simp: okO_def)

lemma bindO_eq_Inr [result_simps]:
  "bindO m f n = Inr (b, n') \<longleftrightarrow> (\<exists>a n1. m n = Inr (a, n1) \<and> f a n1 = Inr (b, n'))"
  by (auto simp: bindO_def result_simps)

lemma liftO_eq_Inr [result_simps]: "liftO m n = Inr (a, n') \<longleftrightarrow> m = Inr a \<and> n' = n"
  by (auto simp: liftO_def result_simps)

lemma throwO_eq_Inr [result_simps]: "throwO c e m n = Inr r \<longleftrightarrow> \<not> c \<and> m n = Inr r"
  by (simp add: throwO_def result_simps)

lemma failO_eq_Inr [result_simps]: "failO e n = Inr r \<longleftrightarrow> False"
  by (simp add: failO_def)

lemma needO_eq_Inr [result_simps]: "needO x e k n = Inr r \<longleftrightarrow> (\<exists>a. x = Some a \<and> k a n = Inr r)"
  by (simp add: needO_def result_simps)

lemma askO_eq_Inr [result_simps]: "askO f n = Inr (a, n') \<longleftrightarrow> a = f n \<and> n' = n + 1"
  by (auto simp: askO_def)

lemma tryO_eq_Inr [result_simps]: "tryO e f n = Inr (a, n') \<longleftrightarrow> f n = Some a \<and> n' = n + 1"
  by (auto simp: tryO_def split: option.splits)

lemma bindO_cong [fundef_cong]:
  assumes "m n = m' n'" and "\<And>a k. m' n' = Inr (a, k) \<Longrightarrow> f a k = f' a k" and "n = n'"
  shows "bindO m f n = bindO m' f' n'"
  using assms by (cases "m' n'") (auto simp: bindO_def)

lemma foldO_cong [fundef_cong]:
  "(\<And>s x k. x \<in> set xs' \<Longrightarrow> f s x k = f' s x k) \<Longrightarrow> xs = xs' \<Longrightarrow> s = s' \<Longrightarrow> n = n' \<Longrightarrow>
   foldO f xs s n = foldO f' xs' s' n'"
proof (induction xs' arbitrary: xs s s' n n')
  case (Cons x xs')
  then show ?case by (auto intro!: bindE_cong)
qed simp

lemma throwO_cong [fundef_cong]:
  "c = c' \<Longrightarrow> e = e' \<Longrightarrow> (\<not> c' \<Longrightarrow> m n = m' n') \<Longrightarrow> n = n' \<Longrightarrow> throwO c e m n = throwO c' e' m' n'"
  by (simp add: throwO_def throwIf_def)

lemma mapO_length: "mapO f xs n = Inr (ys, n') \<Longrightarrow> length ys = length xs"
  by (induction xs arbitrary: n ys n') (auto simp: result_simps)

lemma mapO_all:
  "mapO f xs n = Inr (ys, n') \<Longrightarrow> (\<And>x k y k'. x \<in> set xs \<Longrightarrow> f x k = Inr (y, k') \<Longrightarrow> P x y) \<Longrightarrow> list_all2 P xs ys"
  by (induction xs arbitrary: n ys n') (auto simp: result_simps)

text \<open>A loop keeps what its body keeps.\<close>

lemma foldO_invariant:
  assumes "foldO f xs s n = Inr (s', n')" and "P s"
    and "\<And>s x k s' k'. x \<in> set xs \<Longrightarrow> P s \<Longrightarrow> f s x k = Inr (s', k') \<Longrightarrow> P s'"
  shows "P s'"
  using assms
proof (induction xs arbitrary: s n)
  case (Cons x xs)
  then obtain s1 n1 where s1: "f s x n = Inr (s1, n1)" "foldO f xs s1 n1 = Inr (s', n')"
    by (auto simp: result_simps)
  then have "P s1" using Cons.prems by (meson list.set_intros(1))
  with Cons.IH [OF s1(2)] Cons.prems(3) show ?case by (meson list.set_intros(2))
qed simp

text \<open>Programs that only ask do not go back in time.\<close>

definition forward :: "'a io \<Rightarrow> bool" where
  "forward m \<longleftrightarrow> (\<forall>n a n'. m n = Inr (a, n') \<longrightarrow> n \<le> n')"

lemma forwardD: "forward m \<Longrightarrow> m n = Inr (a, n') \<Longrightarrow> n \<le> n'"
  by (simp add: forward_def)

lemma forward_intros [intro, simp]:
  "forward (okO a)" "forward (liftO e)" "forward (askO f)" "forward (tryO x g)"
  by (simp_all add: forward_def result_simps)

lemma forward_failO [intro, simp]: "forward (failO e)"
  by (simp add: forward_def result_simps)

lemma forward_needO [intro]: "(\<And>a. forward (f a)) \<Longrightarrow> forward (needO x e f)"
  by (auto simp: forward_def result_simps)

lemma forward_bindO [intro]: "forward m \<Longrightarrow> (\<And>a. forward (f a)) \<Longrightarrow> forward (bindO m f)"
  unfolding forward_def by (auto simp: result_simps) (meson le_trans)

lemma forward_throwO [intro]: "(\<not> c \<Longrightarrow> forward m) \<Longrightarrow> forward (throwO c e m)"
  by (auto simp: forward_def result_simps)

lemma forward_mapO [intro]:
  assumes "\<And>x. forward (f x)"
  shows "forward (mapO f xs)"
proof (induction xs)
  case (Cons x xs)
  then show ?case using assms unfolding forward_def by (auto simp: result_simps) (meson le_trans)
qed (simp add: forward_def)

lemma forward_foldO [intro]:
  assumes "\<And>s x. forward (f s x)"
  shows "forward (foldO f xs s)"
proof (induction xs arbitrary: s)
  case (Cons x xs)
  then show ?case using assms unfolding forward_def by (auto simp: result_simps) (meson le_trans)
qed (simp add: forward_def)

text \<open>Programs that do not fail with \<open>e\<close>\<close>

definition never :: "failure \<Rightarrow> 'a io \<Rightarrow> bool" where
  "never e m \<longleftrightarrow> (\<forall>n. m n \<noteq> Inl e)"

lemma never_intros [intro, simp]: "never e (okO a)" "never e (askO f)" "x \<noteq> e \<Longrightarrow> never e (tryO x g)"
  by (auto simp: never_def okO_def askO_def tryO_def split: option.splits)

lemma never_liftO [intro]: "m \<noteq> Inl e \<Longrightarrow> never e (liftO m)"
  by (cases m) (auto simp: never_def liftO_def)

lemma never_bindO:
  assumes "never e m" and "\<And>n a n'. m n = Inr (a, n') \<Longrightarrow> f a n' \<noteq> Inl e"
  shows "never e (bindO m f)"
proof (unfold never_def, intro allI)
  fix n show "bindO m f n \<noteq> Inl e"
    using assms by (cases "m n") (auto simp: bindO_def never_def)
qed

lemma never_bindO_each [intro]: "never e m \<Longrightarrow> (\<And>a. never e (f a)) \<Longrightarrow> never e (bindO m f)"
  by (rule never_bindO) (simp_all add: never_def)

lemma never_throwO [intro]: "x \<noteq> e \<Longrightarrow> never e m \<Longrightarrow> never e (throwO c x m)"
  by (auto simp: never_def throwO_def throwIf_def)

lemma foldO_never:
  assumes "\<And>s x k. x \<in> set xs \<Longrightarrow> Q s \<Longrightarrow> f s x k \<noteq> Inl e"
    and "\<And>s x k s' k'. x \<in> set xs \<Longrightarrow> Q s \<Longrightarrow> f s x k = Inr (s', k') \<Longrightarrow> Q s'" and "Q s"
  shows "foldO f xs s n \<noteq> Inl e"
  using assms
proof (induction xs arbitrary: s n)
  case (Cons x xs)
  show ?case
  proof (cases "f s x n")
    case (Inl e')
    then show ?thesis using Cons.prems(1) [of x s n] Cons.prems(3) by auto
  next
    case (Inr r)
    then obtain s' n' where r: "f s x n = Inr (s', n')" by (cases r) auto
    then have "Q s'" using Cons.prems(2) [of x s n s' n'] Cons.prems(3) by simp
    then have "foldO f xs s' n' \<noteq> Inl e"
      using Cons.prems by (intro Cons.IH) (meson list.set_intros(2))+
    with r show ?thesis by simp
  qed
qed simp

section \<open>The world\<close>

datatype file_kind = KRegular | KDirectory | KSymlink | KOther

record file_stat =
  fs_kind :: file_kind
  fs_dev :: nat
  fs_ino :: nat
  fs_mode :: nat
  fs_size :: nat
  fs_mtimeMs :: jsnum
  fs_ctimeMs :: jsnum

datatype lstat_reply = NoEntry | StatFails | Stat file_stat

text \<open>\<open>spawnSync\<close>: its output passed \<open>maxBuffer\<close>, it could not be started, or it ended.\<close>

datatype command_reply = OutputTooLong | NotStarted | Exited "nat option" string

text \<open>
  \<open>w_readdir\<close> gives the names read and whether the reading ended without an error; \<open>w_fstat\<close> and
  \<open>w_readFd\<close> are the calls on the descriptor opened at a path.  A call that answers \<open>None\<close> throws.
  \<open>w_resolve\<close> is \<open>path.resolve\<close> against the working directory; \<open>w_parseJson\<close> is \<open>JSON.parse\<close>.
  \<open>w_resume n\<close> is the number of calls a program that began at ticket \<open>n\<close> had made when it threw,
  which its error does not say.
\<close>

record world =
  w_git :: "nat \<Rightarrow> string \<Rightarrow> string list \<Rightarrow> command_reply"
  w_gh :: "nat \<Rightarrow> string list \<Rightarrow> command_reply"
  w_lstat :: "nat \<Rightarrow> string \<Rightarrow> lstat_reply"
  w_stat :: "nat \<Rightarrow> string \<Rightarrow> file_stat option"
  w_realpath :: "nat \<Rightarrow> string \<Rightarrow> string option"
  w_readlink :: "nat \<Rightarrow> string \<Rightarrow> string option"
  w_readFile :: "nat \<Rightarrow> string \<Rightarrow> string option"
  w_readdir :: "nat \<Rightarrow> string \<Rightarrow> (string list \<times> bool) option"
  w_openable :: "nat \<Rightarrow> string \<Rightarrow> bool"
  w_fstat :: "nat \<Rightarrow> string \<Rightarrow> file_stat option"
  w_readFd :: "nat \<Rightarrow> string \<Rightarrow> string option"
  w_resolve :: "string \<Rightarrow> string"
  w_parseJson :: "string \<Rightarrow> jsval option"
  w_utf8 :: "string \<Rightarrow> bool"
  w_resume :: "nat \<Rightarrow> nat"

text \<open>An error of \<open>node:fs\<close> nothing catches\<close>

definition fs_error :: failure where
  "fs_error = ExternalError ''fs''"

text \<open>\<open>try { m } catch (e) { h(e) }\<close>\<close>

definition catchO :: "world \<Rightarrow> 'a io \<Rightarrow> (failure \<Rightarrow> 'a io) \<Rightarrow> 'a io" where
  "catchO w m h n = (case m n of Inl e \<Rightarrow> h e (n + w_resume w n) | Inr r \<Rightarrow> Inr r)"

lemma catchO_eq_Inr [result_simps]:
  "catchO w m h n = Inr r \<longleftrightarrow> m n = Inr r \<or> (\<exists>e. m n = Inl e \<and> h e (n + w_resume w n) = Inr r)"
  by (cases "m n") (auto simp: catchO_def)

lemma forward_catchO [intro]:
  assumes "forward m" and "\<And>e. forward (h e)"
  shows "forward (catchO w m h)"
  unfolding forward_def
proof (intro allI impI)
  fix n a n' assume "catchO w m h n = Inr (a, n')"
  then consider "m n = Inr (a, n')" | e where "h e (n + w_resume w n) = Inr (a, n')"
    by (auto simp: catchO_eq_Inr)
  then show "n \<le> n'"
  proof cases
    case 1
    then show ?thesis using assms(1) by (rule forwardD [rotated])
  next
    case 2
    then have "n + w_resume w n \<le> n'" using assms(2) by (rule forwardD [rotated])
    then show ?thesis by simp
  qed
qed

section \<open>Paths\<close>

definition path_sep :: "platform \<Rightarrow> char" where
  "path_sep pl = (if win32 pl then CHR 0x5C else CHR ''/'')"

text \<open>\<open>path.join(root, ...p.split("/"))\<close> of an absolute root and a plain path\<close>

definition path_join :: "platform \<Rightarrow> string \<Rightarrow> string \<Rightarrow> string" where
  "path_join pl root p =
     (if root \<noteq> [] \<and> last root = path_sep pl then root else root @ [path_sep pl]) @
     join_with [path_sep pl] (split_on CHR ''/'' p)"

text \<open>\<open>path.dirname\<close> of that path\<close>

definition parent_of :: "platform \<Rightarrow> string \<Rightarrow> string \<Rightarrow> string" where
  "parent_of pl root p =
     (let segs = split_on CHR ''/'' p in
      if length segs = 1 then root else path_join pl root (join_with ''/'' (butlast segs)))"

text \<open>
  \<open>path.relative\<close> of two absolute, normalised paths: the segments they share drop out, and what is
  left of the first goes up.  Windows compares them without case.
\<close>

definition path_segments :: "platform \<Rightarrow> string \<Rightarrow> string list" where
  "path_segments pl p = filter (\<lambda>s. s \<noteq> []) (split_on (path_sep pl) p)"

fun strip_shared :: "platform \<Rightarrow> string list \<Rightarrow> string list \<Rightarrow> string list \<times> string list" where
  "strip_shared pl (a # as) (b # bs) =
     (if platform_path pl a = platform_path pl b then strip_shared pl as bs else (a # as, b # bs))"
| "strip_shared pl as bs = (as, bs)"

definition path_relative :: "platform \<Rightarrow> string \<Rightarrow> string \<Rightarrow> string" where
  "path_relative pl from to =
     (let (up, down) = strip_shared pl (path_segments pl from) (path_segments pl to) in
      join_with [path_sep pl] (replicate (length up) ''..'' @ down))"

text \<open>\<open>isWithin\<close> of \<open>task-candidate-observer.ts\<close>, \<open>isWithinRoot\<close> of \<open>project-file-observer.ts\<close>\<close>

definition isWithin :: "platform \<Rightarrow> string \<Rightarrow> string \<Rightarrow> bool" where
  "isWithin pl parent candidate =
     (let relative = path_relative pl parent candidate in
      relative = [] \<or>
      (\<not> starts_with (''..'' @ [path_sep pl]) relative \<and> relative \<noteq> ''..'' \<and> \<not> isAbsolute pl relative))"

section \<open>Directory identity\<close>

text \<open>The comparison \<open>samePhysicalDirectory\<close> and \<open>sameProjectDirectory\<close> make with \<open>statSync\<close>\<close>

definition same_directory :: "world \<Rightarrow> string \<Rightarrow> string \<Rightarrow> bool io" where
  "same_directory w left right n =
     (case (w_stat w n left, w_stat w (n + 1) right) of
        (Some a, Some b) \<Rightarrow>
          Inr (fs_kind a = KDirectory \<and> fs_kind b = KDirectory \<and> fs_ino a \<noteq> 0 \<and>
            fs_dev a = fs_dev b \<and> fs_ino a = fs_ino b, n + 2)
      | _ \<Rightarrow> Inr (False, n + 2))"

lemma forward_same_directory [simp]: "forward (same_directory w a b)"
  by (auto simp: forward_def same_directory_def split: option.splits)

section \<open>Containment\<close>

lemma strip_shared_split:
  "strip_shared pl as bs = (up, down) \<Longrightarrow>
   \<exists>shared shared'. as = shared @ up \<and> bs = shared' @ down \<and>
     map (platform_path pl) shared = map (platform_path pl) shared'"
proof (induction pl as bs rule: strip_shared.induct)
  case (1 pl a as b bs)
  show ?case
  proof (cases "platform_path pl a = platform_path pl b")
    case True
    with 1 obtain shared shared' where "as = shared @ up" "bs = shared' @ down"
      "map (platform_path pl) shared = map (platform_path pl) shared'"
      by auto
    with True show ?thesis by (intro exI [of _ "a # shared"] exI [of _ "b # shared'"]) simp
  qed (use 1 in auto)
qed auto

lemma join_with_up:
  "join_with [c] (replicate (Suc k) ''..'' @ down) = ''..'' \<or>
   starts_with (''..'' @ [c]) (join_with [c] (replicate (Suc k) ''..'' @ down))"
  by (cases k; cases down) (simp_all add: starts_with_iff)

text \<open>What is within a directory has the directory's segments in front of its own.\<close>

lemma isWithin_prefix:
  assumes "isWithin pl parent candidate"
  shows "\<exists>rest. map (platform_path pl) (path_segments pl candidate) =
    map (platform_path pl) (path_segments pl parent) @ rest"
proof -
  obtain up down where strip: "strip_shared pl (path_segments pl parent) (path_segments pl candidate) = (up, down)"
    by fastforce
  have "up = []"
  proof (rule ccontr)
    assume "up \<noteq> []"
    then obtain k where "length up = Suc k" by (cases up) auto
    then have "path_relative pl parent candidate = ''..'' \<or>
        starts_with (''..'' @ [path_sep pl]) (path_relative pl parent candidate)"
      using join_with_up by (simp only: path_relative_def strip prod.case Let_def)
    with assms show False by (auto simp: isWithin_def Let_def starts_with_iff)
  qed
  with strip_shared_split [OF strip] show ?thesis by auto
qed

end
