(* ===== verification/Workspaces.thy ===== *)
theory Workspaces
  imports Run_Update Host_World
begin

text \<open>
  The workspace of a Run, \<open>core/task/task-kernel-workspaces.ts\<close>: the manager binds a Git worktree
  to the latest active Run, records its integration, takes the cleanup lease once the Task is closed
  on the same candidate, and settles the lease; and the two refusals it persists.

  \<open>canonicalProjectRoot\<close> is the parameter \<open>root\<close>.
\<close>

section \<open>Comparisons\<close>

definition sameStrings :: "string list \<Rightarrow> string list \<Rightarrow> bool" where
  "sameStrings left right \<longleftrightarrow> length left = length right \<and> List.sort left = List.sort right"

definition sameProjectDirectory :: "world \<Rightarrow> string \<Rightarrow> string \<Rightarrow> bool io" where
  "sameProjectDirectory w left right =
     (if w_resolve w left = w_resolve w right then okO True else same_directory w left right)"

definition drop_trailing_slash :: "string \<Rightarrow> string" where
  "drop_trailing_slash s = (if s \<noteq> [] \<and> last s = CHR ''/'' then butlast s else s)"

definition normalized_write_set :: "platform \<Rightarrow> string list \<Rightarrow> string list" where
  "normalized_write_set pl values =
     List.sort (map (platform_path pl \<circ> drop_trailing_slash \<circ> forward_slashes) values)"

definition taskRunWorkspaceWriteSetsEqual :: "platform \<Rightarrow> string list \<Rightarrow> string list \<Rightarrow> bool" where
  "taskRunWorkspaceWriteSetsEqual pl left right \<longleftrightarrow>
     normalized_write_set pl left = normalized_write_set pl right"

text \<open>The step of a handler that ends by appending its event\<close>

definition emit ::
    "platform \<Rightarrow> string \<Rightarrow> string \<Rightarrow> event_type \<Rightarrow> string \<Rightarrow> string \<Rightarrow> task_kernel \<Rightarrow> task_kernel io" where
  "emit pl actor idem type entity fingerprint k n =
     Inr (appendDomainEvent pl k actor idem type entity fingerprint n)"

lemma emit_eq_Inr [result_simps]:
  "emit pl actor idem type entity fp k n = Inr (k', n') \<longleftrightarrow>
     appendDomainEvent pl k actor idem type entity fp n = (k', n')"
  by (simp add: emit_def)

abbreviation (input) invalid_transition :: failure where
  "invalid_transition \<equiv> KernelError INVALID_TRANSITION"

section \<open>Binding\<close>

definition base_sha_differs :: "task_run \<Rightarrow> workspace_binding \<Rightarrow> bool" where
  "base_sha_differs run workspace \<longleftrightarrow>
     (case run_candidateBaseSha run of
        None \<Rightarrow> False | Some sha \<Rightarrow> sha \<noteq> [] \<and> to_lower sha \<noteq> to_lower (ws_baseSha workspace))"

definition with_workspace :: "task_run \<Rightarrow> workspace_binding \<Rightarrow> task_run" where
  "with_workspace run workspace =
     run\<lparr>run_candidateBaseSha := Some (ws_baseSha workspace),
         run_candidateBaseBranch := Some (ws_branch workspace), run_workspace := Some workspace\<rparr>"

definition bindTaskRunWorkspace_step ::
    "platform \<Rightarrow> world \<Rightarrow> string \<Rightarrow> string \<Rightarrow> string \<Rightarrow> workspace_binding \<Rightarrow> string \<Rightarrow> string \<Rightarrow> operation" where
  "bindTaskRunWorkspace_step pl w root actor runId workspace fingerprint idem current =
     bindO (liftO (runAt current runId)) (\<lambda>(run, index).
     throwO (latest_run_id current \<noteq> Some runId \<or> \<not> active_run run) invalid_transition
     (throwO (run_workspace run \<noteq> None) invalid_transition
     (needO (ws_manager workspace) invalid_request (\<lambda>manager.
      bindO (sameProjectDirectory w (mgr_projectRoot manager) root) (\<lambda>same.
      throwO (\<not> same) invalid_request
      (throwO (\<not> taskRunWorkspaceWriteSetsEqual pl (ws_writeSet workspace) (List.sort (run_writeSetSnapshot run)))
        invalid_request
      (throwO (base_sha_differs run workspace) (KernelError CANDIDATE_MISMATCH)
      (emit pl actor idem EvWorkspaceBound runId fingerprint
         (replaceRun current index (with_workspace run workspace))))))))))"

definition bindTaskRunWorkspace ::
    "platform \<Rightarrow> world \<Rightarrow> project \<Rightarrow> string \<Rightarrow> string \<Rightarrow> jsobj \<Rightarrow> nat \<Rightarrow> (mutation_result \<times> project \<times> nat) outcome" where
  "bindTaskRunWorkspace pl w p root dir req n =
     bindE (requireNonEmptyString (getprop req ''actor'')) (\<lambda>actor.
     bindE (requireNonEmptyString (getprop req ''runId'')) (\<lambda>runId.
     bindE (parseWorkspaceBinding pl runId (getprop req ''workspace'')) (\<lambda>workspace.
     throwIf (ws_manager workspace = None) invalid_request
     (throwIf (ws_integrationState workspace \<noteq> NotIntegrated \<or> ws_integrationReceipt workspace \<noteq> None \<or>
               ws_cleanupLease workspace \<noteq> None) invalid_request
     (let fingerprint = fingerprintTaskValue pl
            (JObj [(''runId'', JStr runId), (''workspace'', workspace_json workspace)]) in
      mutateTaskKernel pl p dir (getprop req ''expectedRevision'') (JStr actor)
        (getprop req ''idempotencyKey'') fingerprint
        (bindTaskRunWorkspace_step pl w root actor runId workspace fingerprint) n)))))"

section \<open>Integration\<close>

definition receipt_differs :: "task_run \<Rightarrow> candidate_snapshot \<Rightarrow> run_result \<Rightarrow> integration_receipt \<Rightarrow> bool" where
  "receipt_differs run candidate result receipt \<longleftrightarrow>
     rcpt_runId receipt \<noteq> run_id run \<or> rcpt_candidateSnapshotId receipt \<noteq> cand_id candidate \<or>
     rcpt_candidateFingerprint receipt \<noteq> cand_fingerprint candidate \<or>
     (case rcpt_contentFingerprint receipt of None \<Rightarrow> True | Some s \<Rightarrow> s = []) \<or>
     \<not> sameStrings (rcpt_resultEvidenceRefs receipt) (res_evidenceRefs result) \<or>
     rcpt_resultEvidenceRefs receipt = []"

definition recordTaskRunWorkspaceIntegration_step ::
    "platform \<Rightarrow> string \<Rightarrow> string \<Rightarrow> integration_receipt \<Rightarrow> string \<Rightarrow> string \<Rightarrow> operation" where
  "recordTaskRunWorkspaceIntegration_step pl actor runId receipt fingerprint idem current =
     bindO (liftO (runAt current runId)) (\<lambda>(run, index).
     needO (run_workspace run) invalid_transition (\<lambda>workspace.
     throwO (ws_manager workspace = None) invalid_transition
     (throwO (run_state run \<noteq> RunCompleted) invalid_transition
     (needO (run_result run) invalid_transition (\<lambda>result.
      needO (run_candidateSnapshot run) invalid_transition (\<lambda>candidate.
      throwO (ws_integrationState workspace \<noteq> NotIntegrated \<or> ws_integrationReceipt workspace \<noteq> None)
        invalid_transition
      (throwO (receipt_differs run candidate result receipt) invalid_request
      (emit pl actor idem EvWorkspaceIntegrated runId fingerprint
         (replaceRun current index (run\<lparr>run_workspace := Some (workspace
            \<lparr>ws_integrationState := Integrated, ws_reclamationState := RecPending,
             ws_integrationReceipt := Some receipt\<rparr>)\<rparr>))))))))))"

definition recordTaskRunWorkspaceIntegration ::
    "platform \<Rightarrow> project \<Rightarrow> string \<Rightarrow> jsobj \<Rightarrow> nat \<Rightarrow> (mutation_result \<times> project \<times> nat) outcome" where
  "recordTaskRunWorkspaceIntegration pl p dir req n =
     bindE (requireNonEmptyString (getprop req ''actor'')) (\<lambda>actor.
     bindE (requireNonEmptyString (getprop req ''runId'')) (\<lambda>runId.
     bindE (parseWorkspaceIntegrationReceipt (getprop req ''receipt'')) (\<lambda>receipt.
     let fingerprint = fingerprintTaskValue pl
           (JObj [(''runId'', JStr runId), (''receipt'', receipt_json receipt)]) in
     mutateTaskKernel pl p dir (getprop req ''expectedRevision'') (JStr actor)
       (getprop req ''idempotencyKey'') fingerprint
       (recordTaskRunWorkspaceIntegration_step pl actor runId receipt fingerprint) n)))"

section \<open>The cleanup lease\<close>

definition unclosed_candidate :: "task_kernel \<Rightarrow> task_run \<Rightarrow> candidate_snapshot \<Rightarrow> bool" where
  "unclosed_candidate k run candidate \<longleftrightarrow>
     ker_phase k \<noteq> PhClose \<or>
     (case ker_closure k of
        None \<Rightarrow> True
      | Some c \<Rightarrow> clo_runId c \<noteq> run_id run \<or> clo_candidateSnapshotId c \<noteq> cand_id candidate \<or>
          clo_candidateFingerprint c \<noteq> cand_fingerprint candidate \<or>
          trim (dev_reference (clo_deliveryEvidence c)) = [])"

definition eligible_host :: "host_binding \<Rightarrow> host_stop_receipt \<Rightarrow> bool" where
  "eligible_host host terminal \<longleftrightarrow>
     (if host_host host = ''codex-desktop'' then
        stop_terminalStatus terminal = ''completed'' \<and> stop_source terminal = ''codex-desktop-bridge'' \<and>
        stop_evidenceLevel terminal = ''desktop-native''
      else if host_host host = ''pi'' then
        stop_terminalStatus terminal = ''exited'' \<and> stop_source terminal = ''pactile-pi-rpc''
      else False)"

definition lease_differs :: "cleanup_lease \<Rightarrow> integration_receipt \<Rightarrow> host_stop_receipt \<Rightarrow> bool" where
  "lease_differs lease integration terminal \<longleftrightarrow>
     to_lower (lease_expectedHeadSha lease) \<noteq> to_lower (rcpt_worktreeHeadSha integration) \<or>
     lease_targetBranch lease \<noteq> rcpt_targetBranch integration \<or>
     to_lower (lease_targetHeadSha lease) \<noteq> to_lower (rcpt_targetHeadSha integration) \<or>
     lease_receiptRef lease \<noteq> stop_receiptRef terminal"

definition unsettled_lease :: "cleanup_lease option \<Rightarrow> bool" where
  "unsettled_lease lease \<longleftrightarrow>
     (case lease of
        None \<Rightarrow> False
      | Some l \<Rightarrow> lease_state l = LeaseHeld \<or> lease_state l = LeasePartial \<or> lease_state l = LeaseRecovery)"

definition acquireTaskRunWorkspaceCleanupLease_step ::
    "platform \<Rightarrow> string \<Rightarrow> string \<Rightarrow> cleanup_lease \<Rightarrow> string \<Rightarrow> string \<Rightarrow> operation" where
  "acquireTaskRunWorkspaceCleanupLease_step pl actor runId lease fingerprint idem current =
     bindO (liftO (runAt current runId)) (\<lambda>(run, index).
     needO (run_workspace run) invalid_transition (\<lambda>workspace.
     throwO (ws_manager workspace = None) invalid_transition
     (needO (ws_integrationReceipt workspace) invalid_transition (\<lambda>integration.
      throwO (case rcpt_contentFingerprint integration of None \<Rightarrow> True | Some s \<Rightarrow> s = []) invalid_transition
      (throwO (ws_integrationState workspace \<noteq> Integrated) invalid_transition
      (throwO (run_state run \<noteq> RunCompleted) invalid_transition
      (needO (run_result run) invalid_transition (\<lambda>result.
       throwO (trim (res_summary result) = [] \<or> res_evidenceRefs result = []) invalid_transition
       (needO (run_candidateSnapshot run) invalid_transition (\<lambda>candidate.
        throwO (unclosed_candidate current run candidate) invalid_transition
        (needO (run_host run) invalid_transition (\<lambda>host.
         needO (host_stopReceipt host) invalid_transition (\<lambda>terminal.
         throwO (stop_runId terminal \<noteq> run_id run \<or> stop_taskId terminal \<noteq> ker_taskId current \<or>
                 stop_contractStale terminal) invalid_transition
         (throwO (\<not> eligible_host host terminal) invalid_transition
         (throwO (lease_differs lease integration terminal) invalid_request
         (throwO (unsettled_lease (ws_cleanupLease workspace)) invalid_transition
         (emit pl actor idem EvCleanupAcquired runId fingerprint
            (replaceRun current index (run\<lparr>run_workspace := Some (workspace
               \<lparr>ws_cleanupLease := Some lease, ws_reclamationState := RecPending\<rparr>)\<rparr>)))))))))))))))))))"

definition acquireTaskRunWorkspaceCleanupLease ::
    "platform \<Rightarrow> project \<Rightarrow> string \<Rightarrow> jsobj \<Rightarrow> nat \<Rightarrow> (mutation_result \<times> project \<times> nat) outcome" where
  "acquireTaskRunWorkspaceCleanupLease pl p dir req n =
     bindE (requireNonEmptyString (getprop req ''actor'')) (\<lambda>actor.
     bindE (requireNonEmptyString (getprop req ''runId'')) (\<lambda>runId.
     bindE (parseWorkspaceCleanupLease (JObj (with_prop (with_prop (spread (getprop req ''lease''))
         ''state'' (JStr ''held'')) ''reason'' JNull))) (\<lambda>lease.
     throwIf (lease_riskDisclosure lease \<noteq> Some TASK_RUN_WORKSPACE_CLEANUP_RISK_DISCLOSURE) invalid_request
     (let fingerprint = fingerprintTaskValue pl
            (JObj [(''runId'', JStr runId), (''lease'', lease_json lease)]) in
      mutateTaskKernel pl p dir (getprop req ''expectedRevision'') (JStr actor)
        (getprop req ''idempotencyKey'') fingerprint
        (acquireTaskRunWorkspaceCleanupLease_step pl actor runId lease fingerprint) n))))"

section \<open>Settling the lease\<close>

text \<open>
  \<open>request.result\<close> and \<open>request.updatedManagerBinding\<close> come at their declared types, which the code
  relies on; the binding's \<open>recordedAt\<close> may still be blank.
\<close>

datatype cleanup_result = CleanupReclaimed | CleanupRetained | CleanupPartial | CleanupRecovery

fun cleanup_lease_state :: "cleanup_result \<Rightarrow> lease_state" where
  "cleanup_lease_state CleanupReclaimed = LeaseReclaimed"
| "cleanup_lease_state CleanupRetained = LeaseRetained"
| "cleanup_lease_state CleanupPartial = LeasePartial"
| "cleanup_lease_state CleanupRecovery = LeaseRecovery"

fun cleanup_reclamation :: "cleanup_result \<Rightarrow> reclamation_state" where
  "cleanup_reclamation CleanupReclaimed = RecReclaimed"
| "cleanup_reclamation CleanupRetained = RecFailed"
| "cleanup_reclamation CleanupPartial = RecRecovery"
| "cleanup_reclamation CleanupRecovery = RecRecovery"

fun cleanup_event :: "cleanup_result \<Rightarrow> event_type" where
  "cleanup_event CleanupReclaimed = EvWorkspaceReclaimed"
| "cleanup_event CleanupRetained = EvWorkspaceRetained"
| "cleanup_event CleanupPartial = EvWorkspaceRecovery"
| "cleanup_event CleanupRecovery = EvWorkspaceRecovery"

text \<open>\<open>request.reason?.trim()\<close>: what is not a string has no \<open>trim\<close>.\<close>

definition optional_trim :: "jsval \<Rightarrow> string option outcome" where
  "optional_trim v =
     (case v of
        JStr s \<Rightarrow> Inr (Some (trim s))
      | JUndef \<Rightarrow> Inr None
      | JNull \<Rightarrow> Inr None
      | _ \<Rightarrow> Inl (ExternalError ''TypeError''))"

definition cleanup_reason :: "cleanup_result \<Rightarrow> jsval \<Rightarrow> string option outcome" where
  "cleanup_reason result v =
     (if result = CleanupReclaimed then Inr None
      else bindE (optional_trim v) (\<lambda>reason.
        throwIf (reason = None \<or> reason = Some []) invalid_request (Inr reason)))"

definition manager_update_refused :: "platform \<Rightarrow> manager_binding \<Rightarrow> manager_binding \<Rightarrow> bool" where
  "manager_update_refused pl manager update \<longleftrightarrow>
     mgr_credentialId update \<noteq> mgr_credentialId manager \<or> mgr_projectRoot update \<noteq> mgr_projectRoot manager \<or>
     mgr_commonDir update \<noteq> mgr_commonDir manager \<or> mgr_source update \<noteq> mgr_source manager \<or>
     \<not> isAbsolute pl (mgr_gitDir update)"

definition finished_workspace ::
    "workspace_binding \<Rightarrow> cleanup_lease \<Rightarrow> cleanup_result \<Rightarrow> string option \<Rightarrow> manager_binding option \<Rightarrow> workspace_binding" where
  "finished_workspace workspace lease result reason update =
     workspace\<lparr>ws_manager := (case update of None \<Rightarrow> ws_manager workspace | Some m \<Rightarrow> Some m),
       ws_cleanupLease := Some (lease\<lparr>lease_state := cleanup_lease_state result, lease_reason := reason\<rparr>),
       ws_reclamationState := cleanup_reclamation result\<rparr>"

definition finishTaskRunWorkspaceCleanup_step ::
    "platform \<Rightarrow> string \<Rightarrow> string \<Rightarrow> string \<Rightarrow> cleanup_result \<Rightarrow> string option \<Rightarrow> manager_binding option \<Rightarrow> string \<Rightarrow>
     string \<Rightarrow> operation" where
  "finishTaskRunWorkspaceCleanup_step pl actor runId leaseId result reason update fingerprint idem current =
     bindO (liftO (runAt current runId)) (\<lambda>(run, index).
     needO (run_workspace run) invalid_transition (\<lambda>workspace.
     needO (ws_manager workspace) invalid_transition (\<lambda>manager.
     needO (ws_cleanupLease workspace) invalid_transition (\<lambda>lease.
     let recoveryBindingUpdate = lease_state lease = LeaseRecovery \<and> result = CleanupRecovery \<and> update \<noteq> None in
     throwO (lease_leaseId lease \<noteq> leaseId \<or> lease_state lease \<noteq> LeaseHeld \<and> \<not> recoveryBindingUpdate)
       invalid_transition
     (throwO (case update of None \<Rightarrow> False | Some m \<Rightarrow> manager_update_refused pl manager m) invalid_request
     (emit pl actor idem (cleanup_event result) runId fingerprint
        (replaceRun current index (run\<lparr>run_workspace :=
           Some (finished_workspace workspace lease result reason update)\<rparr>))))))))"

definition finishTaskRunWorkspaceCleanup ::
    "platform \<Rightarrow> project \<Rightarrow> string \<Rightarrow> cleanup_result \<Rightarrow> manager_binding option \<Rightarrow> jsobj \<Rightarrow> nat \<Rightarrow>
     (mutation_result \<times> project \<times> nat) outcome" where
  "finishTaskRunWorkspaceCleanup pl p dir result update req n =
     bindE (requireNonEmptyString (getprop req ''actor'')) (\<lambda>actor.
     bindE (requireNonEmptyString (getprop req ''runId'')) (\<lambda>runId.
     bindE (requireNonEmptyString (getprop req ''leaseId'')) (\<lambda>leaseId.
     bindE (cleanup_reason result (getprop req ''reason'')) (\<lambda>reason.
     let fingerprint = fingerprintTaskValue pl
           (JObj [(''runId'', JStr runId), (''leaseId'', JStr leaseId),
                  (''result'', JStr (lease_state_name (cleanup_lease_state result))),
                  (''reason'', nullable JStr reason),
                  (''updatedManagerBinding'', nullable manager_json update)]) in
     mutateTaskKernel pl p dir (getprop req ''expectedRevision'') (JStr actor)
       (getprop req ''idempotencyKey'') fingerprint
       (finishTaskRunWorkspaceCleanup_step pl actor runId leaseId result reason update fingerprint) n))))"

section \<open>Refusals\<close>

text \<open>\<open>s.replace(/c+/g, " ")\<close> for a character class \<open>c\<close>\<close>

function squeeze :: "(char \<Rightarrow> bool) \<Rightarrow> string \<Rightarrow> string" where
  "squeeze c [] = []"
| "squeeze c (x # xs) = (if c x then CHR '' '' # squeeze c (dropWhile c xs) else x # squeeze c xs)"
  by pat_completeness auto
termination by (relation "measure (length \<circ> snd)") (auto simp: le_imp_less_Suc length_dropWhile_le)

definition is_control :: "char \<Rightarrow> bool" where
  "is_control c \<longleftrightarrow> (let n = of_char c :: nat in n < 32 \<or> 127 \<le> n \<and> n < 160)"

definition clean_reason :: "string \<Rightarrow> string" where
  "clean_reason s = take 500 (trim (squeeze is_space (squeeze is_control s)))"

definition record_refusal_step ::
    "platform \<Rightarrow> string \<Rightarrow> string \<Rightarrow> event_type \<Rightarrow> string \<Rightarrow> string \<Rightarrow> string \<Rightarrow> operation" where
  "record_refusal_step pl actor runId type evidence fingerprint idem current n =
     bindE (runAt current runId) (\<lambda>(run, index).
     Inr (appendMutation pl current actor idem type (run_id run) fingerprint no_patch evidence n))"

definition recordTaskRunWorkspaceCleanupRefusal ::
    "platform \<Rightarrow> project \<Rightarrow> string \<Rightarrow> jsobj \<Rightarrow> nat \<Rightarrow> (mutation_result \<times> project \<times> nat) outcome" where
  "recordTaskRunWorkspaceCleanupRefusal pl p dir req n =
     bindE (requireNonEmptyString (getprop req ''actor'')) (\<lambda>actor.
     bindE (requireNonEmptyString (getprop req ''runId'')) (\<lambda>runId.
     bindE (requireNonEmptyString (getprop req ''reason'')) (\<lambda>raw.
     let reason = clean_reason raw in
     throwIf (reason = []) invalid_request
     (let fingerprint = fingerprintTaskValue pl
            (JObj [(''runId'', JStr runId), (''result'', JStr ''retained''), (''reason'', JStr reason)]) in
      mutateTaskKernel pl p dir (getprop req ''expectedRevision'') (JStr actor)
        (getprop req ''idempotencyKey'') fingerprint
        (record_refusal_step pl actor runId EvCleanupRefused (''Workspace cleanup refused: '' @ reason) fingerprint)
        n))))"

definition WORKSPACE_CLAIM_REFUSAL_REASONS :: "(string \<times> string) list" where
  "WORKSPACE_CLAIM_REFUSAL_REASONS =
     [(''owner-conflict'', ''Existing Run ownership prevents this workspace claim.''),
      (''path-exists'', ''The requested workspace location already exists.''),
      (''invalid-run-id'', ''The Run identifier failed workspace ownership validation.''),
      (''invalid-write-set'', ''The Run write set failed workspace validation.''),
      (''invalid-ref'', ''The Git reference could not be verified for this workspace claim.''),
      (''candidate-baseline-mismatch'',
       ''The requested Git base does not match the commit captured when the Run started.''),
      (''candidate-baseline-unavailable'', ''The Run has no frozen Git baseline for a managed checkout.''),
      (''path-anomaly'', ''The workspace path failed canonical location checks.''),
      (''invalid-repository'', ''The repository identity could not be verified.''),
      (''adoption-not-authorized'', ''Recorded adoption authorization is missing or invalid.''),
      (''adoption-not-safe'', ''The existing checkout failed adoption safety checks.''),
      (''git-command-failed'', ''Git could not complete the workspace claim checks.''),
      (''git-path-unrepresentable'', ''The Git path could not be verified safely.''),
      (''gitdir-mismatch'', ''The Git registration did not match the workspace path.''),
      (''manager-provenance-invalid'', ''Existing manager ownership evidence is invalid.''),
      (''manager-provenance-write-failed'', ''Manager ownership evidence could not be recorded.''),
      (''worktree-create-failed'', ''Git could not create and register the requested checkout.''),
      (''post-create-verification-failed'',
       ''The created checkout failed verification; preserve it for recovery.''),
      (''workspace-kernel-bind-failed'',
       ''The checkout was preserved, but its Task Kernel owner binding could not be recorded; reconcile the Run before dispatch.''),
      (''claim-failed'', ''The workspace claim did not pass manager validation or persistence.'')]"

definition TASK_RUN_WORKSPACE_CLAIM_ERROR_CODES :: "string list" where
  "TASK_RUN_WORKSPACE_CLAIM_ERROR_CODES =
     [''owner-conflict'', ''path-exists'', ''invalid-run-id'', ''invalid-write-set'', ''invalid-ref'',
      ''candidate-baseline-mismatch'', ''candidate-baseline-unavailable'', ''path-anomaly'',
      ''invalid-repository'', ''adoption-not-authorized'', ''adoption-not-safe'', ''git-command-failed'',
      ''git-path-unrepresentable'', ''gitdir-mismatch'', ''manager-provenance-invalid'',
      ''manager-provenance-write-failed'', ''worktree-create-failed'',
      ''post-create-verification-failed'', ''workspace-kernel-bind-failed'', ''claim-failed'']"

definition recordTaskRunWorkspaceClaimRefusal ::
    "platform \<Rightarrow> project \<Rightarrow> string \<Rightarrow> jsobj \<Rightarrow> nat \<Rightarrow> (mutation_result \<times> project \<times> nat) outcome" where
  "recordTaskRunWorkspaceClaimRefusal pl p dir req n =
     bindE (requireNonEmptyString (getprop req ''actor'')) (\<lambda>actor.
     bindE (requireNonEmptyString (getprop req ''runId'')) (\<lambda>runId.
     orThrow (enum_of id [''create'', ''adopt'', ''reconcile''] (getprop req ''operation'')) invalid_request
       (\<lambda>operation.
     orThrow (enum_of id TASK_RUN_WORKSPACE_CLAIM_ERROR_CODES (getprop req ''errorCode'')) invalid_request
       (\<lambda>errorCode.
     orThrow (map_of WORKSPACE_CLAIM_REFUSAL_REASONS errorCode) invalid_request (\<lambda>reason.
     throwIf (reason = []) invalid_request
     (let fingerprint = fingerprintTaskValue pl
            (JObj [(''runId'', JStr runId), (''operation'', JStr operation), (''errorCode'', JStr errorCode),
                   (''reason'', JStr reason)]) in
      mutateTaskKernel pl p dir (getprop req ''expectedRevision'') (JStr actor)
        (getprop req ''idempotencyKey'') fingerprint
        (record_refusal_step pl actor runId EvWorkspaceClaimRefused
          (''Workspace '' @ operation @ '' claim refused ['' @ errorCode @ '']: '' @ reason) fingerprint)
        n))))))"

section \<open>What the operations do\<close>

lemma bind_workspace_cases:
  assumes "bindTaskRunWorkspace_step pl w root actor runId ws fp idem k n = Inr (k', n')"
  obtains run i m n1 where "runAt k runId = Inr (run, i)" "latest_run_id k = Some runId" "active_run run"
    "run_workspace run = None" "ws_manager ws = Some m"
    "taskRunWorkspaceWriteSetsEqual pl (ws_writeSet ws) (List.sort (run_writeSetSnapshot run))"
    "\<not> base_sha_differs run ws"
    "n \<le> n1" "appendDomainEvent pl (replaceRun k i (with_workspace run ws)) actor idem EvWorkspaceBound
       runId fp n1 = (k', n')"
proof -
  obtain run i m n1 where s: "runAt k runId = Inr (run, i)" "latest_run_id k = Some runId" "active_run run"
    "run_workspace run = None" "ws_manager ws = Some m"
    "taskRunWorkspaceWriteSetsEqual pl (ws_writeSet ws) (List.sort (run_writeSetSnapshot run))"
    "\<not> base_sha_differs run ws" "sameProjectDirectory w (mgr_projectRoot m) root n = Inr (True, n1)"
    "appendDomainEvent pl (replaceRun k i (with_workspace run ws)) actor idem EvWorkspaceBound
       runId fp n1 = (k', n')"
    using assms by (auto simp: bindTaskRunWorkspace_step_def result_simps)
  have "n \<le> n1"
    using s(8) forwardD [OF forward_same_directory]
    by (auto simp: sameProjectDirectory_def result_simps split: if_splits)
  with s show thesis by (intro that) auto
qed

lemma integration_cases:
  assumes "recordTaskRunWorkspaceIntegration_step pl actor runId receipt fp idem k n = Inr (k', n')"
  obtains run i ws result c where "runAt k runId = Inr (run, i)" "run_workspace run = Some ws"
    "run_state run = RunCompleted" "run_result run = Some result" "run_candidateSnapshot run = Some c"
    "ws_integrationState ws = NotIntegrated" "ws_integrationReceipt ws = None" "ws_manager ws \<noteq> None"
    "\<not> receipt_differs run c result receipt"
    "appendDomainEvent pl (replaceRun k i (run\<lparr>run_workspace := Some (ws
            \<lparr>ws_integrationState := Integrated, ws_reclamationState := RecPending,
             ws_integrationReceipt := Some receipt\<rparr>)\<rparr>)) actor idem EvWorkspaceIntegrated runId fp n = (k', n')"
  using assms by (auto simp: recordTaskRunWorkspaceIntegration_step_def result_simps)

lemma acquire_cases:
  assumes "acquireTaskRunWorkspaceCleanupLease_step pl actor runId lease fp idem k n = Inr (k', n')"
  obtains run i ws integration result c host terminal where "runAt k runId = Inr (run, i)"
    "run_workspace run = Some ws" "ws_integrationReceipt ws = Some integration"
    "ws_integrationState ws = Integrated" "run_state run = RunCompleted" "run_result run = Some result"
    "run_candidateSnapshot run = Some c" "\<not> unclosed_candidate k run c" "run_host run = Some host"
    "host_stopReceipt host = Some terminal" "stop_runId terminal = run_id run" "\<not> stop_contractStale terminal"
    "eligible_host host terminal" "\<not> lease_differs lease integration terminal"
    "\<not> unsettled_lease (ws_cleanupLease ws)" "ws_manager ws \<noteq> None"
    "appendDomainEvent pl (replaceRun k i (run\<lparr>run_workspace := Some (ws
               \<lparr>ws_cleanupLease := Some lease, ws_reclamationState := RecPending\<rparr>)\<rparr>))
       actor idem EvCleanupAcquired runId fp n = (k', n')"
  using assms by (auto simp: acquireTaskRunWorkspaceCleanupLease_step_def result_simps)

lemma finish_cases:
  assumes "finishTaskRunWorkspaceCleanup_step pl actor runId leaseId result reason update fp idem k n = Inr (k', n')"
  obtains run i ws m lease where "runAt k runId = Inr (run, i)" "run_workspace run = Some ws"
    "ws_manager ws = Some m" "ws_cleanupLease ws = Some lease" "lease_leaseId lease = leaseId"
    "lease_state lease = LeaseHeld \<or> lease_state lease = LeaseRecovery \<and> result = CleanupRecovery \<and> update \<noteq> None"
    "pred_option (\<lambda>u. \<not> manager_update_refused pl m u) update"
    "appendDomainEvent pl (replaceRun k i (run\<lparr>run_workspace :=
           Some (finished_workspace ws lease result reason update)\<rparr>)) actor idem (cleanup_event result) runId fp n =
       (k', n')"
  using assms
  by (cases update) (auto simp: finishTaskRunWorkspaceCleanup_step_def result_simps Let_def)

lemma refusal_cases:
  assumes "record_refusal_step pl actor runId type evidence fp idem k n = Inr (k', n')"
  obtains run i where "runAt k runId = Inr (run, i)"
    "appendMutation pl k actor idem type (run_id run) fp no_patch evidence n = (k', n')"
  using assms by (auto simp: record_refusal_step_def result_simps)

text \<open>A Run whose workspace changes stays well-formed when its base stays that of the workspace.\<close>

lemma run_workspace_wf:
  assumes "wf_run pl r" and "run_workspace r = Some ws" and "wf_workspace pl (run_id r) ws'"
    and "ws_baseSha ws' = ws_baseSha ws" and "ws_branch ws' = ws_branch ws"
  shows "wf_run pl (r\<lparr>run_workspace := Some ws'\<rparr>)"
  using assms
  by (simp add: wf_run_def wf_run_fields_def run_phase_ok_def run_baseline_ok_def active_run_def)

lemma with_workspace_wf:
  assumes "wf_run pl r" and "wf_workspace pl (run_id r) ws" and "run_readable (with_workspace r ws)"
  shows "wf_run pl (with_workspace r ws)"
  using assms
  by (auto simp: wf_run_def wf_run_fields_def run_phase_ok_def run_baseline_ok_def active_run_def
      with_workspace_def run_readable_def baseline_readable_def untrimmed_branch_def wf_workspace_def
      pred_option_def)

lemma run_workspace_of_wf:
  "wf_run pl r \<Longrightarrow> run_workspace r = Some ws \<Longrightarrow> wf_workspace pl (run_id r) ws"
  by (simp add: wf_run_def wf_run_fields_def)

lemma letter_not_space: "is_letter c \<Longrightarrow> \<not> is_space c"
  by (auto simp: is_letter_def is_space_def)

lemma isAbsolute_not_blank: "isAbsolute pl s \<Longrightarrow> \<not> blank s"
proof (cases s)
  case (Cons c r)
  assume "isAbsolute pl s"
  then have "c = CHR ''/'' \<or> c = CHR 0x5C \<or> is_letter c"
    using Cons by (auto simp: isAbsolute_def starts_with_def split: if_splits)
  then have "\<not> is_space c" using letter_not_space [of c] by (elim disjE) (simp_all add: is_space_def)
  with Cons show "\<not> blank s" by (simp add: blank_iff)
qed (simp add: isAbsolute_def starts_with_def split: if_splits)

lemma finished_workspace_wf:
  assumes "wf_workspace pl runId ws" and "ws_manager ws = Some m" and "ws_cleanupLease ws = Some lease"
    and "pred_option (\<lambda>u. \<not> manager_update_refused pl m u) update" and "pred_option (\<lambda>s. \<not> blank s) reason"
    and "pred_option (\<lambda>u. \<not> blank (mgr_recordedAt u)) update"
  shows "wf_workspace pl runId (finished_workspace ws lease result reason update)"
proof -
  have "wf_manager pl u" if "update = Some u" for u
  proof -
    have "wf_manager pl m" using assms(1,2) by (simp add: wf_workspace_def)
    moreover have "\<not> manager_update_refused pl m u" "\<not> blank (mgr_recordedAt u)" using that assms(4,6) by simp_all
    ultimately show ?thesis
      using isAbsolute_not_blank [of pl "mgr_gitDir u"] by (simp add: wf_manager_def manager_update_refused_def)
  qed
  moreover have "wf_lease lease" "pred_option (wf_manager pl) (ws_manager ws)"
    using assms(1,3) by (simp_all add: wf_workspace_def)
  ultimately show ?thesis
    using assms(1,5) by (cases update) (simp_all add: wf_workspace_def finished_workspace_def wf_lease_def)
qed

interpretation bind_workspace: wf_operation pl actor fp "bindTaskRunWorkspace_step pl w root actor runId ws fp"
  "\<not> blank runId \<and> wf_workspace pl runId ws"
  for pl actor fp w root runId ws
proof
  fix idem k n k' n'
  assume op: "bindTaskRunWorkspace_step pl w root actor runId ws fp idem k n = Inr (k', n')"
  from op obtain run i n1 where s: "runAt k runId = Inr (run, i)" "n \<le> n1"
    "appendDomainEvent pl (replaceRun k i (with_workspace run ws)) actor idem EvWorkspaceBound runId fp n1 = (k', n')"
    by (rule bind_workspace_cases)
  have id: "run_id (with_workspace run ws) = run_id run" by (simp add: with_workspace_def)
  note e = replace_event [OF s(1) id s(3)]
  show "extends pl actor idem fp k n k' n'" using e(1) s(2) by (rule extends_earlier)
  show "run_id ` set (ker_runs k') \<subseteq> run_id ` set (ker_runs k) \<union> randomUUID pl ` {n..<n'}"
    using e(2) s(2) by (rule tickets_earlier)
  show "\<not> blank (evt_entityId (last (ker_events k')))" if "\<not> blank runId \<and> wf_workspace pl runId ws"
    using that e(4) by simp
  assume ok: "\<not> blank runId \<and> wf_workspace pl runId ws" "wf_kernel pl k" "readable k'"
  have "i < length (ker_runs k)" "run_id run = runId" using s(1) by (simp_all add: runAt_iff)
  then have "run_readable (with_workspace run ws)"
    using ok(3) e(3) by (auto simp: readable_def list_all_iff set_update_memI)
  then show "wf_content pl k'"
    using runAt_wf(1) [OF s(1) ok(2)] ok \<open>run_id run = runId\<close>
    by (intro e(5)) (simp_all add: with_workspace_wf, simp_all add: with_workspace_def)
qed


interpretation integrate_workspace: wf_operation pl actor fp
  "recordTaskRunWorkspaceIntegration_step pl actor runId receipt fp" "\<not> blank runId \<and> wf_receipt receipt"
  for pl actor fp runId receipt
proof
  fix idem k n k' n'
  assume op: "recordTaskRunWorkspaceIntegration_step pl actor runId receipt fp idem k n = Inr (k', n')"
  from op obtain run i ws where s: "runAt k runId = Inr (run, i)" "run_workspace run = Some ws"
    "appendDomainEvent pl (replaceRun k i (run\<lparr>run_workspace := Some (ws
            \<lparr>ws_integrationState := Integrated, ws_reclamationState := RecPending,
             ws_integrationReceipt := Some receipt\<rparr>)\<rparr>)) actor idem EvWorkspaceIntegrated runId fp n = (k', n')"
    by (rule integration_cases)
  note e = replace_event [OF s(1) _ s(3)]
  show "extends pl actor idem fp k n k' n'" by (rule e) simp
  show "run_id ` set (ker_runs k') \<subseteq> run_id ` set (ker_runs k) \<union> randomUUID pl ` {n..<n'}" by (rule e) simp
  show "\<not> blank (evt_entityId (last (ker_events k')))" if "\<not> blank runId \<and> wf_receipt receipt" using that e(4) by simp
  show "wf_content pl k'" if "\<not> blank runId \<and> wf_receipt receipt" "wf_kernel pl k"
    using that run_workspace_of_wf [OF runAt_wf(1) [OF s(1) that(2)] s(2)] runAt_wf(1) [OF s(1) that(2)] s(2)
    by (intro e run_workspace_wf) (simp_all add: wf_workspace_def)
qed

interpretation acquire_lease: wf_operation pl actor fp
  "acquireTaskRunWorkspaceCleanupLease_step pl actor runId lease fp" "\<not> blank runId \<and> wf_lease lease"
  for pl actor fp runId lease
proof
  fix idem k n k' n'
  assume op: "acquireTaskRunWorkspaceCleanupLease_step pl actor runId lease fp idem k n = Inr (k', n')"
  from op obtain run i ws where s: "runAt k runId = Inr (run, i)" "run_workspace run = Some ws"
    "appendDomainEvent pl (replaceRun k i (run\<lparr>run_workspace := Some (ws
               \<lparr>ws_cleanupLease := Some lease, ws_reclamationState := RecPending\<rparr>)\<rparr>))
       actor idem EvCleanupAcquired runId fp n = (k', n')"
    by (rule acquire_cases)
  note e = replace_event [OF s(1) _ s(3)]
  show "extends pl actor idem fp k n k' n'" by (rule e) simp
  show "run_id ` set (ker_runs k') \<subseteq> run_id ` set (ker_runs k) \<union> randomUUID pl ` {n..<n'}" by (rule e) simp
  show "\<not> blank (evt_entityId (last (ker_events k')))" if "\<not> blank runId \<and> wf_lease lease" using that e(4) by simp
  show "wf_content pl k'" if "\<not> blank runId \<and> wf_lease lease" "wf_kernel pl k"
    using that run_workspace_of_wf [OF runAt_wf(1) [OF s(1) that(2)] s(2)] runAt_wf(1) [OF s(1) that(2)] s(2)
    by (intro e run_workspace_wf) (simp_all add: wf_workspace_def)
qed

interpretation finish_cleanup: wf_operation pl actor fp
  "finishTaskRunWorkspaceCleanup_step pl actor runId leaseId result reason update fp"
  "\<not> blank runId \<and> pred_option (\<lambda>s. \<not> blank s) reason"
  for pl actor fp runId leaseId result reason update
proof
  fix idem k n k' n'
  assume op: "finishTaskRunWorkspaceCleanup_step pl actor runId leaseId result reason update fp idem k n = Inr (k', n')"
  from op obtain run i ws m lease where s: "runAt k runId = Inr (run, i)" "run_workspace run = Some ws"
    "ws_manager ws = Some m" "ws_cleanupLease ws = Some lease"
    "pred_option (\<lambda>u. \<not> manager_update_refused pl m u) update"
    "appendDomainEvent pl (replaceRun k i (run\<lparr>run_workspace :=
           Some (finished_workspace ws lease result reason update)\<rparr>)) actor idem (cleanup_event result) runId fp n =
       (k', n')"
    by (rule finish_cases)
  note e = replace_event [OF s(1) _ s(6)]
  show "extends pl actor idem fp k n k' n'" by (rule e) simp
  show "run_id ` set (ker_runs k') \<subseteq> run_id ` set (ker_runs k) \<union> randomUUID pl ` {n..<n'}" by (rule e) simp
  show "\<not> blank (evt_entityId (last (ker_events k')))" if "\<not> blank runId \<and> pred_option (\<lambda>s. \<not> blank s) reason"
    using that e(4) by simp
  assume ok: "\<not> blank runId \<and> pred_option (\<lambda>s. \<not> blank s) reason" "wf_kernel pl k" "readable k'"
  have "i < length (ker_runs k)" using s(1) by (simp add: runAt_iff)
  then have "run_readable (run\<lparr>run_workspace := Some (finished_workspace ws lease result reason update)\<rparr>)"
    using ok(3) e(3) by (auto simp: readable_def list_all_iff set_update_memI)
  then have "pred_option (\<lambda>u. \<not> blank (mgr_recordedAt u)) update"
    by (cases update) (simp_all add: run_readable_def manager_readable_def finished_workspace_def)
  then have "wf_workspace pl (run_id run) (finished_workspace ws lease result reason update)"
    using runAt_wf(1) [OF s(1) ok(2)] ok(1) s by (intro finished_workspace_wf run_workspace_of_wf) simp_all
  then show "wf_content pl k'"
    using runAt_wf(1) [OF s(1) ok(2)] ok(2) s(2)
    by (intro e run_workspace_wf) (simp_all add: finished_workspace_def)
qed

interpretation record_refusal: wf_operation pl actor fp "record_refusal_step pl actor runId type evidence fp" True
  for pl actor fp runId type evidence
proof
  fix idem k n k' n'
  assume op: "record_refusal_step pl actor runId type evidence fp idem k n = Inr (k', n')"
  from op obtain run i where s: "runAt k runId = Inr (run, i)"
    "appendMutation pl k actor idem type (run_id run) fp no_patch evidence n = (k', n')"
    by (rule refusal_cases)
  note content = appendMutation_content [OF s(2)]
  show "extends pl actor idem fp k n k' n'"
    using s(2) by (intro appendMutation_extends [OF advances_refl]) simp_all
  show "run_id ` set (ker_runs k') \<subseteq> run_id ` set (ker_runs k) \<union> randomUUID pl ` {n..<n'}"
    by (simp add: content)
  show "\<not> blank (evt_entityId (last (ker_events k')))" if "wf_kernel pl k"
    using runAt_wf(2) [OF s(1) that] by (simp add: content)
  show "wf_content pl k'" if "wf_kernel pl k"
    using that by (simp add: content wf_kernel_def)
qed

end
