(* ===== verification/Project_Observer.thy ===== *)
theory Project_Observer
  imports Host_World
begin

text \<open>
  The bounded scan of a project without Git, \<open>core/task/project-file-observer.ts\<close>: the walk over
  the tree with its limits and its checks against concurrent change, the baseline a Run starts
  from, and the comparison of a candidate with it.

  The walk recurses into directories; the model bounds the recursion by a counter and
  \<open>scan_fuel\<close> shows that the directory limit of the code stops the walk first.
\<close>

section \<open>Limits and observations\<close>

definition PROJECT_FILE_SNAPSHOT_MAX_DIRECTORY_ENTRIES :: nat where
  "PROJECT_FILE_SNAPSHOT_MAX_DIRECTORY_ENTRIES = 4096"

definition PROJECT_FILE_SNAPSHOT_MAX_DIRECTORIES :: nat where
  "PROJECT_FILE_SNAPSHOT_MAX_DIRECTORIES = 4096"

definition PROJECT_FILE_SNAPSHOT_MAX_ENTRIES :: nat where
  "PROJECT_FILE_SNAPSHOT_MAX_ENTRIES = 8192"

lemmas scan_limits =
  PROJECT_FILE_SNAPSHOT_MAX_DIRECTORY_ENTRIES_def PROJECT_FILE_SNAPSHOT_MAX_DIRECTORIES_def
  PROJECT_FILE_SNAPSHOT_MAX_ENTRIES_def PROJECT_FILE_SNAPSHOT_MAX_FILES_def
  PROJECT_FILE_SNAPSHOT_MAX_FILE_BYTES_def PROJECT_FILE_SNAPSHOT_MAX_TOTAL_BYTES_def

abbreviation limit_exceeded :: failure where
  "limit_exceeded \<equiv> ExternalError ''observation-limit-exceeded''"

abbreviation candidate_changed :: failure where
  "candidate_changed \<equiv> ExternalError ''candidate-mismatch''"

abbreviation unsafe_path :: failure where
  "unsafe_path \<equiv> ExternalError ''unsafe-path''"

abbreviation invalid_root :: failure where
  "invalid_root \<equiv> ExternalError ''invalid-root''"

text \<open>\<open>GitCandidateFileFingerprint\<close> and \<open>GitCandidateScopeStatus\<close>, shared by both observers\<close>

datatype current_kind = CurRegular | CurSymlink | CurDirectory | CurMissing

fun current_kind_name :: "current_kind \<Rightarrow> string" where
  "current_kind_name CurRegular = ''regular-file''"
| "current_kind_name CurSymlink = ''symlink''"
| "current_kind_name CurDirectory = ''directory''"
| "current_kind_name CurMissing = ''missing''"

record current_file =
  cur_path :: string
  cur_kind :: current_kind
  cur_sizeBytes :: nat
  cur_sha256 :: "string option"

datatype scope_status = WithinWriteSet | OutOfScope | Conflicted | WorkspaceMismatch

fun scope_name :: "scope_status \<Rightarrow> string" where
  "scope_name WithinWriteSet = ''within-write-set''"
| "scope_name OutOfScope = ''out-of-scope''"
| "scope_name Conflicted = ''conflicted''"
| "scope_name WorkspaceMismatch = ''workspace-mismatch''"

definition current_file_json :: "current_file \<Rightarrow> jsval" where
  "current_file_json f =
     JObj [(''path'', JStr (cur_path f)), (''kind'', JStr (current_kind_name (cur_kind f))),
           (''sizeBytes'', nat_val (cur_sizeBytes f)), (''sha256'', nullable JStr (cur_sha256 f))]"

definition write_set_json :: "write_set \<Rightarrow> jsval" where
  "write_set_json ws =
     JObj [(''exactPaths'', strs_val (exactPaths ws)), (''directoryPrefixes'', strs_val (directoryPrefixes ws))]"

record file_observation =
  fob_repositoryRoot :: string
  fob_rootIdentitySha256 :: string
  fob_baselineFingerprint :: string
  fob_observedAt :: string
  fob_allowedWriteSet :: write_set
  fob_affectedPaths :: "string list"
  fob_inScopePaths :: "string list"
  fob_outOfScopePaths :: "string list"
  fob_currentFiles :: "current_file list"
  fob_scopeStatus :: scope_status
  fob_fingerprint :: string

record file_scan =
  scan_root :: string
  scan_rootIdentitySha256 :: string
  scan_files :: "baseline_entry list"
  scan_directoryStates :: "string list"
  scan_excludedPaths :: "string list"

section \<open>The root\<close>

definition statFingerprint :: "file_stat \<Rightarrow> string" where
  "statFingerprint s =
     join_with '':'' [nat_text (fs_dev s), nat_text (fs_ino s), nat_text (fs_mode s), nat_text (fs_size s),
       num_text (fs_mtimeMs s), num_text (fs_ctimeMs s)]"

definition sameStat :: "file_stat \<Rightarrow> file_stat \<Rightarrow> bool" where
  "sameStat a b \<longleftrightarrow> statFingerprint a = statFingerprint b"

definition samePath :: "platform \<Rightarrow> world \<Rightarrow> string \<Rightarrow> string \<Rightarrow> bool" where
  "samePath pl w left right \<longleftrightarrow> platform_path pl (w_resolve w left) = platform_path pl (w_resolve w right)"

text \<open>\<open>lstatSync\<close> where every error is the same\<close>

definition lstat_or :: "world \<Rightarrow> failure \<Rightarrow> string \<Rightarrow> file_stat io" where
  "lstat_or w e p n = (case w_lstat w n p of Stat s \<Rightarrow> Inr (s, n + 1) | _ \<Rightarrow> Inl e)"

definition hasGitMetadataAtProjectRoot :: "platform \<Rightarrow> world \<Rightarrow> string \<Rightarrow> bool io" where
  "hasGitMetadataAtProjectRoot pl w root n =
     (case w_lstat w n (path_join pl root ''.git'') of
        Stat _ \<Rightarrow> Inr (True, n + 1)
      | NoEntry \<Rightarrow> Inr (False, n + 1)
      | StatFails \<Rightarrow> Inl invalid_root)"

definition ensureNoGitMetadata :: "platform \<Rightarrow> world \<Rightarrow> string \<Rightarrow> unit io" where
  "ensureNoGitMetadata pl w root =
     bindO (hasGitMetadataAtProjectRoot pl w root) (\<lambda>git. throwO git candidate_changed (okO ()))"

definition resolveProjectRoot :: "platform \<Rightarrow> world \<Rightarrow> string \<Rightarrow> (string \<times> string) io" where
  "resolveProjectRoot pl w rootPath =
     bindO (lstat_or w invalid_root rootPath) (\<lambda>stat.
     throwO (fs_kind stat \<noteq> KDirectory) invalid_root
     (bindO (tryO invalid_root (\<lambda>n. w_realpath w n rootPath)) (\<lambda>root.
      throwO (\<not> samePath pl w rootPath root) invalid_root
      (bindO (ensureNoGitMetadata pl w root) (\<lambda>_.
       okO (root, sha256hex pl (platform_path pl root)))))))"

section \<open>Reading one file\<close>

text \<open>The loop over the segments: \<open>current\<close> is the path so far\<close>

fun check_segments :: "platform \<Rightarrow> world \<Rightarrow> string \<Rightarrow> string list \<Rightarrow> string io" where
  "check_segments pl w current [] = okO current"
| "check_segments pl w current (segment # segments) =
     (let next = path_join pl current segment in
      bindO (lstat_or w candidate_changed next) (\<lambda>stat.
      throwO (fs_kind stat = KSymlink) unsafe_path
      (throwO (segments \<noteq> [] \<and> fs_kind stat \<noteq> KDirectory) unsafe_path
        (check_segments pl w next segments))))"

definition assertNoSymlinkSegments :: "platform \<Rightarrow> world \<Rightarrow> string \<Rightarrow> string \<Rightarrow> unit io" where
  "assertNoSymlinkSegments pl w root repositoryPath =
     bindO (check_segments pl w root (split_on CHR ''/'' repositoryPath)) (\<lambda>current.
     bindO (tryO candidate_changed (\<lambda>n. w_realpath w n current)) (\<lambda>real.
     throwO (\<not> isWithin pl root real) unsafe_path (okO ())))"

text \<open>The block between \<open>openSync\<close> and \<open>closeSync\<close>\<close>

definition read_descriptor :: "world \<Rightarrow> string \<Rightarrow> file_stat \<Rightarrow> string io" where
  "read_descriptor w absolutePath before =
     bindO (tryO fs_error (\<lambda>n. w_fstat w n absolutePath)) (\<lambda>descriptorBefore.
     throwO (fs_kind descriptorBefore \<noteq> KRegular \<or> \<not> sameStat before descriptorBefore) candidate_changed
     (bindO (tryO fs_error (\<lambda>n. w_readFd w n absolutePath)) (\<lambda>first.
      bindO (tryO fs_error (\<lambda>n. w_fstat w n absolutePath)) (\<lambda>descriptorAfterFirst.
      bindO (tryO fs_error (\<lambda>n. w_readFile w n absolutePath)) (\<lambda>second.
      bindO (tryO fs_error (\<lambda>n. w_fstat w n absolutePath)) (\<lambda>descriptorAfterSecond.
      throwO (\<not> sameStat descriptorBefore descriptorAfterFirst \<or>
              \<not> sameStat descriptorBefore descriptorAfterSecond \<or> first \<noteq> second) candidate_changed
        (okO first)))))))"

definition readRegularFile ::
    "platform \<Rightarrow> world \<Rightarrow> string \<Rightarrow> string \<Rightarrow> file_stat \<Rightarrow> nat \<Rightarrow> (baseline_entry \<times> nat) io" where
  "readRegularFile pl w root repositoryPath expectedStat totalBytes =
     (let absolutePath = path_join pl root repositoryPath in
      bindO (assertNoSymlinkSegments pl w root repositoryPath) (\<lambda>_.
      bindO (lstat_or w fs_error absolutePath) (\<lambda>before.
      throwO (fs_kind before \<noteq> KRegular) unsafe_path
      (throwO (\<not> sameStat expectedStat before) candidate_changed
      (throwO (PROJECT_FILE_SNAPSHOT_MAX_FILE_BYTES < fs_size before) limit_exceeded
      (throwO (PROJECT_FILE_SNAPSHOT_MAX_TOTAL_BYTES < totalBytes + fs_size before) limit_exceeded
      (bindO (askO (\<lambda>n. w_openable w n absolutePath)) (\<lambda>opened.
       throwO (\<not> opened) candidate_changed
       (bindO (read_descriptor w absolutePath before) (\<lambda>bytes.
        bindO (assertNoSymlinkSegments pl w root repositoryPath) (\<lambda>_.
        bindO (lstat_or w fs_error absolutePath) (\<lambda>after.
        throwO (\<not> sameStat before after \<or> length bytes \<noteq> fs_size after) candidate_changed
          (okO (\<lparr>bent_path = repositoryPath, bent_sizeBytes = length bytes, bent_sha256 = sha256hex pl bytes\<rparr>,
                totalBytes + length bytes))))))))))))))"

section \<open>The walk\<close>

definition readDirectoryNames :: "world \<Rightarrow> string \<Rightarrow> string list io" where
  "readDirectoryNames w directory =
     bindO (tryO candidate_changed (\<lambda>n. w_readdir w n directory)) (\<lambda>(names, ended).
     throwO (PROJECT_FILE_SNAPSHOT_MAX_DIRECTORY_ENTRIES < length names) limit_exceeded
     (throwO (\<not> ended) candidate_changed (okO (List.sort names))))"

record walk =
  wk_files :: "baseline_entry list"
  wk_states :: "string list"
  wk_excluded :: "string list"
  wk_seen :: "string list"
  wk_totalBytes :: nat
  wk_entries :: nat
  wk_directories :: nat

definition no_walk :: walk where
  "no_walk = \<lparr>wk_files = [], wk_states = [], wk_excluded = [], wk_seen = [], wk_totalBytes = 0,
     wk_entries = 0, wk_directories = 0\<rparr>"

definition unrepresentable :: "string \<Rightarrow> bool" where
  "unrepresentable name \<longleftrightarrow>
     dot_segment name \<or> CHR ''/'' \<in> set name \<or> CHR 0x5C \<in> set name \<or> list_ex control_char name"

definition directory_state :: "string \<Rightarrow> file_stat \<Rightarrow> string list \<Rightarrow> string" where
  "directory_state relative stat names =
     relative @ [CHR 0x00] @ statFingerprint stat @ [CHR 0x00] @ join_with [CHR 0x00] names"

text \<open>What an entry is, once it has been counted, checked and looked at\<close>

definition enter_entry ::
    "platform \<Rightarrow> world \<Rightarrow> string \<Rightarrow> string \<Rightarrow> walk \<Rightarrow> string \<Rightarrow> (walk \<times> string \<times> file_stat) io" where
  "enter_entry pl w absoluteDirectory relativeDirectory s name =
     (let s1 = s\<lparr>wk_entries := wk_entries s + 1\<rparr> in
      throwO (PROJECT_FILE_SNAPSHOT_MAX_ENTRIES < wk_entries s1) limit_exceeded
      (throwO (unrepresentable name) unsafe_path
      (bindO (liftO (safeRelativePath
          (if relativeDirectory = [] then name else relativeDirectory @ ''/'' @ name))) (\<lambda>repositoryPath.
       let keyv = platform_path pl repositoryPath in
       throwO (keyv \<in> set (wk_seen s1)) unsafe_path
       (bindO (lstat_or w candidate_changed (path_join pl absoluteDirectory name)) (\<lambda>stat.
        throwO (fs_kind stat = KSymlink) unsafe_path
          (okO (s1\<lparr>wk_seen := keyv # wk_seen s1\<rparr>, repositoryPath, stat))))))))"

definition scan_file :: "platform \<Rightarrow> world \<Rightarrow> string \<Rightarrow> string \<Rightarrow> string \<Rightarrow> file_stat \<Rightarrow> walk \<Rightarrow> walk io" where
  "scan_file pl w root name repositoryPath stat s =
     throwO (fs_kind stat \<noteq> KRegular) unsafe_path
     (if excludedFileName name then okO (s\<lparr>wk_excluded := wk_excluded s @ [repositoryPath]\<rparr>)
      else throwO (PROJECT_FILE_SNAPSHOT_MAX_FILES \<le> length (wk_files s)) limit_exceeded
        (bindO (readRegularFile pl w root repositoryPath stat (wk_totalBytes s)) (\<lambda>(entry, totalBytes).
         okO (s\<lparr>wk_files := wk_files s @ [entry], wk_totalBytes := totalBytes\<rparr>))))"

definition enter_directory :: "platform \<Rightarrow> world \<Rightarrow> string \<Rightarrow> string \<Rightarrow> string \<Rightarrow> walk \<Rightarrow> (walk \<times> file_stat \<times> string list) io" where
  "enter_directory pl w root absoluteDirectory relativeDirectory s =
     (let s1 = (if relativeDirectory = [] then s else s\<lparr>wk_directories := wk_directories s + 1\<rparr>) in
      throwO (relativeDirectory \<noteq> [] \<and> PROJECT_FILE_SNAPSHOT_MAX_DIRECTORIES < wk_directories s1) limit_exceeded
      (bindO (lstat_or w fs_error absoluteDirectory) (\<lambda>before.
       throwO (fs_kind before \<noteq> KDirectory) unsafe_path
       (bindO (tryO fs_error (\<lambda>n. w_realpath w n absoluteDirectory)) (\<lambda>real.
        throwO (\<not> isWithin pl root real) unsafe_path
        (bindO (readDirectoryNames w absoluteDirectory) (\<lambda>names.
         okO (s1\<lparr>wk_states := wk_states s1 @ [directory_state relativeDirectory before names]\<rparr>, before, names))))))))"

definition leave_directory ::
    "world \<Rightarrow> string \<Rightarrow> string \<Rightarrow> file_stat \<Rightarrow> string list \<Rightarrow> nat \<Rightarrow> walk \<Rightarrow> walk io" where
  "leave_directory w absoluteDirectory relativeDirectory before names stateIndex s =
     bindO (lstat_or w fs_error absoluteDirectory) (\<lambda>after.
     bindO (readDirectoryNames w absoluteDirectory) (\<lambda>namesAfter.
     throwO (\<not> sameStat before after \<or> join_with [CHR 0x00] names \<noteq> join_with [CHR 0x00] namesAfter) candidate_changed
       (okO (s\<lparr>wk_states := (wk_states s)[stateIndex := directory_state relativeDirectory after namesAfter]\<rparr>))))"

definition scan_stack_exceeded :: failure where
  "scan_stack_exceeded = ExternalError ''RangeError''"

fun scan_directory :: "nat \<Rightarrow> platform \<Rightarrow> world \<Rightarrow> string \<Rightarrow> string \<Rightarrow> string \<Rightarrow> walk \<Rightarrow> walk io" where
  "scan_directory 0 pl w root absoluteDirectory relativeDirectory s n = Inl scan_stack_exceeded"
| "scan_directory (Suc depth) pl w root absoluteDirectory relativeDirectory s n =
     bindO (enter_directory pl w root absoluteDirectory relativeDirectory s) (\<lambda>(s1, before, names).
     bindO (foldO (\<lambda>s name.
         bindO (enter_entry pl w absoluteDirectory relativeDirectory s name) (\<lambda>(s', repositoryPath, stat).
         if fs_kind stat = KDirectory then
           (if excluded_directory name then okO (s'\<lparr>wk_excluded := wk_excluded s' @ [repositoryPath]\<rparr>)
            else scan_directory depth pl w root (path_join pl absoluteDirectory name) repositoryPath s')
         else scan_file pl w root name repositoryPath stat s')) names s1) (\<lambda>s2.
     leave_directory w absoluteDirectory relativeDirectory before names (length (wk_states s)) s2)) n"

definition scanProjectOnce :: "platform \<Rightarrow> world \<Rightarrow> string \<Rightarrow> file_scan io" where
  "scanProjectOnce pl w rootInput =
     bindO (resolveProjectRoot pl w rootInput) (\<lambda>(root, identity).
     bindO (scan_directory (PROJECT_FILE_SNAPSHOT_MAX_DIRECTORIES + 2) pl w root root [] no_walk) (\<lambda>s.
     okO \<lparr>scan_root = root, scan_rootIdentitySha256 = identity,
          scan_files = sort_key (\<lambda>e. platform_path pl (bent_path e)) (wk_files s),
          scan_directoryStates = wk_states s,
          scan_excludedPaths = sort_key (platform_path pl) (wk_excluded s)\<rparr>))"

definition scan_content :: "file_scan \<Rightarrow> jsval" where
  "scan_content scan =
     JObj [(''rootIdentitySha256'', JStr (scan_rootIdentitySha256 scan)),
           (''files'', JArr (map baseline_entry_json (scan_files scan))),
           (''directoryStates'', strs_val (scan_directoryStates scan)),
           (''excludedPaths'', strs_val (scan_excludedPaths scan))]"

definition stableProjectScan :: "platform \<Rightarrow> world \<Rightarrow> string \<Rightarrow> file_scan io" where
  "stableProjectScan pl w root =
     bindO (scanProjectOnce pl w root) (\<lambda>first.
     bindO (scanProjectOnce pl w root) (\<lambda>second.
     throwO (stableFingerprint pl (scan_content first) \<noteq> stableFingerprint pl (scan_content second))
       candidate_changed (okO second)))"

section \<open>Baselines and candidates\<close>

definition captureProjectFileBaseline :: "platform \<Rightarrow> world \<Rightarrow> string \<Rightarrow> string list \<Rightarrow> file_baseline io" where
  "captureProjectFileBaseline pl w root writeSetSnapshot =
     bindO (liftO (normalizeProjectWriteSet pl writeSetSnapshot)) (\<lambda>writeSet.
     bindO (stableProjectScan pl w root) (\<lambda>scan.
     bindO (liftO (assertNoExcludedWriteSetOverlap pl (scan_excludedPaths scan) writeSet)) (\<lambda>_.
     okO \<lparr>base_rootIdentitySha256 = scan_rootIdentitySha256 scan, base_files = scan_files scan,
          base_fingerprint = stableFingerprint pl
            (JObj (baselineBody (scan_rootIdentitySha256 scan) (scan_files scan)))\<rparr>)))"

text \<open>\<open>map.get(path)\<close> of a map built from the list: the last entry with the path\<close>

definition entry_at :: "baseline_entry list \<Rightarrow> string \<Rightarrow> baseline_entry option" where
  "entry_at files p = List.find (\<lambda>e. bent_path e = p) (rev files)"

definition file_changed :: "baseline_entry list \<Rightarrow> baseline_entry list \<Rightarrow> string \<Rightarrow> bool" where
  "file_changed before after p \<longleftrightarrow>
     map_option bent_sizeBytes (entry_at before p) \<noteq> map_option bent_sizeBytes (entry_at after p) \<or>
     map_option bent_sha256 (entry_at before p) \<noteq> map_option bent_sha256 (entry_at after p)"

definition current_of :: "baseline_entry list \<Rightarrow> string \<Rightarrow> current_file" where
  "current_of files p =
     (case entry_at files p of
        Some e \<Rightarrow> \<lparr>cur_path = p, cur_kind = CurRegular, cur_sizeBytes = bent_sizeBytes e,
                  cur_sha256 = Some (bent_sha256 e)\<rparr>
      | None \<Rightarrow> \<lparr>cur_path = p, cur_kind = CurMissing, cur_sizeBytes = 0, cur_sha256 = None\<rparr>)"

definition file_observation_body ::
    "string \<Rightarrow> string \<Rightarrow> write_set \<Rightarrow> string list \<Rightarrow> string list \<Rightarrow> string list \<Rightarrow> current_file list \<Rightarrow>
     scope_status \<Rightarrow> jsval" where
  "file_observation_body rootIdentity baselineFingerprint writeSet affected inScope outOfScope files status =
     JObj [(''rootIdentitySha256'', JStr rootIdentity), (''baselineFingerprint'', JStr baselineFingerprint),
           (''allowedWriteSet'', write_set_json writeSet), (''affectedPaths'', strs_val affected),
           (''inScopePaths'', strs_val inScope), (''outOfScopePaths'', strs_val outOfScope),
           (''currentFiles'', JArr (map current_file_json files)),
           (''scopeStatus'', JStr (scope_name status))]"

definition observeProjectFileCandidate ::
    "platform \<Rightarrow> world \<Rightarrow> string \<Rightarrow> file_baseline \<Rightarrow> string list \<Rightarrow> file_observation io" where
  "observeProjectFileCandidate pl w root baseline writeSetSnapshot =
     throwO (\<not> verifyProjectFileBaseline pl baseline) candidate_changed
     (bindO (liftO (normalizeProjectWriteSet pl writeSetSnapshot)) (\<lambda>writeSet.
      bindO (stableProjectScan pl w root) (\<lambda>scan.
      throwO (scan_rootIdentitySha256 scan \<noteq> base_rootIdentitySha256 baseline) candidate_changed
      (bindO (liftO (assertNoExcludedWriteSetOverlap pl (scan_excludedPaths scan) writeSet)) (\<lambda>_.
       let allPaths = sort_key (platform_path pl)
             (unique (map bent_path (base_files baseline) @ map bent_path (scan_files scan)));
           affectedPaths = filter (file_changed (base_files baseline) (scan_files scan)) allPaths
       in throwO (MAX_AFFECTED_PATHS < length affectedPaths) limit_exceeded
       (let inScopePaths = filter (\<lambda>p. projectPathIsAllowed pl p writeSet) affectedPaths;
            outOfScopePaths = filter (\<lambda>p. \<not> projectPathIsAllowed pl p writeSet) affectedPaths;
            observationPaths = sort_key (platform_path pl) (unique (inScopePaths @ exactPaths writeSet));
            candidateFiles = map (current_of (scan_files scan)) observationPaths;
            status = (if outOfScopePaths \<noteq> [] then OutOfScope else WithinWriteSet)
        in bindO (askO (isoNow pl)) (\<lambda>now.
           okO \<lparr>fob_repositoryRoot = scan_root scan,
                fob_rootIdentitySha256 = scan_rootIdentitySha256 scan,
                fob_baselineFingerprint = base_fingerprint baseline, fob_observedAt = now,
                fob_allowedWriteSet = writeSet, fob_affectedPaths = affectedPaths,
                fob_inScopePaths = inScopePaths, fob_outOfScopePaths = outOfScopePaths,
                fob_currentFiles = candidateFiles, fob_scopeStatus = status,
                fob_fingerprint = stableFingerprint pl (file_observation_body
                  (scan_rootIdentitySha256 scan) (base_fingerprint baseline) writeSet affectedPaths
                  inScopePaths outOfScopePaths candidateFiles status)\<rparr>)))))))"

definition verifyProjectFileCandidateObservation :: "platform \<Rightarrow> file_observation \<Rightarrow> bool" where
  "verifyProjectFileCandidateObservation pl b \<longleftrightarrow>
     is_fingerprint (fob_rootIdentitySha256 b) \<and> is_fingerprint (fob_baselineFingerprint b) \<and>
     stableFingerprint pl (file_observation_body (fob_rootIdentitySha256 b) (fob_baselineFingerprint b)
       (fob_allowedWriteSet b) (fob_affectedPaths b) (fob_inScopePaths b) (fob_outOfScopePaths b)
       (fob_currentFiles b) (fob_scopeStatus b)) = fob_fingerprint b"

section \<open>The walk ends within its limits\<close>

lemma never_lstat_or [intro]: "x \<noteq> e \<Longrightarrow> never e (lstat_or w x p)"
  by (auto simp: never_def lstat_or_def split: lstat_reply.splits)

lemma lstat_or_eq_Inr [result_simps]: "lstat_or w x p n = Inr (s, n') \<longleftrightarrow> w_lstat w n p = Stat s \<and> n' = n + 1"
  by (auto simp: lstat_or_def split: lstat_reply.splits)

lemma scan_never:
  "never scan_stack_exceeded (enter_directory pl w root a r s)"
  "never scan_stack_exceeded (leave_directory w a r b names i s)"
  "never scan_stack_exceeded (enter_entry pl w a r s name)"
  "never scan_stack_exceeded (scan_file pl w root name p st s)"
proof -
  have e: "fs_error \<noteq> scan_stack_exceeded" "limit_exceeded \<noteq> scan_stack_exceeded"
    "candidate_changed \<noteq> scan_stack_exceeded" "unsafe_path \<noteq> scan_stack_exceeded"
    by (simp_all add: fs_error_def scan_stack_exceeded_def)
  have names: "never scan_stack_exceeded (readDirectoryNames w a)" for a
    unfolding readDirectoryNames_def by (auto simp: e intro!: never_throwO)
  show "never scan_stack_exceeded (enter_directory pl w root a r s)"
    "never scan_stack_exceeded (leave_directory w a r b names i s)"
    unfolding enter_directory_def leave_directory_def Let_def using e names by blast+
  have "safeRelativePath p \<noteq> Inl scan_stack_exceeded" for p
    by (auto simp: safeRelativePath_def throwIf_def Let_def scan_stack_exceeded_def)
  then show "never scan_stack_exceeded (enter_entry pl w a r s name)"
    unfolding enter_entry_def Let_def using e by blast
  have segments: "never scan_stack_exceeded (check_segments pl w c segs)" for c segs
  proof (induction segs arbitrary: c)
    case (Cons seg segs)
    then show ?case unfolding check_segments.simps Let_def using e by blast
  qed simp
  have symlinks: "never scan_stack_exceeded (assertNoSymlinkSegments pl w root p)" for p
    unfolding assertNoSymlinkSegments_def using e segments by blast
  have "never scan_stack_exceeded (read_descriptor w a b)" for a b
    unfolding read_descriptor_def using e by blast
  then have "never scan_stack_exceeded (readRegularFile pl w root p st k)" for p st k
    unfolding readRegularFile_def Let_def using e symlinks by blast
  then show "never scan_stack_exceeded (scan_file pl w root name p st s)"
    unfolding scan_file_def using e by (auto intro!: never_throwO never_bindO_each split: prod.splits)
qed

lemma enter_directory_count:
  "enter_directory pl w root a r s n = Inr ((s', before, names), n') \<Longrightarrow>
     wk_directories s' = wk_directories s + (if r = [] then 0 else 1) \<and>
     (r \<noteq> [] \<longrightarrow> wk_directories s' \<le> PROJECT_FILE_SNAPSHOT_MAX_DIRECTORIES)"
  by (auto simp: enter_directory_def result_simps Let_def)

lemma leave_directory_count:
  "leave_directory w a r b names i s n = Inr (s', n') \<Longrightarrow> wk_directories s' = wk_directories s"
  by (auto simp: leave_directory_def result_simps)

lemma enter_entry_count:
  "enter_entry pl w a r s name n = Inr ((s', p, st), n') \<Longrightarrow> wk_directories s' = wk_directories s \<and> p \<noteq> []"
  by (auto simp: enter_entry_def result_simps Let_def safeRelativePath_iff)

lemma scan_file_count:
  "scan_file pl w root name p st s n = Inr (s', n') \<Longrightarrow> wk_directories s' = wk_directories s"
  by (auto simp: scan_file_def result_simps split: if_splits)

text \<open>The body of the loop over the entries of a directory\<close>

abbreviation scan_entry ::
    "nat \<Rightarrow> platform \<Rightarrow> world \<Rightarrow> string \<Rightarrow> string \<Rightarrow> string \<Rightarrow> walk \<Rightarrow> string \<Rightarrow> walk io" where
  "scan_entry depth pl w root a r \<equiv> (\<lambda>s name.
     bindO (enter_entry pl w a r s name) (\<lambda>(s', repositoryPath, stat).
     if fs_kind stat = KDirectory then
       (if excluded_directory name then okO (s'\<lparr>wk_excluded := wk_excluded s' @ [repositoryPath]\<rparr>)
        else scan_directory depth pl w root (path_join pl a name) repositoryPath s')
     else scan_file pl w root name repositoryPath stat s'))"

lemma scan_directory_count:
  "scan_directory depth pl w root a r s n = Inr (s', n') \<Longrightarrow>
   wk_directories s \<le> PROJECT_FILE_SNAPSHOT_MAX_DIRECTORIES \<Longrightarrow>
   wk_directories s \<le> wk_directories s' \<and> wk_directories s' \<le> PROJECT_FILE_SNAPSHOT_MAX_DIRECTORIES"
proof (induction depth arbitrary: a r s n s' n')
  case (Suc depth)
  obtain s1 before names n1 s2 n2
    where s1: "enter_directory pl w root a r s n = Inr ((s1, before, names), n1)"
      and s2: "foldO (scan_entry depth pl w root a r) names s1 n1 = Inr (s2, n2)"
      and s3: "leave_directory w a r before names (length (wk_states s)) s2 n2 = Inr (s', n')"
    using Suc.prems(1) by (auto simp: result_simps)
  let ?P = "\<lambda>u. wk_directories s1 \<le> wk_directories u \<and> wk_directories u \<le> PROJECT_FILE_SNAPSHOT_MAX_DIRECTORIES"
  have "?P s2"
  proof (rule foldO_invariant [OF s2, of ?P])
    show "?P s1" using enter_directory_count [OF s1] Suc.prems(2) by (cases "r = []") simp_all
    fix u :: walk and name k u' k' assume u: "?P u" "scan_entry depth pl w root a r u name k = Inr (u', k')"
    then show "?P u'"
      using Suc.IH by (fastforce simp: result_simps dest: enter_entry_count scan_file_count split: if_splits)
  qed
  then show ?case using enter_directory_count [OF s1] leave_directory_count [OF s3] by simp
qed simp

lemma scan_directory_fuel:
  "PROJECT_FILE_SNAPSHOT_MAX_DIRECTORIES + (if r = [] then 1 else 0) < depth + wk_directories s \<Longrightarrow>
   wk_directories s \<le> PROJECT_FILE_SNAPSHOT_MAX_DIRECTORIES \<Longrightarrow>
   scan_directory depth pl w root a r s n \<noteq> Inl scan_stack_exceeded"
proof (induction depth arbitrary: a r s n)
  case (Suc depth)
  have "foldO (scan_entry depth pl w root a r) names s1 n1 \<noteq> Inl scan_stack_exceeded"
    if s1: "enter_directory pl w root a r s n = Inr ((s1, before, names), n1)" for s1 before names n1
  proof (rule foldO_never [where Q = "\<lambda>u. wk_directories s1 \<le> wk_directories u \<and>
      wk_directories u \<le> PROJECT_FILE_SNAPSHOT_MAX_DIRECTORIES"])
    show "wk_directories s1 \<le> wk_directories s1 \<and> wk_directories s1 \<le> PROJECT_FILE_SNAPSHOT_MAX_DIRECTORIES"
      using enter_directory_count [OF s1] Suc.prems(2) by (cases "r = []") simp_all
    fix u :: walk and name k
    assume u: "wk_directories s1 \<le> wk_directories u \<and> wk_directories u \<le> PROJECT_FILE_SNAPSHOT_MAX_DIRECTORIES"
    show "wk_directories s1 \<le> wk_directories u' \<and> wk_directories u' \<le> PROJECT_FILE_SNAPSHOT_MAX_DIRECTORIES"
      if "scan_entry depth pl w root a r u name k = Inr (u', k')" for u' k'
      using that u
      by (fastforce simp: result_simps dest: enter_entry_count scan_file_count scan_directory_count split: if_splits)
    have "PROJECT_FILE_SNAPSHOT_MAX_DIRECTORIES < depth + wk_directories s1"
      using Suc.prems(1) enter_directory_count [OF s1] by (simp split: if_splits)
    then have "scan_directory depth pl w root b p v m \<noteq> Inl scan_stack_exceeded"
      if "p \<noteq> []" "wk_directories s1 \<le> wk_directories v" "wk_directories v \<le> PROJECT_FILE_SNAPSHOT_MAX_DIRECTORIES"
      for b p v m
      using that by (intro Suc.IH) simp_all
    then show "scan_entry depth pl w root a r u name k \<noteq> Inl scan_stack_exceeded"
      using u scan_never(3,4) enter_entry_count [of pl w a r u name k]
      by (auto simp: bindO_def bindE_def never_def okO_def split: sum.splits)
  qed
  then show ?case
    using scan_never(1,2) by (auto simp: bindO_def bindE_def never_def split: sum.splits)
qed simp

declare scan_directory.simps [simp del]

text \<open>The recursion never outruns the counter it starts with.\<close>

lemma scan_fuel:
  "scan_directory (PROJECT_FILE_SNAPSHOT_MAX_DIRECTORIES + 2) pl w root root [] no_walk n \<noteq> Inl scan_stack_exceeded"
  by (rule scan_directory_fuel) (simp_all add: no_walk_def)

section \<open>What a walk collects\<close>

text \<open>The size is the fourth of the numbers a stat fingerprint joins.\<close>

lemma nat_text_colon: "CHR '':'' \<notin> set (nat_text n)"
proof (induction n rule: nat_text.induct)
  case (1 n)
  have digit: "digit_char d \<noteq> CHR '':''" if "d < 10" for d :: nat
    using that by (simp add: digit_char_def eq_char_by_code of_char_of)
  from 1 show ?case using digit [of n] digit [of "n mod 10"] by (subst nat_text.simps) auto
qed

lemma nat_text_inject: "nat_text m = nat_text n \<Longrightarrow> m = n"
proof (induction m arbitrary: n rule: less_induct)
  case (less m)
  have digit: "digit_char a = digit_char b \<Longrightarrow> a < 10 \<Longrightarrow> b < 10 \<Longrightarrow> a = b" for a b :: nat
    by (simp add: digit_char_def eq_char_by_code of_char_of)
  have nonempty: "nat_text k \<noteq> []" "[] \<noteq> nat_text k" for k by (subst nat_text.simps, simp)+
  show ?case
  proof (cases "m < 10 \<or> n < 10")
    case True
    then show ?thesis
      using less.prems nonempty digit
      by (auto simp: nat_text.simps [of m] nat_text.simps [of n] split: if_splits)
  next
    case False
    then have "nat_text (m div 10) = nat_text (n div 10)" "digit_char (m mod 10) = digit_char (n mod 10)"
      using less.prems by (simp_all add: nat_text.simps [of m] nat_text.simps [of n])
    then have "m div 10 = n div 10" "m mod 10 = n mod 10"
      using less.IH [of "m div 10" "n div 10"] False digit [of "m mod 10" "n mod 10"] by simp_all
    then show ?thesis by (metis div_mult_mod_eq)
  qed
qed

lemma split_first: "c \<notin> set xs \<Longrightarrow> c \<notin> set ys \<Longrightarrow> xs @ c # us = ys @ c # vs \<Longrightarrow> xs = ys \<and> us = vs"
  by (induction xs arbitrary: ys) (auto simp: Cons_eq_append_conv append_eq_Cons_conv)

lemma sameStat_size: "sameStat a b \<Longrightarrow> fs_size a = fs_size b"
proof -
  assume "sameStat a b"
  then have "nat_text (fs_size a) = nat_text (fs_size b)"
    by (auto simp: sameStat_def statFingerprint_def dest!: split_first [OF nat_text_colon nat_text_colon])
  then show ?thesis by (rule nat_text_inject)
qed

definition plain_directory :: "string \<Rightarrow> bool" where
  "plain_directory r \<longleftrightarrow> r = [] \<or>
     safeRelativePath r = Inr r \<and> \<not> list_ex excluded_directory (split_on CHR ''/'' r)"

definition scanned_file :: "baseline_entry \<Rightarrow> bool" where
  "scanned_file e \<longleftrightarrow>
     safeRelativePath (bent_path e) = Inr (bent_path e) \<and>
     \<not> list_ex excluded_directory (butlast (split_on CHR ''/'' (bent_path e))) \<and>
     \<not> excludedFileName (last (split_on CHR ''/'' (bent_path e))) \<and>
     bent_sizeBytes e \<le> PROJECT_FILE_SNAPSHOT_MAX_FILE_BYTES \<and> is_fingerprint (bent_sha256 e)"

abbreviation file_keys :: "platform \<Rightarrow> baseline_entry list \<Rightarrow> string list" where
  "file_keys pl es \<equiv> map (\<lambda>e. platform_path pl (bent_path e)) es"

definition walk_ok :: "platform \<Rightarrow> walk \<Rightarrow> bool" where
  "walk_ok pl s \<longleftrightarrow>
     list_all scanned_file (wk_files s) \<and> distinct (file_keys pl (wk_files s)) \<and>
     set (file_keys pl (wk_files s)) \<subseteq> set (wk_seen s) \<and>
     length (wk_files s) \<le> PROJECT_FILE_SNAPSHOT_MAX_FILES \<and>
     wk_totalBytes s = sum_list (map bent_sizeBytes (wk_files s)) \<and>
     wk_totalBytes s \<le> PROJECT_FILE_SNAPSHOT_MAX_TOTAL_BYTES"

lemma walk_ok_update [simp]:
  "walk_ok pl (s\<lparr>wk_states := x\<rparr>) \<longleftrightarrow> walk_ok pl s" "walk_ok pl (s\<lparr>wk_directories := i\<rparr>) \<longleftrightarrow> walk_ok pl s"
  "walk_ok pl (s\<lparr>wk_excluded := x\<rparr>) \<longleftrightarrow> walk_ok pl s"
  by (simp_all add: walk_ok_def)

lemma split_on_none: "c \<notin> set s \<Longrightarrow> split_on c s = [s]"
  by (induction s) auto

lemma enter_entry_path:
  assumes "enter_entry pl w a r s name n = Inr ((s', p, st), n')" and "plain_directory r"
  shows "safeRelativePath p = Inr p" and "split_on CHR ''/'' p = (if r = [] then [] else split_on CHR ''/'' r) @ [name]"
    and "platform_path pl p \<notin> set (wk_seen s)" and "wk_seen s' = platform_path pl p # wk_seen s"
    and "wk_files s' = wk_files s" and "wk_totalBytes s' = wk_totalBytes s" and "fs_kind st \<noteq> KSymlink"
proof -
  have safe: "safeRelativePath (if r = [] then name else r @ ''/'' @ name) = Inr p" and name: "\<not> unrepresentable name"
    using assms(1) by (auto simp: enter_entry_def result_simps Let_def)
  then show "safeRelativePath p = Inr p" using safeRelativePath_idem by blast
  have "forward_slashes r = r" if "r \<noteq> []"
    using that assms(2) by (auto simp: plain_directory_def safeRelativePath_iff)
  moreover have "forward_slashes name = name"
    using name by (simp add: unrepresentable_def forward_slashes_id)
  ultimately have "p = (if r = [] then name else r @ ''/'' @ name)"
    using safe by (auto simp: safeRelativePath_iff forward_slashes_def)
  moreover have "split_on CHR ''/'' name = [name]"
    using name by (simp add: unrepresentable_def split_on_none)
  ultimately show "split_on CHR ''/'' p = (if r = [] then [] else split_on CHR ''/'' r) @ [name]"
    by (simp add: split_on_append)
  show "platform_path pl p \<notin> set (wk_seen s)" "wk_seen s' = platform_path pl p # wk_seen s"
    "wk_files s' = wk_files s" "wk_totalBytes s' = wk_totalBytes s" "fs_kind st \<noteq> KSymlink"
    using assms(1) by (auto simp: enter_entry_def result_simps Let_def)
qed

lemma readRegularFile_result:
  assumes "readRegularFile pl w root p st t n = Inr ((e, t'), n')"
  shows "bent_path e = p" and "bent_sizeBytes e \<le> PROJECT_FILE_SNAPSHOT_MAX_FILE_BYTES"
    and "t' = t + bent_sizeBytes e" and "t' \<le> PROJECT_FILE_SNAPSHOT_MAX_TOTAL_BYTES"
    and "\<exists>bytes. bent_sha256 e = sha256hex pl bytes \<and> bent_sizeBytes e = length bytes"
proof -
  obtain before after bytes where "e = \<lparr>bent_path = p, bent_sizeBytes = length bytes, bent_sha256 = sha256hex pl bytes\<rparr>"
    "t' = t + length bytes" "fs_size before \<le> PROJECT_FILE_SNAPSHOT_MAX_FILE_BYTES"
    "t + fs_size before \<le> PROJECT_FILE_SNAPSHOT_MAX_TOTAL_BYTES" "sameStat before after" "length bytes = fs_size after"
    using assms by (auto simp: readRegularFile_def result_simps Let_def not_less)
  then show "bent_path e = p" "bent_sizeBytes e \<le> PROJECT_FILE_SNAPSHOT_MAX_FILE_BYTES"
    "t' = t + bent_sizeBytes e" "t' \<le> PROJECT_FILE_SNAPSHOT_MAX_TOTAL_BYTES"
    "\<exists>bytes. bent_sha256 e = sha256hex pl bytes \<and> bent_sizeBytes e = length bytes"
    using sameStat_size [of before after] by auto
qed

lemma scan_file_ok:
  assumes e: "enter_entry pl w a r s name n = Inr ((s1, p, st), n1)" and r: "plain_directory r"
    and f: "scan_file pl w root name p st s1 n1 = Inr (s', n')"
    and ok: "walk_ok pl s" and pl: "platform_ok pl"
  shows "walk_ok pl s'"
proof -
  note p = enter_entry_path [OF e r]
  show ?thesis
  proof (cases "excludedFileName name")
    case True
    with f have "s' = s1\<lparr>wk_excluded := wk_excluded s1 @ [p]\<rparr>" by (auto simp: scan_file_def result_simps)
    then show ?thesis using ok p(4-6) unfolding walk_ok_def by auto
  next
    case False
    then obtain entry t where read: "readRegularFile pl w root p st (wk_totalBytes s) n1 = Inr ((entry, t), n')"
      and s': "s' = s1\<lparr>wk_files := wk_files s @ [entry], wk_totalBytes := t\<rparr>"
      and len: "length (wk_files s) < PROJECT_FILE_SNAPSHOT_MAX_FILES"
      using f p(5,6) by (auto simp: scan_file_def result_simps not_le)
    note entry = readRegularFile_result [OF read]
    have "butlast (split_on CHR ''/'' p) = (if r = [] then [] else split_on CHR ''/'' r)"
      "last (split_on CHR ''/'' p) = name"
      using p(2) by simp_all
    then have "scanned_file entry"
      using entry(1,2,5) p(1) False r platform_okD(5) [OF pl] by (auto simp: scanned_file_def plain_directory_def)
    then show ?thesis
      using ok s' len entry(1,3,4) p(3,4) by (auto simp: walk_ok_def)
  qed
qed

lemma scan_directory_ok:
  assumes pl: "platform_ok pl"
  shows "scan_directory depth pl w root a r s n = Inr (s', n') \<Longrightarrow> walk_ok pl s \<Longrightarrow> plain_directory r \<Longrightarrow> walk_ok pl s'"
proof (induction depth arbitrary: a r s n s' n')
  case (Suc depth)
  obtain s1 before names n1 s2 n2
    where s1: "enter_directory pl w root a r s n = Inr ((s1, before, names), n1)"
      and s2: "foldO (scan_entry depth pl w root a r) names s1 n1 = Inr (s2, n2)"
      and s3: "leave_directory w a r before names (length (wk_states s)) s2 n2 = Inr (s', n')"
    using Suc.prems(1) by (auto simp: scan_directory.simps result_simps)
  have "walk_ok pl s2"
  proof (rule foldO_invariant [OF s2])
    show "walk_ok pl s1" using s1 Suc.prems(2) by (auto simp: enter_directory_def result_simps Let_def)
    fix u :: walk and name k u' k'
    assume u: "walk_ok pl u" "scan_entry depth pl w root a r u name k = Inr (u', k')"
    then obtain v p st k1 where e: "enter_entry pl w a r u name k = Inr ((v, p, st), k1)"
      and rest: "(if fs_kind st = KDirectory then
          (if excluded_directory name then okO (v\<lparr>wk_excluded := wk_excluded v @ [p]\<rparr>)
           else scan_directory depth pl w root (path_join pl a name) p v)
         else scan_file pl w root name p st v) k1 = Inr (u', k')"
      by (auto simp: result_simps)
    note p = enter_entry_path [OF e Suc.prems(3)]
    have v: "walk_ok pl v" using u(1) p(4-6) unfolding walk_ok_def by auto
    have "plain_directory p" if "\<not> excluded_directory name"
      using that p(1,2) Suc.prems(3) by (auto simp: plain_directory_def)
    then show "walk_ok pl u'"
      using rest v Suc.IH scan_file_ok [OF e Suc.prems(3) _ u(1) pl]
      by (auto simp: result_simps split: if_splits)
  qed
  then show ?case using s3 by (auto simp: leave_directory_def result_simps)
qed (simp add: scan_directory.simps)

lemma scanned_file_excluded: "scanned_file e \<Longrightarrow> isExcludedProjectPath (bent_path e) \<longleftrightarrow> named_as_directory e"
proof -
  assume e: "scanned_file e"
  have "list_ex P segs \<longleftrightarrow> list_ex P (butlast segs) \<or> P (last segs)" if "segs \<noteq> []" for P and segs :: "string list"
    using that by (cases segs rule: rev_cases) auto
  with e show ?thesis
    by (simp add: scanned_file_def isExcludedProjectPath_def named_as_directory_def excluded_directory_def [abs_def] Let_def)
qed

lemma baseline_entries_okI:
  "list_all scanned_file es \<Longrightarrow> \<not> list_ex named_as_directory es \<Longrightarrow> distinct (file_keys pl es) \<Longrightarrow>
   set (file_keys pl es) \<inter> set seen = {} \<Longrightarrow> List.sorted (file_keys pl es) \<Longrightarrow>
   previous \<noteq> [] \<longrightarrow> (\<forall>e \<in> set es. platform_path pl previous \<le> platform_path pl (bent_path e)) \<Longrightarrow>
   bytes + sum_list (map bent_sizeBytes es) \<le> PROJECT_FILE_SNAPSHOT_MAX_TOTAL_BYTES \<Longrightarrow>
   baseline_entries_ok pl seen previous bytes es"
proof (induction es arbitrary: seen previous bytes)
  case (Cons e es)
  have "safeRelativePath (bent_path e) = Inr (bent_path e)" "\<not> isExcludedProjectPath (bent_path e)"
    using Cons.prems(1,2) scanned_file_excluded [of e] by (auto simp: scanned_file_def)
  moreover have "baseline_entries_ok pl (platform_path pl (bent_path e) # seen) (bent_path e) (bytes + bent_sizeBytes e) es"
    using Cons.prems by (intro Cons.IH) auto
  ultimately show ?case using Cons.prems by (auto simp: scanned_file_def not_less)
qed simp

lemma baseline_entries_ok_not_excluded:
  "baseline_entries_ok pl seen previous bytes es \<Longrightarrow> list_all scanned_file es \<Longrightarrow> \<not> list_ex named_as_directory es"
proof -
  assume ok: "baseline_entries_ok pl seen previous bytes es" and s: "list_all scanned_file es"
  have "\<not> named_as_directory e" if "e \<in> set es" for e
  proof -
    have "scanned_file e" using s that by (simp add: list_all_iff)
    moreover from this have "entry_path e = bent_path e" by (auto simp: scanned_file_def safeRelativePath_iff)
    ultimately show ?thesis
      using baseline_entries_ok_each [OF ok] that scanned_file_excluded by metis
  qed
  then show ?thesis by (auto simp: list_ex_iff)
qed

lemma stableProjectScan_result:
  assumes "stableProjectScan pl w root n = Inr (scan, n')" and pl: "platform_ok pl"
  shows "list_all scanned_file (scan_files scan)" and "distinct (file_keys pl (scan_files scan))"
    and "List.sorted (file_keys pl (scan_files scan))" and "length (scan_files scan) \<le> PROJECT_FILE_SNAPSHOT_MAX_FILES"
    and "sum_list (map bent_sizeBytes (scan_files scan)) \<le> PROJECT_FILE_SNAPSHOT_MAX_TOTAL_BYTES"
    and "is_fingerprint (scan_rootIdentitySha256 scan)"
proof -
  obtain k where "scanProjectOnce pl w root k = Inr (scan, n')"
    using assms(1) by (auto simp: stableProjectScan_def result_simps)
  then obtain path identity k1 s where r: "resolveProjectRoot pl w root k = Inr ((path, identity), k1)"
    and s: "scan_directory (PROJECT_FILE_SNAPSHOT_MAX_DIRECTORIES + 2) pl w path path [] no_walk k1 = Inr (s, n')"
    and scan: "scan_files scan = sort_key (\<lambda>e. platform_path pl (bent_path e)) (wk_files s)"
      "scan_rootIdentitySha256 scan = identity"
    by (auto simp: scanProjectOnce_def result_simps)
  let ?files = "scan_files scan"
  have ok: "walk_ok pl s"
    using scan_directory_ok [OF pl s] by (simp add: walk_ok_def no_walk_def plain_directory_def)
  have m: "mset ?files = mset (wk_files s)" by (simp add: scan)
  then have set: "set ?files = set (wk_files s)" and len: "length ?files = length (wk_files s)"
    by (metis set_mset_mset) (metis m size_mset)
  show "list_all scanned_file ?files" using ok set by (simp add: walk_ok_def list_all_iff)
  have "mset (file_keys pl ?files) = mset (file_keys pl (wk_files s))" using m by (metis mset_map)
  then show "distinct (file_keys pl ?files)" using ok mset_eq_imp_distinct_iff unfolding walk_ok_def by blast
  show "List.sorted (file_keys pl ?files)" by (simp add: scan)
  show "length ?files \<le> PROJECT_FILE_SNAPSHOT_MAX_FILES" using ok len by (simp add: walk_ok_def)
  have "sum_list (map bent_sizeBytes ?files) = sum_list (map bent_sizeBytes (wk_files s))"
    using m by (metis mset_map sum_mset_sum_list)
  then show "sum_list (map bent_sizeBytes ?files) \<le> PROJECT_FILE_SNAPSHOT_MAX_TOTAL_BYTES"
    using ok by (simp add: walk_ok_def)
  show "is_fingerprint (scan_rootIdentitySha256 scan)"
    using r scan(2) platform_okD(5) [OF pl] by (auto simp: resolveProjectRoot_def result_simps)
qed

text \<open>A captured baseline verifies unless a regular file bears the name of an excluded directory.\<close>

lemma capture_verifies_iff:
  assumes "captureProjectFileBaseline pl w root writeSet n = Inr (b, n')" and pl: "platform_ok pl"
  shows "verifyProjectFileBaseline pl b \<longleftrightarrow> \<not> list_ex named_as_directory (base_files b)"
    and "is_fingerprint (base_fingerprint b)" and "list_all scanned_file (base_files b)"
proof -
  obtain scan k where scan: "stableProjectScan pl w root k = Inr (scan, n')"
    and b: "b = \<lparr>base_rootIdentitySha256 = scan_rootIdentitySha256 scan, base_files = scan_files scan,
        base_fingerprint = stableFingerprint pl
          (JObj (baselineBody (scan_rootIdentitySha256 scan) (scan_files scan)))\<rparr>"
    using assms(1) by (auto simp: captureProjectFileBaseline_def result_simps)
  note s = stableProjectScan_result [OF scan pl]
  show "verifyProjectFileBaseline pl b \<longleftrightarrow> \<not> list_ex named_as_directory (base_files b)"
    using s baseline_entries_ok_not_excluded [of pl "[]" "[]" 0 "scan_files scan"]
      baseline_entries_okI [of "scan_files scan" pl "[]" "[]" 0]
    by (auto simp: b verifyProjectFileBaseline_def)
  show "is_fingerprint (base_fingerprint b)" using platform_okD(5) [OF pl] by (simp add: b stableFingerprint_def)
  show "list_all scanned_file (base_files b)" using s(1) by (simp add: b)
qed

section \<open>What an observation says\<close>

lemma entry_at_None: "entry_at files p = None \<longleftrightarrow> p \<notin> set (map bent_path files)"
  by (auto simp: entry_at_def find_None_iff)

lemma file_changed_mem:
  "file_changed before after p \<Longrightarrow> p \<in> set (map bent_path before @ map bent_path after)"
  using entry_at_None [of before p] entry_at_None [of after p] by (auto simp: file_changed_def)

lemma observe_scope:
  assumes "observeProjectFileCandidate pl w root baseline ws n = Inr (obs, n')" and pl: "platform_ok pl"
  obtains scan k where "stableProjectScan pl w root k = Inr (scan, n' - 1)"
    "set (fob_affectedPaths obs) = {p. file_changed (base_files baseline) (scan_files scan) p}"
    "fob_scopeStatus obs = WithinWriteSet \<longleftrightarrow>
      (\<forall>p \<in> set (fob_affectedPaths obs). projectPathIsAllowed pl p (fob_allowedWriteSet obs))"
    "verifyProjectFileBaseline pl baseline" "normalizeProjectWriteSet pl ws = Inr (fob_allowedWriteSet obs)"
    "fob_scopeStatus obs = WithinWriteSet \<or> fob_scopeStatus obs = OutOfScope"
    "length (fob_affectedPaths obs) \<le> MAX_AFFECTED_PATHS"
    "fob_fingerprint obs = stableFingerprint pl (file_observation_body (fob_rootIdentitySha256 obs)
      (fob_baselineFingerprint obs) (fob_allowedWriteSet obs) (fob_affectedPaths obs) (fob_inScopePaths obs)
      (fob_outOfScopePaths obs) (fob_currentFiles obs) (fob_scopeStatus obs))"
    "fob_rootIdentitySha256 obs = scan_rootIdentitySha256 scan" "fob_baselineFingerprint obs = base_fingerprint baseline"
proof -
  obtain writeSet scan n1 k where v: "verifyProjectFileBaseline pl baseline"
    and n: "normalizeProjectWriteSet pl ws = Inr writeSet"
    and scan: "stableProjectScan pl w root k = Inr (scan, n1)" and n': "n' = n1 + 1"
    and len: "length (filter (file_changed (base_files baseline) (scan_files scan)) (sort_key (platform_path pl)
        (unique (map bent_path (base_files baseline) @ map bent_path (scan_files scan))))) \<le> MAX_AFFECTED_PATHS"
    and obs: "obs = (let affectedPaths = filter (file_changed (base_files baseline) (scan_files scan)) (sort_key (platform_path pl)
             (unique (map bent_path (base_files baseline) @ map bent_path (scan_files scan))));
            inScopePaths = filter (\<lambda>p. projectPathIsAllowed pl p writeSet) affectedPaths;
            outOfScopePaths = filter (\<lambda>p. \<not> projectPathIsAllowed pl p writeSet) affectedPaths;
            observationPaths = sort_key (platform_path pl) (unique (inScopePaths @ exactPaths writeSet));
            candidateFiles = map (current_of (scan_files scan)) observationPaths;
            status = (if outOfScopePaths \<noteq> [] then OutOfScope else WithinWriteSet)
        in \<lparr>fob_repositoryRoot = scan_root scan, fob_rootIdentitySha256 = scan_rootIdentitySha256 scan,
                fob_baselineFingerprint = base_fingerprint baseline, fob_observedAt = isoNow pl n1,
                fob_allowedWriteSet = writeSet, fob_affectedPaths = affectedPaths,
                fob_inScopePaths = inScopePaths, fob_outOfScopePaths = outOfScopePaths,
                fob_currentFiles = candidateFiles, fob_scopeStatus = status,
                fob_fingerprint = stableFingerprint pl (file_observation_body
                  (scan_rootIdentitySha256 scan) (base_fingerprint baseline) writeSet affectedPaths
                  inScopePaths outOfScopePaths candidateFiles status)\<rparr>)"
    using assms(1) unfolding observeProjectFileCandidate_def Let_def
    by (clarsimp simp: result_simps not_less)
  show ?thesis
  proof (rule that [of k scan])
    show "set (fob_affectedPaths obs) = {p. file_changed (base_files baseline) (scan_files scan) p}"
      using file_changed_mem [of "base_files baseline" "scan_files scan"] by (auto simp: obs Let_def)
  qed (use v n scan n' len in \<open>auto simp: obs Let_def filter_empty_conv\<close>)
qed

lemma observation_verifies:
  assumes "observeProjectFileCandidate pl w root baseline ws n = Inr (obs, n')" and pl: "platform_ok pl"
    and "is_fingerprint (base_fingerprint baseline)"
  shows "verifyProjectFileCandidateObservation pl obs"
proof -
  from assms(1) pl obtain scan k where "stableProjectScan pl w root k = Inr (scan, n' - 1)"
    "fob_fingerprint obs = stableFingerprint pl (file_observation_body (fob_rootIdentitySha256 obs)
      (fob_baselineFingerprint obs) (fob_allowedWriteSet obs) (fob_affectedPaths obs) (fob_inScopePaths obs)
      (fob_outOfScopePaths obs) (fob_currentFiles obs) (fob_scopeStatus obs))"
    "fob_rootIdentitySha256 obs = scan_rootIdentitySha256 scan" "fob_baselineFingerprint obs = base_fingerprint baseline"
    by (rule observe_scope)
  then show ?thesis
    using stableProjectScan_result(6) [OF _ pl] assms(3) by (simp add: verifyProjectFileCandidateObservation_def)
qed

end
