(* ===== verification/Git_Observer.thy ===== *)
theory Git_Observer
  imports Project_Observer
begin

text \<open>
  The observation of a Git working tree, \<open>core/task/task-candidate-observer.ts\<close>: the Git commands
  and the decoding of their output, the bounded reading of changed files, and the candidate
  observation with its fingerprint.

  \<open>w_git\<close> runs \<open>git --no-optional-locks -c core.fsmonitor=false\<close> with the arguments given, in the
  environment \<open>runGitResult\<close> prepares.
\<close>

section \<open>Running Git\<close>

abbreviation git_failed :: failure where
  "git_failed \<equiv> ExternalError ''git-command-failed''"

abbreviation unreadable :: failure where
  "unreadable \<equiv> ExternalError ''current-file-unreadable''"

abbreviation not_eligible :: failure where
  "not_eligible \<equiv> ExternalError ''candidate-not-eligible''"

abbreviation root_mismatch :: failure where
  "root_mismatch \<equiv> ExternalError ''workspace-root-mismatch''"

definition MAX_CURRENT_FILE_BYTES :: nat where
  "MAX_CURRENT_FILE_BYTES = 8 * 1024 * 1024"

definition MAX_TOTAL_CURRENT_BYTES :: nat where
  "MAX_TOTAL_CURRENT_BYTES = 32 * 1024 * 1024"

definition runGitResult :: "world \<Rightarrow> string \<Rightarrow> string list \<Rightarrow> nat list \<Rightarrow> (nat \<times> string) io" where
  "runGitResult w root args acceptedStatuses n =
     (case w_git w n root args of
        OutputTooLong \<Rightarrow> Inl limit_exceeded
      | NotStarted \<Rightarrow> Inl git_failed
      | Exited None stdout \<Rightarrow> Inl git_failed
      | Exited (Some status) stdout \<Rightarrow>
          if status \<notin> set acceptedStatuses then Inl git_failed else Inr ((status, stdout), n + 1))"

definition runGit :: "world \<Rightarrow> string \<Rightarrow> string list \<Rightarrow> nat list \<Rightarrow> string io" where
  "runGit w root args acceptedStatuses =
     bindO (runGitResult w root args acceptedStatuses) (\<lambda>(status, stdout). okO stdout)"

text \<open>\<open>.replace(/[\r\n]+$/, "")\<close>\<close>

definition strip_newlines :: "string \<Rightarrow> string" where
  "strip_newlines s = rev (dropWhile (\<lambda>c. c = CHR 0x0D \<or> c = CHR 0x0A) (rev s))"

definition decodeGitText :: "world \<Rightarrow> string \<Rightarrow> string outcome" where
  "decodeGitText w bytes =
     (let value = strip_newlines bytes in
      throwIf (value = [] \<or> \<not> w_utf8 w value) git_failed (Inr value))"

text \<open>
  The loop of \<open>decodeNulPaths\<close>: the pieces before each NUL; what follows the last NUL must be empty.
\<close>

fun collect_nul_paths :: "world \<Rightarrow> string list \<Rightarrow> string list \<Rightarrow> string list outcome" where
  "collect_nul_paths w paths [] = Inr paths"
| "collect_nul_paths w paths [rest] = throwIf (rest \<noteq> []) git_failed (Inr paths)"
| "collect_nul_paths w paths (encoded # next # pieces) =
     (if encoded = [] then collect_nul_paths w paths (next # pieces)
      else throwIf (\<not> w_utf8 w encoded) git_failed
        (bindE (normalizeRepositoryPath encoded) (\<lambda>p.
         throwIf (MAX_CHANGED_PATHS < length (paths @ [p])) limit_exceeded
           (collect_nul_paths w (paths @ [p]) (next # pieces)))))"

definition decodeNulPaths :: "world \<Rightarrow> string \<Rightarrow> string list outcome" where
  "decodeNulPaths w bytes =
     bindE (collect_nul_paths w [] (split_on CHR 0x00 bytes)) (\<lambda>paths. Inr (List.sort (unique paths)))"

section \<open>The state of a repository\<close>

record git_state =
  gst_head :: string
  gst_branch :: "string option"
  gst_stagedPaths :: "string list"
  gst_unstagedPaths :: "string list"
  gst_untrackedPaths :: "string list"
  gst_conflictPaths :: "string list"
  gst_committedPaths :: "string list"
  gst_indexDiffSha256 :: string
  gst_worktreeDiffSha256 :: string
  gst_statusSha256 :: string
  gst_stateSha256 :: string

definition git_state_json :: "git_state \<Rightarrow> jsval" where
  "git_state_json s =
     JObj [(''head'', JStr (gst_head s)), (''branch'', nullable JStr (gst_branch s)),
           (''stagedPaths'', strs_val (gst_stagedPaths s)), (''unstagedPaths'', strs_val (gst_unstagedPaths s)),
           (''untrackedPaths'', strs_val (gst_untrackedPaths s)), (''conflictPaths'', strs_val (gst_conflictPaths s)),
           (''committedPaths'', strs_val (gst_committedPaths s)),
           (''indexDiffSha256'', JStr (gst_indexDiffSha256 s)),
           (''worktreeDiffSha256'', JStr (gst_worktreeDiffSha256 s)), (''statusSha256'', JStr (gst_statusSha256 s))]"

text \<open>\<open>rev-parse HEAD\<close> and \<open>symbolic-ref HEAD\<close>\<close>

definition read_head :: "world \<Rightarrow> string \<Rightarrow> (string \<times> string option) io" where
  "read_head w root =
     bindO (runGit w root [''rev-parse'', ''--verify'', ''HEAD^{commit}''] [0]) (\<lambda>headBytes.
     bindO (liftO (decodeGitText w headBytes)) (\<lambda>headText.
     throwO (\<not> is_commit_sha (to_lower headText)) git_failed
     (bindO (runGit w root [''symbolic-ref'', ''--short'', ''-q'', ''HEAD''] [0, 1]) (\<lambda>branchBytes.
      if branchBytes = [] then okO (to_lower headText, None)
      else bindO (liftO (decodeGitText w branchBytes)) (\<lambda>branch. okO (to_lower headText, Some branch))))))"

definition git_paths :: "world \<Rightarrow> string \<Rightarrow> string list \<Rightarrow> string list io" where
  "git_paths w root args =
     bindO (runGit w root args [0]) (\<lambda>bytes. liftO (decodeNulPaths w bytes))"

definition git_sha :: "platform \<Rightarrow> world \<Rightarrow> string \<Rightarrow> string list \<Rightarrow> string io" where
  "git_sha pl w root args = bindO (runGit w root args [0]) (\<lambda>bytes. okO (sha256hex pl bytes))"

definition collectGitState :: "platform \<Rightarrow> world \<Rightarrow> string \<Rightarrow> string option \<Rightarrow> git_state io" where
  "collectGitState pl w root expectedBaseSha =
     bindO (read_head w root) (\<lambda>(head, branch).
     bindO (git_paths w root [''diff'', ''--cached'', ''--name-only'', ''--no-renames'', ''-z'', ''--'']) (\<lambda>staged.
     bindO (git_paths w root [''diff'', ''--name-only'', ''--no-renames'', ''-z'', ''--'']) (\<lambda>unstaged.
     bindO (git_paths w root [''ls-files'', ''--others'', ''--exclude-standard'', ''-z'']) (\<lambda>untracked.
     bindO (git_paths w root [''diff'', ''--name-only'', ''--diff-filter=U'', ''--no-renames'', ''-z'', ''--'']) (\<lambda>conflicts.
     bindO (case expectedBaseSha of
         None \<Rightarrow> okO []
       | Some base \<Rightarrow> git_paths w root [''diff'', ''--name-only'', ''--no-renames'', ''-z'', base, head, ''--'']) (\<lambda>committed.
     bindO (git_sha pl w root [''diff'', ''--cached'', ''--raw'', ''--no-renames'', ''--no-ext-diff'', ''--no-textconv'', ''-z'', ''--'']) (\<lambda>indexDiff.
     bindO (git_sha pl w root [''diff'', ''--raw'', ''--no-renames'', ''--no-ext-diff'', ''--no-textconv'', ''-z'', ''--'']) (\<lambda>worktreeDiff.
     bindO (git_sha pl w root [''status'', ''--porcelain=v2'', ''-z'', ''--untracked-files=all'']) (\<lambda>status.
     let s = \<lparr>gst_head = head, gst_branch = branch, gst_stagedPaths = staged, gst_unstagedPaths = unstaged,
           gst_untrackedPaths = untracked, gst_conflictPaths = conflicts, gst_committedPaths = committed,
           gst_indexDiffSha256 = indexDiff, gst_worktreeDiffSha256 = worktreeDiff, gst_statusSha256 = status,
           gst_stateSha256 = []\<rparr>
     in okO (s\<lparr>gst_stateSha256 := stableFingerprint pl (git_state_json s)\<rparr>))))))))))"

section \<open>The repository root and the Run's baseline\<close>

definition samePhysicalDirectory :: "world \<Rightarrow> string \<Rightarrow> string \<Rightarrow> bool io" where
  "samePhysicalDirectory w left right = (if left = right then okO True else same_directory w left right)"

definition realRepositoryRoot :: "world \<Rightarrow> string \<Rightarrow> string io" where
  "realRepositoryRoot w repositoryRoot =
     bindO (tryO invalid_root (\<lambda>n. w_realpath w n (w_resolve w repositoryRoot))) (\<lambda>requestedRoot.
     bindO (runGit w requestedRoot [''rev-parse'', ''--show-toplevel''] [0]) (\<lambda>bytes.
     bindO (liftO (decodeGitText w bytes)) (\<lambda>gitRoot.
     bindO (tryO invalid_root (\<lambda>n. w_realpath w n gitRoot)) (\<lambda>resolvedGitRoot.
     bindO (samePhysicalDirectory w requestedRoot resolvedGitRoot) (\<lambda>same.
     throwO (\<not> same) invalid_root (okO resolvedGitRoot))))))"

definition observeGitRepositoryBaseline :: "world \<Rightarrow> string \<Rightarrow> (string \<times> string option) io" where
  "observeGitRepositoryBaseline w repositoryRoot =
     bindO (realRepositoryRoot w repositoryRoot) (\<lambda>root.
     bindO (read_head w root) (\<lambda>first.
     bindO (read_head w root) (\<lambda>second.
     throwO (first \<noteq> second) unreadable (okO first))))"

record run_baseline =
  rbl_candidateBaseSha :: "string option"
  rbl_candidateBaseBranch :: "string option"
  rbl_candidateFileBaseline :: "file_baseline option"

definition observeTaskRunRepositoryBaseline ::
    "platform \<Rightarrow> world \<Rightarrow> string \<Rightarrow> string list \<Rightarrow> run_baseline io" where
  "observeTaskRunRepositoryBaseline pl w root writeSetSnapshot =
     bindO (hasGitMetadataAtProjectRoot pl w root) (\<lambda>git.
     if git then
       bindO (observeGitRepositoryBaseline w root) (\<lambda>(headSha, branch).
       okO \<lparr>rbl_candidateBaseSha = Some headSha, rbl_candidateBaseBranch = branch,
            rbl_candidateFileBaseline = None\<rparr>)
     else
       bindO (captureProjectFileBaseline pl w root writeSetSnapshot) (\<lambda>baseline.
       okO \<lparr>rbl_candidateBaseSha = None, rbl_candidateBaseBranch = None,
            rbl_candidateFileBaseline = Some baseline\<rparr>))"

section \<open>Reading changed files\<close>

text \<open>The bytes of a path and its kind, up to the second \<open>lstat\<close>; \<open>None\<close> for a directory\<close>

definition read_entry ::
    "platform \<Rightarrow> world \<Rightarrow> string \<Rightarrow> string \<Rightarrow> file_stat \<Rightarrow> nat \<Rightarrow> (current_kind \<times> string) option io" where
  "read_entry pl w root absolutePath before budget =
     (case fs_kind before of
        KDirectory \<Rightarrow> okO None
      | KSymlink \<Rightarrow>
          bindO (tryO unreadable (\<lambda>n. w_readlink w n absolutePath)) (\<lambda>bytes. okO (Some (CurSymlink, bytes)))
      | KRegular \<Rightarrow>
          bindO (tryO unreadable (\<lambda>n. w_realpath w n absolutePath)) (\<lambda>resolvedFile.
          throwO (\<not> isWithin pl root resolvedFile) unreadable
          (throwO (MAX_CURRENT_FILE_BYTES < fs_size before \<or>
                   MAX_TOTAL_CURRENT_BYTES < budget + fs_size before) limit_exceeded
          (bindO (tryO unreadable (\<lambda>n. w_readFile w n absolutePath)) (\<lambda>bytes.
           okO (Some (CurRegular, bytes))))))
      | KOther \<Rightarrow> throwO True unreadable (okO None))"

definition same_file_stat :: "file_stat \<Rightarrow> file_stat \<Rightarrow> bool" where
  "same_file_stat a b \<longleftrightarrow> fs_dev a = fs_dev b \<and> fs_ino a = fs_ino b \<and> fs_mode a = fs_mode b \<and>
     fs_size a = fs_size b \<and> fs_mtimeMs a = fs_mtimeMs b \<and> fs_ctimeMs a = fs_ctimeMs b"

definition missing_file :: "string \<Rightarrow> current_file" where
  "missing_file p = \<lparr>cur_path = p, cur_kind = CurMissing, cur_sizeBytes = 0, cur_sha256 = None\<rparr>"

definition read_present_file ::
    "platform \<Rightarrow> world \<Rightarrow> string \<Rightarrow> string \<Rightarrow> file_stat \<Rightarrow> nat \<Rightarrow> (current_file \<times> nat) io" where
  "read_present_file pl w root p before budget =
     (let absolutePath = path_join pl root p in
      bindO (tryO unreadable (\<lambda>n. w_realpath w n (parent_of pl root p))) (\<lambda>resolvedParent.
      throwO (\<not> isWithin pl root resolvedParent) unreadable
      (bindO (read_entry pl w root absolutePath before budget) (\<lambda>entry.
       case entry of
         None \<Rightarrow> okO (\<lparr>cur_path = p, cur_kind = CurDirectory, cur_sizeBytes = 0, cur_sha256 = None\<rparr>, budget)
       | Some (kind, bytes) \<Rightarrow>
           bindO (lstat_or w fs_error absolutePath) (\<lambda>after.
           throwO (\<not> same_file_stat before after) unreadable
           (throwO (kind = CurRegular \<and> MAX_CURRENT_FILE_BYTES < length bytes) limit_exceeded
           (throwO (MAX_TOTAL_CURRENT_BYTES < budget + length bytes) limit_exceeded
             (okO (\<lparr>cur_path = p, cur_kind = kind, cur_sizeBytes = length bytes,
                    cur_sha256 = Some (sha256hex pl bytes)\<rparr>, budget + length bytes)))))))))"

definition readCurrentFile :: "platform \<Rightarrow> world \<Rightarrow> string \<Rightarrow> string \<Rightarrow> nat \<Rightarrow> (current_file \<times> nat) io" where
  "readCurrentFile pl w root p budget n =
     (case w_lstat w n (path_join pl root p) of
        NoEntry \<Rightarrow> Inr ((missing_file p, budget), n + 1)
      | StatFails \<Rightarrow> Inl unreadable
      | Stat before \<Rightarrow> read_present_file pl w root p before budget (n + 1))"

text \<open>The loop that reads every observed path on one budget\<close>

definition read_current_files :: "platform \<Rightarrow> world \<Rightarrow> string \<Rightarrow> string list \<Rightarrow> current_file list io" where
  "read_current_files pl w root paths =
     bindO (foldO (\<lambda>(files, budget) p.
         bindO (readCurrentFile pl w root p budget) (\<lambda>(file, budget'). okO (files @ [file], budget')))
       paths ([], 0)) (\<lambda>(files, budget). okO files)"

section \<open>Candidate observations\<close>

definition GIT_CANDIDATE_OBSERVER_VERSION :: string where
  "GIT_CANDIDATE_OBSERVER_VERSION = ''git-working-tree-v1''"

definition VERIFICATION_CANDIDATE_ENTRY_REF :: string where
  "VERIFICATION_CANDIDATE_ENTRY_REF = ''pactile:verification:git-working-tree-v1''"

definition PROJECT_FILE_CANDIDATE_ENTRY_REF :: string where
  "PROJECT_FILE_CANDIDATE_ENTRY_REF = ''pactile:verification:project-files-v1''"

definition RUN_CANDIDATE_ENTRY_REFS :: "string list" where
  "RUN_CANDIDATE_ENTRY_REFS = [VERIFICATION_CANDIDATE_ENTRY_REF, PROJECT_FILE_CANDIDATE_ENTRY_REF]"

record git_observation =
  gob_repositoryRoot :: string
  gob_repositoryIdentitySha256 :: string
  gob_observedAt :: string
  gob_expectedBaseSha :: "string option"
  gob_expectedBranch :: "string option"
  gob_expectedBranchBound :: bool
  gob_allowedWriteSet :: write_set
  gob_state :: git_state
  gob_affectedPaths :: "string list"
  gob_inScopePaths :: "string list"
  gob_outOfScopePaths :: "string list"
  gob_currentFiles :: "current_file list"
  gob_scopeStatus :: scope_status
  gob_fingerprint :: string

text \<open>The object \<open>stableSnapshotFingerprint\<close> prints, its properties in the order of the code\<close>

definition git_observation_body :: "git_observation \<Rightarrow> jsval" where
  "git_observation_body b =
     (let s = gob_state b in
      JObj [(''source'', JStr GIT_CANDIDATE_OBSERVER_VERSION),
            (''repositoryIdentitySha256'', JStr (gob_repositoryIdentitySha256 b)),
            (''expectedBaseSha'', nullable JStr (gob_expectedBaseSha b)),
            (''expectedBranch'', nullable JStr (gob_expectedBranch b)),
            (''expectedBranchBound'', JBool (gob_expectedBranchBound b)),
            (''head'', JStr (gst_head s)), (''branch'', nullable JStr (gst_branch s)),
            (''allowedWriteSet'', write_set_json (gob_allowedWriteSet b)),
            (''stagedPaths'', strs_val (gst_stagedPaths s)), (''unstagedPaths'', strs_val (gst_unstagedPaths s)),
            (''untrackedPaths'', strs_val (gst_untrackedPaths s)),
            (''conflictPaths'', strs_val (gst_conflictPaths s)),
            (''committedPaths'', strs_val (gst_committedPaths s)),
            (''affectedPaths'', strs_val (gob_affectedPaths b)), (''inScopePaths'', strs_val (gob_inScopePaths b)),
            (''outOfScopePaths'', strs_val (gob_outOfScopePaths b)),
            (''currentFiles'', JArr (map current_file_json (gob_currentFiles b))),
            (''indexDiffSha256'', JStr (gst_indexDiffSha256 s)),
            (''worktreeDiffSha256'', JStr (gst_worktreeDiffSha256 s)),
            (''statusSha256'', JStr (gst_statusSha256 s)),
            (''scopeStatus'', JStr (scope_name (gob_scopeStatus b)))])"

definition stableSnapshotFingerprint :: "platform \<Rightarrow> git_observation \<Rightarrow> string" where
  "stableSnapshotFingerprint pl b = stableFingerprint pl (git_observation_body b)"

definition untrimmed :: "string \<Rightarrow> bool" where
  "untrimmed s \<longleftrightarrow> blank s \<or> s \<noteq> trim s"

definition git_affected :: "git_state \<Rightarrow> string list" where
  "git_affected s =
     List.sort (unique (gst_stagedPaths s @ gst_unstagedPaths s @ gst_untrackedPaths s @
       gst_conflictPaths s @ gst_committedPaths s))"

definition git_scope :: "git_state \<Rightarrow> bool \<Rightarrow> string list \<Rightarrow> scope_status" where
  "git_scope s workspaceMismatch outOfScopePaths =
     (if gst_conflictPaths s \<noteq> [] then Conflicted
      else if workspaceMismatch then WorkspaceMismatch
      else if outOfScopePaths \<noteq> [] then OutOfScope
      else WithinWriteSet)"

text \<open>
  \<open>expectedBranch\<close> is \<open>None\<close> where the property is \<open>undefined\<close>, \<open>Some None\<close> where it is \<open>null\<close>.
\<close>

definition observeGitCandidate ::
    "platform \<Rightarrow> world \<Rightarrow> string \<Rightarrow> write_set \<Rightarrow> string option \<Rightarrow> string option option \<Rightarrow> git_observation io" where
  "observeGitCandidate pl w repositoryRootInput writeSetInput expectedBaseSha branchInput =
     bindO (realRepositoryRoot w repositoryRootInput) (\<lambda>root.
     bindO (liftO (normalizeWriteSet writeSetInput)) (\<lambda>allowedWriteSet.
     let expectedBranch = (case branchInput of None \<Rightarrow> None | Some b \<Rightarrow> b) in
     throwO (case expectedBranch of None \<Rightarrow> False | Some b \<Rightarrow> untrimmed b) (ExternalError ''invalid-write-set'')
     (throwO (case expectedBaseSha of None \<Rightarrow> False | Some s \<Rightarrow> untrimmed s) (ExternalError ''invalid-write-set'')
     (throwO (case expectedBaseSha of None \<Rightarrow> False | Some s \<Rightarrow> \<not> is_commit_sha (to_lower s))
       (ExternalError ''invalid-write-set'')
     (let base = map_option to_lower expectedBaseSha in
      bindO (collectGitState pl w root base) (\<lambda>initial.
      let affectedPaths = git_affected initial in
      throwO (MAX_CHANGED_PATHS < length affectedPaths) limit_exceeded
      (let inScopePaths = filter (\<lambda>p. pathIsAllowed p allowedWriteSet) affectedPaths;
           outOfScopePaths = filter (\<lambda>p. \<not> pathIsAllowed p allowedWriteSet) affectedPaths;
           observationPaths = List.sort (unique (inScopePaths @ exactPaths allowedWriteSet)) in
       bindO (read_current_files pl w root observationPaths) (\<lambda>currentFiles.
       bindO (mapO (\<lambda>entry. bindO (readCurrentFile pl w root (cur_path entry) 0) (\<lambda>(file, budget). okO file))
           currentFiles) (\<lambda>currentAfterRead.
       bindO (collectGitState pl w root base) (\<lambda>after.
       throwO (gst_stateSha256 initial \<noteq> gst_stateSha256 after \<or>
               stableFingerprint pl (JArr (map current_file_json currentFiles)) \<noteq>
               stableFingerprint pl (JArr (map current_file_json currentAfterRead))) unreadable
       (bindO (askO (isoNow pl)) (\<lambda>now.
        let b = \<lparr>gob_repositoryRoot = root,
              gob_repositoryIdentitySha256 = sha256hex pl (platform_path pl root),
              gob_observedAt = now, gob_expectedBaseSha = base, gob_expectedBranch = expectedBranch,
              gob_expectedBranchBound = (branchInput \<noteq> None), gob_allowedWriteSet = allowedWriteSet,
              gob_state = initial, gob_affectedPaths = affectedPaths, gob_inScopePaths = inScopePaths,
              gob_outOfScopePaths = outOfScopePaths, gob_currentFiles = currentFiles,
              gob_scopeStatus = git_scope initial
                (branchInput \<noteq> None \<and> expectedBranch \<noteq> gst_branch initial) outOfScopePaths,
              gob_fingerprint = []\<rparr>
        in okO (b\<lparr>gob_fingerprint := stableSnapshotFingerprint pl b\<rparr>)))))))))))))"

definition verifyGitCandidateObservation :: "platform \<Rightarrow> git_observation \<Rightarrow> bool" where
  "verifyGitCandidateObservation pl b \<longleftrightarrow> stableSnapshotFingerprint pl b = gob_fingerprint b"

section \<open>The candidate of a Run\<close>

datatype run_observation = GitObservation git_observation | FileObservation file_observation

fun observation_fingerprint :: "run_observation \<Rightarrow> string" where
  "observation_fingerprint (GitObservation b) = gob_fingerprint b"
| "observation_fingerprint (FileObservation b) = fob_fingerprint b"

fun observation_scope :: "run_observation \<Rightarrow> scope_status" where
  "observation_scope (GitObservation b) = gob_scopeStatus b"
| "observation_scope (FileObservation b) = fob_scopeStatus b"

fun observation_files :: "run_observation \<Rightarrow> current_file list" where
  "observation_files (GitObservation b) = gob_currentFiles b"
| "observation_files (FileObservation b) = fob_currentFiles b"

fun observation_observedAt :: "run_observation \<Rightarrow> string" where
  "observation_observedAt (GitObservation b) = gob_observedAt b"
| "observation_observedAt (FileObservation b) = fob_observedAt b"

definition sameResolvedPath :: "platform \<Rightarrow> world \<Rightarrow> string \<Rightarrow> string \<Rightarrow> bool io" where
  "sameResolvedPath pl w left right n =
     (case (w_realpath w n (w_resolve w left), w_realpath w (n + 1) (w_resolve w right)) of
        (Some l, Some r) \<Rightarrow> Inr (path_relative pl l r = [] \<and> path_relative pl r l = [], n + 2)
      | _ \<Rightarrow> Inr (False, n + 2))"

definition check_run_write_set :: "platform \<Rightarrow> task_run \<Rightarrow> write_set outcome" where
  "check_run_write_set pl run =
     bindE (writeSetFromTaskPaths (run_writeSetSnapshot run)) (\<lambda>runWriteSet.
     case run_workspace run of
       None \<Rightarrow> Inr runWriteSet
     | Some ws \<Rightarrow>
         bindE (writeSetFromTaskPaths (ws_writeSet ws)) (\<lambda>workspaceWriteSet.
         throwIf (\<not> sameWriteSet pl runWriteSet workspaceWriteSet) (ExternalError ''write-set-mismatch'')
           (Inr runWriteSet)))"

text \<open>The workspace's own path decides, and an explicit root must name the same directory.\<close>

definition candidate_root :: "platform \<Rightarrow> world \<Rightarrow> task_run \<Rightarrow> string option \<Rightarrow> string io" where
  "candidate_root pl w run repositoryRoot =
     (case run_workspace run of
        None \<Rightarrow>
          (case repositoryRoot of
             None \<Rightarrow> throwO True invalid_root (okO [])
           | Some root \<Rightarrow> throwO (root = []) invalid_root (okO root))
      | Some ws \<Rightarrow>
          bindO (case repositoryRoot of
              None \<Rightarrow> okO True
            | Some root \<Rightarrow> if root = [] \<or> ws_canonicalPath ws = [] then okO True
                else sameResolvedPath pl w (ws_canonicalPath ws) root) (\<lambda>same.
          throwO (\<not> same) root_mismatch
          (throwO (ws_canonicalPath ws = []) invalid_root (okO (ws_canonicalPath ws)))))"

definition observeTaskRunCandidate :: "platform \<Rightarrow> world \<Rightarrow> task_run \<Rightarrow> string option \<Rightarrow> run_observation io" where
  "observeTaskRunCandidate pl w run repositoryRoot =
     throwO (case run_workspace run of None \<Rightarrow> False | Some ws \<Rightarrow> ws_ownerRunId ws \<noteq> run_id run) root_mismatch
     (throwO (case run_workspace run of None \<Rightarrow> False
         | Some ws \<Rightarrow> ws_reclamationState ws = RecReclaimed \<or> ws_reclamationState ws = RecFailed) root_mismatch
     (bindO (liftO (check_run_write_set pl run)) (\<lambda>runWriteSet.
      bindO (candidate_root pl w run repositoryRoot) (\<lambda>root.
      case run_candidateFileBaseline run of
        Some baseline \<Rightarrow>
          throwO (run_workspace run \<noteq> None \<or> run_candidateBaseSha run \<noteq> None \<or>
                  run_candidateBaseBranch run \<noteq> None) not_eligible
          (bindO (observeProjectFileCandidate pl w root baseline (run_writeSetSnapshot run)) (\<lambda>b.
           okO (FileObservation b)))
      | None \<Rightarrow>
          (let expectedBaseSha = (case run_candidateBaseSha run of
                 None \<Rightarrow> map_option ws_baseSha (run_workspace run) | Some s \<Rightarrow> Some s);
               expectedBranch = (case run_workspace run of
                 None \<Rightarrow> run_candidateBaseBranch run | Some ws \<Rightarrow> Some (ws_branch ws)) in
           throwO (expectedBaseSha = None) not_eligible
           (bindO (observeGitCandidate pl w root runWriteSet expectedBaseSha (Some expectedBranch)) (\<lambda>b.
            okO (GitObservation b))))))))"

definition taskCandidateObservationEntryRef :: "run_observation \<Rightarrow> string" where
  "taskCandidateObservationEntryRef b =
     (case b of GitObservation _ \<Rightarrow> VERIFICATION_CANDIDATE_ENTRY_REF
      | FileObservation _ \<Rightarrow> PROJECT_FILE_CANDIDATE_ENTRY_REF)"

definition isRunCandidateObservationEntry :: "string \<Rightarrow> bool" where
  "isRunCandidateObservationEntry ref \<longleftrightarrow> ref \<in> set RUN_CANDIDATE_ENTRY_REFS"

definition createTaskCandidateEntry :: "platform \<Rightarrow> run_observation \<Rightarrow> snapshot_entry outcome" where
  "createTaskCandidateEntry pl b =
     (let intact = (case b of
          GitObservation g \<Rightarrow> verifyGitCandidateObservation pl g
        | FileObservation f \<Rightarrow> verifyProjectFileCandidateObservation pl f) in
      throwIf (\<not> intact) not_eligible
      (throwIf (observation_scope b \<noteq> WithinWriteSet) not_eligible
        (Inr \<lparr>ent_ref = taskCandidateObservationEntryRef b, ent_fingerprint = observation_fingerprint b\<rparr>)))"

section \<open>Delivery files and refs\<close>

definition fingerprintCurrentRepositoryFile :: "platform \<Rightarrow> world \<Rightarrow> string \<Rightarrow> string \<Rightarrow> current_file io" where
  "fingerprintCurrentRepositoryFile pl w repositoryRoot repositoryPath =
     bindO (realRepositoryRoot w repositoryRoot) (\<lambda>root.
     bindO (liftO (normalizeRepositoryPath repositoryPath)) (\<lambda>filePath.
     bindO (readCurrentFile pl w root filePath 0) (\<lambda>(first, _).
     throwO (cur_kind first \<noteq> CurRegular \<or> cur_sha256 first = None) unreadable
     (bindO (readCurrentFile pl w root filePath 0) (\<lambda>(second, _).
      throwO (cur_kind second \<noteq> CurRegular \<or> cur_sizeBytes second \<noteq> cur_sizeBytes first \<or>
              cur_sha256 second \<noteq> cur_sha256 first) unreadable
        (okO first))))))"

definition requireCommitSha :: "string \<Rightarrow> string outcome" where
  "requireCommitSha s = throwIf (\<not> is_commit_sha (to_lower s)) git_failed (Inr (to_lower s))"

fun contains_text :: "string \<Rightarrow> string \<Rightarrow> bool" where
  "contains_text pat [] \<longleftrightarrow> pat = []"
| "contains_text pat (c # s) \<longleftrightarrow> starts_with pat (c # s) \<or> contains_text pat s"

definition resolveGitLocalBranchSha :: "world \<Rightarrow> string \<Rightarrow> string \<Rightarrow> string io" where
  "resolveGitLocalBranchSha w repositoryRoot branch =
     throwO (branch = [] \<or> branch \<noteq> trim branch \<or> starts_with ''-'' branch \<or> contains_text ''..'' branch \<or>
             contains_text [CHR ''@'', CHR 0x7B] branch \<or> CHR 0x5C \<in> set branch) git_failed
     (bindO (realRepositoryRoot w repositoryRoot) (\<lambda>root.
      let ref = ''refs/heads/'' @ branch in
      bindO (runGit w root [''check-ref-format'', ref] [0]) (\<lambda>_.
      bindO (runGit w root [''rev-parse'', ''--verify'', ref @ ''^{commit}''] [0]) (\<lambda>bytes.
      bindO (liftO (decodeGitText w bytes)) (\<lambda>text. liftO (requireCommitSha text))))))"

definition remote_name_char :: "char \<Rightarrow> bool" where
  "remote_name_char c \<longleftrightarrow> is_letter c \<or> is_digit c \<or> c = CHR ''.'' \<or> c = CHR ''_'' \<or> c = CHR ''-''"

definition readGitRemoteUrl :: "world \<Rightarrow> string \<Rightarrow> string \<Rightarrow> string io" where
  "readGitRemoteUrl w repositoryRoot remoteName =
     throwO (remoteName = [] \<or> \<not> list_all remote_name_char remoteName \<or> starts_with ''-'' remoteName) git_failed
     (bindO (realRepositoryRoot w repositoryRoot) (\<lambda>root.
      bindO (runGit w root [''remote'', ''get-url'', remoteName] [0]) (\<lambda>bytes.
      liftO (decodeGitText w bytes))))"

definition isGitCommitAncestor :: "world \<Rightarrow> string \<Rightarrow> string \<Rightarrow> string \<Rightarrow> bool io" where
  "isGitCommitAncestor w repositoryRoot ancestorSha descendantSha =
     bindO (liftO (requireCommitSha ancestorSha)) (\<lambda>ancestor.
     bindO (liftO (requireCommitSha descendantSha)) (\<lambda>descendant.
     bindO (realRepositoryRoot w repositoryRoot) (\<lambda>root.
     bindO (runGitResult w root [''merge-base'', ''--is-ancestor'', ancestor, descendant] [0, 1]) (\<lambda>(status, _).
     okO (status = 0)))))"

record tree_file =
  tre_commitSha :: string
  tre_path :: string
  tre_mode :: string
  tre_sizeBytes :: nat
  tre_sha256 :: string

text \<open>The part of a tree entry after its first tab\<close>

definition after_tab :: "string \<Rightarrow> string option" where
  "after_tab entry =
     (case split_on CHR 0x09 entry of [] \<Rightarrow> None | [_] \<Rightarrow> None | _ # rest \<Rightarrow> Some (join_with [CHR 0x09] rest))"

definition nth_piece :: "string list \<Rightarrow> nat \<Rightarrow> string" where
  "nth_piece xs i = (if i < length xs then xs ! i else [])"

definition fingerprintGitTreeFile :: "platform \<Rightarrow> world \<Rightarrow> string \<Rightarrow> string \<Rightarrow> string \<Rightarrow> tree_file option io" where
  "fingerprintGitTreeFile pl w repositoryRoot commitSha repositoryPath =
     bindO (realRepositoryRoot w repositoryRoot) (\<lambda>root.
     bindO (liftO (requireCommitSha commitSha)) (\<lambda>commit.
     bindO (liftO (normalizeRepositoryPath repositoryPath)) (\<lambda>filePath.
     bindO (runGit w root [''ls-tree'', ''-z'', commit, ''--'', '':(literal)'' @ filePath] [0]) (\<lambda>treeOutput.
     let matching = filter (\<lambda>entry. after_tab entry = Some filePath)
           (filter (\<lambda>entry. entry \<noteq> []) (split_on CHR 0x00 treeOutput)) in
     if matching = [] then okO None
     else throwO (length matching \<noteq> 1) git_failed
      (let pieces = split_on CHR 0x09 (hd matching);
           words = split_on CHR '' '' (nth_piece pieces 0);
           objectSha = nth_piece words 2 in
       throwO (nth_piece pieces 1 \<noteq> filePath \<or> nth_piece words 1 \<noteq> ''blob'' \<or>
               \<not> is_commit_sha (to_lower objectSha)) unreadable
       (throwO (nth_piece words 0 \<noteq> ''100644'' \<and> nth_piece words 0 \<noteq> ''100755'') unreadable
       (bindO (runGit w root [''cat-file'', ''blob'', objectSha] [0]) (\<lambda>bytes.
        throwO (MAX_CURRENT_FILE_BYTES < length bytes) limit_exceeded
          (okO (Some \<lparr>tre_commitSha = commit, tre_path = filePath, tre_mode = nth_piece words 0,
                     tre_sizeBytes = length bytes, tre_sha256 = sha256hex pl bytes\<rparr>))))))))))"

section \<open>What the observer establishes\<close>

lemma collect_nul_paths_plain:
  "collect_nul_paths w paths pieces = Inr ps \<Longrightarrow> length paths \<le> MAX_CHANGED_PATHS \<Longrightarrow>
   list_all plain_path paths \<Longrightarrow> list_all plain_path ps \<and> length ps \<le> MAX_CHANGED_PATHS"
  by (induction w paths pieces rule: collect_nul_paths.induct)
     (auto simp: result_simps normalizeRepositoryPath_iff not_less split: if_splits)

lemma decodeNulPaths_result:
  assumes "decodeNulPaths w bytes = Inr ps"
  shows "List.sorted ps" and "distinct ps" and "list_all plain_path ps" and "length ps \<le> MAX_CHANGED_PATHS"
proof -
  obtain qs where qs: "collect_nul_paths w [] (split_on CHR 0x00 bytes) = Inr qs" "ps = List.sort (unique qs)"
    using assms by (auto simp: decodeNulPaths_def result_simps)
  then have "list_all plain_path qs" "length qs \<le> MAX_CHANGED_PATHS"
    using collect_nul_paths_plain [OF qs(1)] by simp_all
  then show "List.sorted ps" "distinct ps" "list_all plain_path ps" "length ps \<le> MAX_CHANGED_PATHS"
    using length_unique_le [of qs] by (simp_all add: qs(2) list_all_iff)
qed

text \<open>The budget bounds what is read in all.\<close>

lemma readCurrentFile_budget:
  assumes "readCurrentFile pl w root p budget n = Inr ((file, budget'), n')"
  shows "cur_path file = p" and "budget' = budget + cur_sizeBytes file"
    and "budget \<le> MAX_TOTAL_CURRENT_BYTES \<Longrightarrow> budget' \<le> MAX_TOTAL_CURRENT_BYTES"
    and "cur_kind file = CurRegular \<Longrightarrow> cur_sizeBytes file \<le> MAX_CURRENT_FILE_BYTES"
    and "cur_kind file = CurRegular \<Longrightarrow> cur_sha256 file \<noteq> None"
  using assms
  by (auto simp: readCurrentFile_def missing_file_def read_present_file_def result_simps Let_def not_less
      split: lstat_reply.splits option.splits)

lemma read_current_files_bounds:
  assumes "read_current_files pl w root paths n = Inr (files, n')"
  shows "map cur_path files = paths" and "sum_list (map cur_sizeBytes files) \<le> MAX_TOTAL_CURRENT_BYTES"
    and "\<forall>f \<in> set files. cur_kind f = CurRegular \<longrightarrow> cur_sizeBytes f \<le> MAX_CURRENT_FILE_BYTES \<and> cur_sha256 f \<noteq> None"
proof -
  let ?body = "\<lambda>(files, budget) p. bindO (readCurrentFile pl w root p budget) (\<lambda>(file, budget'). okO (files @ [file], budget'))"
  have loop: "foldO ?body ps (fs, b) k = Inr ((fs', b'), k') \<Longrightarrow> b = sum_list (map cur_sizeBytes fs) \<Longrightarrow>
      b \<le> MAX_TOTAL_CURRENT_BYTES \<Longrightarrow>
      (\<forall>f \<in> set fs. cur_kind f = CurRegular \<longrightarrow> cur_sizeBytes f \<le> MAX_CURRENT_FILE_BYTES \<and> cur_sha256 f \<noteq> None) \<Longrightarrow>
      map cur_path fs' = map cur_path fs @ ps \<and> sum_list (map cur_sizeBytes fs') \<le> MAX_TOTAL_CURRENT_BYTES \<and>
      (\<forall>f \<in> set fs'. cur_kind f = CurRegular \<longrightarrow> cur_sizeBytes f \<le> MAX_CURRENT_FILE_BYTES \<and> cur_sha256 f \<noteq> None)"
    for ps fs b k fs' b' k'
  proof (induction ps arbitrary: fs b k)
    case (Cons p ps)
    then obtain cf b1 k1 where r: "readCurrentFile pl w root p b k = Inr ((cf, b1), k1)"
      and rest: "foldO ?body ps (fs @ [cf], b1) k1 = Inr ((fs', b'), k')"
      by (auto simp: result_simps)
    note cf = readCurrentFile_budget [OF r]
    have "map cur_path fs' = map cur_path (fs @ [cf]) @ ps \<and>
        sum_list (map cur_sizeBytes fs') \<le> MAX_TOTAL_CURRENT_BYTES \<and>
        (\<forall>f \<in> set fs'. cur_kind f = CurRegular \<longrightarrow> cur_sizeBytes f \<le> MAX_CURRENT_FILE_BYTES \<and> cur_sha256 f \<noteq> None)"
      using cf Cons.prems(2-4) by (intro Cons.IH [OF rest]) auto
    then show ?case using cf(1) by simp
  qed simp
  obtain budget where "foldO ?body paths ([], 0) n = Inr ((files, budget), n')"
    using assms by (auto simp: read_current_files_def result_simps)
  from loop [OF this] show "map cur_path files = paths" "sum_list (map cur_sizeBytes files) \<le> MAX_TOTAL_CURRENT_BYTES"
    "\<forall>f \<in> set files. cur_kind f = CurRegular \<longrightarrow> cur_sizeBytes f \<le> MAX_CURRENT_FILE_BYTES \<and> cur_sha256 f \<noteq> None"
    by simp_all
qed

text \<open>The paths of a collected state\<close>

definition state_paths :: "git_state \<Rightarrow> string list" where
  "state_paths s = gst_stagedPaths s @ gst_unstagedPaths s @ gst_untrackedPaths s @ gst_conflictPaths s @
     gst_committedPaths s"

lemma git_paths_plain: "git_paths w root args n = Inr (ps, n') \<Longrightarrow> list_all plain_path ps"
  by (auto simp: git_paths_def result_simps dest: decodeNulPaths_result)

lemma collectGitState_result:
  assumes "collectGitState pl w root base n = Inr (s, n')"
  shows "is_commit_sha (gst_head s)" and "list_all plain_path (state_paths s)"
    and "gst_branch s \<noteq> Some []"
proof -
  have head: "read_head w root n = Inr ((h, b), k) \<Longrightarrow> is_commit_sha h \<and> b \<noteq> Some []" for n h b k
    by (auto simp: read_head_def result_simps decodeGitText_def Let_def split: if_splits)
  obtain h b k where "read_head w root n = Inr ((h, b), k)" "gst_head s = h" "gst_branch s = b"
    using assms unfolding collectGitState_def Let_def by (auto simp: result_simps)
  with head show "is_commit_sha (gst_head s)" "gst_branch s \<noteq> Some []" by blast+
  show "list_all plain_path (state_paths s)"
    using assms unfolding collectGitState_def Let_def
    by (auto simp: result_simps state_paths_def dest!: git_paths_plain split: option.splits)
qed

lemma set_git_affected: "set (git_affected s) = set (state_paths s)"
  by (simp add: git_affected_def state_paths_def)

text \<open>What an observation of a working tree contains.\<close>

lemma observeGitCandidate_result:
  assumes "observeGitCandidate pl w repositoryRoot ws base branch n = Inr (b, n')"
  obtains root k k1 k2 k3 after where
    "collectGitState pl w root (gob_expectedBaseSha b) k = Inr (gob_state b, k1)"
    "collectGitState pl w root (gob_expectedBaseSha b) k2 = Inr (after, k3)"
    "gst_stateSha256 after = gst_stateSha256 (gob_state b)"
    "normalizeWriteSet ws = Inr (gob_allowedWriteSet b)"
    "gob_affectedPaths b = git_affected (gob_state b)" "length (gob_affectedPaths b) \<le> MAX_CHANGED_PATHS"
    "gob_outOfScopePaths b = filter (\<lambda>p. \<not> pathIsAllowed p (gob_allowedWriteSet b)) (gob_affectedPaths b)"
    "gob_scopeStatus b = git_scope (gob_state b)
       (branch \<noteq> None \<and> gob_expectedBranch b \<noteq> gst_branch (gob_state b)) (gob_outOfScopePaths b)"
    "branch \<noteq> None \<Longrightarrow> branch = Some (gob_expectedBranch b)"
    "gob_fingerprint b = stableSnapshotFingerprint pl b"
    "sum_list (map cur_sizeBytes (gob_currentFiles b)) \<le> MAX_TOTAL_CURRENT_BYTES"
    "gob_expectedBaseSha b = map_option to_lower base" "pred_option is_commit_sha (gob_expectedBaseSha b)"
proof -
  obtain root allowed k initial k1 files k2 files' k3 after k4
    where n: "normalizeWriteSet ws = Inr allowed"
      and i: "collectGitState pl w root (map_option to_lower base) k = Inr (initial, k1)"
      and f: "read_current_files pl w root (List.sort (unique
          (filter (\<lambda>p. pathIsAllowed p allowed) (git_affected initial) @ exactPaths allowed))) k1 = Inr (files, k2)"
      and a: "collectGitState pl w root (map_option to_lower base) k3 = Inr (after, k4)"
      and g: "gst_stateSha256 after = gst_stateSha256 initial" "length (git_affected initial) \<le> MAX_CHANGED_PATHS"
        "case base of None \<Rightarrow> True | Some s \<Rightarrow> is_commit_sha (to_lower s)"
      and b: "b = (let b = \<lparr>gob_repositoryRoot = root,
              gob_repositoryIdentitySha256 = sha256hex pl (platform_path pl root),
              gob_observedAt = isoNow pl k4, gob_expectedBaseSha = map_option to_lower base,
              gob_expectedBranch = (case branch of None \<Rightarrow> None | Some x \<Rightarrow> x),
              gob_expectedBranchBound = (branch \<noteq> None), gob_allowedWriteSet = allowed,
              gob_state = initial, gob_affectedPaths = git_affected initial,
              gob_inScopePaths = filter (\<lambda>p. pathIsAllowed p allowed) (git_affected initial),
              gob_outOfScopePaths = filter (\<lambda>p. \<not> pathIsAllowed p allowed) (git_affected initial),
              gob_currentFiles = files,
              gob_scopeStatus = git_scope initial
                (branch \<noteq> None \<and> (case branch of None \<Rightarrow> None | Some x \<Rightarrow> x) \<noteq> gst_branch initial)
                (filter (\<lambda>p. \<not> pathIsAllowed p allowed) (git_affected initial)),
              gob_fingerprint = []\<rparr> in b\<lparr>gob_fingerprint := stableSnapshotFingerprint pl b\<rparr>)"
    using assms unfolding observeGitCandidate_def Let_def
    by (clarsimp simp: result_simps not_less split: option.split_asm if_splits)
  show ?thesis
  proof (rule that)
    show "sum_list (map cur_sizeBytes (gob_currentFiles b)) \<le> MAX_TOTAL_CURRENT_BYTES"
      using read_current_files_bounds(2) [OF f] by (simp add: b Let_def)
    show "gob_fingerprint b = stableSnapshotFingerprint pl b"
      by (simp add: b Let_def stableSnapshotFingerprint_def git_observation_body_def)
    show "pred_option is_commit_sha (gob_expectedBaseSha b)"
      using g(3) by (simp add: b Let_def pred_option_def split: option.splits)
  qed (use n i a g(1,2) in \<open>auto simp: b Let_def split: option.splits\<close>)
qed

lemma git_scope_within:
  "git_scope s mismatch out = WithinWriteSet \<longleftrightarrow> gst_conflictPaths s = [] \<and> \<not> mismatch \<and> out = []"
  by (simp add: git_scope_def)

text \<open>
  An observation within the write set: no conflict, the expected branch, and every path that differs
  from the base is allowed.
\<close>

lemma observeGitCandidate_within:
  assumes "observeGitCandidate pl w root ws base branch n = Inr (b, n')" and "gob_scopeStatus b = WithinWriteSet"
  shows "gst_conflictPaths (gob_state b) = []" and "branch \<noteq> None \<longrightarrow> branch = Some (gst_branch (gob_state b))"
    and "\<forall>p \<in> set (state_paths (gob_state b)). pathIsAllowed p (gob_allowedWriteSet b)"
    and "normalizeWriteSet ws = Inr (gob_allowedWriteSet b)"
proof -
  from assms(1) obtain k where c: "normalizeWriteSet ws = Inr (gob_allowedWriteSet b)"
    "gob_affectedPaths b = git_affected (gob_state b)"
    "gob_outOfScopePaths b = filter (\<lambda>p. \<not> pathIsAllowed p (gob_allowedWriteSet b)) (gob_affectedPaths b)"
    "gob_scopeStatus b = git_scope (gob_state b)
       (branch \<noteq> None \<and> gob_expectedBranch b \<noteq> gst_branch (gob_state b)) (gob_outOfScopePaths b)"
    "branch \<noteq> None \<Longrightarrow> branch = Some (gob_expectedBranch b)"
    by (rule observeGitCandidate_result) blast
  note within = assms(2) [unfolded c(4) git_scope_within]
  show "gst_conflictPaths (gob_state b) = []" "branch \<noteq> None \<longrightarrow> branch = Some (gst_branch (gob_state b))"
    "normalizeWriteSet ws = Inr (gob_allowedWriteSet b)"
    using within c(1,5) by auto
  have "filter (\<lambda>p. \<not> pathIsAllowed p (gob_allowedWriteSet b)) (git_affected (gob_state b)) = []"
    using within c(2,3) by simp
  then show "\<forall>p \<in> set (state_paths (gob_state b)). pathIsAllowed p (gob_allowedWriteSet b)"
    by (simp add: filter_empty_conv set_git_affected)
qed

lemma observeGitCandidate_verifies:
  assumes "observeGitCandidate pl w root ws base branch n = Inr (b, n')"
  shows "verifyGitCandidateObservation pl b"
  using assms by (rule observeGitCandidate_result) (simp add: verifyGitCandidateObservation_def)

end
