(* ===== verification/Observer_Tickets.thy ===== *)
theory Observer_Tickets
  imports Git_Observer
begin

text \<open>
  The observers only ask: each takes tickets from the counter and never gives one back, so an
  identifier a handler draws after an observation is new.
\<close>

lemma forward_case_prod: "(\<And>a b. forward (f a b)) \<Longrightarrow> forward (case p of (a, b) \<Rightarrow> f a b)"
  by (cases p) simp

lemma forward_case_prod_arg: "(\<And>a b. forward (f a b x)) \<Longrightarrow> forward ((case p of (a, b) \<Rightarrow> f a b) x)"
  by (cases p) simp

lemma forward_case_option: "forward m \<Longrightarrow> (\<And>a. forward (f a)) \<Longrightarrow> forward (case x of None \<Rightarrow> m | Some a \<Rightarrow> f a)"
  by (cases x) simp_all

lemma forward_if: "forward a \<Longrightarrow> forward b \<Longrightarrow> forward (if c then a else b)"
  by simp

lemmas forward_rules = forward_bindO forward_throwO forward_needO forward_catchO forward_mapO forward_foldO
  forward_case_prod forward_case_prod_arg forward_case_option forward_if

lemma forward_lstat_or [intro, simp]: "forward (lstat_or w e p)"
  by (simp add: forward_def result_simps)

lemma forward_hasGit [intro, simp]: "forward (hasGitMetadataAtProjectRoot pl w root)"
  by (auto simp: forward_def hasGitMetadataAtProjectRoot_def split: lstat_reply.splits)

lemma forward_resolveProjectRoot [intro, simp]: "forward (resolveProjectRoot pl w p)"
  unfolding resolveProjectRoot_def ensureNoGitMetadata_def by (intro forward_rules) simp_all

lemma forward_check_segments [intro, simp]: "forward (check_segments pl w c segs)"
  by (induction segs arbitrary: c) (auto simp: Let_def)

lemma forward_assertNoSymlinkSegments [intro, simp]: "forward (assertNoSymlinkSegments pl w root p)"
  unfolding assertNoSymlinkSegments_def by (intro forward_rules) simp_all

lemma forward_read_descriptor [intro, simp]: "forward (read_descriptor w p b)"
  unfolding read_descriptor_def by (intro forward_rules) simp_all

lemma forward_readRegularFile [intro, simp]: "forward (readRegularFile pl w root p st k)"
  unfolding readRegularFile_def Let_def by (intro forward_rules) simp_all

lemma forward_readDirectoryNames [intro, simp]: "forward (readDirectoryNames w d)"
  unfolding readDirectoryNames_def by (intro forward_rules) simp_all

lemma forward_enter_directory [intro, simp]: "forward (enter_directory pl w root a r s)"
  unfolding enter_directory_def Let_def by (intro forward_rules) simp_all

lemma forward_leave_directory [intro, simp]: "forward (leave_directory w a r b names i s)"
  unfolding leave_directory_def by (intro forward_rules) simp_all

lemma forward_enter_entry [intro, simp]: "forward (enter_entry pl w a r s name)"
  unfolding enter_entry_def Let_def by (intro forward_rules) simp_all

lemma forward_scan_file [intro, simp]: "forward (scan_file pl w root name p st s)"
  unfolding scan_file_def by (intro forward_rules) simp_all

lemma forward_scan_directory [intro, simp]: "forward (scan_directory depth pl w root a r s)"
proof (induction depth arbitrary: a r s)
  case 0
  show ?case by (simp add: forward_def scan_directory.simps)
next
  case (Suc depth)
  have "forward (bindO (enter_directory pl w root a r s) (\<lambda>(s1, before, names).
      bindO (foldO (scan_entry depth pl w root a r) names s1) (\<lambda>s2.
      leave_directory w a r before names (length (wk_states s)) s2)))"
    by (intro forward_rules) (simp_all add: Suc.IH)
  then show ?case by (simp add: forward_def scan_directory.simps)
qed

lemma forward_stableProjectScan [intro, simp]: "forward (stableProjectScan pl w root)"
  unfolding stableProjectScan_def scanProjectOnce_def
  by (intro forward_rules) simp_all

lemma forward_captureProjectFileBaseline [intro, simp]: "forward (captureProjectFileBaseline pl w root ws)"
  unfolding captureProjectFileBaseline_def by (intro forward_rules) simp_all

lemma forward_observeProjectFileCandidate [intro, simp]: "forward (observeProjectFileCandidate pl w root b ws)"
  unfolding observeProjectFileCandidate_def Let_def by (intro forward_rules) simp_all

lemma forward_runGitResult [intro, simp]: "forward (runGitResult w root args ok)"
  by (auto simp: forward_def runGitResult_def split: command_reply.splits option.splits if_splits)

lemma forward_runGit [intro, simp]: "forward (runGit w root args ok)"
  unfolding runGit_def by (intro forward_rules) simp_all

lemma forward_read_head [intro, simp]: "forward (read_head w root)"
  unfolding read_head_def by (intro forward_rules) simp_all

lemma forward_git_paths [intro, simp]: "forward (git_paths w root args)" "forward (git_sha pl w root args)"
  unfolding git_paths_def git_sha_def by auto

lemma forward_collectGitState [intro, simp]: "forward (collectGitState pl w root base)"
  unfolding collectGitState_def Let_def
  by (intro forward_rules) simp_all

lemma forward_samePhysicalDirectory [intro, simp]: "forward (samePhysicalDirectory w a b)"
  by (simp add: samePhysicalDirectory_def)

lemma forward_realRepositoryRoot [intro, simp]: "forward (realRepositoryRoot w root)"
  unfolding realRepositoryRoot_def by (intro forward_rules) simp_all

lemma forward_observeTaskRunRepositoryBaseline [intro, simp]:
  "forward (observeTaskRunRepositoryBaseline pl w root ws)"
  unfolding observeTaskRunRepositoryBaseline_def observeGitRepositoryBaseline_def
  by (intro forward_rules) simp_all

lemma forward_read_entry [intro, simp]: "forward (read_entry pl w root p st b)"
  unfolding read_entry_def by (auto intro!: forward_bindO forward_throwO split: file_kind.splits)

lemma forward_readCurrentFile [intro, simp]: "forward (readCurrentFile pl w root p b)"
proof -
  have "forward (read_present_file pl w root p st b)" for st
    unfolding read_present_file_def Let_def
    by (intro forward_rules) simp_all
  then show ?thesis
    unfolding forward_def readCurrentFile_def by (fastforce split: lstat_reply.splits)
qed

lemma forward_read_current_files [intro, simp]: "forward (read_current_files pl w root ps)"
  unfolding read_current_files_def by (intro forward_rules) simp_all

lemma forward_observeGitCandidate [intro, simp]: "forward (observeGitCandidate pl w root ws base branch)"
  unfolding observeGitCandidate_def Let_def
  by (intro forward_rules) simp_all

lemma forward_sameResolvedPath [intro, simp]: "forward (sameResolvedPath pl w a b)"
  by (auto simp: forward_def sameResolvedPath_def split: option.splits)

lemma forward_observeTaskRunCandidate [intro, simp]: "forward (observeTaskRunCandidate pl w run root)"
proof -
  have "forward (candidate_root pl w run root)"
    unfolding candidate_root_def by (intro forward_rules) simp_all
  then show ?thesis
    unfolding observeTaskRunCandidate_def Let_def
    by (intro forward_rules) simp_all
qed

lemma forward_fingerprintCurrentRepositoryFile [intro, simp]:
  "forward (fingerprintCurrentRepositoryFile pl w root p)"
  unfolding fingerprintCurrentRepositoryFile_def
  by (intro forward_rules) simp_all

lemma forward_resolveGitLocalBranchSha [intro, simp]: "forward (resolveGitLocalBranchSha w root b)"
  unfolding resolveGitLocalBranchSha_def Let_def by (intro forward_rules) simp_all

lemma forward_readGitRemoteUrl [intro, simp]: "forward (readGitRemoteUrl w root r)"
  unfolding readGitRemoteUrl_def by (intro forward_rules) simp_all

lemma forward_isGitCommitAncestor [intro, simp]: "forward (isGitCommitAncestor w root a d)"
  unfolding isGitCommitAncestor_def by (intro forward_rules) simp_all

lemma forward_fingerprintGitTreeFile [intro, simp]: "forward (fingerprintGitTreeFile pl w root sha p)"
  unfolding fingerprintGitTreeFile_def Let_def by (intro forward_rules) simp_all

end
