(* ===== verification/Review_Evidence.thy ===== *)
theory Review_Evidence
  imports Observer_Tickets
begin

text \<open>
  The evidence behind a Run's result and a Review, \<open>core/task/task-review-evidence.ts\<close>: references are
  resolved to bounded regular files of the candidate or of the Task directory, with their digests;
  a Run freezes them when it completes, a Review resolves them again, and Close compares.

  \<open>root\<close> is the canonical project root, \<open>dir\<close> the resolved Task directory.
\<close>

abbreviation evidence_invalid :: failure where
  "evidence_invalid \<equiv> KernelError INVALID_DELIVERY_EVIDENCE"

abbreviation candidate_stale :: failure where
  "candidate_stale \<equiv> KernelError CANDIDATE_MISMATCH"

definition MAX_EVIDENCE_REFS :: nat where
  "MAX_EVIDENCE_REFS = 128"

definition MAX_EVIDENCE_FILE_BYTES :: nat where
  "MAX_EVIDENCE_FILE_BYTES = 8 * 1024 * 1024"

definition MAX_TOTAL_EVIDENCE_BYTES :: nat where
  "MAX_TOTAL_EVIDENCE_BYTES = 32 * 1024 * 1024"

section \<open>References\<close>

definition normalizeEvidencePath :: "string \<Rightarrow> string outcome" where
  "normalizeEvidencePath value =
     throwIf (value \<noteq> trim value) evidence_invalid
     (let normalized = forward_slashes value;
          segments = split_on CHR ''/'' normalized
      in throwIf (starts_with ''/'' normalized \<or> drive_prefix normalized \<or>
                  list_ex (\<lambda>seg. dot_segment seg \<or> list_ex control_char seg) segments) evidence_invalid
           (Inr (join_with ''/'' segments)))"

definition uniqueEvidenceRefs :: "string list \<Rightarrow> string list outcome" where
  "uniqueEvidenceRefs refs =
     throwIf (MAX_EVIDENCE_REFS < length refs) evidence_invalid
     (bindE (mapE normalizeEvidencePath refs) (\<lambda>normalized.
      throwIf (has_duplicates normalized) evidence_invalid (Inr normalized)))"

section \<open>A file of the Task directory\<close>

fun task_file_segments :: "platform \<Rightarrow> world \<Rightarrow> string \<Rightarrow> string list \<Rightarrow> string io" where
  "task_file_segments pl w current [] = okO current"
| "task_file_segments pl w current (segment # segments) =
     (let next = path_join pl current segment in
      bindO (lstat_or w evidence_invalid next) (\<lambda>stat.
      throwO (fs_kind stat = KSymlink) evidence_invalid
      (throwO (segments \<noteq> [] \<and> fs_kind stat \<noteq> KDirectory) evidence_invalid
      (throwO (segments = [] \<and> fs_kind stat \<noteq> KRegular) evidence_invalid
        (task_file_segments pl w next segments)))))"

definition escapes_task_dir :: "platform \<Rightarrow> string \<Rightarrow> bool" where
  "escapes_task_dir pl relative \<longleftrightarrow>
     relative = [] \<or> relative = ''..'' \<or> starts_with (''..'' @ [path_sep pl]) relative \<or> isAbsolute pl relative"

definition same_bytes_stat :: "file_stat \<Rightarrow> file_stat \<Rightarrow> bool" where
  "same_bytes_stat a b \<longleftrightarrow>
     fs_dev a = fs_dev b \<and> fs_ino a = fs_ino b \<and> fs_size a = fs_size b \<and> fs_mtimeMs a = fs_mtimeMs b"

text \<open>
  The two reads of the file between its three \<open>lstat\<close>s; \<open>remainingBytes\<close> may be negative.
\<close>

definition read_task_file :: "platform \<Rightarrow> world \<Rightarrow> string \<Rightarrow> string \<Rightarrow> int \<Rightarrow> (string \<times> nat) io" where
  "read_task_file pl w taskRoot current remainingBytes =
     bindO (lstat_or w fs_error current) (\<lambda>before.
     throwO (MAX_EVIDENCE_FILE_BYTES < fs_size before) evidence_invalid
     (throwO (remainingBytes < int (fs_size before)) evidence_invalid
     (bindO (tryO fs_error (\<lambda>n. w_realpath w n current)) (\<lambda>realPathBeforeRead.
      bindO (tryO fs_error (\<lambda>n. w_readFile w n current)) (\<lambda>first.
      bindO (lstat_or w fs_error current) (\<lambda>afterFirst.
      bindO (tryO fs_error (\<lambda>n. w_readFile w n current)) (\<lambda>second.
      bindO (lstat_or w fs_error current) (\<lambda>afterSecond.
      bindO (tryO fs_error (\<lambda>n. w_realpath w n current)) (\<lambda>realPathAfterRead.
      throwO (realPathBeforeRead \<noteq> realPathAfterRead \<or>
              \<not> starts_with (taskRoot @ [path_sep pl]) realPathAfterRead \<or>
              \<not> same_bytes_stat before afterFirst \<or> \<not> same_bytes_stat afterFirst afterSecond \<or>
              first \<noteq> second) evidence_invalid
        (okO (sha256hex pl first, length first)))))))))))"

definition taskFileSha256 :: "platform \<Rightarrow> world \<Rightarrow> string \<Rightarrow> string \<Rightarrow> int \<Rightarrow> (string \<times> nat) io" where
  "taskFileSha256 pl w taskDir repositoryPath remainingBytes =
     bindO (tryO fs_error (\<lambda>n. w_realpath w n taskDir)) (\<lambda>taskRoot.
     bindO (task_file_segments pl w taskDir (split_on CHR ''/'' repositoryPath)) (\<lambda>current.
     bindO (tryO fs_error (\<lambda>n. w_realpath w n current)) (\<lambda>real.
     throwO (escapes_task_dir pl (path_relative pl taskRoot real)) evidence_invalid
       (read_task_file pl w taskRoot current remainingBytes))))"

section \<open>The candidate\<close>

text \<open>The one observer entry of a snapshot is the observation's.\<close>

definition bound_observation :: "candidate_snapshot \<Rightarrow> run_observation \<Rightarrow> bool" where
  "bound_observation snapshot b \<longleftrightarrow>
     (case filter (\<lambda>e. isRunCandidateObservationEntry (ent_ref e)) (cand_entries snapshot) of
        [e] \<Rightarrow> ent_ref e = taskCandidateObservationEntryRef b \<and> ent_fingerprint e = observation_fingerprint b
      | _ \<Rightarrow> False)"

definition observe_run :: "platform \<Rightarrow> world \<Rightarrow> string \<Rightarrow> task_run \<Rightarrow> run_observation io" where
  "observe_run pl w root run =
     observeTaskRunCandidate pl w run (if run_workspace run = None then Some root else None)"

definition findRunObservation ::
    "platform \<Rightarrow> world \<Rightarrow> string \<Rightarrow> task_run \<Rightarrow> string \<Rightarrow> string \<Rightarrow> run_observation io" where
  "findRunObservation pl w root run snapshotId fingerprint =
     throwO (run_state run \<noteq> RunCompleted \<or> run_result run = None) candidate_stale
     (needO (run_candidateSnapshot run) candidate_stale (\<lambda>snapshot.
      throwO (cand_id snapshot \<noteq> snapshotId \<or> cand_fingerprint snapshot \<noteq> fingerprint) candidate_stale
      (bindO (catchO w (observe_run pl w root run) (\<lambda>e. failO candidate_stale)) (\<lambda>b.
       throwO (\<not> bound_observation snapshot b) candidate_stale (okO b)))))"

text \<open>\<open>new Map(files.map((file) => [file.path, file]))\<close>: a later file takes the place of an earlier one.\<close>

definition file_at :: "current_file list \<Rightarrow> string \<Rightarrow> current_file option" where
  "file_at files p = List.find (\<lambda>f. cur_path f = p) (rev files)"

text \<open>A regular file's digest and size\<close>

definition regular_file :: "current_file option \<Rightarrow> (string \<times> nat) option" where
  "regular_file f =
     (case f of
        None \<Rightarrow> None
      | Some x \<Rightarrow> if cur_kind x = CurRegular then map_option (\<lambda>s. (s, cur_sizeBytes x)) (cur_sha256 x) else None)"

text \<open>The entries of a snapshot by normalised reference, without the observer's\<close>

fun frozen_entries ::
    "(string \<Rightarrow> string outcome) \<Rightarrow> (string \<times> snapshot_entry) list \<Rightarrow> snapshot_entry list \<Rightarrow>
     (string \<times> snapshot_entry) list outcome" where
  "frozen_entries norm acc [] = Inr acc"
| "frozen_entries norm acc (e # es) =
     (if isRunCandidateObservationEntry (ent_ref e) then frozen_entries norm acc es
      else bindE (norm (ent_ref e)) (\<lambda>ref.
        throwIf (ref \<in> fst ` set acc) evidence_invalid (frozen_entries norm ((ref, e) # acc) es)))"

section \<open>Freezing the evidence of a Run\<close>

definition freeze_item ::
    "platform \<Rightarrow> world \<Rightarrow> task_run \<Rightarrow> string \<Rightarrow> (string \<times> snapshot_entry) list \<Rightarrow> current_file list \<Rightarrow> string \<Rightarrow>
     nat \<Rightarrow> run_evidence_item io" where
  "freeze_item pl w run dir entries files ref totalBytes =
     bindO (liftO (isTaskRunPathInWriteSet pl run ref)) (\<lambda>inside.
     if inside then
       needO (map_of entries ref) evidence_invalid (\<lambda>entry.
       needO (regular_file (file_at files ref)) evidence_invalid (\<lambda>(sha, size).
       throwO (ent_fingerprint entry \<noteq> sha) evidence_invalid
         (okO \<lparr>rei_ref = ref, rei_sha256 = sha, rei_sizeBytes = size, rei_source = RunEvCandidate\<rparr>)))
     else
       bindO (taskFileSha256 pl w dir ref (int MAX_TOTAL_EVIDENCE_BYTES - int totalBytes)) (\<lambda>(sha, size).
       okO \<lparr>rei_ref = ref, rei_sha256 = sha, rei_sizeBytes = size, rei_source = RunEvTask\<rparr>))"

definition freeze_items ::
    "platform \<Rightarrow> world \<Rightarrow> task_run \<Rightarrow> string \<Rightarrow> (string \<times> snapshot_entry) list \<Rightarrow> current_file list \<Rightarrow>
     string list \<Rightarrow> run_evidence_item list io" where
  "freeze_items pl w run dir entries files refs =
     foldO (\<lambda>items ref.
       bindO (freeze_item pl w run dir entries files ref (sum_list (map rei_sizeBytes items))) (\<lambda>item.
       okO (items @ [item]))) refs []"

definition assert_task_dir :: "world \<Rightarrow> string \<Rightarrow> 'a io \<Rightarrow> 'a io" where
  "assert_task_dir w dir m =
     bindO (lstat_or w fs_error dir) (\<lambda>stat. throwO (fs_kind stat = KSymlink) evidence_invalid m)"

definition freezeTaskRunEvidenceV1 ::
    "platform \<Rightarrow> world \<Rightarrow> string \<Rightarrow> string \<Rightarrow> task_run \<Rightarrow> run_evidence_verification io" where
  "freezeTaskRunEvidenceV1 pl w root dir run =
     throwO (run_state run \<noteq> RunCompleted) candidate_stale
     (needO (run_result run) candidate_stale (\<lambda>result.
      needO (run_candidateSnapshot run) candidate_stale (\<lambda>snapshot.
      bindO (liftO (uniqueEvidenceRefs (res_evidenceRefs result))) (\<lambda>refs.
      bindO (observe_run pl w root run) (\<lambda>b.
      throwO (\<not> bound_observation snapshot b) candidate_stale
      (bindO (liftO (frozen_entries normalizeEvidencePath [] (cand_entries snapshot))) (\<lambda>entries.
       assert_task_dir w dir
       (bindO (freeze_items pl w run dir entries (observation_files b) refs) (\<lambda>items.
        throwO (MAX_TOTAL_EVIDENCE_BYTES < sum_list (map rei_sizeBytes items)) evidence_invalid
        (bindO (askO (isoNow pl)) (\<lambda>now.
         okO \<lparr>rver_observedAt = now, rver_runId = run_id run, rver_candidateSnapshotId = cand_id snapshot,
              rver_candidateFingerprint = cand_fingerprint snapshot, rver_items = items\<rparr>)))))))))))"

section \<open>Resolving the evidence of a Review\<close>

definition currentCandidateFile ::
    "platform \<Rightarrow> world \<Rightarrow> run_observation \<Rightarrow> string \<Rightarrow> string \<Rightarrow> current_file option io" where
  "currentCandidateFile pl w b repositoryRoot repositoryPath =
     (case b of
        GitObservation _ \<Rightarrow>
          bindO (fingerprintCurrentRepositoryFile pl w repositoryRoot repositoryPath) (\<lambda>file. okO (Some file))
      | FileObservation f \<Rightarrow> okO (List.find (\<lambda>file. cur_path file = repositoryPath) (fob_currentFiles f)))"

text \<open>What the loop of \<open>observeEvidenceItems\<close> reads: the maps it builds before it starts\<close>

record evidence_context =
  ctx_run :: task_run
  ctx_root :: string
  ctx_taskDir :: string
  ctx_observation :: run_observation
  ctx_entries :: "(string \<times> snapshot_entry) list"
  ctx_runRefs :: "string list"
  ctx_runItems :: "run_evidence_item list"
  ctx_receipt :: bool
  ctx_allowRun :: bool
  ctx_allowTask :: bool

text \<open>The receipt of the Run does not name this file.\<close>

definition receipt_other ::
    "run_evidence_item option \<Rightarrow> run_evidence_source \<Rightarrow> string \<Rightarrow> nat \<Rightarrow> bool" where
  "receipt_other item source sha bytes \<longleftrightarrow>
     (case item of
        None \<Rightarrow> True
      | Some i \<Rightarrow> rei_source i \<noteq> source \<or> rei_sha256 i \<noteq> sha \<or> rei_sizeBytes i \<noteq> bytes)"

definition observed_candidate_file ::
    "platform \<Rightarrow> world \<Rightarrow> evidence_context \<Rightarrow> string \<Rightarrow> (string \<times> nat) io" where
  "observed_candidate_file pl w ctx ref =
     bindO (catchO w (currentCandidateFile pl w (ctx_observation ctx) (ctx_root ctx) ref)
       (\<lambda>e. failO evidence_invalid)) (\<lambda>file.
     needO (regular_file file) evidence_invalid (\<lambda>(sha, size).
     throwO (map_option fst (regular_file (file_at (observation_files (ctx_observation ctx)) ref)) \<noteq> Some sha)
       evidence_invalid (okO (sha, size))))"

definition review_item :: "string \<Rightarrow> string \<Rightarrow> nat \<Rightarrow> review_evidence_source \<Rightarrow> review_evidence_item" where
  "review_item ref sha bytes source =
     \<lparr>vei_ref = ref, vei_sha256 = sha, vei_sizeBytes = bytes, vei_source = source\<rparr>"

definition resolve_item ::
    "platform \<Rightarrow> world \<Rightarrow> evidence_context \<Rightarrow> string \<Rightarrow> nat \<Rightarrow> review_evidence_item io" where
  "resolve_item pl w ctx ref totalBytes =
     (let wasRunEvidence = ref \<in> set (ctx_runRefs ctx);
          runItem = List.find (\<lambda>i. rei_ref i = ref) (rev (ctx_runItems ctx)) in
      throwO (wasRunEvidence \<and> (\<not> ctx_receipt ctx \<or> runItem = None)) evidence_invalid
      (case map_of (ctx_entries ctx) ref of
         Some entry \<Rightarrow>
           bindO (liftO (isTaskRunPathInWriteSet pl (ctx_run ctx) ref)) (\<lambda>inside.
           throwO (\<not> inside) evidence_invalid
           (bindO (observed_candidate_file pl w ctx ref) (\<lambda>(sha, size).
            throwO (ent_fingerprint entry \<noteq> sha) evidence_invalid
            (throwO (wasRunEvidence \<and> receipt_other runItem RunEvCandidate sha size) evidence_invalid
              (okO (review_item ref sha size RevEvCandidate))))))
       | None \<Rightarrow>
           throwO (\<not> wasRunEvidence \<and> \<not> ctx_allowTask ctx) evidence_invalid
           (throwO (wasRunEvidence \<and> \<not> ctx_allowRun ctx) evidence_invalid
           (bindO (if wasRunEvidence then liftO (isTaskRunPathInWriteSet pl (ctx_run ctx) ref) else okO False)
             (\<lambda>inside.
            if inside then
              bindO (observed_candidate_file pl w ctx ref) (\<lambda>(sha, size).
              throwO (receipt_other runItem RunEvCandidate sha size) evidence_invalid
                (okO (review_item ref sha size RevEvRun)))
            else
              bindO (taskFileSha256 pl w (ctx_taskDir ctx) ref
                  (int MAX_TOTAL_EVIDENCE_BYTES - int totalBytes)) (\<lambda>(sha, size).
              throwO (wasRunEvidence \<and> receipt_other runItem RunEvTask sha size) evidence_invalid
                (okO (review_item ref sha size (if wasRunEvidence then RevEvRun else RevEvTask)))))))))"

definition resolve_items ::
    "platform \<Rightarrow> world \<Rightarrow> evidence_context \<Rightarrow> string list \<Rightarrow> review_evidence_item list io" where
  "resolve_items pl w ctx refs =
     foldO (\<lambda>items ref.
       bindO (resolve_item pl w ctx ref (sum_list (map vei_sizeBytes items))) (\<lambda>item.
       okO (items @ [item]))) refs []"

text \<open>A candidate entry whose reference is no safe path is passed over here.\<close>

definition skip_unsafe :: "snapshot_entry list \<Rightarrow> snapshot_entry list" where
  "skip_unsafe es = filter (\<lambda>e. case normalizeEvidencePath (ent_ref e) of Inl _ \<Rightarrow> False | Inr _ \<Rightarrow> True) es"

definition receipt_unrelated :: "task_run \<Rightarrow> candidate_snapshot \<Rightarrow> run_evidence_verification option \<Rightarrow> bool" where
  "receipt_unrelated run snapshot receipt \<longleftrightarrow>
     (case receipt of
        None \<Rightarrow> False
      | Some v \<Rightarrow> rver_runId v \<noteq> run_id run \<or> rver_candidateSnapshotId v \<noteq> cand_id snapshot \<or>
          rver_candidateFingerprint v \<noteq> cand_fingerprint snapshot)"

definition run_receipt :: "task_run \<Rightarrow> run_evidence_verification option" where
  "run_receipt run = (case run_result run of None \<Rightarrow> None | Some r \<Rightarrow> res_evidenceVerification r)"

definition evidence_context_of ::
    "string \<Rightarrow> string \<Rightarrow> task_run \<Rightarrow> run_observation \<Rightarrow> (string \<times> snapshot_entry) list \<Rightarrow> bool \<Rightarrow> bool \<Rightarrow>
     evidence_context" where
  "evidence_context_of root realTaskDir run b entries allowRun allowTask =
     \<lparr>ctx_run = run, ctx_root = (case run_workspace run of None \<Rightarrow> root | Some ws \<Rightarrow> ws_canonicalPath ws),
      ctx_taskDir = realTaskDir, ctx_observation = b, ctx_entries = entries,
      ctx_runRefs = (case run_result run of None \<Rightarrow> [] | Some r \<Rightarrow> res_evidenceRefs r),
      ctx_runItems = (case run_receipt run of None \<Rightarrow> [] | Some v \<Rightarrow> rver_items v),
      ctx_receipt = (run_receipt run \<noteq> None), ctx_allowRun = allowRun, ctx_allowTask = allowTask\<rparr>"

definition observeEvidenceItems ::
    "platform \<Rightarrow> world \<Rightarrow> string \<Rightarrow> string \<Rightarrow> task_run \<Rightarrow> string \<Rightarrow> string \<Rightarrow> bool \<Rightarrow> bool \<Rightarrow> string list \<Rightarrow>
     review_evidence_item list io" where
  "observeEvidenceItems pl w root dir run snapshotId fingerprint allowRun allowTask refs =
     assert_task_dir w dir
     (bindO (tryO fs_error (\<lambda>n. w_realpath w n dir)) (\<lambda>realTaskDir.
      needO (run_candidateSnapshot run) candidate_stale (\<lambda>snapshot.
      bindO (findRunObservation pl w root run snapshotId fingerprint) (\<lambda>b.
      throwO (receipt_unrelated run snapshot (run_receipt run)) evidence_invalid
      (bindO (liftO (frozen_entries normalizeEvidencePath [] (skip_unsafe (cand_entries snapshot)))) (\<lambda>entries.
       bindO (resolve_items pl w (evidence_context_of root realTaskDir run b entries allowRun allowTask) refs) (\<lambda>items.
       throwO (MAX_TOTAL_EVIDENCE_BYTES < sum_list (map vei_sizeBytes items)) evidence_invalid
         (okO items))))))))"

definition resolveTaskReviewEvidenceV1 ::
    "platform \<Rightarrow> world \<Rightarrow> string \<Rightarrow> string \<Rightarrow> task_run \<Rightarrow> string \<Rightarrow> string \<Rightarrow> bool \<Rightarrow> bool \<Rightarrow> string list \<Rightarrow>
     review_evidence_verification io" where
  "resolveTaskReviewEvidenceV1 pl w root dir run snapshotId fingerprint allowRun allowTask evidenceRefs =
     bindO (liftO (uniqueEvidenceRefs evidenceRefs)) (\<lambda>refs.
     bindO (observeEvidenceItems pl w root dir run snapshotId fingerprint allowRun allowTask refs) (\<lambda>items.
     bindO (askO (isoNow pl)) (\<lambda>now.
     okO \<lparr>vver_observedAt = now, vver_runId = run_id run, vver_candidateSnapshotId = snapshotId,
          vver_candidateFingerprint = fingerprint, vver_items = items\<rparr>)))"

definition verifyTaskReviewEvidenceV1 ::
    "platform \<Rightarrow> world \<Rightarrow> string \<Rightarrow> string \<Rightarrow> task_run \<Rightarrow> string \<Rightarrow> string \<Rightarrow> bool \<Rightarrow> bool \<Rightarrow> string list \<Rightarrow>
     review_evidence_verification \<Rightarrow> unit io" where
  "verifyTaskReviewEvidenceV1 pl w root dir run snapshotId fingerprint allowRun allowTask evidenceRefs expected =
     bindO (resolveTaskReviewEvidenceV1 pl w root dir run snapshotId fingerprint allowRun allowTask evidenceRefs)
       (\<lambda>current.
     throwO (vver_runId expected \<noteq> vver_runId current \<or>
             vver_candidateSnapshotId expected \<noteq> vver_candidateSnapshotId current \<or>
             vver_candidateFingerprint expected \<noteq> vver_candidateFingerprint current \<or>
             vver_items expected \<noteq> vver_items current) evidence_invalid (okO ()))"

section \<open>What resolved evidence is\<close>

lemma normalizeEvidencePath_iff:
  "normalizeEvidencePath v = Inr p \<longleftrightarrow> v = trim v \<and> p = forward_slashes v \<and> plain_path p \<and>
     \<not> list_ex (list_ex control_char) (split_on CHR ''/'' p)"
  by (auto simp: normalizeEvidencePath_def result_simps Let_def plain_path_def list_ex_or)

lemma normalizeEvidencePath_not_blank: "normalizeEvidencePath v = Inr p \<Longrightarrow> \<not> blank p"
proof -
  assume "normalizeEvidencePath v = Inr p"
  then have v: "v = trim v" "p = forward_slashes v" "p \<noteq> []" using plain_path_not_Nil [of p] by (auto simp: normalizeEvidencePath_iff)
  then have "v \<noteq> []" by (auto simp: forward_slashes_def)
  then have "\<not> blank v" using v(1) by (simp add: blank_def)
  then show "\<not> blank p" by (simp add: v(2))
qed

lemma uniqueEvidenceRefs_result:
  assumes "uniqueEvidenceRefs refs = Inr ps"
  shows "ps = map forward_slashes refs" and "distinct ps" and "length ps \<le> MAX_EVIDENCE_REFS"
    and "list_all (\<lambda>p. plain_path p \<and> \<not> blank p) ps"
proof -
  have m: "mapE normalizeEvidencePath refs = Inr ps" and l: "length refs \<le> MAX_EVIDENCE_REFS"
    and d: "distinct ps"
    using assms by (auto simp: uniqueEvidenceRefs_def result_simps not_less)
  show "ps = map forward_slashes refs"
    using m by (induction refs arbitrary: ps) (auto simp: result_simps normalizeEvidencePath_iff)
  then show "length ps \<le> MAX_EVIDENCE_REFS" using l by simp
  show "distinct ps" by (rule d)
  show "list_all (\<lambda>p. plain_path p \<and> \<not> blank p) ps"
    using m by (rule mapE_all) (use normalizeEvidencePath_not_blank in \<open>auto simp: normalizeEvidencePath_iff\<close>)
qed

lemma taskFileSha256_sha:
  "taskFileSha256 pl w dir p remaining n = Inr ((sha, bytes), n') \<Longrightarrow> platform_ok pl \<Longrightarrow> is_fingerprint sha"
  by (auto simp: taskFileSha256_def read_task_file_def result_simps dest: platform_okD(5))

lemma forward_task_file_segments [intro, simp]: "forward (task_file_segments pl w c segs)"
  by (induction segs arbitrary: c) (auto simp: Let_def intro!: forward_rules)

lemma forward_taskFileSha256 [intro, simp]: "forward (taskFileSha256 pl w dir p remaining)"
  unfolding taskFileSha256_def read_task_file_def by (intro forward_rules) simp_all

text \<open>A loop that collects one item for each reference\<close>

lemma foldO_collect:
  assumes "foldO (\<lambda>items ref. bindO (f items ref) (\<lambda>item. okO (items @ [item]))) refs acc n = Inr (items, n')"
    and "\<And>items ref k item k'. ref \<in> set refs \<Longrightarrow> f items ref k = Inr (item, k') \<Longrightarrow> P ref item"
  shows "\<exists>new. items = acc @ new \<and> list_all2 P refs new"
  using assms
proof (induction refs arbitrary: acc n)
  case (Cons r refs)
  then obtain item k where item: "f acc r n = Inr (item, k)"
    and rest: "foldO (\<lambda>items ref. bindO (f items ref) (\<lambda>item. okO (items @ [item]))) refs (acc @ [item]) k = Inr (items, n')"
    by (auto simp: result_simps)
  have "P r item" using Cons.prems(2) [OF _ item] by simp
  moreover obtain new where "items = (acc @ [item]) @ new" "list_all2 P refs new"
    using Cons.IH [OF rest] Cons.prems(2) by (meson list.set_intros(2))
  ultimately show ?case by (intro exI [of _ "item # new"]) simp
qed simp

lemma frozen_entries_sub: "frozen_entries norm acc es = Inr acc' \<Longrightarrow> snd ` set acc' \<subseteq> snd ` set acc \<union> set es"
proof (induction es arbitrary: acc)
  case (Cons e es)
  show ?case
  proof (cases "isRunCandidateObservationEntry (ent_ref e)")
    case True
    with Cons.prems have "frozen_entries norm acc es = Inr acc'" by simp
    from Cons.IH [OF this] show ?thesis by auto
  next
    case False
    with Cons.prems obtain ref where "frozen_entries norm ((ref, e) # acc) es = Inr acc'"
      by (auto simp: result_simps)
    from Cons.IH [OF this] show ?thesis by auto
  qed
qed simp

lemma frozen_entry_fingerprint:
  assumes "frozen_entries norm [] es = Inr entries" and "map_of entries ref = Some e" and "list_all wf_entry es"
  shows "is_fingerprint (ent_fingerprint e)"
proof -
  have "e \<in> snd ` set entries" using map_of_SomeD [OF assms(2)] by force
  then have "e \<in> set es" using frozen_entries_sub [OF assms(1)] by auto
  with assms(3) show ?thesis by (simp add: list_all_iff wf_entry_def)
qed

text \<open>
  Freezing binds one item to every reference of the result: a file of the candidate at the digest the
  snapshot froze, or a file of the Task directory.
\<close>

lemma freeze_result:
  assumes "freezeTaskRunEvidenceV1 pl w root dir run n = Inr (v, n')" and ok: "platform_ok pl"
    and "run_candidateSnapshot run = Some c" and "wf_candidate pl c" and "run_result run = Some r"
  shows "rver_runId v = run_id run" and "rver_candidateSnapshotId v = cand_id c"
    and "rver_candidateFingerprint v = cand_fingerprint c"
    and "map rei_ref (rver_items v) = map forward_slashes (res_evidenceRefs r)"
    and "\<not> blank (run_id run) \<Longrightarrow> list_all (\<lambda>i. rei_sizeBytes i \<le> 8 * 1024 * 1024) (rver_items v) \<Longrightarrow>
      wf_run_evidence_verification v"
    and "list_all (\<lambda>i. \<not> blank (rei_ref i)) (rver_items v)"
proof -
  obtain refs b entries items k k' k2 where refs: "uniqueEvidenceRefs (res_evidenceRefs r) = Inr refs"
    and entries: "frozen_entries normalizeEvidencePath [] (cand_entries c) = Inr entries"
    and items: "freeze_items pl w run dir entries (observation_files b) refs k = Inr (items, k')"
    and total: "sum_list (map rei_sizeBytes items) \<le> MAX_TOTAL_EVIDENCE_BYTES"
    and v: "v = \<lparr>rver_observedAt = isoNow pl k2, rver_runId = run_id run, rver_candidateSnapshotId = cand_id c,
              rver_candidateFingerprint = cand_fingerprint c, rver_items = items\<rparr>"
    using assms(1,3,5)
    by (auto simp: freezeTaskRunEvidenceV1_def assert_task_dir_def result_simps not_less)
  have wf: "list_all wf_entry (cand_entries c)" "is_fingerprint (cand_fingerprint c)" "\<not> blank (cand_id c)"
    using assms(4) platform_okD(7) [OF ok] by (simp_all add: wf_candidate_def wf_entries_def)
  let ?P = "\<lambda>ref i. rei_ref i = ref \<and> is_fingerprint (rei_sha256 i)"
  have "list_all2 ?P refs items"
  proof -
    have "?P ref item" if "freeze_item pl w run dir entries (observation_files b) ref tot k = Inr (item, k')"
      for ref tot k item k'
      using that frozen_entry_fingerprint [OF entries _ wf(1)] taskFileSha256_sha [OF _ ok]
      by (fastforce simp: freeze_item_def result_simps split: if_splits)
    then show ?thesis
      using foldO_collect [OF items [unfolded freeze_items_def], of ?P] by auto
  qed
  then have r: "map rei_ref items = refs" and f: "list_all (\<lambda>i. is_fingerprint (rei_sha256 i)) items"
    by (induction rule: list_all2_induct) auto
  note u = uniqueEvidenceRefs_result [OF refs]
  show "rver_runId v = run_id run" "rver_candidateSnapshotId v = cand_id c"
    "rver_candidateFingerprint v = cand_fingerprint c"
    "map rei_ref (rver_items v) = map forward_slashes (res_evidenceRefs r)"
    using r u(1) by (simp_all add: v)
  have "list_all (\<lambda>ref. \<not> blank ref) (map rei_ref items)" using u(4) r by (auto simp: list_all_iff)
  then show nb: "list_all (\<lambda>i. \<not> blank (rei_ref i)) (rver_items v)" by (simp add: v list.pred_map comp_def)
  have len: "length items = length refs" unfolding r [symmetric] by simp
  show "wf_run_evidence_verification v"
    if "\<not> blank (run_id run)" "list_all (\<lambda>i. rei_sizeBytes i \<le> 8 * 1024 * 1024) (rver_items v)"
    using that nb wf f total u(2,3) r len platform_okD(3) [OF ok, of k2]
    by (simp add: v wf_run_evidence_verification_def wf_run_evidence_item_def list_all_iff
        MAX_TOTAL_EVIDENCE_BYTES_def MAX_EVIDENCE_REFS_def)
qed

lemma forward_freeze [intro, simp]: "forward (freezeTaskRunEvidenceV1 pl w root dir run)"
  unfolding freezeTaskRunEvidenceV1_def observe_run_def assert_task_dir_def freeze_items_def freeze_item_def
  by (intro forward_rules) simp_all

lemma forward_findRunObservation [intro, simp]: "forward (findRunObservation pl w root run sid fp)"
  unfolding findRunObservation_def observe_run_def by (intro forward_rules) simp_all

lemma forward_currentCandidateFile [intro, simp]: "forward (currentCandidateFile pl w b root p)"
  unfolding currentCandidateFile_def by (cases b) (auto intro!: forward_rules)

lemma forward_resolve_item [intro, simp]: "forward (resolve_item pl w ctx ref tot)"
  unfolding resolve_item_def observed_candidate_file_def Let_def by (intro forward_rules) simp_all

lemma forward_resolve [intro, simp]: "forward (resolveTaskReviewEvidenceV1 pl w root dir run sid fp ar at refs)"
  unfolding resolveTaskReviewEvidenceV1_def observeEvidenceItems_def assert_task_dir_def resolve_items_def Let_def
  by (intro forward_rules) simp_all

lemma forward_verify [intro, simp]: "forward (verifyTaskReviewEvidenceV1 pl w root dir run sid fp ar at refs e)"
  unfolding verifyTaskReviewEvidenceV1_def by (intro forward_rules) simp_all

lemma run_receipt_iff:
  "run_receipt run = Some v \<longleftrightarrow> (\<exists>r. run_result run = Some r \<and> res_evidenceVerification r = Some v)"
  by (auto simp: run_receipt_def split: option.splits)

text \<open>Where the digest of a resolved item comes from\<close>

lemma resolve_item_ref: "resolve_item pl w ctx ref tot k = Inr (item, k') \<Longrightarrow> vei_ref item = ref"
  by (cases "map_of (ctx_entries ctx) ref")
     (auto simp: resolve_item_def review_item_def result_simps Let_def split: if_split_asm)

lemma receipt_named:
  assumes "\<not> receipt_other (List.find (\<lambda>i. rei_ref i = ref) (rev is)) source sha bytes"
  shows "\<exists>i. i \<in> set is \<and> sha = rei_sha256 i"
  using assms by (auto simp: receipt_other_def dest!: find_Some_in_set split: option.splits)

lemma taskFileSha256_content:
  "taskFileSha256 pl w dir p remaining n = Inr ((sha, bytes), n') \<Longrightarrow>
   \<exists>content. sha = sha256hex pl content \<and> bytes = length content"
  by (auto simp: taskFileSha256_def read_task_file_def result_simps)

lemma resolve_item_sha:
  assumes "resolve_item pl w ctx ref tot k = Inr (item, k')"
  shows "(\<exists>e. map_of (ctx_entries ctx) ref = Some e \<and> vei_sha256 item = ent_fingerprint e) \<or>
    (\<exists>i. i \<in> set (ctx_runItems ctx) \<and> vei_sha256 item = rei_sha256 i) \<or>
    (\<exists>content. vei_sha256 item = sha256hex pl content)"
proof (cases "map_of (ctx_entries ctx) ref")
  case (Some e)
  then show ?thesis using assms by (auto simp: resolve_item_def review_item_def result_simps Let_def)
next
  case None
  have "(\<exists>bytes. \<not> receipt_other (List.find (\<lambda>i. rei_ref i = ref) (rev (ctx_runItems ctx))) RunEvCandidate
        (vei_sha256 item) bytes) \<or>
      (\<exists>bytes r k1 k2. taskFileSha256 pl w (ctx_taskDir ctx) ref r k1 = Inr ((vei_sha256 item, bytes), k2))"
    using assms None
    by (auto simp: resolve_item_def review_item_def result_simps Let_def split: if_split_asm)
  then show ?thesis
    using receipt_named [of ref "ctx_runItems ctx"] taskFileSha256_content by blast
qed

text \<open>Resolving does the same for a Review, within the byte limit.\<close>

lemma resolve_result:
  assumes "resolveTaskReviewEvidenceV1 pl w root dir run sid fp ar at refs n = Inr (v, n')" and ok: "platform_ok pl"
    and wf: "wf_run pl run"
  obtains c k where "run_candidateSnapshot run = Some c" "sid = cand_id c" "fp = cand_fingerprint c"
    "run_state run = RunCompleted"
    "vver_observedAt v = isoNow pl k" "vver_runId v = run_id run" "vver_candidateSnapshotId v = sid"
    "vver_candidateFingerprint v = fp" "map vei_ref (vver_items v) = map forward_slashes refs"
    "distinct (map vei_ref (vver_items v))" "list_all wf_review_evidence_item (vver_items v)"
    "sum_list (map vei_sizeBytes (vver_items v)) \<le> MAX_TOTAL_EVIDENCE_BYTES"
    "length (vver_items v) \<le> MAX_EVIDENCE_REFS"
proof -
  obtain ps c b d entries items k ctx k1 k' k2 j where ps: "uniqueEvidenceRefs refs = Inr ps"
    and c: "run_candidateSnapshot run = Some c" "findRunObservation pl w root run sid fp k1 = Inr (b, k2)"
    and entries: "frozen_entries normalizeEvidencePath [] (skip_unsafe (cand_entries c)) = Inr entries"
    and ctx: "ctx = evidence_context_of root d run b entries ar at"
    and items: "resolve_items pl w ctx ps k = Inr (items, k')"
    and total: "sum_list (map vei_sizeBytes items) \<le> MAX_TOTAL_EVIDENCE_BYTES"
    and v: "v = \<lparr>vver_observedAt = isoNow pl j, vver_runId = run_id run, vver_candidateSnapshotId = sid,
          vver_candidateFingerprint = fp, vver_items = items\<rparr>"
    using assms(1)
    unfolding resolveTaskReviewEvidenceV1_def observeEvidenceItems_def assert_task_dir_def
    by (clarsimp simp: result_simps not_less)
  have found: "run_state run = RunCompleted" "cand_id c = sid" "cand_fingerprint c = fp"
    using c by (auto simp: findRunObservation_def result_simps)
  have wfe: "list_all wf_entry (skip_unsafe (cand_entries c))"
    using wf c(1) by (auto simp: wf_run_def wf_run_fields_def wf_candidate_def wf_entries_def skip_unsafe_def
        list_all_iff split: sum.splits)
  have receipt: "is_fingerprint (rei_sha256 i)" if i: "i \<in> set (ctx_runItems ctx)" for i
  proof -
    obtain r ver where r: "run_result run = Some r" "res_evidenceVerification r = Some ver" "i \<in> set (rver_items ver)"
      using i by (cases "run_receipt run") (auto simp: ctx evidence_context_of_def run_receipt_iff)
    have "wf_run_result r" using wf r(1) by (simp add: wf_run_def wf_run_fields_def)
    then show ?thesis
      using r(2,3) by (simp add: wf_run_result_def wf_run_evidence_verification_def wf_run_evidence_item_def list_all_iff)
  qed
  let ?P = "\<lambda>ref i. vei_ref i = ref \<and> is_fingerprint (vei_sha256 i)"
  have "list_all2 ?P ps items"
  proof -
    have "?P ref item" if r: "resolve_item pl w ctx ref tot k = Inr (item, k')" for ref tot k item k'
    proof -
      have "is_fingerprint (vei_sha256 item)"
        using resolve_item_sha [OF r]
      proof (elim disjE exE conjE)
        fix e assume "map_of (ctx_entries ctx) ref = Some e" "vei_sha256 item = ent_fingerprint e"
        then show ?thesis
          using frozen_entry_fingerprint [OF entries _ wfe] by (simp add: ctx evidence_context_of_def)
      next
        fix i assume "i \<in> set (ctx_runItems ctx)" "vei_sha256 item = rei_sha256 i"
        then show ?thesis using receipt by simp
      next
        fix content assume "vei_sha256 item = sha256hex pl content"
        then show ?thesis using platform_okD(5) [OF ok] by simp
      qed
      with resolve_item_ref [OF r] show ?thesis by simp
    qed
    then show ?thesis
      using foldO_collect [OF items [unfolded resolve_items_def], of ?P] by auto
  qed
  then have r: "map vei_ref items = ps" and f: "list_all (\<lambda>i. is_fingerprint (vei_sha256 i)) items"
    by (induction rule: list_all2_induct) auto
  note u = uniqueEvidenceRefs_result [OF ps]
  have "list_all (\<lambda>p. plain_path p \<and> \<not> blank p) (map vei_ref items)" using u(4) r by simp
  then have "list_all wf_review_evidence_item items"
    using f by (simp add: wf_review_evidence_item_def list_all_iff)
  moreover have "length items \<le> MAX_EVIDENCE_REFS" using u(3) r by (metis length_map)
  ultimately show ?thesis
    using c(1) found r u(1,2) total by (intro that [of c j]) (simp_all add: v)
qed

text \<open>The items name the references as a Review writes them exactly when it writes no backslash.\<close>

lemma forward_slashes_eq_iff: "forward_slashes s = s \<longleftrightarrow> CHR 0x5C \<notin> set s"
  using set_forward_slashes [of s] forward_slashes_id by auto

end
