(* ===== verification/Dependencies.thy ===== *)
theory Dependencies
  imports Kernel_Operation
begin

text \<open>
  Hard dependencies between Tasks: \<open>findTaskById\<close> and the assertions of
  \<open>core/task/task-kernel-paths.ts\<close>, \<open>createTaskKernel\<close> of \<open>task-kernel-store-v2.ts\<close>, and
  \<open>addTaskDependency\<close> of \<open>task-kernel-dependencies.ts\<close>.

  The cycle check is a depth-first search.  Its recursion is bounded by a counter that starts above
  the number of task directories; \<open>visit_fuel\<close> shows that it never runs out.
\<close>

section \<open>Locating a Task\<close>

definition location_of :: "string \<Rightarrow> task_kernel \<Rightarrow> located_task" where
  "location_of dir k =
     \<lparr>loc_dir = dir, loc_taskId = ker_taskId k, loc_phase = ker_phase k, loc_outcome = ker_outcome k,
      loc_dependencies = def_dependencies (ker_definition k)\<rparr>"

definition placeholder :: "string \<Rightarrow> import_record \<Rightarrow> located_task" where
  "placeholder dir r =
     \<lparr>loc_dir = dir, loc_taskId = imp_legacyTaskId r, loc_phase = PhDefine, loc_outcome = None,
      loc_dependencies = imp_hardDependencies r\<rparr>"

text \<open>The \<open>flatMap\<close> callback of \<open>findTaskById\<close>\<close>

definition located_in :: "platform \<Rightarrow> string option \<Rightarrow> string \<Rightarrow> task_dir \<Rightarrow> located_task list" where
  "located_in pl ignored taskId t =
     (if ignored = Some (td_dir t) then []
      else if td_superseded t then []
      else (case td_import t of
        Some r \<Rightarrow>
          if imp_status r \<noteq> Imported then
            (if imp_legacyTaskId r \<noteq> taskId then [] else [placeholder (td_dir t) r])
          else (case bindE (imp_document r) (parseTaskKernelSnapshotV2 pl) of
              Inr k \<Rightarrow> if ker_taskId k = taskId then [location_of (td_dir t) k] else []
            | Inl _ \<Rightarrow> if imp_legacyTaskId r = taskId then [placeholder (td_dir t) r] else [])
      | None \<Rightarrow> (case readKernelStateDocument t of
          Inl _ \<Rightarrow> []
        | Inr v \<Rightarrow>
            if is_v2_document v then
              (case parseTaskKernelSnapshotV2 pl v of
                 Inr k \<Rightarrow> if ker_taskId k = taskId then [location_of (td_dir t) k] else []
               | Inl _ \<Rightarrow> [])
            else (case td_legacy t of
                Some l \<Rightarrow> if loc_taskId l \<noteq> taskId then [] else [l\<lparr>loc_dir := td_dir t\<rparr>]
              | None \<Rightarrow> []))))"

definition findTaskById :: "platform \<Rightarrow> project \<Rightarrow> string option \<Rightarrow> string \<Rightarrow> located_task option outcome" where
  "findTaskById pl p ignored taskId =
     (let matches = concat (map (located_in pl ignored taskId) p) in
      throwIf (1 < length matches) invalid_request
        (Inr (case matches of [] \<Rightarrow> None | m # _ \<Rightarrow> Some m)))"

definition assertUniqueTaskId :: "platform \<Rightarrow> project \<Rightarrow> string \<Rightarrow> string \<Rightarrow> unit outcome" where
  "assertUniqueTaskId pl p taskId ignored =
     bindE (findTaskById pl p (Some ignored) taskId) (\<lambda>found.
     throwIf (case found of None \<Rightarrow> False | Some l \<Rightarrow> loc_dir l \<noteq> ignored) invalid_request (Inr ()))"

definition assertDependenciesResolvable ::
    "platform \<Rightarrow> project \<Rightarrow> string \<Rightarrow> string list \<Rightarrow> string option \<Rightarrow> unit outcome" where
  "assertDependenciesResolvable pl p taskId dependencies ignored =
     eachE (\<lambda>dependency.
       throwIf (dependency = taskId) invalid_request
       (bindE (findTaskById pl p ignored dependency) (\<lambda>found.
        throwIf (found = None) (KernelError DEPENDENCY_UNSATISFIED) (Inr ())))) dependencies"

definition satisfied :: "located_task option \<Rightarrow> bool" where
  "satisfied found \<longleftrightarrow>
     (case found of None \<Rightarrow> False
      | Some l \<Rightarrow> loc_phase l = PhClose \<and> loc_outcome l = Some OutCompleted)"

definition assertHardDependenciesSatisfied ::
    "platform \<Rightarrow> project \<Rightarrow> string list \<Rightarrow> string option \<Rightarrow> unit outcome" where
  "assertHardDependenciesSatisfied pl p dependencies ignored =
     bindE (mapE (findTaskById pl p ignored) dependencies) (\<lambda>found.
     throwIf (list_ex (\<lambda>l. \<not> satisfied l) found) (KernelError DEPENDENCY_UNSATISFIED) (Inr ()))"

section \<open>The cycle check\<close>

text \<open>The sets and the map of \<open>assertNoDependencyCycleUsingView\<close>\<close>

record dfs =
  visiting :: "string list"
  visited :: "string list"
  graph :: "(string \<times> string option \<times> string list) list"

definition graph_node :: "located_task option \<Rightarrow> string option \<times> string list" where
  "graph_node found =
     (case found of None \<Rightarrow> (None, [])
      | Some l \<Rightarrow> (Some (loc_dir l), List.sort (unique (loc_dependencies l))))"

definition enter :: "string \<Rightarrow> located_task option \<Rightarrow> dfs \<Rightarrow> dfs" where
  "enter cur found s =
     s\<lparr>visiting := cur # visiting s, graph := assoc_set cur (graph_node found) (graph s)\<rparr>"

definition leave :: "string \<Rightarrow> dfs \<Rightarrow> dfs" where
  "leave cur s = s\<lparr>visiting := removeAll cur (visiting s), visited := cur # visited s\<rparr>"

definition successors :: "string \<Rightarrow> located_task option \<Rightarrow> string list" where
  "successors ignored found =
     (case found of None \<Rightarrow> [] | Some l \<Rightarrow> if loc_dir l \<noteq> ignored then loc_dependencies l else [])"

definition call_stack_exceeded :: failure where
  "call_stack_exceeded = ExternalError ''RangeError''"

fun visit ::
    "nat \<Rightarrow> (string \<Rightarrow> located_task option outcome) \<Rightarrow> string \<Rightarrow> string \<Rightarrow> dfs \<Rightarrow> string \<Rightarrow> dfs outcome" where
  "visit 0 locate taskId ignored s cur =
     throwIf (cur = taskId) invalid_request
     (if cur \<in> set (visited s) \<or> cur \<in> set (visiting s) then Inr s else Inl call_stack_exceeded)"
| "visit (Suc depth) locate taskId ignored s cur =
     throwIf (cur = taskId) invalid_request
     (if cur \<in> set (visited s) \<or> cur \<in> set (visiting s) then Inr s
      else bindE (locate cur) (\<lambda>found.
           bindE (foldE (visit depth locate taskId ignored) (successors ignored found) (enter cur found s)) (\<lambda>s'.
           Inr (leave cur s'))))"

definition no_visit :: dfs where
  "no_visit = \<lparr>visiting = [], visited = [], graph = []\<rparr>"

definition node_json :: "string \<times> string option \<times> string list \<Rightarrow> jsval" where
  "node_json = (\<lambda>(id, dir, dependencies).
     JObj [(''id'', JStr id), (''taskDir'', nullable JStr dir), (''dependencies'', strs_val dependencies)])"

definition assertNoDependencyCycle ::
    "platform \<Rightarrow> project \<Rightarrow> string \<Rightarrow> string list \<Rightarrow> string \<Rightarrow> string outcome" where
  "assertNoDependencyCycle pl p taskId dependencies ignored =
     bindE (foldE (visit (length p + 1) (findTaskById pl p (Some ignored)) taskId ignored)
         dependencies no_visit) (\<lambda>s.
     Inr (jsonText (JArr (map node_json
       (Sorting_Algorithms.sort (Comparator.key fst (localeCmp pl)) (graph s))))))"

section \<open>Operations\<close>

definition createTaskKernel ::
    "platform \<Rightarrow> project \<Rightarrow> string \<Rightarrow> jsobj \<Rightarrow> nat \<Rightarrow> (mutation_result \<times> project \<times> nat) outcome" where
  "createTaskKernel pl p dir req n =
     bindE (requireNonEmptyString (getprop req ''actor'')) (\<lambda>actor.
     bindE (requireNonEmptyString (getprop req ''idempotencyKey'')) (\<lambda>idem.
     let t = dir_or_empty p dir in
     throwIf (td_archived t) invalid_request
     (bindE (parseDefinition (JObj (with_prop (with_prop (spread (getprop req ''definition''))
         ''createdAt'' (JStr (isoNow pl n))) ''createdBy'' (JStr actor)))) (\<lambda>task_def.
     let fingerprint = fingerprintTaskValue pl
           (JObj [(''definition'', getprop req ''definition''), (''actor'', JStr actor)]) in
     bindE (readKernelStateDocument t) (\<lambda>existing.
     if existing \<noteq> JNull then
       throwIf (\<not> is_v2_document existing) invalid_request
       (bindE (parseTaskKernelSnapshotV2 pl existing) (\<lambda>kernel.
        bindE (findIdempotent kernel idem fingerprint) (\<lambda>prior.
        case prior of
          None \<Rightarrow> Inl invalid_request
        | Some event \<Rightarrow>
            bindE (findAuditForKey kernel idem) (\<lambda>audit.
            Inr (\<lparr>mut_kernel = kernel, mut_idempotent = True, mut_audit = audit, mut_event = event\<rparr>,
                 p, n + 1)))))
     else
       throwIf (td_taskJson t) invalid_request
       (bindE (assertUniqueTaskId pl p (def_taskId task_def) dir) (\<lambda>_.
        bindE (assertDependenciesResolvable pl p (def_taskId task_def) (def_dependencies task_def) (Some dir)) (\<lambda>_.
        bindE (assertNoDependencyCycle pl p (def_taskId task_def) (def_dependencies task_def) dir) (\<lambda>_.
        let state = deriveStateForPhase PhDefine;
            (audit, n1) = makeAudit pl state 0 state 1 actor idem ''Task defined.'' (n + 1);
            (event, n2) = makeEvent pl 1 actor idem EvTaskCreated (def_taskId task_def) fingerprint n1;
            kernel = \<lparr>ker_taskId = def_taskId task_def, ker_revision = 1, ker_phase = st_phase state,
              ker_condition = st_condition state, ker_outcome = st_outcome state,
              ker_definition = task_def, ker_runs = [], ker_reviews = [], ker_closure = None,
              ker_audit = [audit], ker_events = [event]\<rparr>
        in Inr (\<lparr>mut_kernel = kernel, mut_idempotent = False, mut_audit = audit, mut_event = event\<rparr>,
                put_dir p (t\<lparr>td_document := Document (snapshot_json kernel)\<rparr>), n2))))))))))"

definition addTaskDependency_step ::
    "platform \<Rightarrow> project \<Rightarrow> string \<Rightarrow> string \<Rightarrow> string \<Rightarrow> string \<Rightarrow> string \<Rightarrow> operation" where
  "addTaskDependency_step pl p dir actor dependencyId fingerprint idem current n =
     throwIf (ker_phase current \<noteq> PhDefine) (KernelError INVALID_TRANSITION)
     (throwIf (dependencyId = ker_taskId current) invalid_request
     (throwIf (dependencyId \<in> set (def_dependencies (ker_definition current))) invalid_request
     (bindE (assertDependenciesResolvable pl p (ker_taskId current) [dependencyId] (Some dir)) (\<lambda>_.
      let dependencies = def_dependencies (ker_definition current) @ [dependencyId] in
      bindE (assertNoDependencyCycle pl p (ker_taskId current) dependencies dir) (\<lambda>_.
      Inr (appendMutation pl current actor idem EvDependencyAdded dependencyId fingerprint
        (no_patch\<lparr>pat_definition := Some ((ker_definition current)\<lparr>def_dependencies := dependencies\<rparr>)\<rparr>)
        ''Hard dependency added.'' n))))))"

definition addTaskDependency ::
    "platform \<Rightarrow> project \<Rightarrow> string \<Rightarrow> jsobj \<Rightarrow> nat \<Rightarrow> (mutation_result \<times> project \<times> nat) outcome" where
  "addTaskDependency pl p dir req n =
     bindE (requireNonEmptyString (getprop req ''actor'')) (\<lambda>actor.
     bindE (requireTaskId (getprop req ''dependencyId'')) (\<lambda>dependencyId.
     let fingerprint = fingerprintTaskValue pl (JObj [(''dependencyId'', JStr dependencyId)]) in
     mutateTaskKernel pl p dir (getprop req ''expectedRevision'') (JStr actor)
       (getprop req ''idempotencyKey'') fingerprint
       (addTaskDependency_step pl p dir actor dependencyId fingerprint) n))"

section \<open>What is located\<close>

text \<open>A directory stands for one Task, and a search that skips a directory finds none in it.\<close>

lemma located_in_unique:
  "located_in pl ignored a t \<noteq> [] \<Longrightarrow> located_in pl ignored b t \<noteq> [] \<Longrightarrow> a = b"
  by (auto simp: located_in_def split: if_splits option.splits sum.splits)

lemma located_in_dir:
  "l \<in> set (located_in pl ignored a t) \<Longrightarrow> loc_dir l = td_dir t \<and> loc_taskId l = a \<and> ignored \<noteq> Some (td_dir t)"
  by (auto simp: located_in_def location_of_def placeholder_def split: if_splits option.splits sum.splits)

lemma findTaskById_Some:
  assumes "findTaskById pl p ignored a = Inr (Some l)"
  shows "\<exists>t \<in> set p. l \<in> set (located_in pl ignored a t)"
proof -
  let ?ms = "concat (map (located_in pl ignored a) p)"
  have "?ms = [] \<and> False \<or> (\<exists>ms. ?ms = l # ms)"
    using assms by (auto simp: findTaskById_def result_simps Let_def split: list.splits)
  then have "l \<in> set ?ms" by (metis list.set_intros(1))
  then show ?thesis by auto
qed

lemma findTaskById_dir:
  "findTaskById pl p ignored a = Inr (Some l) \<Longrightarrow> ignored \<noteq> Some (loc_dir l) \<and> loc_taskId l = a"
  using findTaskById_Some located_in_dir by metis

lemma findTaskById_error: "findTaskById pl p ignored a = Inl e \<Longrightarrow> e = invalid_request"
  by (auto simp: findTaskById_def throwIf_def Let_def split: if_splits)

definition locatable :: "platform \<Rightarrow> project \<Rightarrow> string option \<Rightarrow> string set" where
  "locatable pl p ignored = {a. \<exists>l. findTaskById pl p ignored a = Inr (Some l)}"

lemma locatable_finite:
  shows "finite (locatable pl p ignored)" and "card (locatable pl p ignored) \<le> length p"
proof -
  define g where "g t = (SOME a. located_in pl ignored a t \<noteq> [])" for t
  have "a \<in> g ` set p" if a: "a \<in> locatable pl p ignored" for a
  proof -
    obtain t where t: "t \<in> set p" "located_in pl ignored a t \<noteq> []"
      using a findTaskById_Some by (force simp: locatable_def)
    then have "located_in pl ignored (g t) t \<noteq> []" unfolding g_def by (metis (mono_tags) someI)
    then have "g t = a" using t(2) located_in_unique by blast
    with t(1) show ?thesis by blast
  qed
  then have sub: "locatable pl p ignored \<subseteq> g ` set p" by blast
  then show "finite (locatable pl p ignored)" by (rule finite_subset) simp
  have "card (locatable pl p ignored) \<le> card (g ` set p)" using sub by (intro card_mono) simp_all
  also have "\<dots> \<le> length p" by (metis card_image_le card_length le_trans list.set_map length_map)
  finally show "card (locatable pl p ignored) \<le> length p" .
qed

section \<open>The search is right\<close>

text \<open>One Task depends on another, read from the directories other than \<open>ignored\<close>.\<close>

definition depends_on :: "platform \<Rightarrow> project \<Rightarrow> string option \<Rightarrow> string \<Rightarrow> string \<Rightarrow> bool" where
  "depends_on pl p ignored a b \<longleftrightarrow>
     (\<exists>l. findTaskById pl p ignored a = Inr (Some l) \<and> b \<in> set (loc_dependencies l))"

definition edge :: "(string \<Rightarrow> located_task option outcome) \<Rightarrow> string \<Rightarrow> string \<Rightarrow> string \<Rightarrow> bool" where
  "edge locate ignored a b \<longleftrightarrow> (\<exists>found. locate a = Inr found \<and> b \<in> set (successors ignored found))"

definition dfs_ok :: "(string \<Rightarrow> located_task option outcome) \<Rightarrow> string \<Rightarrow> string \<Rightarrow> dfs \<Rightarrow> bool" where
  "dfs_ok locate taskId ignored s \<longleftrightarrow>
     (\<forall>x \<in> set (visited s). x \<noteq> taskId \<and> (\<exists>found. locate x = Inr found) \<and>
       (\<forall>y. edge locate ignored x y \<longrightarrow> y \<in> set (visited s) \<union> set (visiting s)))"

definition grows :: "dfs \<Rightarrow> dfs \<Rightarrow> bool" where
  "grows s s' \<longleftrightarrow> set (visiting s') = set (visiting s) \<and> set (visited s) \<subseteq> set (visited s')"

lemma foldE_grows:
  assumes "\<And>s x s'. x \<in> set xs \<Longrightarrow> P s \<Longrightarrow> f s x = Inr s' \<Longrightarrow>
      P s' \<and> grows s s' \<and> x \<in> set (visited s') \<union> set (visiting s')"
    and "foldE f xs s = Inr s'" and "P s"
  shows "P s' \<and> grows s s' \<and> set xs \<subseteq> set (visited s') \<union> set (visiting s')"
  using assms
proof (induction xs arbitrary: s)
  case (Cons x xs)
  obtain s1 where s1: "f s x = Inr s1" "foldE f xs s1 = Inr s'"
    using Cons.prems(2) by (auto simp: result_simps)
  have "P s1 \<and> grows s s1 \<and> x \<in> set (visited s1) \<union> set (visiting s1)"
    using Cons.prems(1) [OF list.set_intros(1) Cons.prems(3) s1(1)] .
  moreover from this have "P s' \<and> grows s1 s' \<and> set xs \<subseteq> set (visited s') \<union> set (visiting s')"
    using Cons.prems(1) s1(2) by (intro Cons.IH) auto
  ultimately show ?case by (auto simp: grows_def)
qed (simp add: grows_def)

lemma visit_ok:
  "visit depth locate taskId ignored s cur = Inr s' \<Longrightarrow> dfs_ok locate taskId ignored s \<Longrightarrow>
   dfs_ok locate taskId ignored s' \<and> grows s s' \<and> cur \<in> set (visited s') \<union> set (visiting s')"
proof (induction depth arbitrary: s cur s')
  case 0
  then show ?case by (auto simp: result_simps grows_def split: if_splits)
next
  case (Suc depth)
  show ?case
  proof (cases "cur \<in> set (visited s) \<or> cur \<in> set (visiting s)")
    case True
    with Suc.prems show ?thesis by (auto simp: result_simps grows_def)
  next
    case False
    then obtain found s1 where cur: "cur \<noteq> taskId" and found: "locate cur = Inr found"
      and s1: "foldE (visit depth locate taskId ignored) (successors ignored found) (enter cur found s) = Inr s1"
      and s': "s' = leave cur s1"
      using Suc.prems(1) by (auto simp: result_simps)
    have "dfs_ok locate taskId ignored (enter cur found s)"
      using Suc.prems(2) by (auto simp: dfs_ok_def enter_def)
    then have "dfs_ok locate taskId ignored s1 \<and> grows (enter cur found s) s1 \<and>
        set (successors ignored found) \<subseteq> set (visited s1) \<union> set (visiting s1)"
      using Suc.IH s1 by (intro foldE_grows [where P = "dfs_ok locate taskId ignored"]) auto
    then show ?thesis
      using cur found False unfolding s' by (auto simp: dfs_ok_def grows_def enter_def leave_def edge_def)
  qed
qed

lemma visit_visiting:
  "visit depth locate taskId ignored s cur = Inr s' \<Longrightarrow> grows s s'"
proof (induction depth arbitrary: s cur s')
  case 0
  then show ?case by (auto simp: result_simps grows_def split: if_splits)
next
  case (Suc depth)
  have fold: "foldE (visit depth locate taskId ignored) xs s = Inr s' \<Longrightarrow> grows s s'" for xs s s'
    using Suc.IH by (induction xs arbitrary: s) (force simp: grows_def result_simps)+
  from Suc.prems show ?case
    by (auto simp: result_simps grows_def leave_def enter_def split: if_splits dest!: fold)
qed

lemma foldE_not_Inl:
  assumes "\<And>s x. Q s \<Longrightarrow> f s x \<noteq> Inl e" and "\<And>s x s'. Q s \<Longrightarrow> f s x = Inr s' \<Longrightarrow> Q s'" and "Q s"
  shows "foldE f xs s \<noteq> Inl e"
  using assms(3)
proof (induction xs arbitrary: s)
  case (Cons x xs)
  then show ?case using assms(1,2) by (cases "f s x") auto
qed simp

lemma foldE_Inl: "foldE f xs s = Inl e \<Longrightarrow> \<exists>x \<in> set xs. \<exists>s. f s x = Inl e"
  by (induction xs arbitrary: s) (auto simp: bindE_def split: sum.splits)

lemma visit_fuel:
  assumes "finite L" and "\<And>a l. locate a = Inr (Some l) \<Longrightarrow> a \<in> L"
    and "\<And>a. locate a \<noteq> Inl call_stack_exceeded"
  shows "set (visiting s) \<subseteq> L \<Longrightarrow> card L < depth + card (set (visiting s)) \<Longrightarrow>
    visit depth locate taskId ignored s cur \<noteq> Inl call_stack_exceeded"
proof (induction depth arbitrary: s cur)
  case 0
  then have "card (set (visiting s)) \<le> card L" using assms(1) by (intro card_mono) simp_all
  with 0 show ?case by simp
next
  case (Suc depth)
  have fold: "set (visiting s) \<subseteq> L \<Longrightarrow> card L < depth + card (set (visiting s)) \<Longrightarrow>
      foldE (visit depth locate taskId ignored) xs s \<noteq> Inl call_stack_exceeded" for xs s
    using Suc.IH visit_visiting
    by (intro foldE_not_Inl [where Q = "\<lambda>s. set (visiting s) \<subseteq> L \<and> card L < depth + card (set (visiting s))"])
       (auto simp: grows_def dest!: visit_visiting)
  have "foldE (visit depth locate taskId ignored) (successors ignored found) (enter cur found s)
      \<noteq> Inl call_stack_exceeded"
    if "locate cur = Inr found" "cur \<notin> set (visiting s)" for found
  proof (cases found)
    case (Some l)
    then have "cur \<in> L" using that assms(2) by blast
    then show ?thesis using Suc.prems that(2) by (intro fold) (simp_all add: enter_def)
  qed (simp add: successors_def)
  then show ?case
    using assms(3) [of cur]
    by (auto simp: throwIf_def bindE_def call_stack_exceeded_def split: sum.splits)
qed

lemma visit_error:
  "visit depth locate taskId ignored s cur = Inl e \<Longrightarrow> e \<noteq> call_stack_exceeded \<Longrightarrow>
   \<exists>y. (edge locate ignored)\<^sup>*\<^sup>* cur y \<and> (y = taskId \<or> (\<exists>e. locate y = Inl e))"
proof (induction depth arbitrary: s cur)
  case 0
  then show ?case by (auto simp: throwIf_def split: if_splits)
next
  case (Suc depth)
  show ?case
  proof (cases "cur = taskId \<or> (\<exists>e. locate cur = Inl e)")
    case False
    then obtain found where found: "locate cur = Inr found" by (cases "locate cur") auto
    with False Suc.prems(1) have
      "foldE (visit depth locate taskId ignored) (successors ignored found) (enter cur found s) = Inl e"
      by (auto simp: bindE_def split: if_splits sum.splits)
    from foldE_Inl [OF this] obtain x s1
      where x: "x \<in> set (successors ignored found)" "visit depth locate taskId ignored s1 x = Inl e"
      by blast
    then obtain y where y: "(edge locate ignored)\<^sup>*\<^sup>* x y" "y = taskId \<or> (\<exists>e. locate y = Inl e)"
      using Suc.IH [OF x(2) Suc.prems(2)] by blast
    have "edge locate ignored cur x" using found x(1) by (auto simp: edge_def)
    then have "(edge locate ignored)\<^sup>*\<^sup>* cur y" using y(1) by (rule converse_rtranclp_into_rtranclp)
    with y(2) show ?thesis by blast
  qed blast
qed

declare visit.simps [simp del]

text \<open>
  The check succeeds exactly when no dependency leads back to the Task, and every Task on the
  way is recorded at most once.
\<close>

lemma edge_depends_on: "edge (findTaskById pl p (Some ignored)) ignored = depends_on pl p (Some ignored)"
  by (auto simp: fun_eq_iff edge_def depends_on_def successors_def dest: findTaskById_dir split: option.splits)

lemma assertNoDependencyCycle_search:
  "(\<exists>g. assertNoDependencyCycle pl p taskId dependencies ignored = Inr g) \<longleftrightarrow>
   (\<exists>s. foldE (visit (length p + 1) (findTaskById pl p (Some ignored)) taskId ignored) dependencies no_visit = Inr s)"
  by (auto simp: assertNoDependencyCycle_def result_simps)

lemma search_complete:
  assumes "foldE (visit (length p + 1) (findTaskById pl p (Some ignored)) taskId ignored) dependencies no_visit = Inl e"
  shows "\<exists>d \<in> set dependencies. \<exists>y. (depends_on pl p (Some ignored))\<^sup>*\<^sup>* d y \<and>
    (y = taskId \<or> (\<exists>e. findTaskById pl p (Some ignored) y = Inl e))"
proof -
  let ?find = "findTaskById pl p (Some ignored)" and ?L = "locatable pl p (Some ignored)"
  have "?find a \<noteq> Inl call_stack_exceeded" for a
    using findTaskById_error [of pl p "Some ignored" a] by (auto simp: call_stack_exceeded_def)
  then have fuel: "visit (length p + 1) ?find taskId ignored s x \<noteq> Inl call_stack_exceeded"
    if "set (visiting s) = {}" for s x
    using that locatable_finite [of pl p "Some ignored"]
    by (intro visit_fuel [of ?L]) (auto simp: locatable_def)
  have "foldE (visit (length p + 1) ?find taskId ignored) dependencies no_visit \<noteq> Inl call_stack_exceeded"
  proof (rule foldE_not_Inl [where Q = "\<lambda>s. set (visiting s) = {}"])
    show "set (visiting s') = {}" if "set (visiting s) = {}"
      "visit (length p + 1) ?find taskId ignored s x = Inr s'" for s x s'
      using visit_visiting [OF that(2)] that(1) by (simp add: grows_def)
  qed (use fuel in \<open>simp_all add: no_visit_def\<close>)
  with assms have "e \<noteq> call_stack_exceeded" by auto
  moreover obtain d s where "d \<in> set dependencies" "visit (length p + 1) ?find taskId ignored s d = Inl e"
    using foldE_Inl [OF assms] by blast
  ultimately show ?thesis
    using visit_error [of "length p + 1" ?find taskId ignored s d e] by (auto simp: edge_depends_on)
qed

lemma search_sound:
  assumes "foldE (visit (length p + 1) (findTaskById pl p (Some ignored)) taskId ignored) dependencies no_visit = Inr s"
    and "d \<in> set dependencies" and "(depends_on pl p (Some ignored))\<^sup>*\<^sup>* d y"
  shows "y \<noteq> taskId \<and> (\<exists>found. findTaskById pl p (Some ignored) y = Inr found)"
proof -
  let ?find = "findTaskById pl p (Some ignored)"
  have "dfs_ok ?find taskId ignored s \<and> grows no_visit s \<and>
      set dependencies \<subseteq> set (visited s) \<union> set (visiting s)"
  proof (rule foldE_grows [where P = "dfs_ok ?find taskId ignored", OF _ assms(1)])
    show "dfs_ok ?find taskId ignored no_visit" by (simp add: dfs_ok_def no_visit_def)
  qed (rule visit_ok)
  then have ok: "dfs_ok ?find taskId ignored s" "set (visiting s) = {}" "set dependencies \<subseteq> set (visited s)"
    by (auto simp: grows_def no_visit_def)
  from assms(3) have "y \<in> set (visited s)"
  proof (induction rule: rtranclp_induct)
    case base
    show ?case using ok(3) assms(2) by blast
  next
    case (step y z)
    then show ?case using ok(1,2) by (auto simp: dfs_ok_def edge_depends_on)
  qed
  with ok(1) show ?thesis by (auto simp: dfs_ok_def)
qed

lemma assertNoDependencyCycle_ok:
  "(\<exists>g. assertNoDependencyCycle pl p taskId dependencies ignored = Inr g) \<longleftrightarrow>
   (\<forall>d \<in> set dependencies. \<forall>y. (depends_on pl p (Some ignored))\<^sup>*\<^sup>* d y \<longrightarrow>
      y \<noteq> taskId \<and> (\<exists>found. findTaskById pl p (Some ignored) y = Inr found))"
proof -
  let ?search = "foldE (visit (length p + 1) (findTaskById pl p (Some ignored)) taskId ignored)
    dependencies no_visit"
  show ?thesis
  proof (cases ?search)
    case (Inl e)
    from search_complete [OF this] obtain d y where "d \<in> set dependencies"
      "(depends_on pl p (Some ignored))\<^sup>*\<^sup>* d y"
      "\<not> (y \<noteq> taskId \<and> (\<exists>found. findTaskById pl p (Some ignored) y = Inr found))"
      by auto
    then show ?thesis unfolding assertNoDependencyCycle_search Inl by blast
  next
    case (Inr s)
    from search_sound [OF this] show ?thesis
      unfolding assertNoDependencyCycle_search Inr by blast
  qed
qed

section \<open>The dependency graph stays acyclic\<close>

text \<open>The graph of the whole project: edges from every recorded Task, none skipped.\<close>

definition dependency_graph :: "platform \<Rightarrow> project \<Rightarrow> (string \<times> string) set" where
  "dependency_graph pl p = {(a, b). depends_on pl p None a b}"

text \<open>\<open>reads_as pl t k\<close>: the directory is read as the kernel \<open>k\<close>.\<close>

definition reads_as :: "platform \<Rightarrow> task_dir \<Rightarrow> task_kernel \<Rightarrow> bool" where
  "reads_as pl t k \<longleftrightarrow> import_refusal t = None \<and>
     (\<exists>v. current_document t = Inr v \<and> parseTaskKernelSnapshotV2 pl v = Inr k)"

lemma parse_is_v2: "parseTaskKernelSnapshotV2 pl v = Inr k \<Longrightarrow> is_v2_document v"
  by (auto simp: parseTaskKernelSnapshotV2_def result_simps is_v2_document_def)

lemma located_in_reads_as:
  assumes "reads_as pl t k"
  shows "located_in pl ignored a t =
    (if ignored = Some (td_dir t) \<or> td_superseded t \<or> a \<noteq> ker_taskId k then [] else [location_of (td_dir t) k])"
  using assms parse_is_v2
  by (auto simp: reads_as_def located_in_def import_refusal_def current_document_def
      split: option.splits import_status.splits)

lemma put_dir_split:
  assumes "distinct (map td_dir p)"
  shows "\<exists>xs ys. put_dir p t = xs @ t # ys \<and> td_dir t \<notin> set (map td_dir (xs @ ys)) \<and>
    (find_dir p (td_dir t) = None \<and> p = xs @ ys \<or>
     (\<exists>u. find_dir p (td_dir t) = Some u \<and> p = xs @ u # ys))"
proof (cases "find_index (\<lambda>u. td_dir u = td_dir t) p")
  case None
  then have "find_dir p (td_dir t) = None" "td_dir t \<notin> td_dir ` set p"
    by (auto simp: find_dir_def find_None_iff find_index_None)
  with None show ?thesis by (intro exI [of _ p] exI [of _ "[]"]) (auto simp: put_dir_def)
next
  case (Some i)
  then have i: "i < length p" "td_dir (p ! i) = td_dir t" by (auto simp: find_index_Some)
  let ?xs = "take i p" and ?ys = "drop (Suc i) p"
  have p: "p = ?xs @ p ! i # ?ys" using i(1) by (rule id_take_nth_drop)
  then have "distinct (map td_dir (?xs @ p ! i # ?ys))" using assms by metis
  then have "td_dir t \<notin> set (map td_dir (?xs @ ?ys))" using i(2) by auto
  moreover have "find_dir p (td_dir t) = Some (p ! i)"
    unfolding find_dir_def using assms i by (intro find_unique_key) auto
  moreover have "put_dir p t = ?xs @ t # ?ys"
    using Some i(1) by (simp add: put_dir_def upd_conv_take_nth_drop)
  ultimately show ?thesis using p by blast
qed

lemma find_at_split:
  assumes "located_in pl ignored a t = [m]"
  shows "findTaskById pl (xs @ t # ys) ignored a = Inr (Some l) \<longleftrightarrow>
    concat (map (located_in pl ignored a) xs) = [] \<and> concat (map (located_in pl ignored a) ys) = [] \<and> l = m"
proof -
  have "throwIf (1 < length (as @ m # bs)) invalid_request
      (Inr (case as @ m # bs of [] \<Rightarrow> None | x # _ \<Rightarrow> Some x)) = Inr (Some l) \<longleftrightarrow> as = [] \<and> bs = [] \<and> l = m"
    for as bs by (cases as; cases bs) (auto simp: result_simps)
  then show ?thesis by (simp only: findTaskById_def Let_def map_append list.map concat_append concat.simps assms append.simps)
qed

text \<open>Rewriting the kernel of one Task changes what is located only for that Task.\<close>

lemma find_other_task:
  assumes "distinct (map td_dir p)" and "find_dir p (td_dir t) = Some u"
    and "reads_as pl u k" and "reads_as pl t k'" and "td_superseded t = td_superseded u"
    and "ker_taskId k' = ker_taskId k"
  shows "a \<noteq> ker_taskId k \<Longrightarrow> findTaskById pl (put_dir p t) None a = findTaskById pl p None a"
    and "a \<noteq> ker_taskId k \<Longrightarrow> findTaskById pl p (Some (td_dir t)) a = findTaskById pl p None a"
    and "findTaskById pl (put_dir p t) None (ker_taskId k) = Inr (Some l) \<Longrightarrow>
      findTaskById pl p None (ker_taskId k) = Inr (Some l) \<or>
      l = location_of (td_dir t) k' \<and>
      findTaskById pl p None (ker_taskId k) = Inr (Some (location_of (td_dir t) k))"
proof -
  obtain xs ys where q: "put_dir p t = xs @ t # ys" and p: "p = xs @ u # ys"
    and out: "td_dir t \<notin> set (map td_dir (xs @ ys))"
    using put_dir_split [OF assms(1), of t] assms(2) by auto
  have u: "td_dir u = td_dir t" using assms(2) by (rule find_dir_dir)
  have skip: "located_in pl (Some (td_dir t)) a w = located_in pl None a w" if "w \<in> set (xs @ ys)" for w a
    using that out by (auto simp: located_in_def)
  note at = located_in_reads_as [OF assms(3)] located_in_reads_as [OF assms(4)]
  show "findTaskById pl (put_dir p t) None a = findTaskById pl p None a" if "a \<noteq> ker_taskId k"
    unfolding q unfolding p using that assms(6) by (simp add: findTaskById_def at)
  show "findTaskById pl p (Some (td_dir t)) a = findTaskById pl p None a" if "a \<noteq> ker_taskId k"
  proof -
    have "map (located_in pl (Some (td_dir t)) a) xs = map (located_in pl None a) xs"
      "map (located_in pl (Some (td_dir t)) a) ys = map (located_in pl None a) ys"
      using skip by auto
    then show ?thesis unfolding p using that u by (simp add: findTaskById_def at cong: map_cong)
  qed
  show "findTaskById pl p None (ker_taskId k) = Inr (Some l) \<or> l = location_of (td_dir t) k' \<and>
      findTaskById pl p None (ker_taskId k) = Inr (Some (location_of (td_dir t) k))"
    if l: "findTaskById pl (put_dir p t) None (ker_taskId k) = Inr (Some l)"
  proof (cases "td_superseded t")
    case True
    with l assms(5,6) show ?thesis unfolding q unfolding p by (simp add: findTaskById_def at)
  next
    case False
    then have "located_in pl None (ker_taskId k) t = [location_of (td_dir t) k']"
      "located_in pl None (ker_taskId k) u = [location_of (td_dir t) k]"
      using assms(5,6) u by (simp_all add: at)
    with l show ?thesis
      unfolding q unfolding p by (simp only: find_at_split) simp
  qed
qed

lemma acyclic_added:
  assumes "acyclic R" and "R' \<subseteq> insert (a, b) R" and "(b, a) \<notin> R\<^sup>*"
  shows "acyclic R'"
  using assms(2) by (rule acyclic_subset [rotated]) (simp add: acyclic_insert assms(1,3))

lemma dependency_added_acyclic:
  assumes "distinct (map td_dir p)" and "find_dir p (td_dir t) = Some u"
    and "reads_as pl u k" and "reads_as pl t k'" and "td_superseded t = td_superseded u"
    and "ker_taskId k' = ker_taskId k"
    and deps: "def_dependencies (ker_definition k') = def_dependencies (ker_definition k) @ [d]"
    and check: "\<exists>g. assertNoDependencyCycle pl p (ker_taskId k) (def_dependencies (ker_definition k')) (td_dir t) = Inr g"
    and before: "acyclic (dependency_graph pl p)"
  shows "acyclic (dependency_graph pl (put_dir p t))"
proof (rule acyclic_added [OF before])
  note other = find_other_task [OF assms(1-6)]
  have free: "y \<noteq> ker_taskId k" if "(depends_on pl p (Some (td_dir t)))\<^sup>*\<^sup>* b y"
    "b \<in> set (def_dependencies (ker_definition k'))" for b y
    using check that unfolding assertNoDependencyCycle_ok by blast
  have "y \<noteq> ker_taskId k \<and> (depends_on pl p (Some (td_dir t)))\<^sup>*\<^sup>* d y" if "(d, y) \<in> (dependency_graph pl p)\<^sup>*" for y
    using that
  proof (induction rule: rtrancl_induct)
    case base
    then show ?case using free [of d d] deps by simp
  next
    case (step y z)
    then have "depends_on pl p (Some (td_dir t)) y z"
      using other(2) [of y] by (auto simp: dependency_graph_def depends_on_def)
    then have "(depends_on pl p (Some (td_dir t)))\<^sup>*\<^sup>* d z" using step.IH by (auto intro: rtranclp.rtrancl_into_rtrancl)
    then show ?case using free [of d z] deps by simp
  qed
  then show "(d, ker_taskId k) \<notin> (dependency_graph pl p)\<^sup>*" by blast
  show "dependency_graph pl (put_dir p t) \<subseteq> insert (ker_taskId k, d) (dependency_graph pl p)"
  proof clarify
    fix a b assume ab: "(a, b) \<in> dependency_graph pl (put_dir p t)" "(a, b) \<notin> dependency_graph pl p"
    then obtain l where l: "findTaskById pl (put_dir p t) None a = Inr (Some l)" "b \<in> set (loc_dependencies l)"
      by (auto simp: dependency_graph_def depends_on_def)
    have a: "a = ker_taskId k"
      using other(1) [of a] ab l by (force simp: dependency_graph_def depends_on_def)
    show "a = ker_taskId k \<and> b = d"
      using other(3) [of l] ab l a deps by (auto simp: dependency_graph_def depends_on_def location_of_def)
  qed
qed

section \<open>The operations meet their contracts\<close>

lemma addTaskDependency_cases:
  assumes "addTaskDependency_step pl p dir actor d fp idem k n = Inr (k', n')"
  shows "ker_phase k = PhDefine" and "d \<noteq> ker_taskId k" and "d \<notin> set (def_dependencies (ker_definition k))"
    and "\<exists>g. assertNoDependencyCycle pl p (ker_taskId k) (def_dependencies (ker_definition k) @ [d]) dir = Inr g"
    and "\<exists>l. findTaskById pl p (Some dir) d = Inr (Some l)"
    and "appendMutation pl k actor idem EvDependencyAdded d fp
      (no_patch\<lparr>pat_definition := Some ((ker_definition k)\<lparr>def_dependencies := def_dependencies (ker_definition k) @ [d]\<rparr>)\<rparr>)
      ''Hard dependency added.'' n = (k', n')"
  using assms
  by (auto simp: addTaskDependency_step_def result_simps Let_def assertDependenciesResolvable_def)

interpretation add_dependency: wf_operation pl actor fp "addTaskDependency_step pl p dir actor d fp" "is_task_id d"
  for pl p dir actor d fp
proof
  fix idem k n k' n'
  assume op: "addTaskDependency_step pl p dir actor d fp idem k n = Inr (k', n')"
  note step = addTaskDependency_cases [OF op]
  note content = appendMutation_content [OF step(6)]
  show "extends pl actor idem fp k n k' n'"
    using step(6) by (intro appendMutation_extends [OF advances_refl]) auto
  show "run_id ` set (ker_runs k') \<subseteq> run_id ` set (ker_runs k) \<union> randomUUID pl ` {n..<n'}"
    by (auto simp: content)
  show "\<not> blank (evt_entityId (last (ker_events k')))" if "is_task_id d"
    using that by (simp add: content is_task_id_not_blank)
  show "wf_content pl k'" if "is_task_id d" "wf_kernel pl k"
    using that step(2,3) unfolding content(1)
    by (auto simp: wf_kernel_def wf_content_def apply_patch_def no_patch_def wf_definition_def)
qed

end
