(* ===== verification/Runs.thy ===== *)
theory Runs
  imports Workspaces Review_Evidence Dependencies
begin

text \<open>
  The life of a Run, \<open>core/task/task-kernel-runs.ts\<close>: it starts (at once or waiting) from a baseline of
  the project, resumes, and ends with a result; a completed one carries the candidate Core observed and
  the evidence frozen against it.

  \<open>root\<close> is the canonical project root.  \<open>candidateEntries\<close> of a result comes at its declared type.
\<close>

section \<open>Starting\<close>

definition requested_write_set :: "jsobj \<Rightarrow> jsval" where
  "requested_write_set req =
     or_default (getprop req ''writeSetSnapshot'')
       (or_default (opt_prop (getprop req ''workspace'') ''writeSet'') (JArr []))"

definition start_fingerprint :: "platform \<Rightarrow> string \<Rightarrow> jsobj \<Rightarrow> string" where
  "start_fingerprint pl actor req =
     fingerprintTaskValue pl (JObj
       [(''actor'', JStr actor), (''input'', getprop req ''input''),
        (''authorization'', getprop req ''authorization''),
        (''initialState'', or_default (getprop req ''initialState'') (JStr ''running'')),
        (''writeSetSnapshot'', requested_write_set req),
        (''estimatedDurations'', or_default (getprop req ''estimatedDurations'') JNull),
        (''workspace'', or_default (getprop req ''workspace'') JNull),
        (''host'', or_default (getprop req ''host'') JNull)])"

text \<open>\<open>initialState\<close>: \<open>running\<close> unless the request says \<open>waiting\<close>\<close>

definition initial_state :: "jsval \<Rightarrow> run_state outcome" where
  "initial_state v =
     orThrow (enum_of run_state_name [RunRunning, RunWaiting] (or_default v (JStr ''running''))) invalid_request Inr"

definition parse_run_workspace :: "platform \<Rightarrow> string \<Rightarrow> jsval \<Rightarrow> workspace_binding option outcome" where
  "parse_run_workspace pl runId v =
     whenE (truthy v) (parseWorkspaceBinding pl runId (JObj (with_prop (spread v) ''ownerRunId'' (JStr runId))))"

definition parse_run_host :: "platform \<Rightarrow> task_kernel \<Rightarrow> jsval \<Rightarrow> jsval \<Rightarrow> host_binding option outcome" where
  "parse_run_host pl k expected v =
     whenE (truthy v) (parseHostBinding (JObj (with_prop (with_prop (spread v) ''kernelRevision'' expected)
       ''contractFingerprint'' (JStr (fingerprintTaskValue pl (definition_json (ker_definition k)))))))"

definition start_baseline ::
    "platform \<Rightarrow> world \<Rightarrow> string \<Rightarrow> workspace_binding option \<Rightarrow> string list \<Rightarrow> run_baseline io" where
  "start_baseline pl w root workspace writeSet =
     (case workspace of
        Some ws \<Rightarrow> okO \<lparr>rbl_candidateBaseSha = Some (ws_baseSha ws), rbl_candidateBaseBranch = Some (ws_branch ws),
                      rbl_candidateFileBaseline = None\<rparr>
      | None \<Rightarrow> observeTaskRunRepositoryBaseline pl w root writeSet)"

text \<open>The phases a start passes through\<close>

definition start_phases :: "platform \<Rightarrow> string \<Rightarrow> string \<Rightarrow> task_kernel \<Rightarrow> task_kernel io" where
  "start_phases pl actor idem k =
     bindO (if ker_phase k = PhDefine
            then appendPhase pl k PhApprove actor (idem @ ''#approve'') ''Run authorization recorded.'' None None
            else okO k) (\<lambda>k1.
     throwO (ker_phase k1 \<noteq> PhApprove \<and> ker_phase k1 \<noteq> PhVerify \<and> ker_phase k1 \<noteq> PhExecute) invalid_transition
       (appendPhase pl k1 PhExecute actor (idem @ ''#execute'') ''Run started.'' None None))"

definition startTaskRun_step ::
    "platform \<Rightarrow> world \<Rightarrow> project \<Rightarrow> string \<Rightarrow> string \<Rightarrow> string \<Rightarrow> jsobj \<Rightarrow> string \<Rightarrow> string \<Rightarrow> operation" where
  "startTaskRun_step pl w p root dir actor req fingerprint idem current =
     throwO (ker_closure current \<noteq> None \<or> ker_phase current = PhClose) invalid_transition
     (throwO (list_ex active_run (ker_runs current)) invalid_transition
     (bindO (liftO (assertHardDependenciesSatisfied pl p (def_dependencies (ker_definition current)) (Some dir))) (\<lambda>_.
      bindO (liftO (parseRunInput pl (getprop req ''input''))) (\<lambda>runInput.
      bindO (liftO (parseAuthorization (getprop req ''authorization''))) (\<lambda>authorization.
      bindO (liftO (initial_state (getprop req ''initialState''))) (\<lambda>initialState.
      bindO (liftO (parseStringArray True (requested_write_set req))) (\<lambda>writeSetSnapshot.
      bindO (liftO (parseDurations (or_default (getprop req ''estimatedDurations'') (JObj [])))) (\<lambda>durations.
      bindO (askO (randomUUID pl)) (\<lambda>id.
      bindO (liftO (parse_run_workspace pl id (getprop req ''workspace''))) (\<lambda>workspace.
      bindO (start_baseline pl w root workspace writeSetSnapshot) (\<lambda>baseline.
      bindO (liftO (parse_run_host pl current (getprop req ''expectedRevision'') (getprop req ''host''))) (\<lambda>host.
      bindO (askO (isoNow pl)) (\<lambda>startedAt.
      bindO (start_phases pl actor idem current) (\<lambda>kernel.
      emit pl actor idem (if initialState = RunWaiting then EvRunQueued else EvRunStarted) id fingerprint
        (kernel\<lparr>ker_condition := (if initialState = RunWaiting then CndWaiting else CndActive),
          ker_runs := ker_runs kernel @
            [\<lparr>run_id = id, run_taskId = ker_taskId current, run_attempt = length (ker_runs current) + 1,
              run_sequence = length (ker_runs current) + 1, run_state = initialState,
              run_startedAt = startedAt, run_startedBy = actor, run_input = runInput,
              run_authorization = authorization, run_writeSetSnapshot = writeSetSnapshot,
              run_estimatedDurations = durations,
              run_measurementRefs = \<lparr>msr_execution = None, msr_waiting = None, msr_review = None\<rparr>,
              run_candidateBaseSha = rbl_candidateBaseSha baseline,
              run_candidateBaseBranch = rbl_candidateBaseBranch baseline,
              run_candidateFileBaseline = rbl_candidateFileBaseline baseline, run_workspace = workspace,
              run_host = host, run_candidateSnapshot = None, run_result = None, run_failure = None,
              run_completedAt = None\<rparr>]\<rparr>)))))))))))))))"

definition startTaskRun ::
    "platform \<Rightarrow> world \<Rightarrow> project \<Rightarrow> string \<Rightarrow> string \<Rightarrow> jsobj \<Rightarrow> nat \<Rightarrow> (mutation_result \<times> project \<times> nat) outcome" where
  "startTaskRun pl w p root dir req n =
     bindE (requireNonEmptyString (getprop req ''actor'')) (\<lambda>actor.
     mutateTaskKernel pl p dir (getprop req ''expectedRevision'') (JStr actor) (getprop req ''idempotencyKey'')
       (start_fingerprint pl actor req)
       (startTaskRun_step pl w p root dir actor req (start_fingerprint pl actor req)) n)"

section \<open>Resuming\<close>

text \<open>\<open>findIndex((run) => run.id === request.runId)\<close>, which compares with any value\<close>

definition run_at_request :: "task_kernel \<Rightarrow> jsval \<Rightarrow> (task_run \<times> nat) outcome" where
  "run_at_request k v =
     orThrow (find_index (\<lambda>r. JStr (run_id r) = v) (ker_runs k)) (KernelError NOT_FOUND)
       (\<lambda>i. Inr (ker_runs k ! i, i))"

definition resumeTaskRun_step :: "platform \<Rightarrow> string \<Rightarrow> jsval \<Rightarrow> string \<Rightarrow> string \<Rightarrow> operation" where
  "resumeTaskRun_step pl actor runId fingerprint idem current =
     throwO (ker_phase current \<noteq> PhExecute) invalid_transition
     (bindO (liftO (run_at_request current runId)) (\<lambda>(prior, index).
      throwO (run_state prior \<noteq> RunWaiting \<or> latest_run_id current \<noteq> Some (run_id prior)) invalid_transition
      (throwO (list_ex (\<lambda>r. run_id r \<noteq> run_id prior \<and> run_state r = RunRunning) (ker_runs current)) invalid_transition
      (emit pl actor idem EvRunResumed (run_id prior) fingerprint
        (current\<lparr>ker_condition := CndActive,
          ker_runs := (ker_runs current)[index := prior\<lparr>run_state := RunRunning\<rparr>]\<rparr>)))))"

definition resumeTaskRun ::
    "platform \<Rightarrow> project \<Rightarrow> string \<Rightarrow> jsobj \<Rightarrow> nat \<Rightarrow> (mutation_result \<times> project \<times> nat) outcome" where
  "resumeTaskRun pl p dir req n =
     bindE (requireNonEmptyString (getprop req ''actor'')) (\<lambda>actor.
     let runId = getprop req ''runId'';
         fingerprint = fingerprintTaskValue pl (JObj [(''runId'', runId), (''action'', JStr ''resume'')]) in
     mutateTaskKernel pl p dir (getprop req ''expectedRevision'') (JStr actor) (getprop req ''idempotencyKey'')
       fingerprint (resumeTaskRun_step pl actor runId fingerprint) n)"

section \<open>Results\<close>

text \<open>\<open>{ ...base, ...over }\<close>\<close>

definition overlay :: "jsobj \<Rightarrow> jsobj \<Rightarrow> jsobj" where
  "overlay base over = foldl (\<lambda>o' (k, v). with_prop o' k v) base over"

definition merged_measurements :: "measurement_refs \<Rightarrow> jsval \<Rightarrow> measurement_refs outcome" where
  "merged_measurements prior v = parseMeasurementRefs (JObj (overlay (spread (measurement_refs_json prior)) (spread v)))"

text \<open>The regular files of an observation inside the Run's write set, by path and digest\<close>

fun observed_files :: "platform \<Rightarrow> task_run \<Rightarrow> current_file list \<Rightarrow> (string \<times> string) list outcome" where
  "observed_files pl run [] = Inr []"
| "observed_files pl run (f # fs) =
     bindE (isTaskRunPathInWriteSet pl run (cur_path f)) (\<lambda>inside.
     bindE (observed_files pl run fs) (\<lambda>rest.
     Inr (case regular_file (Some f) of
        Some (sha, _) \<Rightarrow> if inside then (cur_path f, sha) # rest else rest
      | None \<Rightarrow> rest)))"

text \<open>The check of the entries a caller supplies, against what was observed\<close>

fun check_supplied ::
    "platform \<Rightarrow> task_run \<Rightarrow> snapshot_entry \<Rightarrow> (string \<times> string) list \<Rightarrow> string list \<Rightarrow> snapshot_entry list \<Rightarrow>
     unit outcome" where
  "check_supplied pl run observed files seen [] = Inr ()"
| "check_supplied pl run observed files seen (e # es) =
     throwIf (ent_ref e \<in> set seen) invalid_request
     (bindE (if isRunCandidateObservationEntry (ent_ref e)
             then throwIf (e \<noteq> observed) candidate_stale (Inr ())
             else (let ref = forward_slashes (ent_ref e) in
               bindE (isTaskRunPathInWriteSet pl run ref) (\<lambda>inside.
               throwIf (\<not> inside \<or> map_of (rev files) ref \<noteq> Some (ent_fingerprint e)) candidate_stale (Inr ()))))
       (\<lambda>_. check_supplied pl run observed files (ent_ref e # seen) es))"

text \<open>\<open>[...observedFiles.values()]\<close>: each path once, where it came first, with what came last\<close>

definition file_entries_of :: "(string \<times> string) list \<Rightarrow> snapshot_entry list" where
  "file_entries_of files =
     map (\<lambda>p. \<lparr>ent_ref = p, ent_fingerprint = the (map_of (rev files) p)\<rparr>) (unique (map fst files))"

definition completed_run ::
    "platform \<Rightarrow> world \<Rightarrow> string \<Rightarrow> string \<Rightarrow> task_run \<Rightarrow> jsval \<Rightarrow> snapshot_entry list \<Rightarrow> string list \<Rightarrow>
     measurement_refs \<Rightarrow> string \<Rightarrow> task_run io" where
  "completed_run pl w root dir prior summaryValue supplied evidenceRefs measurements now =
     bindO (liftO (requireNonEmptyString summaryValue)) (\<lambda>summary.
     bindO (observe_run pl w root prior) (\<lambda>b.
     bindO (liftO (createTaskCandidateEntry pl b)) (\<lambda>observedEntry.
     bindO (liftO (observed_files pl prior (observation_files b))) (\<lambda>files.
     bindO (liftO (check_supplied pl prior observedEntry files [] supplied)) (\<lambda>_.
     bindO (createTaskCandidateSnapshot pl (entries_json (file_entries_of files @ [observedEntry]))) (\<lambda>snapshot.
     let candidateRun = prior\<lparr>run_state := RunCompleted, run_candidateSnapshot := Some snapshot,
           run_result := Some \<lparr>res_summary = summary, res_evidenceRefs = evidenceRefs, res_evidenceVerification = None\<rparr>,
           run_failure := None, run_completedAt := Some now, run_measurementRefs := measurements\<rparr> in
     bindO (freezeTaskRunEvidenceV1 pl w root dir candidateRun) (\<lambda>verification.
     okO (candidateRun\<lparr>run_result := Some
       \<lparr>res_summary = summary, res_evidenceRefs = map rei_ref (rver_items verification),
        res_evidenceVerification = Some verification\<rparr>\<rparr>))))))))"

definition failed_run ::
    "platform \<Rightarrow> task_run \<Rightarrow> run_state \<Rightarrow> jsval \<Rightarrow> jsval \<Rightarrow> snapshot_entry list \<Rightarrow> string list \<Rightarrow>
     measurement_refs \<Rightarrow> string \<Rightarrow> task_run io" where
  "failed_run pl prior state failureValue summaryValue supplied evidenceRefs measurements now =
     bindO (liftO (parseFailure failureValue)) (\<lambda>failure.
     bindO (if supplied = [] then okO None
            else bindO (createTaskCandidateSnapshot pl (entries_json supplied)) (\<lambda>c. okO (Some c))) (\<lambda>snapshot.
     bindO (liftO (optional_trim summaryValue)) (\<lambda>summary.
     okO (prior\<lparr>run_state := state, run_candidateSnapshot := snapshot,
       run_result := (case summary of
          None \<Rightarrow> None
        | Some s \<Rightarrow> if s = [] then None
            else Some \<lparr>res_summary = s, res_evidenceRefs = evidenceRefs, res_evidenceVerification = None\<rparr>),
       run_failure := Some failure, run_completedAt := Some now, run_measurementRefs := measurements\<rparr>))))"

definition RUN_OUTCOMES :: "run_state list" where
  "RUN_OUTCOMES = [RunCompleted, RunFailed, RunBlocked, RunCancelled]"

fun result_event :: "run_state \<Rightarrow> event_type" where
  "result_event RunCompleted = EvRunCompleted"
| "result_event RunFailed = EvRunFailed"
| "result_event RunCancelled = EvRunCancelled"
| "result_event _ = EvRunBlocked"

definition result_phase ::
    "platform \<Rightarrow> string \<Rightarrow> string \<Rightarrow> run_state \<Rightarrow> task_kernel \<Rightarrow> task_kernel io" where
  "result_phase pl actor idem state k =
     (if state = RunCompleted
      then appendPhase pl k PhVerify actor (idem @ ''#verify'') ''Run produced a candidate snapshot.'' None None
      else appendPhase pl k PhExecute actor (idem @ ''#'' @ run_state_name state)
        (''Run '' @ run_state_name state @ ''.'')
        (Some (if state = RunBlocked then CndBlocked else CndReady)) None)"

definition recordTaskRunResult_step ::
    "platform \<Rightarrow> world \<Rightarrow> string \<Rightarrow> string \<Rightarrow> string \<Rightarrow> run_state \<Rightarrow> snapshot_entry list \<Rightarrow> jsobj \<Rightarrow> string \<Rightarrow> string \<Rightarrow>
     operation" where
  "recordTaskRunResult_step pl w root dir actor state supplied req fingerprint idem current =
     bindO (liftO (run_at_request current (getprop req ''runId''))) (\<lambda>(prior, index).
     throwO (run_state prior \<noteq> RunRunning) invalid_transition
     (throwO (ker_phase current \<noteq> PhExecute) invalid_transition
     (bindO (askO (isoNow pl)) (\<lambda>now.
      bindO (liftO (parseStringArray True (or_default (getprop req ''evidenceRefs'') (JArr [])))) (\<lambda>evidenceRefs.
      bindO (liftO (merged_measurements (run_measurementRefs prior) (getprop req ''measurementRefs''))) (\<lambda>measurements.
      throwO (truthy (getprop req ''failure'') = (state = RunCompleted)) invalid_request
      (bindO (if state = RunCompleted
              then completed_run pl w root dir prior (getprop req ''summary'') supplied evidenceRefs measurements now
              else failed_run pl prior state (getprop req ''failure'') (getprop req ''summary'') supplied evidenceRefs
                measurements now) (\<lambda>run.
       bindO (result_phase pl actor idem state (replaceRun current index run)) (\<lambda>kernel.
       emit pl actor idem (result_event state) (run_id run) fingerprint kernel)))))))))"

definition recordTaskRunResult ::
    "platform \<Rightarrow> world \<Rightarrow> project \<Rightarrow> string \<Rightarrow> string \<Rightarrow> snapshot_entry list option \<Rightarrow> jsobj \<Rightarrow> nat \<Rightarrow>
     (mutation_result \<times> project \<times> nat) outcome" where
  "recordTaskRunResult pl w p root dir candidateEntries req n =
     bindE (requireNonEmptyString (getprop req ''actor'')) (\<lambda>actor.
     orThrow (enum_of run_state_name RUN_OUTCOMES (getprop req ''outcome'')) invalid_request (\<lambda>state.
     let supplied = (case candidateEntries of None \<Rightarrow> [] | Some es \<Rightarrow> es);
         fingerprint = fingerprintTaskValue pl (JObj
           [(''runId'', getprop req ''runId''), (''outcome'', JStr (run_state_name state)),
            (''summary'', or_default (getprop req ''summary'') (JStr [])),
            (''evidenceRefs'', or_default (getprop req ''evidenceRefs'') (JArr [])),
            (''candidateEntries'', entries_json supplied),
            (''failure'', or_default (getprop req ''failure'') JNull),
            (''measurementRefs'', or_default (getprop req ''measurementRefs'') (JObj []))]) in
     mutateTaskKernel pl p dir (getprop req ''expectedRevision'') (JStr actor) (getprop req ''idempotencyKey'')
       fingerprint (recordTaskRunResult_step pl w root dir actor state supplied req fingerprint) n))"

section \<open>What a start yields\<close>

lemma read_head_branch: "read_head w root n = Inr ((sha, branch), n') \<Longrightarrow> pred_option (\<lambda>b. b \<noteq> []) branch"
  by (auto simp: read_head_def decodeGitText_def result_simps Let_def split: if_splits)

lemma start_baseline_result:
  assumes "start_baseline pl w root workspace ws n = Inr (b, n')" and ok: "platform_ok pl"
  shows "n \<le> n'"
    and "workspace = Some v \<Longrightarrow> b = \<lparr>rbl_candidateBaseSha = Some (ws_baseSha v),
      rbl_candidateBaseBranch = Some (ws_branch v), rbl_candidateFileBaseline = None\<rparr>"
    and "workspace = None \<Longrightarrow> pred_option (\<lambda>b. b \<noteq> []) (rbl_candidateBaseBranch b)"
    and "workspace = None \<Longrightarrow> pred_option (\<lambda>f. rbl_candidateBaseSha b = None \<and> rbl_candidateBaseBranch b = None \<and>
      is_fingerprint (base_fingerprint f) \<and>
      (verifyProjectFileBaseline pl f \<longleftrightarrow> \<not> list_ex named_as_directory (base_files f))) (rbl_candidateFileBaseline b)"
proof -
  have "forward (start_baseline pl w root workspace ws)"
    by (cases workspace) (simp_all add: start_baseline_def)
  then show "n \<le> n'" using assms(1) by (rule forwardD)
  show "workspace = Some v \<Longrightarrow> b = \<lparr>rbl_candidateBaseSha = Some (ws_baseSha v),
      rbl_candidateBaseBranch = Some (ws_branch v), rbl_candidateFileBaseline = None\<rparr>"
    using assms(1) by (simp add: start_baseline_def result_simps)
  assume "workspace = None"
  then have b: "observeTaskRunRepositoryBaseline pl w root ws n = Inr (b, n')"
    using assms(1) by (simp add: start_baseline_def)
  show "pred_option (\<lambda>b. b \<noteq> []) (rbl_candidateBaseBranch b)"
    using b by (auto simp: observeTaskRunRepositoryBaseline_def observeGitRepositoryBaseline_def result_simps
        dest: read_head_branch split: if_splits)
  show "pred_option (\<lambda>f. rbl_candidateBaseSha b = None \<and> rbl_candidateBaseBranch b = None \<and>
      is_fingerprint (base_fingerprint f) \<and>
      (verifyProjectFileBaseline pl f \<longleftrightarrow> \<not> list_ex named_as_directory (base_files f))) (rbl_candidateFileBaseline b)"
    using b capture_verifies_iff(1,2) [OF _ ok]
    by (auto simp: observeTaskRunRepositoryBaseline_def result_simps split: if_splits)
qed

lemma initial_state_active: "initial_state v = Inr s \<Longrightarrow> s = RunRunning \<or> s = RunWaiting"
  by (auto simp: initial_state_def result_simps dest!: enum_of_SomeD)

lemma start_phases_advances:
  assumes "start_phases pl actor idem k n = Inr (k', n')"
  shows "advances pl actor idem k n k' n'" and "ker_runs k' = ker_runs k" and "ker_reviews k' = ker_reviews k"
    and "ker_closure k' = ker_closure k" and "wf_content pl k' \<longleftrightarrow> wf_content pl k" and "ker_phase k' = PhExecute"
    and "ker_taskId k' = ker_taskId k"
proof -
  obtain k1 n1 where k1: "k1 = k \<and> n1 = n \<or>
      appendPhase pl k PhApprove actor (idem @ ''#approve'') ''Run authorization recorded.'' None None n = Inr (k1, n1)"
    and k': "appendPhase pl k1 PhExecute actor (idem @ ''#execute'') ''Run started.'' None None n1 = Inr (k', n')"
    using assms by (auto simp: start_phases_def result_simps split: if_splits)
  have a1: "advances pl actor idem k n k1 n1" using k1 by (auto intro: advances_refl appendPhase_advances)
  show "advances pl actor idem k n k' n'" using a1 k' by (blast intro: advances_trans appendPhase_advances)
  show "ker_runs k' = ker_runs k" "ker_reviews k' = ker_reviews k" "ker_closure k' = ker_closure k"
    "wf_content pl k' \<longleftrightarrow> wf_content pl k" "ker_phase k' = PhExecute" "ker_taskId k' = ker_taskId k"
    using k1 appendPhase_content [OF k'] by (auto simp: appendPhase_content)
qed

lemma new_run_readable:
  assumes "run_readable r" and "pred_option (\<lambda>b. b \<noteq> []) (run_candidateBaseBranch r)"
  shows "pred_option (\<lambda>b. \<not> blank b \<and> b = trim b) (run_candidateBaseBranch r)"
  using assms by (cases "run_candidateBaseBranch r") (auto simp: run_readable_def untrimmed_branch_def blank_def)

text \<open>
  A start that returns found no active Run and satisfied dependencies; the Run it adds is named by the
  next identifier, and well-formed once it can be read back.
\<close>

lemma start_cases:
  assumes step: "startTaskRun_step pl w p root dir actor req fp idem k n = Inr (k', n')"
  obtains r kernel c type n0 n1 where "ker_closure k = None" "ker_phase k \<noteq> PhClose"
    "\<not> list_ex active_run (ker_runs k)"
    "assertHardDependenciesSatisfied pl p (def_dependencies (ker_definition k)) (Some dir) = Inr ()"
    "run_id r = randomUUID pl n" "run_taskId r = ker_taskId k" "active_run r" "run_startedBy r = actor"
    "run_attempt r = length (ker_runs k) + 1"
    "n < n0" "start_phases pl actor idem k n0 = Inr (kernel, n1)"
    "appendDomainEvent pl (kernel\<lparr>ker_condition := c, ker_runs := ker_runs kernel @ [r]\<rparr>) actor idem type
       (run_id r) fp n1 = (k', n')"
    "platform_ok pl \<and> is_task_id (ker_taskId k) \<and> \<not> blank actor \<and> run_readable r \<longrightarrow> wf_run pl r"
proof -
  obtain runInput authorization st ws durations workspace baseline host n2 kernel n1 r where s:
    "ker_closure k = None" "ker_phase k \<noteq> PhClose" "\<not> list_ex active_run (ker_runs k)"
    "assertHardDependenciesSatisfied pl p (def_dependencies (ker_definition k)) (Some dir) = Inr ()"
    and input: "parseRunInput pl (getprop req ''input'') = Inr runInput"
    and auth: "parseAuthorization (getprop req ''authorization'') = Inr authorization"
    and st: "initial_state (getprop req ''initialState'') = Inr st"
    and ws: "parseStringArray True (requested_write_set req) = Inr ws"
    and workspace: "parse_run_workspace pl (randomUUID pl n) (getprop req ''workspace'') = Inr workspace"
    and baseline: "start_baseline pl w root workspace ws (Suc n) = Inr (baseline, n2)"
    and host: "parse_run_host pl k (getprop req ''expectedRevision'') (getprop req ''host'') = Inr host"
    and phases: "start_phases pl actor idem k (Suc n2) = Inr (kernel, n1)"
    and r: "r = \<lparr>run_id = randomUUID pl n, run_taskId = ker_taskId k, run_attempt = length (ker_runs k) + 1,
              run_sequence = length (ker_runs k) + 1, run_state = st,
              run_startedAt = isoNow pl n2, run_startedBy = actor, run_input = runInput,
              run_authorization = authorization, run_writeSetSnapshot = ws,
              run_estimatedDurations = durations,
              run_measurementRefs = \<lparr>msr_execution = None, msr_waiting = None, msr_review = None\<rparr>,
              run_candidateBaseSha = rbl_candidateBaseSha baseline,
              run_candidateBaseBranch = rbl_candidateBaseBranch baseline,
              run_candidateFileBaseline = rbl_candidateFileBaseline baseline, run_workspace = workspace,
              run_host = host, run_candidateSnapshot = None, run_result = None, run_failure = None,
              run_completedAt = None\<rparr>"
    and k': "appendDomainEvent pl (kernel\<lparr>ker_condition := (if st = RunWaiting then CndWaiting else CndActive),
        ker_runs := ker_runs kernel @ [r]\<rparr>) actor idem (if st = RunWaiting then EvRunQueued else EvRunStarted)
        (run_id r) fp n1 = (k', n')"
    using step unfolding startTaskRun_step_def by (clarsimp simp: result_simps)
  have wf: "wf_run pl r" if ok: "platform_ok pl" "is_task_id (ker_taskId k)" "\<not> blank actor" "run_readable r"
  proof -
    note b = start_baseline_result [OF baseline ok(1)]
    have workspace_wf: "pred_option (wf_workspace pl (randomUUID pl n)) workspace"
      using workspace by (auto simp: parse_run_workspace_def result_simps dest: parseWorkspaceBinding_sound split: if_splits)
    have host_wf: "pred_option wf_host host"
      using host by (auto simp: parse_run_host_def result_simps dest: parseHostBinding_sound split: if_splits)
    have branch: "pred_option (\<lambda>b. \<not> blank b \<and> b = trim b) (rbl_candidateBaseBranch baseline)"
    proof (cases workspace)
      case (Some v)
      then have "rbl_candidateBaseBranch baseline = Some (ws_branch v)" "\<not> blank (ws_branch v)"
        using b(2) workspace_wf by (simp_all add: wf_workspace_def)
      then show ?thesis using ok(4) by (simp add: r run_readable_def untrimmed_branch_def)
    qed (use new_run_readable [OF ok(4)] b(3) in \<open>simp add: r\<close>)
    have files: "pred_option (wf_baseline pl) (rbl_candidateFileBaseline baseline)"
    proof (cases "rbl_candidateFileBaseline baseline")
      case (Some f)
      then have none: "workspace = None" using b(2) by (cases workspace) auto
      have "list_all (\<lambda>e. \<not> blank (bent_path e) \<and> \<not> named_as_directory e) (base_files f)"
        using ok(4) Some by (simp add: r run_readable_def baseline_readable_def)
      then show ?thesis using b(4) [OF none] Some by (auto simp: wf_baseline_def list_all_iff list_ex_iff)
    qed simp
    have "run_baseline_ok r"
      using branch b(2,4) by (cases workspace)
        (auto simp: r run_baseline_ok_def pred_option_def)
    moreover have "wf_run_fields pl r"
      using ok(2,3) platform_okD(2,3) [OF ok(1)] input auth ws workspace_wf host_wf files
      by (simp add: r wf_run_fields_def wf_measurement_refs_def parseRunInput_sound parseAuthorization_sound
          parseStringArray_iff)
    ultimately show ?thesis
      using initial_state_active [OF st] by (auto simp: wf_run_def run_phase_ok_def terminal_failure_def r)
  qed
  have "n \<le> n2"
  proof -
    have "forward (start_baseline pl w root workspace ws)" by (cases workspace) (simp_all add: start_baseline_def)
    from forwardD [OF this baseline] show ?thesis by simp
  qed
  moreover have "active_run r" using initial_state_active [OF st] by (auto simp: r active_run_def)
  ultimately show thesis using s k' phases wf by (intro that [of r "Suc n2" kernel n1]) (simp_all add: r)
qed

lemma append_run_wf:
  assumes "wf_content pl k" and "ker_closure k = None" and "wf_run pl r" and "run_taskId r = ker_taskId k"
    and "run_id r \<notin> run_id ` set (ker_runs k)"
  shows "wf_content pl (k\<lparr>ker_condition := c, ker_runs := ker_runs k @ [r]\<rparr>)"
proof -
  have "review_bound (ker_runs k @ [r]) v" if "review_bound (ker_runs k) v" for v
    using that by (auto simp: review_bound_def find_append split: option.splits)
  then have "reviews_ok (ker_taskId k) (ker_runs k @ [r]) [] (ker_reviews k)"
    using assms(1) by (auto simp: wf_content_def reviews_ok_iff list_all_iff)
  then show ?thesis using assms by (auto simp: wf_content_def runs_ok_iff)
qed

lemma readable_append: "readable k' \<Longrightarrow> ker_runs k' = rs @ [r] \<Longrightarrow> run_readable r"
  by (simp add: readable_def)

interpretation start_run: wf_operation pl actor fp "startTaskRun_step pl w p root dir actor req fp" True
  for pl actor fp w p root dir req
proof
  fix idem k n k' n'
  assume op: "startTaskRun_step pl w p root dir actor req fp idem k n = Inr (k', n')"
  from op obtain r kernel c type n0 n1 where s: "ker_closure k = None" "run_id r = randomUUID pl n"
    "run_taskId r = ker_taskId k" "n < n0" "start_phases pl actor idem k n0 = Inr (kernel, n1)"
    "appendDomainEvent pl (kernel\<lparr>ker_condition := c, ker_runs := ker_runs kernel @ [r]\<rparr>) actor idem type
       (run_id r) fp n1 = (k', n')"
    "platform_ok pl \<and> is_task_id (ker_taskId k) \<and> \<not> blank actor \<and> run_readable r \<longrightarrow> wf_run pl r"
    by (rule start_cases)
  note phases = start_phases_advances [OF s(5)]
  note content = appendDomainEvent_content [OF s(6)]
  have "advances pl actor idem k n0 (kernel\<lparr>ker_condition := c, ker_runs := ker_runs kernel @ [r]\<rparr>) n1"
    by (rule advances_same [OF phases(1)]) simp
  then have ext: "extends pl actor idem fp k n0 k' n'" using s(6) by (rule appendDomainEvent_extends)
  from this less_imp_le [OF s(4)] show "extends pl actor idem fp k n k' n'" by (rule extends_earlier)
  have "n < n'" using ext s(4) by (simp add: extends_def)
  then show "run_id ` set (ker_runs k') \<subseteq> run_id ` set (ker_runs k) \<union> randomUUID pl ` {n..<n'}"
    by (auto simp: content phases s(2))
  show "\<not> blank (evt_entityId (last (ker_events k')))" if "platform_ok pl"
    using that by (simp add: content s(2) platform_okD)
  assume ok: "platform_ok pl" "\<not> blank actor" "wf_kernel pl k" "uuid_fresh pl n k" "readable k'"
  have "run_id r \<notin> run_id ` set (ker_runs kernel)"
    using ok(4) by (auto simp: phases s(2) uuid_fresh_def)
  moreover have "run_readable r" by (rule readable_append [OF ok(5)]) (simp add: content)
  then have "wf_run pl r" using ok s(7) by (simp add: wf_kernel_defs)
  ultimately have "wf_content pl (kernel\<lparr>ker_condition := c, ker_runs := ker_runs kernel @ [r]\<rparr>)"
    using ok(3) s(1,3) by (intro append_run_wf) (simp_all add: phases wf_kernel_def)
  then show "wf_content pl k'" by (simp add: content)
qed

section \<open>What resuming yields\<close>

lemma run_at_request_iff: "run_at_request k v = Inr (r, i) \<longleftrightarrow> v = JStr (run_id r) \<and> runAt k (run_id r) = Inr (r, i)"
  by (auto simp: run_at_request_def runAt_def result_simps find_index_Some)

lemma resume_cases:
  assumes "resumeTaskRun_step pl actor runId fp idem k n = Inr (k', n')"
  obtains r i where "runId = JStr (run_id r)" "runAt k (run_id r) = Inr (r, i)" "ker_phase k = PhExecute"
    "run_state r = RunWaiting" "latest_run_id k = Some (run_id r)"
    "\<forall>r' \<in> set (ker_runs k). run_id r' \<noteq> run_id r \<longrightarrow> run_state r' \<noteq> RunRunning"
    "appendDomainEvent pl (replaceRun (k\<lparr>ker_condition := CndActive\<rparr>) i (r\<lparr>run_state := RunRunning\<rparr>)) actor idem
       EvRunResumed (run_id r) fp n = (k', n')"
  using assms by (auto simp: resumeTaskRun_step_def result_simps run_at_request_iff replaceRun_def list_ex_iff)

interpretation resume_run: wf_operation pl actor fp "resumeTaskRun_step pl actor runId fp" True
  for pl actor fp runId
proof
  fix idem k n k' n'
  assume op: "resumeTaskRun_step pl actor runId fp idem k n = Inr (k', n')"
  let ?k = "k\<lparr>ker_condition := CndActive\<rparr>"
  from op obtain r i where s: "runAt k (run_id r) = Inr (r, i)" "run_state r = RunWaiting"
    "appendDomainEvent pl (replaceRun ?k i (r\<lparr>run_state := RunRunning\<rparr>)) actor idem
       EvRunResumed (run_id r) fp n = (k', n')"
    by (rule resume_cases)
  have at: "runAt ?k (run_id r) = Inr (r, i)" using s(1) by (simp add: runAt_def)
  have "same_journal k (replaceRun ?k i (r\<lparr>run_state := RunRunning\<rparr>))" by (simp add: replaceRun_def same_journal_def)
  then show "extends pl actor idem fp k n k' n'"
    using s(3) by (blast intro: appendDomainEvent_extends advances_same advances_refl)
  note e = replace_event [OF at _ s(3)]
  have "run_id ` set (ker_runs k') \<subseteq> run_id ` set (ker_runs ?k) \<union> randomUUID pl ` {n..<n'}" by (rule e) simp
  then show "run_id ` set (ker_runs k') \<subseteq> run_id ` set (ker_runs k) \<union> randomUUID pl ` {n..<n'}" by simp
  show "\<not> blank (evt_entityId (last (ker_events k')))" if "wf_kernel pl k"
    using runAt_wf(2) [OF s(1) that] e(4) by simp
  assume wf: "wf_kernel pl k"
  have "wf_kernel pl ?k" using wf by (simp add: wf_kernel_defs)
  moreover have "wf_run pl (r\<lparr>run_state := RunRunning\<rparr>)"
    using runAt_wf(1) [OF s(1) wf] s(2)
    by (simp add: wf_run_def wf_run_fields_def run_phase_ok_def run_baseline_ok_def active_run_def terminal_failure_def)
  ultimately show "wf_content pl k'" by (intro e(5)) simp_all
qed

section \<open>What a result yields\<close>

text \<open>The fields a result leaves alone\<close>

definition same_start :: "task_run \<Rightarrow> task_run \<Rightarrow> bool" where
  "same_start r r' \<longleftrightarrow>
     r' = r\<lparr>run_state := run_state r', run_candidateSnapshot := run_candidateSnapshot r', run_result := run_result r',
       run_failure := run_failure r', run_completedAt := run_completedAt r', run_measurementRefs := run_measurementRefs r'\<rparr>"

lemma same_start_ids: "same_start r r' \<Longrightarrow> run_id r' = run_id r \<and> run_taskId r' = run_taskId r"
  unfolding same_start_def by (metis task_run.select_convs task_run.surjective task_run.update_convs)

lemma ended_run_wf:
  assumes "wf_run pl r"
    and "r' = r\<lparr>run_state := st, run_candidateSnapshot := c, run_result := res, run_failure := f,
      run_completedAt := Some t, run_measurementRefs := m\<rparr>"
    and "pred_option (wf_candidate pl) c" and "pred_option wf_run_result res" and "pred_option wf_failure f"
    and "\<not> blank t" and "wf_measurement_refs m"
    and "st = RunCompleted \<longrightarrow> c \<noteq> None \<and> res \<noteq> None \<and> f = None"
    and "st \<noteq> RunCompleted \<longrightarrow> f \<noteq> None \<and> terminal_failure st"
    and "\<forall>x ver. res = Some x \<longrightarrow> res_evidenceVerification x = Some ver \<longrightarrow> evidence_bound (run_id r) c x ver"
  shows "wf_run pl r'"
  using assms
  by (auto simp: wf_run_def wf_run_fields_def run_phase_ok_def run_baseline_ok_def active_run_def terminal_failure_def)

lemma completed_run_cases:
  assumes step: "completed_run pl w root dir prior sv supplied refs ms now n = Inr (r, n')"
  obtains s b k e files c j v where "sv = JStr s" "\<not> blank s"
    "observe_run pl w root prior n = Inr (b, k)" "createTaskCandidateEntry pl b = Inr e"
    "observed_files pl prior (observation_files b) = Inr files" "check_supplied pl prior e files [] supplied = Inr ()"
    "createTaskCandidateSnapshot pl (entries_json (file_entries_of files @ [e])) k = Inr (c, j)"
    "freezeTaskRunEvidenceV1 pl w root dir (prior\<lparr>run_state := RunCompleted, run_candidateSnapshot := Some c,
           run_result := Some \<lparr>res_summary = s, res_evidenceRefs = refs, res_evidenceVerification = None\<rparr>,
           run_failure := None, run_completedAt := Some now, run_measurementRefs := ms\<rparr>) j = Inr (v, n')"
    "r = prior\<lparr>run_state := RunCompleted, run_candidateSnapshot := Some c,
       run_result := Some \<lparr>res_summary = s, res_evidenceRefs = map rei_ref (rver_items v),
         res_evidenceVerification = Some v\<rparr>,
       run_failure := None, run_completedAt := Some now, run_measurementRefs := ms\<rparr>"
  using step unfolding completed_run_def Let_def by (clarsimp simp: result_simps)

lemma completed_run_ids:
  "completed_run pl w root dir prior sv supplied refs ms now n = Inr (r, n') \<Longrightarrow>
   run_id r = run_id prior \<and> run_taskId r = run_taskId prior \<and> run_state r = RunCompleted \<and>
   same_contract prior r \<and> same_place prior r"
  by (erule completed_run_cases) (simp add: same_contract_def same_place_def)

lemma forward_createTaskCandidateSnapshot [intro, simp]: "forward (createTaskCandidateSnapshot pl v)"
  by (auto simp: forward_def createTaskCandidateSnapshot_def result_simps)

lemma forward_observe_run [intro, simp]: "forward (observe_run pl w root run)"
  by (simp add: observe_run_def)

lemma forward_completed_run [intro, simp]: "forward (completed_run pl w root dir prior sv supplied refs ms now)"
  unfolding completed_run_def Let_def by (intro forward_rules) simp_all

lemma completed_run_wf:
  assumes step: "completed_run pl w root dir prior sv supplied refs ms now n = Inr (r, n')" and ok: "platform_ok pl"
    and wf: "wf_run pl prior" "wf_measurement_refs ms" "\<not> blank now" and readable: "run_readable r"
  shows "wf_run pl r"
proof -
  from step obtain s files k e c j v where s: "\<not> blank s"
    "createTaskCandidateSnapshot pl (entries_json (file_entries_of files @ [e])) k = Inr (c, j)"
    "freezeTaskRunEvidenceV1 pl w root dir (prior\<lparr>run_state := RunCompleted, run_candidateSnapshot := Some c,
           run_result := Some \<lparr>res_summary = s, res_evidenceRefs = refs, res_evidenceVerification = None\<rparr>,
           run_failure := None, run_completedAt := Some now, run_measurementRefs := ms\<rparr>) j = Inr (v, n')"
    and r: "r = prior\<lparr>run_state := RunCompleted, run_candidateSnapshot := Some c,
       run_result := Some \<lparr>res_summary = s, res_evidenceRefs = map rei_ref (rver_items v),
         res_evidenceVerification = Some v\<rparr>,
       run_failure := None, run_completedAt := Some now, run_measurementRefs := ms\<rparr>"
    by (rule completed_run_cases)
  have c: "wf_candidate pl c" using createTaskCandidateSnapshot_wf [OF s(2) platform_okD(2) [OF ok]] by simp
  note f = freeze_result [OF s(3) ok _ c, simplified]
  have "list_all (\<lambda>i. rei_sizeBytes i \<le> 8 * 1024 * 1024) (rver_items v)"
    using readable by (simp add: r run_readable_def result_readable_def)
  moreover have "\<not> blank (run_id prior)" using wf(1) by (simp add: wf_run_def wf_run_fields_def)
  ultimately have "wf_run_evidence_verification v" using f by simp
  moreover have "list_all (\<lambda>s. \<not> blank s) (map rei_ref (rver_items v))"
    using f(6) by (simp add: list_all_iff del: map_eq_conv)
  ultimately have "wf_run_result \<lparr>res_summary = s, res_evidenceRefs = map rei_ref (rver_items v),
      res_evidenceVerification = Some v\<rparr>"
    using s(1) by (simp add: wf_run_result_def)
  then show ?thesis using c f wf by (intro ended_run_wf [OF wf(1) r]) (simp_all add: evidence_bound_def)
qed

lemma failed_run_cases:
  assumes step: "failed_run pl prior state fv sv supplied refs ms now n = Inr (r, n')"
  obtains f c s where
    "r = prior\<lparr>run_state := state, run_candidateSnapshot := c,
       run_result := (case s of None \<Rightarrow> None | Some x \<Rightarrow> if x = [] then None
          else Some \<lparr>res_summary = x, res_evidenceRefs = refs, res_evidenceVerification = None\<rparr>),
       run_failure := Some f, run_completedAt := Some now, run_measurementRefs := ms\<rparr>"
    "parseFailure fv = Inr f" "optional_trim sv = Inr s" "n \<le> n'"
    "c = None \<or> (\<exists>x. c = Some x \<and> createTaskCandidateSnapshot pl (entries_json supplied) n = Inr (x, n'))"
proof -
  obtain f c s where r: "r = prior\<lparr>run_state := state, run_candidateSnapshot := c,
       run_result := (case s of None \<Rightarrow> None | Some x \<Rightarrow> if x = [] then None
          else Some \<lparr>res_summary = x, res_evidenceRefs = refs, res_evidenceVerification = None\<rparr>),
       run_failure := Some f, run_completedAt := Some now, run_measurementRefs := ms\<rparr>"
    and s: "parseFailure fv = Inr f" "optional_trim sv = Inr s"
    and c: "(if supplied = [] then okO None
      else bindO (createTaskCandidateSnapshot pl (entries_json supplied)) (\<lambda>c. okO (Some c))) n = Inr (c, n')"
    using step unfolding failed_run_def by (clarsimp simp: result_simps)
  show thesis
    using c by (intro that [OF r s])
      (auto simp: result_simps createTaskCandidateSnapshot_def split: if_splits)
qed

lemma failed_run_ids:
  "failed_run pl prior state fv sv supplied refs ms now n = Inr (r, n') \<Longrightarrow>
   run_id r = run_id prior \<and> run_taskId r = run_taskId prior \<and> run_state r = state \<and> n \<le> n' \<and>
   same_contract prior r \<and> same_place prior r"
  by (erule failed_run_cases) (simp add: same_contract_def same_place_def)

lemma optional_trim_not_blank: "optional_trim v = Inr (Some s) \<Longrightarrow> s \<noteq> [] \<Longrightarrow> \<not> blank s"
  using blank_trim by (auto simp: optional_trim_def blank_def split: jsval.splits)

lemma failed_run_wf:
  assumes step: "failed_run pl prior state fv sv supplied refs ms now n = Inr (r, n')" and ok: "platform_ok pl"
    and wf: "wf_run pl prior" "wf_measurement_refs ms" "\<not> blank now" "list_all (\<lambda>s. \<not> blank s) refs"
    and state: "terminal_failure state" "state \<noteq> RunCompleted"
  shows "wf_run pl r"
proof -
  from step obtain f c s where r: "r = prior\<lparr>run_state := state, run_candidateSnapshot := c,
       run_result := (case s of None \<Rightarrow> None | Some x \<Rightarrow> if x = [] then None
          else Some \<lparr>res_summary = x, res_evidenceRefs = refs, res_evidenceVerification = None\<rparr>),
       run_failure := Some f, run_completedAt := Some now, run_measurementRefs := ms\<rparr>"
    and f: "parseFailure fv = Inr f" and s: "optional_trim sv = Inr s"
    and c: "c = None \<or> (\<exists>x. c = Some x \<and> createTaskCandidateSnapshot pl (entries_json supplied) n = Inr (x, n'))"
    by (rule failed_run_cases)
  have "pred_option (wf_candidate pl) c"
    using c createTaskCandidateSnapshot_wf [OF _ platform_okD(2) [OF ok]] by auto
  moreover have "x \<noteq> [] \<Longrightarrow> \<not> blank x" if "s = Some x" for x
    using s that by (simp add: optional_trim_not_blank)
  ultimately show ?thesis
    using f wf state
    by (intro ended_run_wf [OF wf(1) r])
      (auto simp: wf_run_result_def parseFailure_sound split: option.splits if_splits)
qed

lemma result_phase_advances:
  assumes "result_phase pl actor idem state k n = Inr (k', n')"
  shows "advances pl actor idem k n k' n'" and "ker_runs k' = ker_runs k" and "ker_reviews k' = ker_reviews k"
    and "ker_closure k' = ker_closure k" and "wf_content pl k' \<longleftrightarrow> wf_content pl k"
    and "ker_phase k' = (if state = RunCompleted then PhVerify else PhExecute)"
proof -
  obtain target tail ev c where p: "appendPhase pl k target actor (idem @ CHR ''#'' # tail) ev c None n = Inr (k', n')"
    "target = (if state = RunCompleted then PhVerify else PhExecute)"
    using assms by (auto simp: result_phase_def split: if_splits)
  show "advances pl actor idem k n k' n'" using p(1) by (rule appendPhase_advances)
  show "ker_runs k' = ker_runs k" "ker_reviews k' = ker_reviews k" "ker_closure k' = ker_closure k"
    "wf_content pl k' \<longleftrightarrow> wf_content pl k" "ker_phase k' = (if state = RunCompleted then PhVerify else PhExecute)"
    using appendPhase_content [OF p(1)] p(2) by simp_all
qed

text \<open>
  A result that returns was recorded for a running Run during Execute, and the Run that replaces it is
  well-formed once it can be read back.
\<close>

lemma result_cases:
  assumes step: "recordTaskRunResult_step pl w root dir actor state supplied req fp idem k n = Inr (k', n')"
  obtains prior i r kernel n0 n1 where "getprop req ''runId'' = JStr (run_id prior)"
    "runAt k (run_id prior) = Inr (prior, i)" "run_state prior = RunRunning" "ker_phase k = PhExecute"
    "n \<le> n0" "run_id r = run_id prior" "run_taskId r = run_taskId prior" "run_state r = state"
    "result_phase pl actor idem state (replaceRun k i r) n0 = Inr (kernel, n1)"
    "appendDomainEvent pl kernel actor idem (result_event state) (run_id r) fp n1 = (k', n')"
    "platform_ok pl \<and> state \<in> set RUN_OUTCOMES \<and> wf_run pl prior \<and> run_readable r \<longrightarrow> wf_run pl r"
    "same_contract prior r" "same_place prior r"
proof -
  obtain prior i refs ms r kernel n0 n1 where s: "getprop req ''runId'' = JStr (run_id prior)"
    "runAt k (run_id prior) = Inr (prior, i)" "run_state prior = RunRunning" "ker_phase k = PhExecute"
    and refs: "parseStringArray True (or_default (getprop req ''evidenceRefs'') (JArr [])) = Inr refs"
    and ms: "merged_measurements (run_measurementRefs prior) (getprop req ''measurementRefs'') = Inr ms"
    and run: "(if state = RunCompleted
        then completed_run pl w root dir prior (getprop req ''summary'') supplied refs ms (isoNow pl n)
        else failed_run pl prior state (getprop req ''failure'') (getprop req ''summary'') supplied refs ms
          (isoNow pl n)) (Suc n) = Inr (r, n0)"
    and k': "result_phase pl actor idem state (replaceRun k i r) n0 = Inr (kernel, n1)"
      "appendDomainEvent pl kernel actor idem (result_event state) (run_id r) fp n1 = (k', n')"
    using step unfolding recordTaskRunResult_step_def by (clarsimp simp: result_simps run_at_request_iff)
  have ms_wf: "wf_measurement_refs ms" using ms by (auto simp: merged_measurements_def dest: parseMeasurementRefs_sound)
  have refs_wf: "list_all (\<lambda>s. \<not> blank s) refs" using refs by (simp add: parseStringArray_iff)
  have r: "run_id r = run_id prior \<and> run_taskId r = run_taskId prior \<and> run_state r = state \<and> n \<le> n0 \<and>
    same_contract prior r \<and> same_place prior r \<and>
    (platform_ok pl \<and> state \<in> set RUN_OUTCOMES \<and> wf_run pl prior \<and> run_readable r \<longrightarrow> wf_run pl r)"
  proof (cases "state = RunCompleted")
    case True
    then have c: "completed_run pl w root dir prior (getprop req ''summary'') supplied refs ms (isoNow pl n) (Suc n) = Inr (r, n0)"
      using run by simp
    have "Suc n \<le> n0" using forwardD [OF forward_completed_run c] .
    then show ?thesis
      using completed_run_wf [OF c _ _ ms_wf] True platform_okD(3) completed_run_ids [OF c]
      by auto
  next
    case False
    then have c: "failed_run pl prior state (getprop req ''failure'') (getprop req ''summary'') supplied refs ms
        (isoNow pl n) (Suc n) = Inr (r, n0)"
      using run by simp
    have "terminal_failure state" if "state \<in> set RUN_OUTCOMES"
      using that False by (auto simp: RUN_OUTCOMES_def terminal_failure_def)
    then show ?thesis
      using failed_run_wf [OF c _ _ ms_wf _ refs_wf _ False] platform_okD(3) failed_run_ids [OF c]
      by auto
  qed
  show thesis
    by (rule that [OF s _ _ _ _ k']) (use r in simp_all)
qed

interpretation record_result: wf_operation pl actor fp "recordTaskRunResult_step pl w root dir actor state supplied req fp"
  "state \<in> set RUN_OUTCOMES"
  for pl actor fp w root dir state supplied req
proof
  fix idem k n k' n'
  assume op: "recordTaskRunResult_step pl w root dir actor state supplied req fp idem k n = Inr (k', n')"
  from op obtain prior i r kernel n0 n1 where s: "runAt k (run_id prior) = Inr (prior, i)"
    "run_state prior = RunRunning" "n \<le> n0" "run_id r = run_id prior" "run_taskId r = run_taskId prior"
    "result_phase pl actor idem state (replaceRun k i r) n0 = Inr (kernel, n1)"
    "appendDomainEvent pl kernel actor idem (result_event state) (run_id r) fp n1 = (k', n')"
    "platform_ok pl \<and> state \<in> set RUN_OUTCOMES \<and> wf_run pl prior \<and> run_readable r \<longrightarrow> wf_run pl r"
    by (rule result_cases) blast
  note phase = result_phase_advances [OF s(6)]
  note content = appendDomainEvent_content [OF s(7)]
  have i: "i < length (ker_runs k)" "ker_runs k ! i = prior" using s(1) by (simp_all add: runAt_iff)
  have "advances pl actor idem k n0 (replaceRun k i r) n0" by (rule advances_same [OF advances_refl]) simp_all
  then have "advances pl actor idem k n0 kernel n1" using phase(1) by (rule advances_trans)
  from extends_earlier [OF appendDomainEvent_extends [OF this s(7)] s(3)]
  show "extends pl actor idem fp k n k' n'" .
  show "run_id ` set (ker_runs k') \<subseteq> run_id ` set (ker_runs k) \<union> randomUUID pl ` {n..<n'}"
    using i s(4) by (simp add: content phase replaceRun_id_set)
  show "\<not> blank (evt_entityId (last (ker_events k')))" if "wf_kernel pl k"
    using runAt_wf(2) [OF s(1) that] s(4) by (simp add: content)
  assume ok: "state \<in> set RUN_OUTCOMES" "platform_ok pl" "wf_kernel pl k" "readable k'"
  have "run_readable r"
    using ok(4) i by (auto simp: content phase replaceRun_def readable_def list_all_iff set_update_memI)
  then have "wf_run pl r" using s(8) ok runAt_wf(1) [OF s(1) ok(3)] by simp
  moreover have "run_candidateSnapshot prior = None"
    using runAt_wf(1) [OF s(1) ok(3)] s(2) by (simp add: wf_run_def run_phase_ok_def active_run_def)
  ultimately have "wf_content pl (replaceRun k i r)"
    using ok(3) i s(4,5) by (intro replaceRun_wf) (simp_all add: wf_kernel_def)
  then show "wf_content pl k'" by (simp add: content phase)
qed

end
