(* ===== verification/Reviews.thy ===== *)
theory Reviews
  imports Runs
begin

text \<open>
  Recording a Review, \<open>core/task/task-kernel-reviews.ts\<close>: of the latest completed Run, by someone who
  neither executed nor approved it, over evidence Core itself observes.

  \<open>root\<close> and \<open>dir\<close> are the canonical project root and Task directory.  \<open>length\<close> counts characters.
\<close>

definition review_fingerprint :: "platform \<Rightarrow> jsobj \<Rightarrow> string" where
  "review_fingerprint pl req =
     fingerprintTaskValue pl (JObj
       [(''runId'', getprop req ''runId''), (''candidateSnapshotId'', getprop req ''candidateSnapshotId''),
        (''candidateFingerprint'', getprop req ''candidateFingerprint''), (''reviewer'', getprop req ''reviewer''),
        (''reviewId'', or_default (getprop req ''reviewId'') JNull), (''decision'', getprop req ''decision''),
        (''evidenceRefs'', getprop req ''evidenceRefs''),
        (''acceptanceEvidence'', or_default (getprop req ''acceptanceEvidence'') (JObj [])),
        (''unresolvedBlockers'', or_default (getprop req ''unresolvedBlockers'') (JArr [])),
        (''measurementRef'', or_default (getprop req ''measurementRef'') JNull)])"

text \<open>The Run a Review may be of: the latest, completed, with its candidate\<close>

definition reviewed_run :: "task_kernel \<Rightarrow> jsval \<Rightarrow> (task_run \<times> nat \<times> candidate_snapshot) outcome" where
  "reviewed_run k v =
     orThrow (find_index (\<lambda>r. JStr (run_id r) = v) (ker_runs k)) invalid_transition (\<lambda>i.
     orThrow (run_candidateSnapshot (ker_runs k ! i)) invalid_transition (\<lambda>c.
     throwIf (run_state (ker_runs k ! i) \<noteq> RunCompleted \<or> latest_run_id k \<noteq> Some (run_id (ker_runs k ! i)))
       invalid_transition
     (Inr (ker_runs k ! i, i, c))))"

definition review_id :: "platform \<Rightarrow> jsval \<Rightarrow> string io" where
  "review_id pl v = (if v = JUndef then askO (randomUUID pl) else liftO (requireNonEmptyString v))"

definition not_independent :: failure where
  "not_independent = KernelError REVIEW_NOT_INDEPENDENT"

text \<open>\<open>[...new Set([...evidenceRefs, ...Object.values(acceptanceEvidence).flat()])]\<close>\<close>

definition review_refs :: "string list \<Rightarrow> evidence_map \<Rightarrow> string list" where
  "review_refs evidenceRefs acceptance = unique (evidenceRefs @ concat (map snd acceptance))"

definition review_measurements :: "task_run \<Rightarrow> jsval \<Rightarrow> measurement_refs outcome" where
  "review_measurements run v =
     merged_measurements (run_measurementRefs run) (JObj (if truthy v then [(''review'', v)] else []))"

text \<open>The checks of who reviews what, up to the decision\<close>

definition assert_reviewer ::
    "string \<Rightarrow> task_run \<Rightarrow> string \<Rightarrow> string \<Rightarrow> task_kernel \<Rightarrow> unit outcome" where
  "assert_reviewer actor run reviewer reviewId k =
     throwIf (128 < length reviewId) invalid_request
     (throwIf (list_ex (\<lambda>r. rev_id r = reviewId) (ker_reviews k)) invalid_request
     (throwIf (reviewer \<noteq> actor) not_independent
     (throwIf (reviewer = run_startedBy run \<or> reviewer = auth_approvedBy (run_authorization run)) not_independent
       (Inr ()))))"

definition recordTaskReview_step ::
    "platform \<Rightarrow> world \<Rightarrow> string \<Rightarrow> string \<Rightarrow> string \<Rightarrow> jsobj \<Rightarrow> string \<Rightarrow> string \<Rightarrow> operation" where
  "recordTaskReview_step pl w root dir actor req fingerprint idem current =
     throwO (ker_phase current \<noteq> PhVerify) invalid_transition
     (bindO (liftO (reviewed_run current (getprop req ''runId''))) (\<lambda>(run, index, candidate).
      throwO (getprop req ''candidateSnapshotId'' \<noteq> JStr (cand_id candidate) \<or>
              getprop req ''candidateFingerprint'' \<noteq> JStr (cand_fingerprint candidate)) candidate_stale
      (bindO (liftO (requireNonEmptyString (getprop req ''reviewer''))) (\<lambda>reviewer.
       bindO (review_id pl (getprop req ''reviewId'')) (\<lambda>reviewId.
       bindO (liftO (assert_reviewer actor run reviewer reviewId current)) (\<lambda>_.
       needO (enum_of decision_name REVIEW_DECISIONS (getprop req ''decision'')) invalid_request (\<lambda>decision.
       bindO (liftO (parseStringArray False (getprop req ''evidenceRefs''))) (\<lambda>evidenceRefs.
       bindO (liftO (parseAcceptanceEvidence (or_default (getprop req ''acceptanceEvidence'') (JObj []))
         (def_acceptanceCriteria (ker_definition current)) (decision = DecPass))) (\<lambda>acceptance.
       bindO (liftO (parseStringArray True (or_default (getprop req ''unresolvedBlockers'') (JArr [])))) (\<lambda>blockers.
       throwO (decision = DecPass \<and> blockers \<noteq> []) (KernelError TASK_GATE_UNSATISFIED)
       (bindO (resolveTaskReviewEvidenceV1 pl w root dir run (cand_id candidate) (cand_fingerprint candidate)
          True True (review_refs evidenceRefs acceptance)) (\<lambda>verification.
        bindO (askO (isoNow pl)) (\<lambda>reviewedAt.
        bindO (liftO (review_measurements run (getprop req ''measurementRef''))) (\<lambda>measurements.
        let review = \<lparr>rev_id = reviewId, rev_taskId = ker_taskId current, rev_runId = run_id run,
              rev_candidateSnapshotId = cand_id candidate, rev_candidateFingerprint = cand_fingerprint candidate,
              rev_reviewer = reviewer, rev_decision = decision, rev_evidenceRefs = evidenceRefs,
              rev_acceptanceEvidence = acceptance, rev_evidenceVerification = Some verification,
              rev_unresolvedBlockers = blockers, rev_reviewedAt = reviewedAt\<rparr> in
        emit pl actor idem EvReviewRecorded reviewId fingerprint
          (current\<lparr>ker_condition := (if decision = DecPass then CndReady else CndBlocked),
            ker_runs := (ker_runs current)[index := run\<lparr>run_measurementRefs := measurements\<rparr>],
            ker_reviews := ker_reviews current @ [review]\<rparr>)))))))))))))))"

definition recordTaskReview ::
    "platform \<Rightarrow> world \<Rightarrow> project \<Rightarrow> string \<Rightarrow> string \<Rightarrow> jsobj \<Rightarrow> nat \<Rightarrow> (mutation_result \<times> project \<times> nat) outcome" where
  "recordTaskReview pl w p root dir req n =
     bindE (requireNonEmptyString (getprop req ''actor'')) (\<lambda>actor.
     mutateTaskKernel pl p dir (getprop req ''expectedRevision'') (JStr actor) (getprop req ''idempotencyKey'')
       (review_fingerprint pl req)
       (recordTaskReview_step pl w root dir actor req (review_fingerprint pl req)) n)"

section \<open>What a Review yields\<close>

lemma reviewed_run_iff:
  "reviewed_run k v = Inr (r, i, c) \<longleftrightarrow> v = JStr (run_id r) \<and> runAt k (run_id r) = Inr (r, i) \<and>
     run_candidateSnapshot r = Some c \<and> run_state r = RunCompleted \<and> latest_run_id k = Some (run_id r)"
  by (auto simp: reviewed_run_def runAt_def result_simps find_index_Some)

text \<open>
  A recorded Review is of the latest completed Run and its frozen candidate; its author is the actor,
  and neither started nor approved the Run; a pass has no blockers and covers every criterion.
\<close>

lemma review_cases:
  assumes step: "recordTaskReview_step pl w root dir actor req fp idem k n = Inr (k', n')"
  obtains r i c v m n0 n1 n2 verification where "ker_phase k = PhVerify" "runAt k (run_id r) = Inr (r, i)"
    "run_candidateSnapshot r = Some c" "run_state r = RunCompleted" "latest_run_id k = Some (run_id r)"
    "rev_runId v = run_id r" "rev_taskId v = ker_taskId k"
    "rev_candidateSnapshotId v = cand_id c" "rev_candidateFingerprint v = cand_fingerprint c"
    "rev_reviewer v = actor" "\<not> blank actor" "actor \<noteq> run_startedBy r" "actor \<noteq> auth_approvedBy (run_authorization r)"
    "rev_id v \<notin> rev_id ` set (ker_reviews k)" "wf_measurement_refs m" "n \<le> n0" "n0 \<le> n1" "n1 < n2"
    "rev_evidenceVerification v = Some verification"
    "resolveTaskReviewEvidenceV1 pl w root dir r (cand_id c) (cand_fingerprint c) True True
       (review_refs (rev_evidenceRefs v) (rev_acceptanceEvidence v)) n0 = Inr (verification, n1)"
    "parseAcceptanceEvidence (or_default (getprop req ''acceptanceEvidence'') (JObj []))
         (def_acceptanceCriteria (ker_definition k)) (rev_decision v = DecPass) = Inr (rev_acceptanceEvidence v)"
    "rev_evidenceRefs v \<noteq> []" "list_all (\<lambda>s. \<not> blank s) (rev_evidenceRefs v)"
    "list_all (\<lambda>s. \<not> blank s) (rev_unresolvedBlockers v)"
    "rev_decision v = DecPass \<longrightarrow> rev_unresolvedBlockers v = []" "rev_reviewedAt v = isoNow pl n1"
    "(\<exists>t. rev_id v = randomUUID pl t) \<or> \<not> blank (rev_id v)"
    "appendDomainEvent pl (k\<lparr>ker_condition := (if rev_decision v = DecPass then CndReady else CndBlocked),
       ker_runs := (ker_runs k)[i := r\<lparr>run_measurementRefs := m\<rparr>], ker_reviews := ker_reviews k @ [v]\<rparr>) actor idem
       EvReviewRecorded (rev_id v) fp n2 = (k', n')"
proof -
  obtain r i c reviewId decision evidenceRefs acceptance blockers verification m n0 n1 where
    s: "ker_phase k = PhVerify" "runAt k (run_id r) = Inr (r, i)"
      "run_candidateSnapshot r = Some c" "run_state r = RunCompleted" "latest_run_id k = Some (run_id r)"
    and a: "getprop req ''reviewer'' = JStr actor" "\<not> blank actor" "actor \<noteq> run_startedBy r"
      "actor \<noteq> auth_approvedBy (run_authorization r)"
    and id: "review_id pl (getprop req ''reviewId'') n = Inr (reviewId, n0)"
      "\<not> list_ex (\<lambda>r. rev_id r = reviewId) (ker_reviews k)"
    and e: "evidenceRefs \<noteq> []" "list_all (\<lambda>s. \<not> blank s) evidenceRefs"
      "parseAcceptanceEvidence (or_default (getprop req ''acceptanceEvidence'') (JObj []))
         (def_acceptanceCriteria (ker_definition k)) (decision = DecPass) = Inr acceptance"
      "list_all (\<lambda>s. \<not> blank s) blockers" "\<not> (decision = DecPass \<and> blockers \<noteq> [])"
    and res: "resolveTaskReviewEvidenceV1 pl w root dir r (cand_id c) (cand_fingerprint c) True True
         (review_refs evidenceRefs acceptance) n0 = Inr (verification, n1)"
    and m: "review_measurements r (getprop req ''measurementRef'') = Inr m"
    and k': "appendDomainEvent pl (k\<lparr>ker_condition := (if decision = DecPass then CndReady else CndBlocked),
       ker_runs := (ker_runs k)[i := r\<lparr>run_measurementRefs := m\<rparr>], ker_reviews := ker_reviews k @
         [\<lparr>rev_id = reviewId, rev_taskId = ker_taskId k, rev_runId = run_id r,
              rev_candidateSnapshotId = cand_id c, rev_candidateFingerprint = cand_fingerprint c,
              rev_reviewer = actor, rev_decision = decision, rev_evidenceRefs = evidenceRefs,
              rev_acceptanceEvidence = acceptance, rev_evidenceVerification = Some verification,
              rev_unresolvedBlockers = blockers, rev_reviewedAt = isoNow pl n1\<rparr>]\<rparr>) actor idem
       EvReviewRecorded reviewId fp (Suc n1) = (k', n')"
    using step unfolding recordTaskReview_step_def Let_def
    by (clarsimp simp: result_simps reviewed_run_iff assert_reviewer_def parseStringArray_iff)
  let ?v = "\<lparr>rev_id = reviewId, rev_taskId = ker_taskId k, rev_runId = run_id r,
              rev_candidateSnapshotId = cand_id c, rev_candidateFingerprint = cand_fingerprint c,
              rev_reviewer = actor, rev_decision = decision, rev_evidenceRefs = evidenceRefs,
              rev_acceptanceEvidence = acceptance, rev_evidenceVerification = Some verification,
              rev_unresolvedBlockers = blockers, rev_reviewedAt = isoNow pl n1\<rparr>"
  have n: "n \<le> n0" "n0 \<le> n1"
    using id(1) forwardD [OF forward_resolve res] by (auto simp: review_id_def result_simps split: if_splits)
  have fresh: "(\<exists>t. reviewId = randomUUID pl t) \<or> \<not> blank reviewId" "reviewId \<notin> rev_id ` set (ker_reviews k)"
    using id by (auto simp: review_id_def result_simps list_ex_iff split: if_splits)
  have m_wf: "wf_measurement_refs m"
    using m by (auto simp: review_measurements_def merged_measurements_def dest: parseMeasurementRefs_sound)
  show thesis
    by (rule that [where r = r and i = i and c = c and v = ?v and m = m and ?n0.0 = n0 and ?n1.0 = n1
          and ?n2.0 = "Suc n1" and verification = verification])
      (use s a e res n fresh m_wf k' in simp_all)
qed

lemma append_review_wf:
  assumes "wf_content pl k" and "wf_review pl v" and "rev_taskId v = ker_taskId k"
    and "rev_id v \<notin> rev_id ` set (ker_reviews k)" and "review_bound (ker_runs k) v"
  shows "wf_content pl (k\<lparr>ker_condition := c, ker_reviews := ker_reviews k @ [v]\<rparr>)"
proof -
  have "rev_decision v = DecPass \<longrightarrow> rev_unresolvedBlockers v = []" using assms(2) by (simp add: wf_review_def)
  moreover have "closure_bound (ker_runs k) (ker_reviews k @ [v]) x" if "closure_bound (ker_runs k) (ker_reviews k) x" for x
    using that by (auto simp: closure_bound_def find_append split: option.splits)
  ultimately show ?thesis
    using assms by (auto simp: wf_content_def reviews_ok_iff pred_option_def)
qed

interpretation record_review: wf_operation pl actor fp "recordTaskReview_step pl w root dir actor req fp" True
  for pl actor fp w root dir req
proof
  fix idem k n k' n'
  assume op: "recordTaskReview_step pl w root dir actor req fp idem k n = Inr (k', n')"
  from op obtain r i c v m n0 n1 n2 verification where s: "runAt k (run_id r) = Inr (r, i)"
    "run_candidateSnapshot r = Some c" "rev_runId v = run_id r" "rev_taskId v = ker_taskId k"
    "rev_candidateSnapshotId v = cand_id c" "rev_candidateFingerprint v = cand_fingerprint c"
    "rev_reviewer v = actor" "rev_id v \<notin> rev_id ` set (ker_reviews k)" "wf_measurement_refs m"
    "n \<le> n0" "n0 \<le> n1" "n1 < n2"
    and ver: "rev_evidenceVerification v = Some verification"
      "resolveTaskReviewEvidenceV1 pl w root dir r (cand_id c) (cand_fingerprint c) True True
         (review_refs (rev_evidenceRefs v) (rev_acceptanceEvidence v)) n0 = Inr (verification, n1)"
    and e: "parseAcceptanceEvidence (or_default (getprop req ''acceptanceEvidence'') (JObj []))
         (def_acceptanceCriteria (ker_definition k)) (rev_decision v = DecPass) = Inr (rev_acceptanceEvidence v)"
      "rev_evidenceRefs v \<noteq> []" "list_all (\<lambda>s. \<not> blank s) (rev_evidenceRefs v)"
      "list_all (\<lambda>s. \<not> blank s) (rev_unresolvedBlockers v)"
      "rev_decision v = DecPass \<longrightarrow> rev_unresolvedBlockers v = []" "rev_reviewedAt v = isoNow pl n1"
      "(\<exists>t. rev_id v = randomUUID pl t) \<or> \<not> blank (rev_id v)"
    and k': "appendDomainEvent pl (k\<lparr>ker_condition := (if rev_decision v = DecPass then CndReady else CndBlocked),
       ker_runs := (ker_runs k)[i := r\<lparr>run_measurementRefs := m\<rparr>], ker_reviews := ker_reviews k @ [v]\<rparr>) actor idem
       EvReviewRecorded (rev_id v) fp n2 = (k', n')"
    by (rule review_cases)
  note content = appendDomainEvent_content [OF k']
  have i: "i < length (ker_runs k)" "ker_runs k ! i = r" using s(1) by (simp_all add: runAt_iff)
  have "extends pl actor idem fp k n2 k' n'"
    by (rule appendDomainEvent_extends [OF advances_same [OF advances_refl] k']) simp_all
  then show "extends pl actor idem fp k n k' n'" by (rule extends_earlier) (use s in simp)
  show "run_id ` set (ker_runs k') \<subseteq> run_id ` set (ker_runs k) \<union> randomUUID pl ` {n..<n'}"
    using replaceRun_id_set [OF i(1), of "r\<lparr>run_measurementRefs := m\<rparr>"] i(2) by (simp add: content replaceRun_def)
  show "\<not> blank (evt_entityId (last (ker_events k')))" if "platform_ok pl"
    using e(7) platform_okD(2) [OF that] by (auto simp: content)
  assume ok: "platform_ok pl" "\<not> blank actor" "wf_kernel pl k" "readable k'"
  let ?k = "replaceRun k i (r\<lparr>run_measurementRefs := m\<rparr>)"
  have r: "wf_run pl r" "wf_content pl k" using runAt_wf [OF s(1) ok(3)] by simp_all
  have "wf_run pl (r\<lparr>run_measurementRefs := m\<rparr>)"
    using r(1) s(9) by (simp add: wf_run_def wf_run_fields_def run_phase_ok_def run_baseline_ok_def active_run_def)
  then have content_wf: "wf_content pl ?k" using r(2) i by (intro replaceRun_wf) simp_all
  have "review_readable v" using ok(4) by (simp add: content readable_def)
  then have sorted: "List.sort (map vei_ref (vver_items verification)) =
      review_expected_refs (rev_evidenceRefs v) (rev_acceptanceEvidence v)"
    by (simp add: review_readable_def ver(1))
  have cand: "\<not> blank (cand_id c)" "is_fingerprint (cand_fingerprint c)" "\<not> blank (run_id r)"
    using r(1) s(2) platform_okD(7) [OF ok(1)]
    by (simp_all add: wf_run_def wf_run_fields_def wf_candidate_def)
  from ver(2) ok(1) r(1) obtain t where "vver_observedAt verification = isoNow pl t" "vver_runId verification = run_id r"
    "vver_candidateSnapshotId verification = cand_id c" "vver_candidateFingerprint verification = cand_fingerprint c"
    "distinct (map vei_ref (vver_items verification))" "list_all wf_review_evidence_item (vver_items verification)"
    by (rule resolve_result)
  then have "wf_review_evidence_verification pl (run_id r) (cand_id c) (cand_fingerprint c)
      (rev_evidenceRefs v) (rev_acceptanceEvidence v) verification"
    using sorted cand platform_okD(3,4) [OF ok(1)] by (simp add: wf_review_evidence_verification_def)
  moreover have "\<not> blank (rev_id v)" using e(7) platform_okD(2) [OF ok(1)] by auto
  moreover have "wf_evidence_map (rev_decision v \<noteq> DecPass) (rev_acceptanceEvidence v)"
    using parseAcceptanceEvidence_sound(1) [OF e(1)] by simp
  ultimately have "wf_review pl v"
    using s e ver(1) cand ok(2) r(2) platform_okD(3) [OF ok(1)]
    by (simp add: wf_review_def wf_content_def)
  moreover have "review_bound (ker_runs ?k) v"
  proof -
    have "List.find (\<lambda>x. run_id x = run_id r) (ker_runs ?k) = Some (r\<lparr>run_measurementRefs := m\<rparr>)"
      using r(2) i by (simp add: replaceRun_def find_update wf_content_def runs_ok_iff)
    then show ?thesis using s by (simp add: review_bound_def)
  qed
  ultimately have "wf_content pl (?k\<lparr>ker_condition := (if rev_decision v = DecPass then CndReady else CndBlocked),
      ker_reviews := ker_reviews ?k @ [v]\<rparr>)"
    using s(4,8) content_wf by (intro append_review_wf) (simp_all add: replaceRun_def)
  then show "wf_content pl k'" by (simp add: content wf_content_def replaceRun_def)
qed

end
