(* ===== verification/Pull_Request.thy ===== *)
theory Pull_Request
  imports Git_Observer
begin

text \<open>
  The facts of a GitHub Pull Request, \<open>core/task/task-pull-request-observer.ts\<close>: the reference names a
  request of the repository that \<open>origin\<close> points to, and \<open>gh api\<close> reports its state.
\<close>

abbreviation unsupported_provider :: failure where
  "unsupported_provider \<equiv> ExternalError ''unsupported-provider''"

abbreviation repository_mismatch :: failure where
  "repository_mismatch \<equiv> ExternalError ''repository-mismatch''"

abbreviation response_invalid :: failure where
  "response_invalid \<equiv> ExternalError ''provider-response-invalid''"

definition MAX_PROVIDER_RESPONSE_BYTES :: nat where
  "MAX_PROVIDER_RESPONSE_BYTES = 64 * 1024"

section \<open>The repository of a remote\<close>

definition repo_name :: "string \<Rightarrow> bool" where
  "repo_name s \<longleftrightarrow> s \<noteq> [] \<and> list_all remote_name_char s"

text \<open>\<open>.replace(/\.git$/i, "")\<close>, and the lazy \<open>+?\<close> before \<open>(?:\.git)?$\<close>, which leaves one character\<close>

definition strip_git :: "string \<Rightarrow> string" where
  "strip_git s = (if ends_with ''.git'' (to_lower s) then take (length s - 4) s else s)"

definition scp_repository :: "string \<Rightarrow> string option" where
  "scp_repository remoteUrl =
     (if starts_with ''git@github.com:'' (to_lower remoteUrl) then
        (case split_on CHR ''/'' (drop 15 remoteUrl) of
           [owner, name] \<Rightarrow>
             if repo_name owner \<and> repo_name name
             then Some (to_lower (owner @ ''/'' @ (if strip_git name = [] then name else strip_git name)))
             else None
         | _ \<Rightarrow> None)
      else None)"

definition strip_slashes :: "string \<Rightarrow> string" where
  "strip_slashes s = rev (dropWhile (\<lambda>c. c = CHR ''/'') (rev (dropWhile (\<lambda>c. c = CHR ''/'') s)))"

definition url_repository :: "url \<Rightarrow> string option" where
  "url_repository url =
     (if to_lower (url_hostname url) \<noteq> ''github.com'' \<or>
         (url_protocol url \<noteq> ''https:'' \<and> url_protocol url \<noteq> ''ssh:'') \<or>
         (url_protocol url = ''https:'' \<and> url_username url \<noteq> []) \<or>
         (url_protocol url = ''ssh:'' \<and> url_username url \<noteq> ''git'') \<or>
         url_password url \<noteq> [] \<or> url_search url \<noteq> [] \<or> url_hash url \<noteq> []
      then None
      else (let repository = strip_git (strip_slashes (url_pathname url)) in
        case split_on CHR ''/'' repository of
          [owner, name] \<Rightarrow> if repo_name owner \<and> repo_name name then Some (to_lower repository) else None
        | _ \<Rightarrow> None))"

definition repositoryFromRemote :: "platform \<Rightarrow> string \<Rightarrow> string option" where
  "repositoryFromRemote pl remoteUrl =
     (case scp_repository remoteUrl of
        Some repository \<Rightarrow> Some repository
      | None \<Rightarrow> (case parseURL pl remoteUrl of None \<Rightarrow> None | Some url \<Rightarrow> url_repository url))"

section \<open>The reference\<close>

record pull_request_ref =
  prr_url :: string
  prr_repository :: string
  prr_number :: int

definition pull_request_url :: "string \<Rightarrow> string \<Rightarrow> int \<Rightarrow> string" where
  "pull_request_url owner name number =
     ''https://github.com/'' @ owner @ ''/'' @ name @ ''/pull/'' @ int_text number"

definition four_parts :: "'a list \<Rightarrow> ('a \<times> 'a \<times> 'a \<times> 'a) option" where
  "four_parts xs = (case xs of [a, b, c, d] \<Rightarrow> Some (a, b, c, d) | _ \<Rightarrow> None)"

lemma four_parts_iff [result_simps]: "four_parts xs = Some (a, b, c, d) \<longleftrightarrow> xs = [a, b, c, d]"
  by (auto simp: four_parts_def split: list.splits)

definition parsePullRequestUrl :: "platform \<Rightarrow> string \<Rightarrow> pull_request_ref outcome" where
  "parsePullRequestUrl pl reference =
     orThrow (parseURL pl reference) unsupported_provider (\<lambda>url.
     orThrow (four_parts (filter (\<lambda>s. s \<noteq> []) (split_on CHR ''/'' (url_pathname url)))) unsupported_provider
       (\<lambda>(owner, name, kind, digits).
     throwIf (url_protocol url \<noteq> ''https:'' \<or> to_lower (url_hostname url) \<noteq> ''github.com'' \<or>
              url_username url \<noteq> [] \<or> url_password url \<noteq> [] \<or> url_search url \<noteq> [] \<or> url_hash url \<noteq> [] \<or>
              to_lower kind \<noteq> ''pull'' \<or> \<not> repo_name owner \<or> \<not> repo_name name \<or>
              \<not> list_all is_digit digits) unsupported_provider
     (let number = digits_value digits in
      throwIf (9007199254740991 < number \<or> number < 1) unsupported_provider
      (Inr \<lparr>prr_url = pull_request_url owner name number,
            prr_repository = to_lower (owner @ ''/'' @ name), prr_number = number\<rparr>))))"

section \<open>The response\<close>

definition nonEmptyString :: "jsval \<Rightarrow> bool" where
  "nonEmptyString v = (case v of JStr s \<Rightarrow> s \<noteq> [] \<and> s = trim s | _ \<Rightarrow> False)"

text \<open>\<open>v?.toLowerCase()\<close>: a value that is no string has no such method.\<close>

definition optional_lower :: "jsval \<Rightarrow> jsval outcome" where
  "optional_lower v =
     (case v of
        JStr s \<Rightarrow> Inr (JStr (to_lower s))
      | JUndef \<Rightarrow> Inr JUndef
      | JNull \<Rightarrow> Inr JUndef
      | _ \<Rightarrow> Inl (ExternalError ''TypeError''))"

text \<open>\<open>.replace(/\/$/, "")\<close>\<close>

definition strip_last_slash :: "string \<Rightarrow> string" where
  "strip_last_slash s = (if s \<noteq> [] \<and> last s = CHR ''/'' then butlast s else s)"

definition merge_commit :: "jsval \<Rightarrow> string option outcome" where
  "merge_commit v =
     (case v of
        JNull \<Rightarrow> Inr None
      | JStr s \<Rightarrow> throwIf (\<not> is_commit_sha (to_lower s)) response_invalid (Inr (Some (to_lower s)))
      | _ \<Rightarrow> Inl response_invalid)"

definition parseProviderResponse :: "pull_request_ref \<Rightarrow> jsval \<Rightarrow> pull_request_fact outcome" where
  "parseProviderResponse expected value =
     (case value of
        JObj input \<Rightarrow>
          (let base = getprop input ''base'';
               full_name = opt_prop (opt_prop base ''repo'') ''full_name'' in
           bindE (optional_lower (opt_prop (getprop input ''head'') ''sha'')) (\<lambda>headSha.
           throwIf (getprop input ''number'' \<noteq> JNum (JInt (prr_number expected))) response_invalid
           (throwIf (case getprop input ''html_url'' of
                       JStr s \<Rightarrow> to_lower (strip_last_slash s) \<noteq> to_lower (prr_url expected)
                     | _ \<Rightarrow> True) response_invalid
           (throwIf (\<not> nonEmptyString full_name \<or> to_lower (str_of full_name) \<noteq> prr_repository expected)
             response_invalid
           (throwIf (\<not> nonEmptyString headSha \<or> \<not> is_commit_sha (str_of headSha)) response_invalid
           (throwIf (\<not> nonEmptyString (opt_prop base ''ref'')) response_invalid
           (orThrow (enum_of pr_state_name PR_STATES (getprop input ''state'')) response_invalid (\<lambda>state.
            orThrow (js_bool (getprop input ''draft'')) response_invalid (\<lambda>draft.
            orThrow (js_bool (getprop input ''merged'')) response_invalid (\<lambda>merged.
            bindE (merge_commit (getprop input ''merge_commit_sha'')) (\<lambda>mergeCommitSha.
            throwIf (merged \<and> state \<noteq> PrClosed) response_invalid
            (Inr \<lparr>pr_url = prr_url expected, pr_repository = prr_repository expected,
                  pr_number = prr_number expected, pr_state = state, pr_draft = draft,
                  pr_headSha = str_of headSha, pr_baseBranch = str_of (opt_prop base ''ref''),
                  pr_merged = merged, pr_mergeCommitSha = mergeCommitSha\<rparr>))))))))))))
      | _ \<Rightarrow> Inl response_invalid)"

section \<open>Observing\<close>

text \<open>\<open>gh\<close>, with its output bounded by \<open>maxBuffer\<close>\<close>

definition runGitHubApi :: "world \<Rightarrow> string list \<Rightarrow> string io" where
  "runGitHubApi w args n =
     (case w_gh w n args of
        Exited (Some status) stdout \<Rightarrow>
          if status = 0 \<and> length stdout \<le> MAX_PROVIDER_RESPONSE_BYTES then Inr (stdout, n + 1)
          else Inl (ExternalError ''provider-unavailable'')
      | _ \<Rightarrow> Inl (ExternalError ''provider-unavailable''))"

definition observeGitHubPullRequest :: "platform \<Rightarrow> world \<Rightarrow> string \<Rightarrow> string \<Rightarrow> pull_request_fact io" where
  "observeGitHubPullRequest pl w repositoryRoot reference =
     bindO (liftO (parsePullRequestUrl pl reference)) (\<lambda>expected.
     bindO (catchO w (readGitRemoteUrl w repositoryRoot ''origin'') (\<lambda>e. failO repository_mismatch)) (\<lambda>remote.
     throwO (repositoryFromRemote pl remote \<noteq> Some (prr_repository expected)) repository_mismatch
     (bindO (runGitHubApi w [''api'', ''-X'', ''GET'', ''--hostname'', ''github.com'', ''-H'',
         ''Accept: application/vnd.github+json'',
         ''repos/'' @ prr_repository expected @ ''/pulls/'' @ int_text (prr_number expected)]) (\<lambda>stdout.
      needO (w_parseJson w stdout) response_invalid (\<lambda>response.
      liftO (parseProviderResponse expected response))))))"

section \<open>What an observed fact establishes\<close>

lemma parsePullRequestUrl_result:
  assumes "parsePullRequestUrl pl s = Inr r"
  obtains owner name where "prr_url r = pull_request_url owner name (prr_number r)"
    "prr_repository r = to_lower (owner @ ''/'' @ name)" "repo_name owner" "repo_name name"
    "1 \<le> prr_number r" "prr_number r \<le> 9007199254740991"
  using assms
  by (auto simp: parsePullRequestUrl_def result_simps Let_def not_less)

lemma merge_commit_sha: "merge_commit v = Inr s \<Longrightarrow> pred_option is_commit_sha s"
  by (auto simp: merge_commit_def result_simps split: jsval.splits)

lemma parseProviderResponse_result:
  assumes "parseProviderResponse r v = Inr pr"
  shows "pr_url pr = prr_url r" and "pr_repository pr = prr_repository r" and "pr_number pr = prr_number r"
    and "is_commit_sha (pr_headSha pr)" and "\<not> blank (pr_baseBranch pr)"
    and "pred_option is_commit_sha (pr_mergeCommitSha pr)" and "pr_merged pr \<Longrightarrow> pr_state pr = PrClosed"
proof -
  obtain input where v: "v = JObj input" using assms by (cases v) (auto simp: parseProviderResponse_def)
  have trimmed: "nonEmptyString u \<Longrightarrow> \<not> blank (str_of u)" for u
    by (cases u) (auto simp: nonEmptyString_def blank_def)
  show "pr_url pr = prr_url r" "pr_repository pr = prr_repository r" "pr_number pr = prr_number r"
    "is_commit_sha (pr_headSha pr)" "\<not> blank (pr_baseBranch pr)" "pr_merged pr \<Longrightarrow> pr_state pr = PrClosed"
    "pred_option is_commit_sha (pr_mergeCommitSha pr)"
    using assms unfolding v parseProviderResponse_def Let_def
    by (auto simp: result_simps trimmed dest: merge_commit_sha)
qed

text \<open>
  A fact is about a request of the repository \<open>origin\<close> names, and the provider said so: it reported
  the number, the repository and the page the reference names.
\<close>

lemma observeGitHubPullRequest_result:
  assumes "observeGitHubPullRequest pl w root reference n = Inr (pr, n')"
  obtains r remote k n1 response where "parsePullRequestUrl pl reference = Inr r"
    "readGitRemoteUrl w root ''origin'' n = Inr (remote, n1)"
    "repositoryFromRemote pl remote = Some (prr_repository r)" "parseProviderResponse r response = Inr pr"
  using assms by (auto simp: observeGitHubPullRequest_def result_simps)

end
