(* ===== verification/Close.thy ===== *)
theory Close
  imports Reviews Pull_Request
begin

text \<open>
  Closing a Task, \<open>core/task/task-kernel-close.ts\<close>: the conditions of a close, each with the
  message it is refused with, and what Core observes again before it closes: the evidence of the
  Review, the candidate, the delivery.

  \<open>evaluateTaskClose\<close> collects messages and catches what the observations throw; it never fails.
  A message is a value of \<open>close_error\<close>, one constructor for each text of the code, with the
  failure a \<open>catch\<close> block printed.
\<close>

section \<open>Delivery\<close>

definition delivery_invalid :: failure where
  "delivery_invalid = KernelError INVALID_DELIVERY_EVIDENCE"

definition assertPullRequestMatchesCandidate :: "pull_request_fact \<Rightarrow> string \<Rightarrow> unit outcome" where
  "assertPullRequestMatchesCandidate pr candidateHead =
     throwIf (pr_headSha pr \<noteq> candidateHead) delivery_invalid
     (throwIf (pr_draft pr) delivery_invalid
     (throwIf (pr_state pr \<noteq> PrOpen \<and> \<not> pr_merged pr) delivery_invalid (Inr ())))"

text \<open>The path a delivery is checked at: a local delivery may name it as its reference.\<close>

definition delivery_path :: "delivery_evidence \<Rightarrow> string option" where
  "delivery_path d =
     (case dev_path d of Some p \<Rightarrow> Some p
      | None \<Rightarrow> if remote_level (dev_level d) \<or> dev_reference d = [] then None else Some (dev_reference d))"

fun git_part :: "run_observation \<Rightarrow> git_observation option" where
  "git_part (GitObservation g) = Some g"
| "git_part (FileObservation f) = None"

fun observation_root :: "run_observation \<Rightarrow> string" where
  "observation_root (GitObservation g) = gob_repositoryRoot g"
| "observation_root (FileObservation f) = fob_repositoryRoot f"

fun observation_source :: "run_observation \<Rightarrow> candidate_source" where
  "observation_source (GitObservation g) = GitWorkingTree"
| "observation_source (FileObservation f) = ProjectFiles"

text \<open>The delivered file as it is now, and the candidate's entry of it\<close>

definition delivered_file ::
    "platform \<Rightarrow> world \<Rightarrow> run_observation \<Rightarrow> string \<Rightarrow> (string \<times> string \<times> current_file option) io" where
  "delivered_file pl w b p =
     (let candidateFile = List.find (\<lambda>f. cur_path f = p) (observation_files b) in
      bindO (case b of
          GitObservation g \<Rightarrow> bindO (fingerprintCurrentRepositoryFile pl w (gob_repositoryRoot g) p) (\<lambda>f. okO (Some f))
        | FileObservation _ \<Rightarrow> okO candidateFile) (\<lambda>current.
      needO current delivery_invalid (\<lambda>currentFile.
      throwO (cur_kind currentFile \<noteq> CurRegular) delivery_invalid
      (needO (cur_sha256 currentFile) delivery_invalid (\<lambda>sha.
       throwO (case candidateFile of None \<Rightarrow> False
           | Some f \<Rightarrow> cur_kind f \<noteq> CurRegular \<or> cur_sha256 f \<noteq> Some sha) delivery_invalid
       (okO (cur_path currentFile, sha, candidateFile)))))))"

text \<open>Whether the working tree has any path that is not committed\<close>

definition dirty :: "git_state \<Rightarrow> bool" where
  "dirty s \<longleftrightarrow> gst_stagedPaths s \<noteq> [] \<or> gst_unstagedPaths s \<noteq> [] \<or> gst_untrackedPaths s \<noteq> [] \<or>
     gst_conflictPaths s \<noteq> []"

text \<open>The part of \<open>verifyDelivery\<close> that a remote delivery goes through\<close>

definition verify_remote ::
    "platform \<Rightarrow> world \<Rightarrow> delivery_evidence \<Rightarrow> git_observation \<Rightarrow> string \<Rightarrow> string \<Rightarrow> tree_file option \<Rightarrow>
     delivery_verification \<Rightarrow> delivery_verification io" where
  "verify_remote pl w delivery g p sha candidateGitFile result =
     throwO (dirty (gob_state g)) delivery_invalid
     (needO candidateGitFile delivery_invalid (\<lambda>treeFile.
      throwO (sha \<noteq> tre_sha256 treeFile) delivery_invalid
      (bindO (observeGitHubPullRequest pl w (gob_repositoryRoot g) (dev_reference delivery)) (\<lambda>pr.
       bindO (liftO (assertPullRequestMatchesCandidate pr (gst_head (gob_state g)))) (\<lambda>_.
       if dev_level delivery = PullRequest
       then throwO (pr_state pr \<noteq> PrOpen \<or> pr_merged pr) delivery_invalid (okO (result\<lparr>dver_pullRequest := Some pr\<rparr>))
       else needO (dev_targetBranch delivery) delivery_invalid (\<lambda>targetBranch.
        throwO (\<not> pr_merged pr \<or> pr_state pr \<noteq> PrClosed) delivery_invalid
        (throwO (pr_baseBranch pr \<noteq> targetBranch) delivery_invalid
        (needO (pr_mergeCommitSha pr) delivery_invalid (\<lambda>mergeSha.
         bindO (resolveGitLocalBranchSha w (gob_repositoryRoot g) targetBranch) (\<lambda>targetSha.
         bindO (isGitCommitAncestor w (gob_repositoryRoot g) mergeSha targetSha) (\<lambda>ancestor.
         throwO (\<not> ancestor) delivery_invalid
         (bindO (fingerprintGitTreeFile pl w (gob_repositoryRoot g) targetSha p) (\<lambda>targetFile.
          throwO (map_option tre_sha256 targetFile \<noteq> Some (tre_sha256 treeFile)) delivery_invalid
          (okO (result\<lparr>dver_targetBranch := Some targetBranch, dver_targetSha := Some targetSha,
             dver_integrationCommitSha := Some mergeSha, dver_ancestryVerified := Some True,
             dver_pullRequest := Some pr\<rparr>)))))))))))))))"

definition verifyDelivery ::
    "platform \<Rightarrow> world \<Rightarrow> task_run \<Rightarrow> delivery_evidence \<Rightarrow> run_observation \<Rightarrow> delivery_verification io" where
  "verifyDelivery pl w run delivery b =
     throwO (git_part b = None \<and> remote_level (dev_level delivery)) delivery_invalid
     (needO (delivery_path delivery) delivery_invalid (\<lambda>p.
      bindO (liftO (isTaskRunPathInWriteSet pl run p)) (\<lambda>inside.
      throwO (\<not> inside) delivery_invalid
      (bindO (delivered_file pl w b p) (\<lambda>(currentPath, sha, candidateFile).
       bindO (case git_part b of None \<Rightarrow> okO None
           | Some g \<Rightarrow> fingerprintGitTreeFile pl w (gob_repositoryRoot g) (gst_head (gob_state g)) p) (\<lambda>candidateGitFile.
       throwO (candidateFile = None \<and> candidateGitFile = None) delivery_invalid
       (bindO (askO (isoNow pl)) (\<lambda>observedAt.
        let result = \<lparr>dver_observedAt = observedAt,
              dver_candidateFingerprint = (case run_candidateSnapshot run of None \<Rightarrow> [] | Some c \<Rightarrow> cand_fingerprint c),
              dver_candidateSource = observation_source b,
              dver_candidateHead = map_option (\<lambda>g. gst_head (gob_state g)) (git_part b),
              dver_level = dev_level delivery, dver_path = currentPath, dver_fileSha256 = sha,
              dver_gitBlobSha256 = map_option tre_sha256 candidateGitFile, dver_targetBranch = None,
              dver_targetSha = None, dver_integrationCommitSha = None, dver_ancestryVerified = None,
              dver_pullRequest = None\<rparr> in
        if \<not> remote_level (dev_level delivery) then okO result
        else needO (git_part b) delivery_invalid (\<lambda>g.
          verify_remote pl w delivery g p sha candidateGitFile result)))))))))"

section \<open>The conditions of a close\<close>

datatype close_error =
    NotInVerify kernel_phase
  | AlreadyClosed
  | NoFrozenCandidate
  | NotLatestRun
  | NoReview
  | ReviewOfOtherRun
  | ReviewOfOtherCandidate
  | ReviewNotIndependent
  | NotLatestReview
  | ReviewNotPassing
  | ReviewBlocked
  | ReviewWithoutEvidence
  | ReviewUnverified
  | NoTaskDirectory
  | CriterionWithoutEvidence string
  | RequestNamesOtherCandidate
  | CandidateNotObserved
  | CandidateStale
  | CandidateOutOfScope scope_status
  | CannotReobserve failure
  | Caught failure
  | RevisionConflict nat

record close_verification =
  clv_errors :: "close_error list"
  clv_candidateObservation :: "candidate_observation option"
  clv_deliveryVerification :: "delivery_verification option"

text \<open>A message pushed under a condition\<close>

definition push_if :: "bool \<Rightarrow> close_error \<Rightarrow> close_error list" where
  "push_if c e = (if c then [e] else [])"

definition run_by_id :: "task_kernel \<Rightarrow> jsval \<Rightarrow> task_run option" where
  "run_by_id k v = List.find (\<lambda>r. JStr (run_id r) = v) (ker_runs k)"

definition review_by_id :: "task_kernel \<Rightarrow> jsval \<Rightarrow> task_review option" where
  "review_by_id k v = List.find (\<lambda>r. JStr (rev_id r) = v) (ker_reviews k)"

definition state_errors :: "task_kernel \<Rightarrow> task_run option \<Rightarrow> close_error list" where
  "state_errors k run =
     push_if (ker_phase k \<noteq> PhVerify) (NotInVerify (ker_phase k)) @
     push_if (ker_closure k \<noteq> None \<or> ker_phase k = PhClose) AlreadyClosed @
     push_if (case run of None \<Rightarrow> True | Some r \<Rightarrow> run_state r \<noteq> RunCompleted \<or> run_candidateSnapshot r = None)
       NoFrozenCandidate @
     push_if (case run of None \<Rightarrow> False | Some r \<Rightarrow> latest_run_id k \<noteq> Some (run_id r)) NotLatestRun"

text \<open>The last Review of the candidate a Review is of\<close>

definition latest_review :: "task_kernel \<Rightarrow> task_run \<Rightarrow> task_review \<Rightarrow> task_review option" where
  "latest_review k run review =
     last_opt (filter (\<lambda>v. rev_runId v = run_id run \<and>
         rev_candidateSnapshotId v = rev_candidateSnapshotId review \<and>
         rev_candidateFingerprint v = rev_candidateFingerprint review) (ker_reviews k))"

definition other_candidate :: "task_run \<Rightarrow> task_review \<Rightarrow> bool" where
  "other_candidate run review \<longleftrightarrow>
     (case run_candidateSnapshot run of None \<Rightarrow> True
      | Some c \<Rightarrow> rev_candidateSnapshotId review \<noteq> cand_id c \<or> rev_candidateFingerprint review \<noteq> cand_fingerprint c)"

definition review_errors :: "task_kernel \<Rightarrow> task_run \<Rightarrow> task_review \<Rightarrow> close_error list" where
  "review_errors k run review =
     push_if (rev_runId review \<noteq> run_id run) ReviewOfOtherRun @
     push_if (other_candidate run review) ReviewOfOtherCandidate @
     push_if (rev_reviewer review = run_startedBy run \<or>
              rev_reviewer review = auth_approvedBy (run_authorization run)) ReviewNotIndependent @
     push_if (map_option rev_id (latest_review k run review) \<noteq> Some (rev_id review)) NotLatestReview @
     push_if (rev_decision review \<noteq> DecPass) ReviewNotPassing @
     push_if (rev_unresolvedBlockers review \<noteq> []) ReviewBlocked @
     push_if (rev_evidenceRefs review = []) ReviewWithoutEvidence"

definition criteria_errors :: "task_kernel \<Rightarrow> task_review \<Rightarrow> close_error list" where
  "criteria_errors k review =
     map (\<lambda>c. CriterionWithoutEvidence (crit_id c))
       (filter (lacks_evidence (rev_acceptanceEvidence review)) (def_acceptanceCriteria (ker_definition k)))"

text \<open>What a program throws, as the list of messages its \<open>catch\<close> block pushes\<close>

definition caught :: "world \<Rightarrow> (failure \<Rightarrow> close_error) \<Rightarrow> unit io \<Rightarrow> close_error list io" where
  "caught w c m = catchO w (bindO m (\<lambda>_. okO [])) (\<lambda>e. okO [c e])"

definition caught_pure :: "'a outcome \<Rightarrow> close_error list" where
  "caught_pure m = (case m of Inl e \<Rightarrow> [Caught e] | Inr _ \<Rightarrow> [])"

definition evidence_errors ::
    "platform \<Rightarrow> world \<Rightarrow> string \<Rightarrow> string option \<Rightarrow> task_run \<Rightarrow> task_review \<Rightarrow> close_error list io" where
  "evidence_errors pl w root dir run review =
     (case rev_evidenceVerification review of
        None \<Rightarrow> okO [ReviewUnverified]
      | Some expected \<Rightarrow>
          (case dir of
             None \<Rightarrow> okO [NoTaskDirectory]
           | Some d \<Rightarrow>
               (case run_candidateSnapshot run of
                  None \<Rightarrow> okO []
                | Some c \<Rightarrow> caught w Caught
                    (verifyTaskReviewEvidenceV1 pl w root d run (cand_id c) (cand_fingerprint c) True True
                      (review_refs (rev_evidenceRefs review) (rev_acceptanceEvidence review)) expected))))"

definition review_part ::
    "platform \<Rightarrow> world \<Rightarrow> string \<Rightarrow> string option \<Rightarrow> task_kernel \<Rightarrow> task_run option \<Rightarrow> task_review option \<Rightarrow>
     close_error list io" where
  "review_part pl w root dir k run review =
     (case (run, review) of
        (Some r, Some v) \<Rightarrow>
          bindO (evidence_errors pl w root dir r v) (\<lambda>es. okO (review_errors k r v @ es @ criteria_errors k v))
      | _ \<Rightarrow> okO [])"

section \<open>The candidate, observed again\<close>

definition request_errors :: "candidate_snapshot \<Rightarrow> jsval \<Rightarrow> close_error list" where
  "request_errors c v =
     (case parseCandidateObservation v of
        Inl e \<Rightarrow> [Caught e]
      | Inr caller \<Rightarrow> push_if (obs_snapshotId caller \<noteq> cand_id c \<or> obs_fingerprint caller \<noteq> cand_fingerprint c)
          RequestNamesOtherCandidate)"

text \<open>The entry the frozen candidate was observed with, when there is just that one\<close>

definition frozen_observation :: "candidate_snapshot \<Rightarrow> run_observation \<Rightarrow> snapshot_entry option" where
  "frozen_observation c b =
     (case filter (\<lambda>e. isRunCandidateObservationEntry (ent_ref e)) (cand_entries c) of
        [e] \<Rightarrow> if ent_ref e = taskCandidateObservationEntryRef b then Some e else None
      | _ \<Rightarrow> None)"

definition candidate_errors :: "candidate_snapshot \<Rightarrow> run_observation \<Rightarrow> close_error list" where
  "candidate_errors c b =
     (case frozen_observation c b of
        None \<Rightarrow> [CandidateNotObserved]
      | Some e \<Rightarrow> push_if (ent_fingerprint e \<noteq> observation_fingerprint b) CandidateStale) @
     push_if (observation_scope b \<noteq> WithinWriteSet) (CandidateOutOfScope (observation_scope b))"

definition trusted_observation :: "candidate_snapshot \<Rightarrow> run_observation \<Rightarrow> candidate_observation option" where
  "trusted_observation c b =
     (case frozen_observation c b of
        None \<Rightarrow> None
      | Some e \<Rightarrow> if ent_fingerprint e \<noteq> observation_fingerprint b then None
          else Some \<lparr>obs_snapshotId = cand_id c, obs_fingerprint = cand_fingerprint c,
            obs_observedBy = ''pactile-core-task-close'', obs_observedAt = observation_observedAt b,
            obs_source = candidate_source_name (observation_source b),
            obs_evidenceRef = taskCandidateObservationEntryRef b\<rparr>)"

definition no_baseline :: "task_run \<Rightarrow> bool" where
  "no_baseline run \<longleftrightarrow> run_candidateBaseSha run = None \<and> run_workspace run = None \<and>
     run_candidateFileBaseline run = None"

text \<open>The observation and its messages; the observation is \<open>None\<close> where it threw.\<close>

definition reobserve ::
    "platform \<Rightarrow> world \<Rightarrow> string \<Rightarrow> task_run option \<Rightarrow> jsval \<Rightarrow>
     (close_error list \<times> run_observation option \<times> candidate_observation option) io" where
  "reobserve pl w root run observationInput =
     (case run of
        None \<Rightarrow> okO ([], None, None)
      | Some r \<Rightarrow>
          (case run_candidateSnapshot r of
             None \<Rightarrow> okO ([], None, None)
           | Some c \<Rightarrow> catchO w
               (throwO (no_baseline r) (ExternalError ''Error'')
                 (bindO (observe_run pl w root r) (\<lambda>b.
                  okO (request_errors c observationInput @ candidate_errors c b, Some b, trusted_observation c b))))
               (\<lambda>e. okO (request_errors c observationInput @ [CannotReobserve e], None, None))))"

section \<open>The evaluation\<close>

definition delivery_part ::
    "platform \<Rightarrow> world \<Rightarrow> task_run option \<Rightarrow> delivery_evidence outcome \<Rightarrow> run_observation option \<Rightarrow>
     candidate_observation option \<Rightarrow> (close_error list \<times> delivery_verification option) io" where
  "delivery_part pl w run parsed current trusted =
     (case (run, parsed, current, trusted) of
        (Some r, Inr d, Some b, Some _) \<Rightarrow>
          catchO w (bindO (verifyDelivery pl w r d b) (\<lambda>v. okO ([], Some v))) (\<lambda>e. okO ([Caught e], None))
      | _ \<Rightarrow> okO ([], None))"

definition evaluateTaskClose ::
    "platform \<Rightarrow> world \<Rightarrow> project \<Rightarrow> string \<Rightarrow> task_kernel \<Rightarrow> jsval \<Rightarrow> jsval \<Rightarrow> jsval \<Rightarrow> jsval \<Rightarrow> string option \<Rightarrow>
     close_verification io" where
  "evaluateTaskClose pl w p root k runId reviewId observationInput deliveryInput dir =
     (let run = run_by_id k runId;
          review = review_by_id k reviewId;
          parsed = parseDeliveryEvidence pl (Some (def_deliveryLevel (ker_definition k))) deliveryInput in
      bindO (review_part pl w root dir k run review) (\<lambda>reviewErrors.
      bindO (reobserve pl w root run observationInput) (\<lambda>(candidateErrors, current, trusted).
      bindO (delivery_part pl w run parsed current trusted) (\<lambda>(deliveryErrors, verification).
      okO \<lparr>clv_errors = state_errors k run @ push_if (review = None) NoReview @ reviewErrors @ candidateErrors @
             caught_pure (assertHardDependenciesSatisfied pl p (def_dependencies (ker_definition k)) dir) @
             caught_pure parsed @ deliveryErrors,
           clv_candidateObservation = trusted, clv_deliveryVerification = verification\<rparr>))))"

definition taskCloseErrors ::
    "platform \<Rightarrow> world \<Rightarrow> project \<Rightarrow> string \<Rightarrow> task_kernel \<Rightarrow> jsval \<Rightarrow> jsval \<Rightarrow> jsval \<Rightarrow> jsval \<Rightarrow> string option \<Rightarrow>
     close_error list io" where
  "taskCloseErrors pl w p root k runId reviewId observationInput deliveryInput dir =
     bindO (evaluateTaskClose pl w p root k runId reviewId observationInput deliveryInput dir)
       (\<lambda>v. okO (clv_errors v))"

text \<open>\<open>readTaskKernel\<close>, as far as a caller that accepts schema version 2 alone goes on\<close>

definition readTaskKernelV2 :: "platform \<Rightarrow> project \<Rightarrow> string \<Rightarrow> task_kernel outcome" where
  "readTaskKernelV2 pl p dir =
     (let t = dir_or_empty p dir in
      case import_refusal t of
        Some e \<Rightarrow> Inl e
      | None \<Rightarrow> bindE (current_document t) (\<lambda>document.
          throwIf (\<not> is_v2_document document) invalid_request (parseTaskKernelSnapshotV2 pl document)))"

definition checkTaskClose ::
    "platform \<Rightarrow> world \<Rightarrow> project \<Rightarrow> string \<Rightarrow> string \<Rightarrow> jsobj \<Rightarrow> close_error list io" where
  "checkTaskClose pl w p root dir req =
     bindO (liftO (readTaskKernelV2 pl p dir)) (\<lambda>k.
     bindO (taskCloseErrors pl w p root k (getprop req ''runId'') (getprop req ''reviewId'')
       (getprop req ''candidateObservation'') (getprop req ''deliveryEvidence'') (Some dir)) (\<lambda>es.
     okO (push_if (getprop req ''expectedRevision'' \<noteq> nat_val (ker_revision k)) (RevisionConflict (ker_revision k)) @ es)))"

section \<open>The close\<close>

definition close_fingerprint :: "platform \<Rightarrow> jsobj \<Rightarrow> string" where
  "close_fingerprint pl req =
     fingerprintTaskValue pl (JObj
       [(''runId'', getprop req ''runId''), (''reviewId'', getprop req ''reviewId''),
        (''candidateObservation'', getprop req ''candidateObservation''),
        (''deliveryEvidence'', getprop req ''deliveryEvidence'')])"

definition gate_unsatisfied :: failure where
  "gate_unsatisfied = KernelError TASK_GATE_UNSATISFIED"

definition closeTaskKernel_step ::
    "platform \<Rightarrow> world \<Rightarrow> project \<Rightarrow> string \<Rightarrow> string \<Rightarrow> string \<Rightarrow> jsobj \<Rightarrow> string \<Rightarrow> string \<Rightarrow> operation" where
  "closeTaskKernel_step pl w p root dir actor req fingerprint idem current =
     bindO (evaluateTaskClose pl w p root current (getprop req ''runId'') (getprop req ''reviewId'')
       (getprop req ''candidateObservation'') (getprop req ''deliveryEvidence'') (Some dir)) (\<lambda>verification.
     throwO (clv_errors verification \<noteq> []) gate_unsatisfied
     (needO (run_by_id current (getprop req ''runId'')) gate_unsatisfied (\<lambda>run.
      needO (review_by_id current (getprop req ''reviewId'')) gate_unsatisfied (\<lambda>review.
      needO (run_candidateSnapshot run) gate_unsatisfied (\<lambda>candidate.
      needO (clv_candidateObservation verification) gate_unsatisfied (\<lambda>observation.
      needO (clv_deliveryVerification verification) gate_unsatisfied (\<lambda>delivered.
      bindO (liftO (parseDeliveryEvidence pl (Some (def_deliveryLevel (ker_definition current)))
        (getprop req ''deliveryEvidence''))) (\<lambda>evidence.
      bindO (askO (isoNow pl)) (\<lambda>closedAt.
      bindO (appendPhase pl current PhClose actor (idem @ ''#close'')
        ''Task acceptance and machine-observed delivery evidence satisfied.'' None None) (\<lambda>kernel.
      emit pl actor idem EvTaskClosed (ker_taskId current) fingerprint
        (kernel\<lparr>ker_outcome := Some OutCompleted, ker_condition := CndReady,
          ker_closure := Some \<lparr>clo_runId = run_id run, clo_reviewId = rev_id review,
            clo_candidateSnapshotId = cand_id candidate, clo_candidateFingerprint = cand_fingerprint candidate,
            clo_candidateObservation = observation,
            clo_deliveryEvidence = evidence\<lparr>dev_path := Some (dver_path delivered)\<rparr>,
            clo_deliveryVerification = Some delivered,
            clo_acceptanceEvidence = rev_acceptanceEvidence review, clo_closedAt = closedAt,
            clo_closedBy = actor\<rparr>\<rparr>)))))))))))"

definition closeTaskKernel ::
    "platform \<Rightarrow> world \<Rightarrow> project \<Rightarrow> string \<Rightarrow> string \<Rightarrow> jsobj \<Rightarrow> nat \<Rightarrow> (mutation_result \<times> project \<times> nat) outcome" where
  "closeTaskKernel pl w p root dir req n =
     bindE (requireNonEmptyString (getprop req ''actor'')) (\<lambda>actor.
     mutateTaskKernel pl p dir (getprop req ''expectedRevision'') (JStr actor) (getprop req ''idempotencyKey'')
       (close_fingerprint pl req)
       (closeTaskKernel_step pl w p root dir actor req (close_fingerprint pl req)) n)"

section \<open>What the observations of a close establish\<close>

lemma push_if_Nil [simp]: "push_if c e = [] \<longleftrightarrow> \<not> c"
  by (simp add: push_if_def)

lemma caught_Nil: "caught w c m n = Inr ([], n') \<Longrightarrow> m n = Inr ((), n')"
  by (auto simp: caught_def result_simps)

lemma caught_pure_Nil: "caught_pure m = [] \<longleftrightarrow> (\<exists>a. m = Inr a)"
  by (cases m) (simp_all add: caught_pure_def)

lemma observeGitCandidate_time:
  assumes "observeGitCandidate pl w root ws base branch n = Inr (b, n')"
  shows "\<exists>t. gob_observedAt b = isoNow pl t"
  using assms unfolding observeGitCandidate_def Let_def
  by (clarsimp simp: result_simps split: option.split_asm if_splits) auto

lemma observe_run_git:
  assumes "observe_run pl w root run n = Inr (GitObservation g, n')"
  shows "\<exists>t. gob_observedAt g = isoNow pl t" and "is_commit_sha (gst_head (gob_state g))"
proof -
  obtain r ws base branch k k' where g: "observeGitCandidate pl w r ws base branch k = Inr (g, k')"
    using assms unfolding observe_run_def observeTaskRunCandidate_def Let_def
    by (auto simp: result_simps split: option.splits)
  show "\<exists>t. gob_observedAt g = isoNow pl t" using g by (rule observeGitCandidate_time)
  from g obtain root' k1 k2 where "collectGitState pl w root' (gob_expectedBaseSha g) k1 = Inr (gob_state g, k2)"
    by (rule observeGitCandidate_result)
  then show "is_commit_sha (gst_head (gob_state g))" by (rule collectGitState_result)
qed

lemma entry_at_mem: "entry_at es p = Some e \<Longrightarrow> e \<in> set es \<and> bent_path e = p"
  unfolding entry_at_def by (drule find_Some_in_set) simp

lemma current_of_regular:
  "cur_kind (current_of es p) = CurRegular \<Longrightarrow>
   \<exists>e \<in> set es. bent_path e = cur_path (current_of es p) \<and> cur_sha256 (current_of es p) = Some (bent_sha256 e)"
  by (auto simp: current_of_def split: option.splits dest: entry_at_mem)

lemma observe_run_files:
  assumes "observe_run pl w root run n = Inr (FileObservation f, n')" and ok: "platform_ok pl"
  shows "\<exists>t. fob_observedAt f = isoNow pl t"
    and "\<forall>x \<in> set (fob_currentFiles f). cur_kind x = CurRegular \<longrightarrow>
      plain_path (cur_path x) \<and> pred_option is_fingerprint (cur_sha256 x)"
proof -
  obtain r base ws k k' where f: "observeProjectFileCandidate pl w r base ws k = Inr (f, k')"
    using assms(1) unfolding observe_run_def observeTaskRunCandidate_def Let_def
    by (auto simp: result_simps split: option.splits)
  obtain scan j j' ps t where scan: "stableProjectScan pl w r j = Inr (scan, j')"
    and files: "fob_currentFiles f = map (current_of (scan_files scan)) ps" and t: "fob_observedAt f = isoNow pl t"
    using f unfolding observeProjectFileCandidate_def Let_def by (clarsimp simp: result_simps)
  show "\<exists>t. fob_observedAt f = isoNow pl t" using t by blast
  have "plain_path (bent_path e) \<and> is_fingerprint (bent_sha256 e)" if "e \<in> set (scan_files scan)" for e
    using that stableProjectScan_result(1) [OF scan ok]
    by (auto simp: list_all_iff scanned_file_def safeRelativePath_iff)
  then show "\<forall>x \<in> set (fob_currentFiles f). cur_kind x = CurRegular \<longrightarrow>
      plain_path (cur_path x) \<and> pred_option is_fingerprint (cur_sha256 x)"
    using current_of_regular unfolding files by fastforce
qed

lemma fingerprintCurrentRepositoryFile_result:
  assumes "fingerprintCurrentRepositoryFile pl w root p n = Inr (f, n')" and ok: "platform_ok pl"
  shows "cur_path f = forward_slashes p" and "plain_path (cur_path f)" and "pred_option is_fingerprint (cur_sha256 f)"
proof -
  obtain r q b k k' where q: "normalizeRepositoryPath p = Inr q" and f: "readCurrentFile pl w r q 0 k = Inr ((f, b), k')"
    using assms(1) by (auto simp: fingerprintCurrentRepositoryFile_def result_simps)
  show "cur_path f = forward_slashes p" "plain_path (cur_path f)"
    using q readCurrentFile_budget(1) [OF f] by (auto simp: normalizeRepositoryPath_iff)
  show "pred_option is_fingerprint (cur_sha256 f)"
    using f platform_okD(5) [OF ok]
    by (auto simp: readCurrentFile_def missing_file_def read_present_file_def result_simps Let_def
        split: lstat_reply.splits option.splits if_splits)
qed

lemma fingerprintGitTreeFile_sha:
  "fingerprintGitTreeFile pl w root sha p n = Inr (Some t, n') \<Longrightarrow> platform_ok pl \<Longrightarrow> is_fingerprint (tre_sha256 t)"
  by (auto simp: fingerprintGitTreeFile_def result_simps Let_def platform_okD split: if_splits)

lemma resolveGitLocalBranchSha_sha: "resolveGitLocalBranchSha w root b n = Inr (sha, n') \<Longrightarrow> is_commit_sha sha"
  by (auto simp: resolveGitLocalBranchSha_def requireCommitSha_def result_simps Let_def)

lemma delivered_file_result:
  assumes d: "delivered_file pl w b p n = Inr ((q, sha, candidateFile), n')"
    and b: "observe_run pl w root run k = Inr (b, k')" and ok: "platform_ok pl" and p: "\<not> blank p"
  shows "plain_path q" and "\<not> blank q" and "is_fingerprint sha"
    and "pred_option (\<lambda>f. cur_kind f = CurRegular \<and> cur_sha256 f = Some sha) candidateFile"
proof -
  show "pred_option (\<lambda>f. cur_kind f = CurRegular \<and> cur_sha256 f = Some sha) candidateFile"
    using d by (auto simp: delivered_file_def result_simps Let_def split: option.splits)
  have "plain_path q \<and> \<not> blank q \<and> is_fingerprint sha"
  proof (cases b)
    case (GitObservation g)
    obtain f n1 where f: "fingerprintCurrentRepositoryFile pl w (gob_repositoryRoot g) p n = Inr (f, n1)"
      and q: "q = cur_path f" "cur_sha256 f = Some sha"
      using d by (auto simp: GitObservation delivered_file_def result_simps Let_def)
    show ?thesis using fingerprintCurrentRepositoryFile_result [OF f ok] p q by simp
  next
    case (FileObservation f)
    obtain x where x: "List.find (\<lambda>y. cur_path y = p) (fob_currentFiles f) = Some x" "cur_kind x = CurRegular"
      "q = cur_path x" "cur_sha256 x = Some sha"
      using d by (auto simp: FileObservation delivered_file_def result_simps Let_def)
    then have "x \<in> set (fob_currentFiles f)" "cur_path x = p" by (auto dest: find_Some_in_set)
    then show ?thesis using observe_run_files(2) [OF b [unfolded FileObservation] ok] x p by auto
  qed
  then show "plain_path q" "\<not> blank q" "is_fingerprint sha" by simp_all
qed

section \<open>The page of a Pull Request\<close>

text \<open>
  How \<open>new URL\<close> reads the page of a Pull Request: paths are resolved, so they have no dot segments,
  and the page is printed back as it was.
\<close>

definition resolved_away :: "string \<Rightarrow> bool" where
  "resolved_away s \<longleftrightarrow> s = ''.'' \<or> s = ''..''"

definition github_urls :: "platform \<Rightarrow> bool" where
  "github_urls pl \<longleftrightarrow>
     (\<forall>s u. parseURL pl s = Some u \<longrightarrow> url_protocol u = ''https:'' \<longrightarrow>
        \<not> list_ex resolved_away (split_on CHR ''/'' (url_pathname u))) \<and>
     (\<forall>owner name i. repo_name owner \<and> repo_name name \<and> \<not> resolved_away owner \<and> \<not> resolved_away name \<and> 1 \<le> i \<longrightarrow>
        (\<exists>u. parseURL pl (pull_request_url owner name i) = Some u \<and> url_href u = pull_request_url owner name i \<and>
          url_protocol u = ''https:'' \<and> url_origin u = ''https://github.com'' \<and> url_search u = [] \<and>
          url_hash u = [] \<and> url_pathname u = CHR ''/'' # owner @ CHR ''/'' # name @ ''/pull/'' @ int_text i))"

lemma split_on_plain: "c \<notin> set a \<Longrightarrow> split_on c a = [a]"
  by (induction a) auto

lemma split_on_segment: "c \<notin> set a \<Longrightarrow> split_on c (a @ c # s) = a # split_on c s"
  by (induction a) auto

lemma digit_chars: "list_all (\<lambda>d. is_digit (digit_char d) \<and> of_char (digit_char d) = 48 + d) [0..<10]"
  by code_simp

lemma digit_value: "d < 10 \<Longrightarrow> of_char (digit_char d) = 48 + d"
  using digit_chars by (simp add: list_all_iff)

lemma is_digit_char: "d < 10 \<Longrightarrow> is_digit (digit_char d)"
  using digit_chars by (simp add: list_all_iff)

lemma nat_text_digits: "list_all is_digit (nat_text n) \<and> nat_text n \<noteq> []"
  by (induction n rule: nat_text.induct) (simp add: nat_text.simps is_digit_char)

lemma digits_value_nat_text: "digits_value (nat_text n) = int n"
proof (induction n rule: nat_text.induct)
  case (1 n)
  have "10 * int (n div 10) + int (n mod 10) = int n" by presburger
  with 1 show ?case
    by (cases "n < 10") (simp_all add: nat_text.simps [of n] digits_value_def digit_value)
qed

lemma slash_chars: "\<not> remote_name_char CHR ''/''" "\<not> is_digit CHR ''/''"
  by code_simp+

lemma repo_name_slash: "repo_name s \<Longrightarrow> CHR ''/'' \<notin> set s"
  using slash_chars by (auto simp: repo_name_def list_all_iff)

lemma digits_slash: "list_all is_digit s \<Longrightarrow> CHR ''/'' \<notin> set s"
  using slash_chars by (auto simp: list_all_iff)

lemma pull_request_segments:
  assumes "repo_name owner" and "repo_name name" and "1 \<le> i"
  shows "split_on CHR ''/'' (CHR ''/'' # owner @ CHR ''/'' # name @ ''/pull/'' @ int_text i) =
    [[], owner, name, ''pull'', int_text i]" and "list_all is_digit (int_text i) \<and> int_text i \<noteq> []"
proof -
  show digits: "list_all is_digit (int_text i) \<and> int_text i \<noteq> []"
    using assms(3) nat_text_digits by (simp add: int_text_def)
  then have "split_on CHR ''/'' (''pull/'' @ int_text i) = [''pull'', int_text i]"
    by (simp add: split_on_plain digits_slash)
  then have "split_on CHR ''/'' (name @ ''/pull/'' @ int_text i) = [name, ''pull'', int_text i]"
    using split_on_segment [OF repo_name_slash [OF assms(2)], of "''pull/'' @ int_text i"] by simp
  then show "split_on CHR ''/'' (CHR ''/'' # owner @ CHR ''/'' # name @ ''/pull/'' @ int_text i) =
      [[], owner, name, ''pull'', int_text i]"
    using split_on_segment [OF repo_name_slash [OF assms(1)], of "name @ ''/pull/'' @ int_text i"] by simp
qed

lemma pull_request_path:
  assumes "repo_name owner" and "repo_name name" and "1 \<le> i"
  shows "filter (\<lambda>s. s \<noteq> []) (split_on CHR ''/'' (CHR ''/'' # owner @ CHR ''/'' # name @ ''/pull/'' @ int_text i)) =
    [owner, name, ''pull'', int_text i]"
  using pull_request_segments [OF assms] assms(1,2) by (simp add: repo_name_def)

lemma to_lower_append [simp]: "to_lower (s @ t) = to_lower s @ to_lower t"
  by (simp add: to_lower_def)

lemma observed_pull_request:
  assumes "observeGitHubPullRequest pl w root reference n = Inr (pr, n')" and urls: "github_urls pl"
  shows "wf_pull_request pl pr" and "check_pr_url pl (Some pr) = Inr ()"
proof -
  from assms(1) obtain r response where r: "parsePullRequestUrl pl reference = Inr r"
    and pr: "parseProviderResponse r response = Inr pr"
    by (rule observeGitHubPullRequest_result)
  note about = parseProviderResponse_result [OF pr]
  obtain u owner name kind digits where u: "parseURL pl reference = Some u" "url_protocol u = ''https:''"
    and parts: "filter (\<lambda>s. s \<noteq> []) (split_on CHR ''/'' (url_pathname u)) = [owner, name, kind, digits]"
    and names: "repo_name owner" "repo_name name" and i: "1 \<le> digits_value digits" "digits_value digits \<le> 9007199254740991"
    and r': "prr_url r = pull_request_url owner name (digits_value digits)"
      "prr_repository r = to_lower (owner @ ''/'' @ name)" "prr_number r = digits_value digits"
    using r by (auto simp: parsePullRequestUrl_def result_simps Let_def not_less)
  have "owner \<in> set (split_on CHR ''/'' (url_pathname u))" "name \<in> set (split_on CHR ''/'' (url_pathname u))"
    using parts by (metis filter_is_subset list.set_intros subsetD)+
  then have "\<not> resolved_away owner" "\<not> resolved_away name"
    using urls u by (auto simp: github_urls_def list_ex_iff)
  then obtain v where v: "parseURL pl (prr_url r) = Some v" "url_href v = prr_url r" "url_protocol v = ''https:''"
    "url_origin v = ''https://github.com''" "url_search v = []" "url_hash v = []"
    "url_pathname v = CHR ''/'' # owner @ CHR ''/'' # name @ ''/pull/'' @ int_text (digits_value digits)"
    using urls names i(1) unfolding github_urls_def r'(1) by blast
  have lower: "to_lower (to_lower s) = to_lower s" for s
    by (simp add: to_lower_idem)
  have "\<not> blank (prr_url r)" by (simp add: r'(1) pull_request_url_def blank_iff is_space_def)
  moreover have "\<not> blank (prr_repository r)" by (simp add: r'(2) to_lower_def blank_iff is_space_def lower_char_def)
  ultimately show "wf_pull_request pl pr"
    using about v i r' by (auto simp: wf_pull_request_def lower)
  have "list_all is_digit (int_text (digits_value digits))" "int_text (digits_value digits) \<noteq> []"
    "digits_value (int_text (digits_value digits)) = digits_value digits"
    using i(1) nat_text_digits by (simp_all add: int_text_def digits_value_nat_text)
  then show "check_pr_url pl (Some pr) = Inr ()"
    using v about(1-3) r' pull_request_path [OF names i(1)]
    by (simp add: check_pr_url_def Let_def nth_or_empty_def throwIf_def to_lower_def lower_char_def)
qed

section \<open>What a verified delivery is\<close>

text \<open>The facts of the candidate in a result that \<open>verify_remote\<close> completes\<close>

definition local_result :: "delivery_evidence \<Rightarrow> run_observation \<Rightarrow> string \<Rightarrow> tree_file option \<Rightarrow> delivery_verification \<Rightarrow> bool" where
  "local_result d b sha tree r \<longleftrightarrow>
     dver_level r = dev_level d \<and> dver_candidateSource r = observation_source b \<and>
     dver_candidateHead r = map_option (\<lambda>g. gst_head (gob_state g)) (git_part b) \<and> dver_fileSha256 r = sha \<and>
     dver_gitBlobSha256 r = map_option tre_sha256 tree \<and> dver_targetBranch r = None \<and> dver_targetSha r = None \<and>
     dver_integrationCommitSha r = None \<and> dver_ancestryVerified r = None \<and> dver_pullRequest r = None"

lemma verify_remote_result:
  assumes v: "verify_remote pl w d g p sha tree r n = Inr (v, n')" and r: "local_result d (GitObservation g) sha tree r"
    and remote: "remote_level (dev_level d)" and wf: "wf_delivery_evidence pl d" and urls: "github_urls pl"
  shows "\<exists>pr target targetSha merge ancestry. v = r\<lparr>dver_targetBranch := target, dver_targetSha := targetSha,
      dver_integrationCommitSha := merge, dver_ancestryVerified := ancestry, dver_pullRequest := Some pr\<rparr> \<and>
    wf_pull_request pl pr \<and> check_pr_url pl (Some pr) = Inr () \<and> pred_option (\<lambda>s. \<not> blank s) target \<and>
    pred_option is_commit_sha targetSha \<and> pred_option is_commit_sha merge \<and>
    level_facts_ok (dev_level d) GitWorkingTree (Some (gst_head (gob_state g))) sha (map_option tre_sha256 tree)
      target targetSha merge ancestry (Some pr)"
  and "\<not> dirty (gob_state g)" and "map_option tre_sha256 tree = Some sha"
proof -
  obtain t pr n1 n2 where t: "\<not> dirty (gob_state g)" "tree = Some t" "sha = tre_sha256 t"
    and pr: "observeGitHubPullRequest pl w (gob_repositoryRoot g) (dev_reference d) n = Inr (pr, n1)"
    and m: "assertPullRequestMatchesCandidate pr (gst_head (gob_state g)) = Inr ()"
    and rest: "(if dev_level d = PullRequest
       then throwO (pr_state pr \<noteq> PrOpen \<or> pr_merged pr) delivery_invalid (okO (r\<lparr>dver_pullRequest := Some pr\<rparr>))
       else needO (dev_targetBranch d) delivery_invalid (\<lambda>targetBranch.
        throwO (\<not> pr_merged pr \<or> pr_state pr \<noteq> PrClosed) delivery_invalid
        (throwO (pr_baseBranch pr \<noteq> targetBranch) delivery_invalid
        (needO (pr_mergeCommitSha pr) delivery_invalid (\<lambda>mergeSha.
         bindO (resolveGitLocalBranchSha w (gob_repositoryRoot g) targetBranch) (\<lambda>targetSha.
         bindO (isGitCommitAncestor w (gob_repositoryRoot g) mergeSha targetSha) (\<lambda>ancestor.
         throwO (\<not> ancestor) delivery_invalid
         (bindO (fingerprintGitTreeFile pl w (gob_repositoryRoot g) targetSha p) (\<lambda>targetFile.
          throwO (map_option tre_sha256 targetFile \<noteq> Some (tre_sha256 t)) delivery_invalid
          (okO (r\<lparr>dver_targetBranch := Some targetBranch, dver_targetSha := Some targetSha,
             dver_integrationCommitSha := Some mergeSha, dver_ancestryVerified := Some True,
             dver_pullRequest := Some pr\<rparr>))))))))))) n1 = Inr (v, n')"
    using v unfolding verify_remote_def by (clarsimp simp: result_simps)
  show "\<not> dirty (gob_state g)" "map_option tre_sha256 tree = Some sha" using t by simp_all
  note url = observed_pull_request [OF pr urls]
  have match: "pr_headSha pr = gst_head (gob_state g)" "\<not> pr_draft pr"
    using m by (auto simp: assertPullRequestMatchesCandidate_def result_simps)
  have merge: "pred_option is_commit_sha (pr_mergeCommitSha pr)" using url(1) by (simp add: wf_pull_request_def)
  show "\<exists>pr target targetSha merge ancestry. v = r\<lparr>dver_targetBranch := target, dver_targetSha := targetSha,
      dver_integrationCommitSha := merge, dver_ancestryVerified := ancestry, dver_pullRequest := Some pr\<rparr> \<and>
    wf_pull_request pl pr \<and> check_pr_url pl (Some pr) = Inr () \<and> pred_option (\<lambda>s. \<not> blank s) target \<and>
    pred_option is_commit_sha targetSha \<and> pred_option is_commit_sha merge \<and>
    level_facts_ok (dev_level d) GitWorkingTree (Some (gst_head (gob_state g))) sha (map_option tre_sha256 tree)
      target targetSha merge ancestry (Some pr)"
  proof (cases "dev_level d = PullRequest")
    case True
    then have s: "v = r\<lparr>dver_pullRequest := Some pr\<rparr>" "pr_state pr = PrOpen" "\<not> pr_merged pr"
      using rest by (simp_all add: result_simps)
    show ?thesis
      using True s t url match r
      by (intro exI [of _ pr] exI [of _ None]) (simp add: level_facts_ok_def local_result_def)
  next
    case False
    then have level: "dev_level d = MergedResult" using remote by (simp add: remote_level_def)
    obtain branch targetSha mergeSha n2 n3 where s: "dev_targetBranch d = Some branch" "pr_merged pr" "pr_state pr = PrClosed"
      "pr_mergeCommitSha pr = Some mergeSha"
      and target: "resolveGitLocalBranchSha w (gob_repositoryRoot g) branch n2 = Inr (targetSha, n3)"
      and v': "v = r\<lparr>dver_targetBranch := Some branch, dver_targetSha := Some targetSha,
             dver_integrationCommitSha := Some mergeSha, dver_ancestryVerified := Some True,
             dver_pullRequest := Some pr\<rparr>"
      using rest False by (auto simp: result_simps)
    have "\<not> blank branch" using wf s(1) by (simp add: wf_delivery_evidence_def)
    then show ?thesis
      using level s t url match merge v' resolveGitLocalBranchSha_sha [OF target]
      by (intro exI [of _ pr] exI [of _ "Some branch"] exI [of _ "Some targetSha"] exI [of _ "Some mergeSha"]
          exI [of _ "Some True"]) (simp add: level_facts_ok_def)
  qed
qed

lemma verifyDelivery_result:
  assumes v: "verifyDelivery pl w run d b n = Inr (v, n')" and b: "observe_run pl w root run k = Inr (b, k')"
    and ok: "platform_ok pl" and urls: "github_urls pl" and wf: "wf_delivery_evidence pl d"
    and c: "run_candidateSnapshot run = Some c" "is_fingerprint (cand_fingerprint c)"
  shows "wf_delivery_verification pl v" and "dver_level v = dev_level d"
    and "dver_candidateFingerprint v = cand_fingerprint c"
proof -
  obtain p q sha cf tree n1 n2 n3 r where p: "delivery_path d = Some p" "isTaskRunPathInWriteSet pl run p = Inr True"
    and level: "git_part b \<noteq> None \<or> \<not> remote_level (dev_level d)"
    and q: "delivered_file pl w b p n = Inr ((q, sha, cf), n1)"
    and tree: "(case git_part b of None \<Rightarrow> okO None
           | Some g \<Rightarrow> fingerprintGitTreeFile pl w (gob_repositoryRoot g) (gst_head (gob_state g)) p) n1 = Inr (tree, n2)"
    and r: "r = \<lparr>dver_observedAt = isoNow pl n2, dver_candidateFingerprint = cand_fingerprint c,
              dver_candidateSource = observation_source b,
              dver_candidateHead = map_option (\<lambda>g. gst_head (gob_state g)) (git_part b),
              dver_level = dev_level d, dver_path = q, dver_fileSha256 = sha,
              dver_gitBlobSha256 = map_option tre_sha256 tree, dver_targetBranch = None,
              dver_targetSha = None, dver_integrationCommitSha = None, dver_ancestryVerified = None,
              dver_pullRequest = None\<rparr>"
    and v: "(if \<not> remote_level (dev_level d) then okO r
        else needO (git_part b) delivery_invalid (\<lambda>g. verify_remote pl w d g p sha tree r)) (Suc n2) = Inr (v, n')"
    using v unfolding verifyDelivery_def Let_def c(1) option.case by (clarsimp simp: result_simps)
  have "\<not> blank p" using wf p(1) by (auto simp: delivery_path_def wf_delivery_evidence_def split: option.splits if_splits)
  note f = delivered_file_result [OF q b ok this]
  have tree_sha: "pred_option is_fingerprint (map_option tre_sha256 tree)"
    using tree fingerprintGitTreeFile_sha [OF _ ok] by (cases tree) (auto simp: okO_def split: option.splits)
  have head: "pred_option is_commit_sha (map_option (\<lambda>g. gst_head (gob_state g)) (git_part b))"
    using observe_run_git(2) b by (cases b) auto
  have sources: "observation_source b = ProjectFiles \<longleftrightarrow> git_part b = None" by (cases b) simp_all
  have no_tree: "git_part b = None \<Longrightarrow> tree = None" using tree by (simp add: okO_def)
  have r_wf: "wf_delivery_verification pl (r\<lparr>dver_targetBranch := target, dver_targetSha := targetSha,
      dver_integrationCommitSha := merge, dver_ancestryVerified := ancestry, dver_pullRequest := pr\<rparr>)"
    if "pred_option (\<lambda>s. \<not> blank s) target" "pred_option is_commit_sha targetSha" "pred_option is_commit_sha merge"
      "pred_option (wf_pull_request pl) pr" "check_pr_url pl pr = Inr ()"
      "git_part b = None \<longrightarrow> \<not> remote_level (dev_level d) \<and> target = None \<and> targetSha = None \<and> merge = None \<and>
        ancestry = None \<and> pr = None"
      "level_facts_ok (dev_level d) (observation_source b) (map_option (\<lambda>g. gst_head (gob_state g)) (git_part b)) sha
        (map_option tre_sha256 tree) target targetSha merge ancestry pr"
    for target targetSha merge ancestry pr
    using that f(1-3) c(2) head tree_sha no_tree sources platform_okD(3) [OF ok]
    by (cases b) (auto simp: r wf_delivery_verification_def source_head_mismatch_def nongit_facts_def)
  have "wf_delivery_verification pl v \<and> dver_level v = dev_level d \<and> dver_candidateFingerprint v = cand_fingerprint c"
  proof (cases "remote_level (dev_level d)")
    case False
    then have "v = r" using v by (simp add: result_simps)
    moreover have "wf_delivery_verification pl (r\<lparr>dver_targetBranch := None, dver_targetSha := None,
      dver_integrationCommitSha := None, dver_ancestryVerified := None, dver_pullRequest := None\<rparr>)"
      using False by (intro r_wf) (auto simp: check_pr_url_def level_facts_ok_def remote_level_def split: delivery_level.splits)
    ultimately show ?thesis by (simp add: r)
  next
    case True
    then obtain g where g: "git_part b = Some g" "verify_remote pl w d g p sha tree r (Suc n2) = Inr (v, n')"
      using v by (auto simp: result_simps)
    then have b': "b = GitObservation g" by (cases b) simp_all
    have "local_result d (GitObservation g) sha tree r" by (simp add: local_result_def r b')
    from verify_remote_result(1) [OF g(2) this True wf urls]
    obtain pr target targetSha merge ancestry where v': "v = r\<lparr>dver_targetBranch := target, dver_targetSha := targetSha,
        dver_integrationCommitSha := merge, dver_ancestryVerified := ancestry, dver_pullRequest := Some pr\<rparr>"
      and facts: "wf_pull_request pl pr" "check_pr_url pl (Some pr) = Inr ()" "pred_option (\<lambda>s. \<not> blank s) target"
        "pred_option is_commit_sha targetSha" "pred_option is_commit_sha merge"
        "level_facts_ok (dev_level d) GitWorkingTree (Some (gst_head (gob_state g))) sha (map_option tre_sha256 tree)
          target targetSha merge ancestry (Some pr)"
      by blast
    then have "wf_delivery_verification pl v" unfolding v' by (intro r_wf) (simp_all add: b')
    then show ?thesis by (simp add: v' r)
  qed
  then show "wf_delivery_verification pl v" "dver_level v = dev_level d"
    "dver_candidateFingerprint v = cand_fingerprint c"
    by simp_all
qed

section \<open>What a close establishes\<close>

text \<open>A Review that a close may rest on\<close>

definition closing_review :: "task_kernel \<Rightarrow> task_run \<Rightarrow> candidate_snapshot \<Rightarrow> task_review \<Rightarrow> bool" where
  "closing_review k run c v \<longleftrightarrow>
     rev_runId v = run_id run \<and> rev_candidateSnapshotId v = cand_id c \<and>
     rev_candidateFingerprint v = cand_fingerprint c \<and> rev_reviewer v \<noteq> run_startedBy run \<and>
     rev_reviewer v \<noteq> auth_approvedBy (run_authorization run) \<and> rev_decision v = DecPass \<and>
     rev_unresolvedBlockers v = [] \<and> rev_evidenceRefs v \<noteq> [] \<and>
     map_option rev_id (latest_review k run v) = Some (rev_id v) \<and>
     (\<forall>x \<in> set (def_acceptanceCriteria (ker_definition k)). \<not> lacks_evidence (rev_acceptanceEvidence v) x)"

text \<open>What \<open>reobserve\<close> finds when it pushes no message\<close>

definition fresh_candidate ::
    "platform \<Rightarrow> world \<Rightarrow> string \<Rightarrow> task_run \<Rightarrow> candidate_snapshot \<Rightarrow> nat \<Rightarrow> run_observation \<Rightarrow> nat \<Rightarrow> bool" where
  "fresh_candidate pl w root run c n b n' \<longleftrightarrow>
     observe_run pl w root run n = Inr (b, n') \<and> observation_scope b = WithinWriteSet \<and>
     filter (\<lambda>e. isRunCandidateObservationEntry (ent_ref e)) (cand_entries c) =
       [\<lparr>ent_ref = taskCandidateObservationEntryRef b, ent_fingerprint = observation_fingerprint b\<rparr>]"

lemma frozen_observation_Some:
  "frozen_observation c b = Some e \<longleftrightarrow>
     filter (\<lambda>e. isRunCandidateObservationEntry (ent_ref e)) (cand_entries c) = [e] \<and>
     ent_ref e = taskCandidateObservationEntryRef b"
  by (auto simp: frozen_observation_def split: list.splits)

lemma candidate_errors_Nil:
  assumes "observe_run pl w root run n = Inr (b, n')"
  shows "candidate_errors c b = [] \<longleftrightarrow> fresh_candidate pl w root run c n b n'"
proof (cases "frozen_observation c b")
  case None
  have "filter (\<lambda>e. isRunCandidateObservationEntry (ent_ref e)) (cand_entries c) \<noteq>
      [\<lparr>ent_ref = taskCandidateObservationEntryRef b, ent_fingerprint = observation_fingerprint b\<rparr>]"
    using None frozen_observation_Some [of c b
        "\<lparr>ent_ref = taskCandidateObservationEntryRef b, ent_fingerprint = observation_fingerprint b\<rparr>"]
    by auto
  with None show ?thesis by (simp add: candidate_errors_def fresh_candidate_def)
next
  case (Some e)
  show ?thesis
    using assms Some [unfolded frozen_observation_Some] by (cases e) (auto simp: candidate_errors_def Some fresh_candidate_def)
qed

lemma reobserve_Nil:
  assumes "reobserve pl w root (Some run) v n = Inr (([], current, trusted), n')" and "run_candidateSnapshot run = Some c"
  shows "\<exists>b. current = Some b \<and> fresh_candidate pl w root run c n b n' \<and> trusted = trusted_observation c b \<and>
    request_errors c v = []"
proof -
  obtain b where b: "observe_run pl w root run n = Inr (b, n')" "current = Some b" "trusted = trusted_observation c b"
    "request_errors c v = []" "candidate_errors c b = []"
    using assms by (auto simp: reobserve_def result_simps)
  then show ?thesis using candidate_errors_Nil [OF b(1)] by auto
qed

lemma trusted_fresh:
  assumes "fresh_candidate pl w root run c n b n'"
  shows "trusted_observation c b = Some \<lparr>obs_snapshotId = cand_id c, obs_fingerprint = cand_fingerprint c,
    obs_observedBy = ''pactile-core-task-close'', obs_observedAt = observation_observedAt b,
    obs_source = candidate_source_name (observation_source b), obs_evidenceRef = taskCandidateObservationEntryRef b\<rparr>"
proof -
  have "frozen_observation c b =
      Some \<lparr>ent_ref = taskCandidateObservationEntryRef b, ent_fingerprint = observation_fingerprint b\<rparr>"
    using assms by (simp add: frozen_observation_Some fresh_candidate_def)
  then show ?thesis by (simp add: trusted_observation_def)
qed

text \<open>
  An evaluation with no message and a verified delivery: every condition of the close holds, of a Run
  and a Review the kernel records.
\<close>

lemma evaluate_closes:
  assumes e: "evaluateTaskClose pl w p root k runId reviewId observationInput deliveryInput (Some dir) n = Inr (ver, n')"
    and none: "clv_errors ver = []"
  obtains run review c b d n1 n2 where
    "run_by_id k runId = Some run" "review_by_id k reviewId = Some review" "run_candidateSnapshot run = Some c"
    "ker_phase k = PhVerify" "ker_closure k = None" "run_state run = RunCompleted" "latest_run_id k = Some (run_id run)"
    "closing_review k run c review"
    "\<exists>x. rev_evidenceVerification review = Some x \<and>
      verifyTaskReviewEvidenceV1 pl w root dir run (cand_id c) (cand_fingerprint c) True True
        (review_refs (rev_evidenceRefs review) (rev_acceptanceEvidence review)) x n = Inr ((), n1)"
    "fresh_candidate pl w root run c n1 b n2"
    "clv_candidateObservation ver = trusted_observation c b"
    "assertHardDependenciesSatisfied pl p (def_dependencies (ker_definition k)) (Some dir) = Inr ()"
    "parseDeliveryEvidence pl (Some (def_deliveryLevel (ker_definition k))) deliveryInput = Inr d"
    "\<exists>x. clv_deliveryVerification ver = Some x \<and> verifyDelivery pl w run d b n2 = Inr (x, n')"
proof -
  let ?run = "run_by_id k runId" and ?review = "review_by_id k reviewId"
  let ?parsed = "parseDeliveryEvidence pl (Some (def_deliveryLevel (ker_definition k))) deliveryInput"
  obtain current trusted verification n1 n2 where
    state: "state_errors k ?run = []" and review: "?review \<noteq> None"
    and part: "review_part pl w root (Some dir) k ?run ?review n = Inr ([], n1)"
    and cand: "reobserve pl w root ?run observationInput n1 = Inr (([], current, trusted), n2)"
    and deps: "caught_pure (assertHardDependenciesSatisfied pl p (def_dependencies (ker_definition k)) (Some dir)) = []"
    and parsed: "caught_pure ?parsed = []"
    and delivery: "delivery_part pl w ?run ?parsed current trusted n2 = Inr (([], verification), n')"
    and ver: "clv_candidateObservation ver = trusted" "clv_deliveryVerification ver = verification"
    using e none unfolding evaluateTaskClose_def Let_def by (clarsimp simp: result_simps)
  from state review obtain run c v where run: "?run = Some run" "run_candidateSnapshot run = Some c" "?review = Some v"
    "ker_phase k = PhVerify" "ker_closure k = None" "run_state run = RunCompleted" "latest_run_id k = Some (run_id run)"
    by (auto simp: state_errors_def split: option.splits)
  have errors: "review_errors k run v = []" "criteria_errors k v = []"
    and evidence: "evidence_errors pl w root (Some dir) run v n = Inr ([], n1)"
    using part by (auto simp: review_part_def run result_simps)
  have closing: "closing_review k run c v"
    using errors run(2) by (auto simp: closing_review_def review_errors_def other_candidate_def criteria_errors_def
        filter_empty_conv)
  obtain x where x: "rev_evidenceVerification v = Some x"
    "verifyTaskReviewEvidenceV1 pl w root dir run (cand_id c) (cand_fingerprint c) True True
        (review_refs (rev_evidenceRefs v) (rev_acceptanceEvidence v)) x n = Inr ((), n1)"
    using evidence run(2) by (auto simp: evidence_errors_def okO_def split: option.splits dest: caught_Nil)
  obtain b where b: "current = Some b" "fresh_candidate pl w root run c n1 b n2" "trusted = trusted_observation c b"
    using reobserve_Nil [OF cand [unfolded run(1)] run(2)] by blast
  obtain d where d: "?parsed = Inr d" using parsed by (auto simp: caught_pure_Nil)
  then obtain y where y: "verification = Some y" "verifyDelivery pl w run d b n2 = Inr (y, n')"
    using delivery run(1) b(1,3) trusted_fresh [OF b(2)] by (auto simp: delivery_part_def result_simps)
  have deps': "assertHardDependenciesSatisfied pl p (def_dependencies (ker_definition k)) (Some dir) = Inr ()"
    using deps by (auto simp: caught_pure_Nil)
  show thesis
    using run closing x b d y ver deps' by (intro that [of run v c n1 b n2 d]) simp_all
qed

lemma forward_delivered_file [intro, simp]: "forward (delivered_file pl w b p)"
  unfolding delivered_file_def Let_def by (cases b) (auto intro!: forward_rules)

lemma forward_observeGitHubPullRequest [intro, simp]: "forward (observeGitHubPullRequest pl w root r)"
proof -
  have "forward (runGitHubApi w args)" for args
    by (auto simp: forward_def runGitHubApi_def split: command_reply.splits option.splits if_splits)
  then show ?thesis unfolding observeGitHubPullRequest_def by (auto intro!: forward_rules)
qed

lemma forward_verify_remote [intro, simp]: "forward (verify_remote pl w d g p sha tree r)"
  unfolding verify_remote_def by (intro forward_rules) simp_all

lemma forward_verifyDelivery [intro, simp]: "forward (verifyDelivery pl w run d b)"
  unfolding verifyDelivery_def Let_def by (intro forward_rules) simp_all

lemma forward_caught [intro]: "forward m \<Longrightarrow> forward (caught w c m)"
  unfolding caught_def by (intro forward_rules) simp_all

lemma forward_review_part [intro, simp]: "forward (review_part pl w root dir k run v)"
  unfolding review_part_def evidence_errors_def
  by (auto intro!: forward_rules forward_caught)

lemma forward_reobserve [intro, simp]: "forward (reobserve pl w root run v)"
  unfolding reobserve_def by (auto intro!: forward_rules)

lemma forward_delivery_part [intro, simp]: "forward (delivery_part pl w run parsed current trusted)"
  unfolding delivery_part_def by (auto intro!: forward_rules split: option.split sum.split)

lemma forward_evaluate [intro, simp]: "forward (evaluateTaskClose pl w p root k a b c d dir)"
  unfolding evaluateTaskClose_def Let_def by (intro forward_rules) simp_all

lemma run_by_id_Some: "run_by_id k v = Some r \<Longrightarrow> r \<in> set (ker_runs k) \<and> v = JStr (run_id r)"
  by (auto simp: run_by_id_def dest!: find_Some_in_set)

lemma review_by_id_Some: "review_by_id k v = Some r \<Longrightarrow> r \<in> set (ker_reviews k) \<and> v = JStr (rev_id r)"
  by (auto simp: review_by_id_def dest!: find_Some_in_set)

text \<open>
  A close that returns: the evaluation had no message, and the closure records the Run, the Review and
  what was observed.
\<close>

lemma close_cases:
  assumes step: "closeTaskKernel_step pl w p root dir actor req fp idem k n = Inr (k', n')"
  obtains ver run review c o' x d kernel clo n1 n2 where
    "evaluateTaskClose pl w p root k (getprop req ''runId'') (getprop req ''reviewId'')
       (getprop req ''candidateObservation'') (getprop req ''deliveryEvidence'') (Some dir) n = Inr (ver, n1)"
    "clv_errors ver = []" "run_by_id k (getprop req ''runId'') = Some run"
    "review_by_id k (getprop req ''reviewId'') = Some review" "run_candidateSnapshot run = Some c"
    "clv_candidateObservation ver = Some o'" "clv_deliveryVerification ver = Some x"
    "parseDeliveryEvidence pl (Some (def_deliveryLevel (ker_definition k))) (getprop req ''deliveryEvidence'') = Inr d"
    "appendPhase pl k PhClose actor (idem @ ''#close'')
        ''Task acceptance and machine-observed delivery evidence satisfied.'' None None (Suc n1) = Inr (kernel, n2)"
    "clo = \<lparr>clo_runId = run_id run, clo_reviewId = rev_id review,
            clo_candidateSnapshotId = cand_id c, clo_candidateFingerprint = cand_fingerprint c,
            clo_candidateObservation = o', clo_deliveryEvidence = d\<lparr>dev_path := Some (dver_path x)\<rparr>,
            clo_deliveryVerification = Some x, clo_acceptanceEvidence = rev_acceptanceEvidence review,
            clo_closedAt = isoNow pl n1, clo_closedBy = actor\<rparr>"
    "appendDomainEvent pl (kernel\<lparr>ker_outcome := Some OutCompleted, ker_condition := CndReady, ker_closure := Some clo\<rparr>)
       actor idem EvTaskClosed (ker_taskId k) fp n2 = (k', n')"
  using step unfolding closeTaskKernel_step_def by (clarsimp simp: result_simps)

lemma closure_wf:
  assumes wf: "wf_kernel pl k" and ok: "platform_ok pl" "github_urls pl" "\<not> blank actor"
    and e: "evaluateTaskClose pl w p root k runId reviewId oi di (Some dir) n = Inr (ver, n1)" "clv_errors ver = []"
    and run: "run_by_id k runId = Some run" "review_by_id k reviewId = Some review" "run_candidateSnapshot run = Some c"
    and obs: "clv_candidateObservation ver = Some o'" and x: "clv_deliveryVerification ver = Some x"
    and d: "parseDeliveryEvidence pl (Some (def_deliveryLevel (ker_definition k))) di = Inr d"
    and clo: "clo = \<lparr>clo_runId = run_id run, clo_reviewId = rev_id review,
            clo_candidateSnapshotId = cand_id c, clo_candidateFingerprint = cand_fingerprint c,
            clo_candidateObservation = o', clo_deliveryEvidence = d\<lparr>dev_path := Some (dver_path x)\<rparr>,
            clo_deliveryVerification = Some x, clo_acceptanceEvidence = rev_acceptanceEvidence review,
            clo_closedAt = isoNow pl t, clo_closedBy = actor\<rparr>"
  shows "wf_closure pl clo" and "closure_bound (ker_runs k) (ker_reviews k) clo"
proof -
  from e obtain b n2 n3 n4 where close: "closing_review k run c review" "fresh_candidate pl w root run c n2 b n3"
    "clv_candidateObservation ver = trusted_observation c b" "verifyDelivery pl w run d b n3 = Inr (x, n4)"
    by (rule evaluate_closes) (use run x d in auto)
  have mem: "run \<in> set (ker_runs k)" "review \<in> set (ker_reviews k)"
    using run_by_id_Some [OF run(1)] review_by_id_Some [OF run(2)] by simp_all
  then have r: "wf_run pl run" "wf_review pl review" "distinct (map run_id (ker_runs k))" "distinct (map rev_id (ker_reviews k))"
    using wf by (simp_all add: wf_kernel_defs list_all_iff runs_ok_iff reviews_ok_iff)
  have cand: "\<not> blank (cand_id c)" "is_fingerprint (cand_fingerprint c)" "\<not> blank (run_id run)"
    using r(1) run(3) platform_okD(7) [OF ok(1)] by (simp_all add: wf_run_def wf_run_fields_def wf_candidate_def)
  have b: "observe_run pl w root run n2 = Inr (b, n3)" using close(2) by (simp add: fresh_candidate_def)
  have d_wf: "wf_delivery_evidence pl d" using parseDeliveryEvidence_sound [OF d] by simp
  note x_wf = verifyDelivery_result [OF close(4) b ok(1,2) d_wf run(3) cand(2)]
  have "\<exists>t. observation_observedAt b = isoNow pl t"
    using b observe_run_git(1) observe_run_files(1) [OF _ ok(1)] by (cases b) auto
  then have o_wf: "wf_observation o'"
    using obs close(3) trusted_fresh [OF close(2)] cand platform_okD(3) [OF ok(1)]
    by (cases b) (auto simp: wf_observation_def VERIFICATION_CANDIDATE_ENTRY_REF_def PROJECT_FILE_CANDIDATE_ENTRY_REF_def
        taskCandidateObservationEntryRef_def blank_iff is_space_def)
  have "wf_evidence_map False (rev_acceptanceEvidence review)" "\<not> blank (rev_id review)"
    using r(2) close(1) by (simp_all add: wf_review_def closing_review_def)
  then show "wf_closure pl clo"
    using cand o_wf d_wf x_wf ok(3) platform_okD(3) [OF ok(1)]
    by (simp add: clo wf_closure_def wf_delivery_evidence_def delivery_mismatch_def wf_delivery_verification_def)
  have "List.find (\<lambda>r. run_id r = run_id run) (ker_runs k) = Some run"
    "List.find (\<lambda>v. rev_id v = rev_id review) (ker_reviews k) = Some review"
    using mem r(3,4) by (intro find_unique_key; simp)+
  then show "closure_bound (ker_runs k) (ker_reviews k) clo"
    using run(3) close(1) obs close(3) trusted_fresh [OF close(2)]
    by (auto simp: clo closure_bound_def closing_review_def)
qed

interpretation close_task: wf_operation pl actor fp "closeTaskKernel_step pl w p root dir actor req fp" "github_urls pl"
  for pl actor fp w p root dir req
proof
  fix idem k n k' n'
  assume op: "closeTaskKernel_step pl w p root dir actor req fp idem k n = Inr (k', n')"
  from op obtain ver run review c o' x d kernel clo n1 n2 where
    e: "evaluateTaskClose pl w p root k (getprop req ''runId'') (getprop req ''reviewId'')
       (getprop req ''candidateObservation'') (getprop req ''deliveryEvidence'') (Some dir) n = Inr (ver, n1)"
    "clv_errors ver = []" "run_by_id k (getprop req ''runId'') = Some run"
    "review_by_id k (getprop req ''reviewId'') = Some review" "run_candidateSnapshot run = Some c"
    "clv_candidateObservation ver = Some o'" "clv_deliveryVerification ver = Some x"
    "parseDeliveryEvidence pl (Some (def_deliveryLevel (ker_definition k))) (getprop req ''deliveryEvidence'') = Inr d"
    and phase: "appendPhase pl k PhClose actor (idem @ ''#close'')
        ''Task acceptance and machine-observed delivery evidence satisfied.'' None None (Suc n1) = Inr (kernel, n2)"
    and clo: "clo = \<lparr>clo_runId = run_id run, clo_reviewId = rev_id review,
            clo_candidateSnapshotId = cand_id c, clo_candidateFingerprint = cand_fingerprint c,
            clo_candidateObservation = o', clo_deliveryEvidence = d\<lparr>dev_path := Some (dver_path x)\<rparr>,
            clo_deliveryVerification = Some x, clo_acceptanceEvidence = rev_acceptanceEvidence review,
            clo_closedAt = isoNow pl n1, clo_closedBy = actor\<rparr>"
    and k': "appendDomainEvent pl (kernel\<lparr>ker_outcome := Some OutCompleted, ker_condition := CndReady, ker_closure := Some clo\<rparr>)
       actor idem EvTaskClosed (ker_taskId k) fp n2 = (k', n')"
    by (rule close_cases)
  note content = appendDomainEvent_content [OF k']
  note append = appendPhase_content [OF phase]
  have "n \<le> Suc n1" using forwardD [OF forward_evaluate e(1)] by simp
  have "advances pl actor idem k (Suc n1) kernel n2" using phase by (auto intro: appendPhase_advances)
  then have "advances pl actor idem k (Suc n1)
      (kernel\<lparr>ker_outcome := Some OutCompleted, ker_condition := CndReady, ker_closure := Some clo\<rparr>) n2"
    by (rule advances_same) (simp add: same_journal_def)
  from extends_earlier [OF appendDomainEvent_extends [OF this k'] \<open>n \<le> Suc n1\<close>]
  show "extends pl actor idem fp k n k' n'" .
  show "run_id ` set (ker_runs k') \<subseteq> run_id ` set (ker_runs k) \<union> randomUUID pl ` {n..<n'}"
    by (simp add: content append)
  show "\<not> blank (evt_entityId (last (ker_events k')))" if "wf_kernel pl k"
    using that by (simp add: content wf_kernel_defs is_task_id_not_blank)
  assume ok: "github_urls pl" "platform_ok pl" "\<not> blank actor" "wf_kernel pl k"
  have "wf_content pl (kernel\<lparr>ker_closure := Some clo\<rparr>)"
    using closure_wf [OF ok(4,2,1,3) e clo] ok(4) append(1-8) by (auto simp: wf_kernel_def wf_content_def)
  then show "wf_content pl k'" by (simp add: content wf_content_def)
qed

end
