(* ===== verification/Evaluation.thy ===== *)
theory Evaluation
  imports Write_Set
begin

text \<open>
  Code equations that classify a character by its bits, where the definitions compare it with every member of
  a class or read its number: the concrete cases below are evaluated in the kernel.
\<close>

lemma is_hex_lower_bits [code]:
  "is_hex_lower (Char b0 b1 b2 b3 b4 b5 b6 b7) \<longleftrightarrow>
     \<not> b7 \<and> b5 \<and>
     (if b6 then \<not> b4 \<and> \<not> b3 \<and> (b0 \<or> b1 \<or> b2) \<and> \<not> (b0 \<and> b1 \<and> b2) else b4 \<and> (\<not> b3 \<or> \<not> b2 \<and> \<not> b1))"
  unfolding is_hex_lower_def
  by (cases b0; cases b1; cases b2; cases b3; cases b4; cases b5; cases b6; cases b7; simp)

lemma is_space_bits [code]:
  "is_space (Char b0 b1 b2 b3 b4 b5 b6 b7) \<longleftrightarrow>
     (if b4 \<or> b6 then False else if b3 then \<not> b5 \<and> \<not> b7 \<and> (if b2 then \<not> b1 else b0 \<or> b1)
      else \<not> b0 \<and> \<not> b1 \<and> \<not> b2 \<and> b5)"
  unfolding is_space_def
  by (cases b0; cases b1; cases b2; cases b3; cases b4; cases b5; cases b6; cases b7; simp)

lemma control_char_bits [code]:
  "control_char (Char b0 b1 b2 b3 b4 b5 b6 b7) \<longleftrightarrow>
     \<not> b7 \<and> (if b5 then b6 \<and> b4 \<and> b3 \<and> b2 \<and> b1 \<and> b0 else \<not> b6)"
  unfolding control_char_def
  by (cases b0; cases b1; cases b2; cases b3; cases b4; cases b5; cases b6; cases b7; simp add: of_char_def)

text \<open>Only the characters below \<open>0x20\<close> go through the cases of \<open>escape_char\<close>.\<close>

definition escape_control :: "char \<Rightarrow> string" where
  "escape_control c = escape_char c"

lemma escape_control_code [code]:
  "escape_control c = (let n = of_char c :: nat in
     if n = 8 then [CHR 0x5C, CHR ''b'']
     else if n = 9 then [CHR 0x5C, CHR ''t'']
     else if n = 10 then [CHR 0x5C, CHR ''n'']
     else if n = 12 then [CHR 0x5C, CHR ''f'']
     else if n = 13 then [CHR 0x5C, CHR ''r'']
     else if n < 32 then [CHR 0x5C, CHR ''u'', CHR ''0'', CHR ''0'', hex_char (n div 16), hex_char (n mod 16)]
     else if n = 34 then [CHR 0x5C, CHR 0x22]
     else if n = 92 then [CHR 0x5C, CHR 0x5C]
     else [c])"
  by (simp add: escape_control_def escape_char_def Let_def)

lemma escape_char_bits [code]:
  "escape_char (Char b0 b1 b2 b3 b4 b5 b6 b7) =
     (let c = Char b0 b1 b2 b3 b4 b5 b6 b7 in
      if b6 then if b4 \<and> b3 \<and> b2 \<and> \<not> b1 \<and> \<not> b0 \<and> \<not> b5 \<and> \<not> b7 then [CHR 0x5C, CHR 0x5C] else [c]
      else if b7 then [c]
      else if b5 then if b1 \<and> \<not> b0 \<and> \<not> b2 \<and> \<not> b3 \<and> \<not> b4 then [CHR 0x5C, CHR 0x22] else [c]
      else escape_control c)"
  unfolding escape_control_def escape_char_def Let_def
  by (cases b0; cases b1; cases b2; cases b3; cases b4; cases b5; cases b6; cases b7; simp add: of_char_def)

end
