(* ===== verification/Example.thy ===== *)
theory Example
  imports Close Evaluation
begin

text \<open>
  A concrete platform and concrete projects, on which the hypotheses of the theorems hold.
\<close>

text \<open>A hash that tells texts apart by their length modulo 4, and a parser of the pages of GitHub\<close>

fun demo_digit :: "char \<Rightarrow> char \<Rightarrow> char \<Rightarrow> char \<Rightarrow> string \<Rightarrow> char" where
  "demo_digit a b c d [] = a"
| "demo_digit a b c d (x # s) = demo_digit b c d a s"

definition demo_hash :: "string \<Rightarrow> string" where
  "demo_hash s =
     demo_digit CHR ''0'' CHR ''1'' CHR ''2'' CHR ''3'' s #
     ''aaaaaaaaaaaaaaaaaaaaaaaaaaaaaaaaaaaaaaaaaaaaaaaaaaaaaaaaaaaaaaa''"

definition demo_url :: "string \<Rightarrow> url option" where
  "demo_url s =
     (if starts_with ''https://github.com'' s \<and>
         list_all (\<lambda>seg. seg \<noteq> ''.'' \<and> seg \<noteq> ''..'') (split_on CHR ''/'' (drop 18 s))
      then Some \<lparr>url_href = s, url_protocol = ''https:'', url_origin = ''https://github.com'',
        url_hostname = ''github.com'', url_username = [], url_password = [], url_pathname = drop 18 s,
        url_search = [], url_hash = []\<rparr>
      else None)"

definition demo_platform :: platform where
  "demo_platform = \<lparr>randomUUID = (\<lambda>n. ''id'' @ nat_text n), isoNow = (\<lambda>n. ''now''),
     sha256hex = demo_hash, localeCmp = default,
     parseURL = demo_url, dateParses = (\<lambda>s. True), win32 = False\<rparr>"

lemma demo_hash_fingerprint: "is_fingerprint (demo_hash s)"
proof -
  have "demo_digit a b c d s \<in> {a, b, c, d}" for a b c d
    by (induction s arbitrary: a b c d) auto
  from this [of "CHR ''0''" "CHR ''1''" "CHR ''2''" "CHR ''3''"]
  show ?thesis by (auto simp: is_fingerprint_def demo_hash_def is_hex_lower_def)
qed

lemma github_not_blank: "starts_with ''https://github.com'' s \<Longrightarrow> \<not> blank s"
  by (auto simp: starts_with_iff blank_iff is_space_def)

lemma demo_platform_ok: "platform_ok demo_platform"
  using demo_hash_fingerprint github_not_blank
  by (auto simp: platform_ok_def demo_platform_def url_stable_def demo_url_def blank_iff is_space_def inj_def
      dest: nat_text_inject)

lemma demo_github_urls: "github_urls demo_platform"
  unfolding github_urls_def
proof (intro conjI allI impI)
  show "\<not> list_ex resolved_away (split_on CHR ''/'' (url_pathname u))" if "parseURL demo_platform s = Some u" for s u
    using that by (auto simp: demo_platform_def demo_url_def resolved_away_def list_ex_iff list_all_iff split: if_splits)
next
  fix owner name and i :: int assume a: "repo_name owner \<and> repo_name name \<and> \<not> resolved_away owner \<and> \<not> resolved_away name \<and> 1 \<le> i"
  let ?path = "CHR ''/'' # owner @ CHR ''/'' # name @ ''/pull/'' @ int_text i"
  have "\<not> is_digit CHR ''.''" by code_simp
  moreover have segments: "split_on CHR ''/'' ?path = [[], owner, name, ''pull'', int_text i]"
    "list_all is_digit (int_text i)"
    using a pull_request_segments by blast+
  ultimately have "list_all (\<lambda>seg. seg \<noteq> ''.'' \<and> seg \<noteq> ''..'') (split_on CHR ''/'' ?path)"
    using a by (auto simp: segments(1) resolved_away_def)
  then have "parseURL demo_platform (pull_request_url owner name i) = Some
      \<lparr>url_href = pull_request_url owner name i, url_protocol = ''https:'', url_origin = ''https://github.com'',
       url_hostname = ''github.com'', url_username = [], url_password = [], url_pathname = ?path,
       url_search = [], url_hash = []\<rparr>"
    by (simp add: demo_platform_def demo_url_def pull_request_url_def starts_with_def)
  then show "\<exists>u. parseURL demo_platform (pull_request_url owner name i) = Some u \<and>
      url_href u = pull_request_url owner name i \<and> url_protocol u = ''https:'' \<and>
      url_origin u = ''https://github.com'' \<and> url_search u = [] \<and> url_hash u = [] \<and> url_pathname u = ?path"
    by simp
qed

text \<open>Identifiers are fresh when the ticket count exceeds the numbers they hold.\<close>

definition ids_below :: "nat \<Rightarrow> task_kernel \<Rightarrow> bool" where
  "ids_below n k \<longleftrightarrow> list_all (\<lambda>i. digits_value (drop 2 i) < int n) (map evt_id (ker_events k) @ map run_id (ker_runs k))"

lemma demo_fresh: "ids_below n k \<Longrightarrow> uuid_fresh demo_platform n k"
proof (unfold uuid_fresh_def, intro allI impI notI)
  fix m assume "ids_below n k" "n \<le> m"
    "randomUUID demo_platform m \<in> evt_id ` set (ker_events k) \<union> run_id ` set (ker_runs k)"
  then have "digits_value (drop 2 (randomUUID demo_platform m)) < int n"
    by (auto simp: ids_below_def list_all_iff)
  then show False using \<open>n \<le> m\<close> by (simp add: demo_platform_def digits_value_nat_text)
qed

text \<open>The directory holds a kernel that is read back from it.\<close>

definition kernel_at :: "platform \<Rightarrow> project \<Rightarrow> string \<Rightarrow> task_kernel outcome" where
  "kernel_at pl p dir = bindE (current_document (dir_or_empty p dir)) (parseTaskKernelSnapshotV2 pl)"

definition demo_holds :: "project \<Rightarrow> string \<Rightarrow> bool" where
  "demo_holds p dir = (case kernel_at demo_platform p dir of Inl _ \<Rightarrow> False
     | Inr k \<Rightarrow> current_document (dir_or_empty p dir) = Inr (snapshot_json k) \<and> readable k)"

lemma demo_holds:
  assumes "demo_holds p dir"
  obtains k where "kernel_at demo_platform p dir = Inr k" "holds demo_platform (dir_or_empty p dir) k"
proof -
  obtain k where k: "kernel_at demo_platform p dir = Inr k" "readable k"
    "current_document (dir_or_empty p dir) = Inr (snapshot_json k)"
    using assms by (auto simp: demo_holds_def split: sum.splits)
  then have "parseTaskKernelSnapshotV2 demo_platform (snapshot_json k) = Inr k"
    by (simp add: kernel_at_def)
  then have "wf_kernel demo_platform k"
    using platform_okD(6) [OF demo_platform_ok] parseTaskKernelSnapshotV2_sound by blast
  with k show ?thesis by (intro that) (simp_all add: holds_def)
qed

section \<open>Two Tasks\<close>

definition demo_definition :: "string \<Rightarrow> string list \<Rightarrow> jsval" where
  "demo_definition taskId dependencies =
     JObj [(''taskId'', JStr taskId), (''title'', JStr ''T''), (''deliverable'', JStr ''D''),
       (''deliveryLevel'', JStr ''local-result''),
       (''acceptanceCriteria'', JArr [JObj [(''id'', JStr ''c''), (''description'', JStr ''d'')]]),
       (''dependencies'', strs_val dependencies)]"

definition demo_create :: "string \<Rightarrow> string list \<Rightarrow> jsobj" where
  "demo_create taskId dependencies =
     [(''actor'', JStr ''ann''), (''idempotencyKey'', JStr ''k''), (''definition'', demo_definition taskId dependencies)]"

fun project_of :: "(mutation_result \<times> project \<times> nat) outcome \<Rightarrow> project" where
  "project_of (Inr (r, p, n)) = p"
| "project_of (Inl e) = []"

fun kernel_of :: "(mutation_result \<times> project \<times> nat) outcome \<Rightarrow> task_kernel option" where
  "kernel_of (Inr (r, p, n)) = Some (mut_kernel r)"
| "kernel_of (Inl e) = None"

definition demo_p1 :: project where
  "demo_p1 = project_of (createTaskKernel demo_platform [] ''/p/a'' (demo_create ''a'' []) 0)"

definition demo_p2 :: project where
  "demo_p2 = project_of (createTaskKernel demo_platform demo_p1 ''/p/b'' (demo_create ''b'' []) 10)"

definition demo_depend :: jsobj where
  "demo_depend = [(''actor'', JStr ''ann''), (''idempotencyKey'', JStr ''k2''), (''expectedRevision'', nat_val 1),
     (''dependencyId'', JStr ''a'')]"

definition demo_r3 :: "(mutation_result \<times> project \<times> nat) outcome" where
  "demo_r3 = addTaskDependency demo_platform demo_p2 ''/p/b'' demo_depend 20"

lemma demo_p2_holds: "demo_holds demo_p2 ''/p/a''" "demo_holds demo_p2 ''/p/b''"
  by code_simp+

lemma demo_r3_ok: "(case demo_r3 of Inr (r, p, n) \<Rightarrow> n = 24 \<and> \<not> mut_idempotent r \<and> readable (mut_kernel r) \<and> ids_below n (mut_kernel r) | _ \<Rightarrow> False)"
  by code_simp

lemma demo_r3_ok':
  "\<exists>r p. demo_r3 = Inr (r, p, 24) \<and> \<not> mut_idempotent r \<and> readable (mut_kernel r) \<and> ids_below 24 (mut_kernel r)"
  using demo_r3_ok by (auto split: sum.splits)

text \<open>A project whose kernels name no dependency has an empty graph.\<close>

definition no_dependencies :: "platform \<Rightarrow> project \<Rightarrow> bool" where
  "no_dependencies pl p = list_all (\<lambda>t. import_refusal t = None \<and>
     (case bindE (current_document t) (parseTaskKernelSnapshotV2 pl) of
        Inl _ \<Rightarrow> False | Inr k \<Rightarrow> def_dependencies (ker_definition k) = [])) p"

lemma no_dependencies_graph: "no_dependencies pl p \<Longrightarrow> dependency_graph pl p = {}"
proof -
  assume n: "no_dependencies pl p"
  have "loc_dependencies l = []" if find: "findTaskById pl p None a = Inr (Some l)" for a l
  proof -
    obtain t where t: "t \<in> set p" "l \<in> set (located_in pl None a t)"
      using findTaskById_Some [OF find] by blast
    then obtain k where "reads_as pl t k" "def_dependencies (ker_definition k) = []"
      using n unfolding no_dependencies_def list_all_iff reads_as_def
      by (cases "bindE (current_document t) (parseTaskKernelSnapshotV2 pl)") (auto simp: result_simps)
    with t(2) show ?thesis by (auto simp: located_in_reads_as location_of_def split: if_splits)
  qed
  then show ?thesis by (fastforce simp: dependency_graph_def depends_on_def)
qed

lemma demo_p2_no_dependencies: "no_dependencies demo_platform demo_p2"
  by code_simp

end
