(* ===== verification/Schema_Properties.thy ===== *)
theory Schema_Properties
  imports Example
begin

text \<open>
  What the data model promises: canonical fingerprints, the phase walks, the confinement of
  write sets, the bounds of a file baseline, and the kernel document's round trip.
\<close>

text \<open>
  C14: a kernel that satisfies the schema's invariants, with full base commits, is read back
  unchanged from the document it is written as.
\<close>

theorem snapshot_roundtrip:
  "wf_kernel pl k \<Longrightarrow> base_shas_ok k \<Longrightarrow> parseTaskKernelSnapshotV2 pl (snapshot_json k) = Inr k"
  by (rule parseTaskKernelSnapshotV2_codec)

theorem snapshot_roundtrip_witness:
  "\<exists>k. kernel_at demo_platform demo_p2 ''/p/a'' = Inr k \<and> ker_taskId k = ''a'' \<and>
     parseTaskKernelSnapshotV2 demo_platform (snapshot_json k) = Inr k"
proof -
  obtain k where k: "kernel_at demo_platform demo_p2 ''/p/a'' = Inr k"
    and h: "holds demo_platform (dir_or_empty demo_p2 ''/p/a'') k"
    using demo_p2_holds(1) by (rule demo_holds)
  have "(case kernel_at demo_platform demo_p2 ''/p/a'' of Inl _ \<Rightarrow> False | Inr k \<Rightarrow> ker_taskId k = ''a'')"
    by code_simp
  with k h snapshot_roundtrip [of demo_platform k] show ?thesis
    by (auto simp: holds_def readable_base_shas)
qed

lemma audit_contiguous_each:
  "audit_contiguous p as \<Longrightarrow> a \<in> set as \<Longrightarrow> st_revision (aud_to a) = st_revision (aud_from a) + 1"
  by (induction as arbitrary: p) auto

lemma audit_contiguous_nth:
  "audit_contiguous p as \<Longrightarrow> Suc i < length as \<Longrightarrow>
   st_revision (aud_from (as ! Suc i)) = st_revision (aud_to (as ! i))"
proof (induction as arbitrary: p i)
  case (Cons a as)
  have rest: "audit_contiguous (Some (st_revision (aud_to a))) as" using Cons.prems(1) by auto
  show ?case
  proof (cases i)
    case 0
    with Cons.prems(2) rest show ?thesis by (cases as) auto
  next
    case (Suc j)
    with Cons.prems(2) Cons.IH [OF rest, of j] show ?thesis by simp
  qed
qed simp

text \<open>
  C15: a document that is read gives a kernel whose audit chain is unbroken from the first entry
  to the current revision, whose events, Runs and Reviews have distinct identities, and whose
  Reviews each name the candidate of an existing Run.
\<close>

theorem snapshot_invariants:
  assumes "url_stable pl" and "parseTaskKernelSnapshotV2 pl v = Inr k"
  shows "st_revision (aud_to (last (ker_audit k))) = ker_revision k \<and>
    (\<forall>i. Suc i < length (ker_audit k) \<longrightarrow>
       st_revision (aud_from (ker_audit k ! Suc i)) = st_revision (aud_to (ker_audit k ! i))) \<and>
    (\<forall>a \<in> set (ker_audit k). st_revision (aud_to a) = st_revision (aud_from a) + 1) \<and>
    distinct (map evt_id (ker_events k)) \<and> distinct (map evt_idempotencyKey (ker_events k)) \<and>
    distinct (map run_id (ker_runs k)) \<and> distinct (map rev_id (ker_reviews k)) \<and>
    (\<forall>v \<in> set (ker_reviews k). \<exists>r \<in> set (ker_runs k). \<exists>c. run_id r = rev_runId v \<and>
       run_candidateSnapshot r = Some c \<and> rev_candidateFingerprint v = cand_fingerprint c)"
proof -
  have wf: "wf_kernel pl k" using assms by (rule parseTaskKernelSnapshotV2_sound)
  have bound: "\<exists>r \<in> set rs. \<exists>c. run_id r = rev_runId v \<and> run_candidateSnapshot r = Some c \<and>
      rev_candidateFingerprint v = cand_fingerprint c" if b: "review_bound rs v" for rs v
  proof -
    obtain r c where rc: "List.find (\<lambda>r. run_id r = rev_runId v) rs = Some r" "run_candidateSnapshot r = Some c"
      "rev_candidateFingerprint v = cand_fingerprint c"
      using b by (auto simp: review_bound_def split: option.splits)
    with find_Some_in_set [OF rc(1)] show ?thesis by blast
  qed
  have "audit_contiguous None (ker_audit k)" and last: "st_revision (aud_to (last (ker_audit k))) = ker_revision k"
    and events: "events_ok (ker_revision k) [] [] (ker_events k)"
    and runs: "runs_ok (ker_taskId k) [] (ker_runs k)"
    and reviews: "reviews_ok (ker_taskId k) (ker_runs k) [] (ker_reviews k)"
    using wf by (simp_all only: wf_kernel_defs)
  note chained = audit_contiguous_nth [OF this(1)] audit_contiguous_each [OF this(1)]
  have "\<forall>v \<in> set (ker_reviews k). review_bound (ker_runs k) v" and "distinct (map rev_id (ker_reviews k))"
    using reviews by (simp_all add: reviews_ok_iff list_all_iff)
  moreover have "distinct (map evt_id (ker_events k))" "distinct (map evt_idempotencyKey (ker_events k))"
    using events by (simp_all add: events_ok_iff)
  moreover have "distinct (map run_id (ker_runs k))" using runs by (simp add: runs_ok_iff)
  ultimately show ?thesis using last chained bound by simp
qed

theorem snapshot_invariants_witness:
  "\<exists>k. kernel_at demo_platform demo_p2 ''/p/a'' = Inr k \<and>
     st_revision (aud_to (last (ker_audit k))) = ker_revision k"
proof -
  obtain k where k: "kernel_at demo_platform demo_p2 ''/p/a'' = Inr k"
    and h: "holds demo_platform (dir_or_empty demo_p2 ''/p/a'') k"
    using demo_p2_holds(1) by (rule demo_holds)
  with snapshot_invariants [OF platform_okD(6) [OF demo_platform_ok], of "snapshot_json k" k]
  show ?thesis by (auto simp: holds_parse)
qed

text \<open>
  C32: the fingerprint of a value does not depend on the order in which the properties of its
  objects, at any depth, were written.
\<close>

theorem fingerprint_order:
  "same_upto_order v w \<Longrightarrow> fingerprintTaskValue pl v = fingerprintTaskValue pl w"
  by (simp add: fingerprintTaskValue_def stableJson_order)

theorem fingerprint_order_witness:
  "fingerprintTaskValue demo_platform (JObj [(''b'', JNull), (''a'', JArr [])]) =
     fingerprintTaskValue demo_platform (JObj [(''a'', JArr []), (''b'', JNull)]) \<and>
   JObj [(''b'', JNull), (''a'', JArr [])] \<noteq> JObj [(''a'', JArr []), (''b'', JNull)]"
proof -
  have "same_upto_order (JObj [(''b'', JNull), (''a'', JArr [])]) (JObj [(''a'', JArr []), (''b'', JNull)])"
    by (rule obj_order [where kws = "[(''b'', JNull), (''a'', JArr [])]"])
       (simp_all add: refl_order add_mset_commute)
  then show ?thesis by (simp add: fingerprint_order)
qed

text \<open>
  C33: the hops to \<open>execute\<close> and to \<open>close\<close> follow legal phase edges and end there.
\<close>

theorem hops_legal:
  "(hopsToExecute p = Inr hs \<longrightarrow> legal_walk p hs \<and> last (p # hs) = PhExecute) \<and>
   (hopsToClose p = Inr hs \<longrightarrow> legal_walk p hs \<and> last (p # hs) = PhClose)"
  by (cases p) (auto simp: hopsToExecute_def hopsToClose_def EXECUTE_PATH_def CLOSE_PATH_def
      isLegalPhaseEdge_iff KERNEL_PHASE_EDGES_def split: if_splits option.splits)

theorem hops_legal_witness:
  "hopsToClose PhDefine = Inr [PhApprove, PhExecute, PhVerify, PhClose] \<and>
   legal_walk PhDefine [PhApprove, PhExecute, PhVerify, PhClose]"
proof -
  have "hopsToClose PhDefine = Inr [PhApprove, PhExecute, PhVerify, PhClose]"
    by (simp add: hopsToClose_def CLOSE_PATH_def)
  then show ?thesis using hops_legal [of PhDefine "[PhApprove, PhExecute, PhVerify, PhClose]"] by blast
qed

text \<open>
  C30: a path that the write set of a Run's path list allows is one of the files the list names,
  or resolves, against any root, strictly below one of its directories; no entry of the list
  and no such path climbs out of the root.
\<close>

theorem write_set_confines:
  assumes "writeSetFromTaskPaths paths = Inr ws" and "normalizeRepositoryPath s = Inr p"
    and "pathIsAllowed p ws"
  shows "p \<in> set (file_entries paths) \<or>
    (\<exists>d \<in> set (directory_entries paths). \<exists>segs. segs \<noteq> [] \<and>
       resolve_segments root (split_on CHR ''/'' p) = root @ split_on CHR ''/'' d @ segs)"
proof -
  note ws = writeSetFromTaskPaths_eq [OF assms(1)]
  have p: "plain_path p" using normalizeRepositoryPath_plain [OF assms(2)] by blast
  have d: "\<forall>d \<in> set (directoryPrefixes ws). plain_path d" using ws(4) by simp
  show ?thesis
    using pathIsAllowed_resolve [OF assms(3) p d, of root] d ws(1,2) by (auto simp: resolve_inside)
qed

theorem write_set_confines_witness:
  "\<exists>segs. segs \<noteq> [] \<and>
     resolve_segments [''repo''] (split_on CHR ''/'' ''src/x.ts'') = [''repo''] @ split_on CHR ''/'' ''src'' @ segs"
proof -
  define ws where "ws = \<lparr>exactPaths = [''a''], directoryPrefixes = [''src'']\<rparr>"
  have "writeSetFromTaskPaths [''src/'', ''a''] = Inr ws" unfolding ws_def by code_simp
  moreover have "normalizeRepositoryPath ''src/x.ts'' = Inr ''src/x.ts''" by code_simp
  moreover have "pathIsAllowed ''src/x.ts'' ws" unfolding ws_def by code_simp
  ultimately have "''src/x.ts'' \<in> set (file_entries [''src/'', ''a'']) \<or>
      (\<exists>d \<in> set (directory_entries [''src/'', ''a'']). \<exists>segs. segs \<noteq> [] \<and>
         resolve_segments [''repo''] (split_on CHR ''/'' ''src/x.ts'') = [''repo''] @ split_on CHR ''/'' d @ segs)"
    by (rule write_set_confines)
  moreover have "file_entries [''src/'', ''a''] = [''a'']" "directory_entries [''src/'', ''a''] = [''src'']"
    by code_simp+
  ultimately show ?thesis by simp
qed

text \<open>
  C31: a file baseline that verifies lists at most 4096 files of at most 2 MiB each and 32 MiB
  together, with plain, permitted paths that are sorted and, on the platform, distinct, and
  carries the fingerprint of its own contents.
\<close>

theorem baseline_verified:
  assumes "verifyProjectFileBaseline pl b"
  shows "length (base_files b) \<le> 4096 \<and> sum_list (map bent_sizeBytes (base_files b)) \<le> 32 * 1024 * 1024 \<and>
    (\<forall>e \<in> set (base_files b). bent_sizeBytes e \<le> 2 * 1024 * 1024 \<and> plain_path (entry_path e) \<and>
       \<not> isExcludedProjectPath (entry_path e)) \<and>
    List.sorted (map (\<lambda>e. platform_path pl (entry_path e)) (base_files b)) \<and>
    distinct (map (\<lambda>e. platform_path pl (entry_path e)) (base_files b)) \<and>
    base_fingerprint b =
      stableFingerprint pl (JObj (baselineBody (base_rootIdentitySha256 b) (base_files b)))"
proof -
  have ok: "baseline_entries_ok pl [] [] 0 (base_files b)"
    using assms by (simp add: verifyProjectFileBaseline_def)
  show ?thesis
    using assms baseline_entries_ok_bytes [OF ok] baseline_entries_ok_each [OF ok]
      baseline_entries_ok_sorted [OF ok] baseline_entries_ok_distinct [OF ok]
    by (auto simp: verifyProjectFileBaseline_def PROJECT_FILE_SNAPSHOT_MAX_FILES_def
        PROJECT_FILE_SNAPSHOT_MAX_FILE_BYTES_def PROJECT_FILE_SNAPSHOT_MAX_TOTAL_BYTES_def)
qed

theorem baseline_verified_witness:
  "\<exists>b. length (base_files b) = 2 \<and>
     sum_list (map bent_sizeBytes (base_files b)) \<le> 32 * 1024 * 1024 \<and> verifyProjectFileBaseline demo_platform b"
proof -
  define h where "h = replicate 64 (CHR ''a'')"
  define es where "es = [\<lparr>bent_path = ''a.md'', bent_sizeBytes = 3, bent_sha256 = h\<rparr>,
      \<lparr>bent_path = ''src/x.ts'', bent_sizeBytes = 5, bent_sha256 = h\<rparr>]"
  define b where "b = \<lparr>base_rootIdentitySha256 = h, base_files = es,
      base_fingerprint = stableFingerprint demo_platform (JObj (baselineBody h es))\<rparr>"
  have "safeRelativePath ''a.md'' = Inr ''a.md''" "safeRelativePath ''src/x.ts'' = Inr ''src/x.ts''"
    by (simp_all add: safeRelativePath_iff MAX_PATH_LENGTH_def forward_slashes_def plain_path_def starts_with_def
        drive_prefix_def is_letter_def dot_segment_def control_char_def)
  moreover have "\<not> isExcludedProjectPath ''a.md''" "\<not> isExcludedProjectPath ''src/x.ts''" by code_simp+
  moreover have "is_fingerprint h" unfolding h_def by code_simp
  moreover have "is_fingerprint (base_fingerprint b)"
    using demo_hash_fingerprint by (simp add: b_def stableFingerprint_def demo_platform_def)
  moreover have "\<not> platform_path demo_platform ''src/x.ts'' < platform_path demo_platform ''a.md''"
    "platform_path demo_platform ''src/x.ts'' \<noteq> platform_path demo_platform ''a.md''" by code_simp+
  ultimately have "verifyProjectFileBaseline demo_platform b"
    by (simp add: b_def es_def verifyProjectFileBaseline_def PROJECT_FILE_SNAPSHOT_MAX_FILES_def
        PROJECT_FILE_SNAPSHOT_MAX_FILE_BYTES_def PROJECT_FILE_SNAPSHOT_MAX_TOTAL_BYTES_def)
  moreover from this have "sum_list (map bent_sizeBytes (base_files b)) \<le> 32 * 1024 * 1024"
    using baseline_verified by blast
  moreover have "length (base_files b) = 2" by (simp add: b_def es_def)
  ultimately show ?thesis by blast
qed

end
