(* ===== verification/Host.thy ===== *)
theory Host
  imports Run_Update
begin

text \<open>
  The host binding of a Run, \<open>core/task/task-kernel-host.ts\<close>: the receipt a Run is bound to,
  the references it collects while it is active, and the receipt of its stop.
\<close>

section \<open>Binding\<close>

text \<open>\<open>v + 1\<close> where a revision is expected: other values print or are no integer.\<close>

fun plus_one :: "jsval \<Rightarrow> jsval" where
  "plus_one (JNum (JInt i)) = JNum (JInt (i + 1))"
| "plus_one (JBool b) = JNum (JInt (if b then 2 else 1))"
| "plus_one JNull = JNum (JInt 1)"
| "plus_one _ = JUndef"

text \<open>\<open>{ ...host, kernelRevision, contractFingerprint, stopReceipt: null }\<close>\<close>

definition host_request :: "jsobj \<Rightarrow> jsval \<Rightarrow> string \<Rightarrow> jsval" where
  "host_request props revision contract =
     JObj (with_prop (with_prop (with_prop props ''kernelRevision'' revision)
       ''contractFingerprint'' (JStr contract)) ''stopReceipt'' JNull)"

definition bindTaskRunHostReceipt_step ::
    "platform \<Rightarrow> string \<Rightarrow> string \<Rightarrow> host_binding \<Rightarrow> string \<Rightarrow> string \<Rightarrow> operation" where
  "bindTaskRunHostReceipt_step pl actor runId requestedHost fingerprint idem current n =
     bindE (runAt current runId) (\<lambda>(run, index).
     throwIf (latest_run_id current \<noteq> Some runId \<or> \<not> active_run run) (KernelError INVALID_TRANSITION)
     (throwIf (run_host run \<noteq> None) (KernelError INVALID_TRANSITION)
     (bindE (parseHostBinding (host_request (spread (host_json requestedHost))
         (nat_val (ker_revision current + 1))
         (fingerprintTaskValue pl (definition_json (ker_definition current))))) (\<lambda>host.
      Inr (appendDomainEvent pl (replaceRun current index (run\<lparr>run_host := Some host\<rparr>))
        actor idem EvHostBound runId fingerprint n)))))"

definition bindTaskRunHostReceipt ::
    "platform \<Rightarrow> project \<Rightarrow> string \<Rightarrow> jsobj \<Rightarrow> nat \<Rightarrow> (mutation_result \<times> project \<times> nat) outcome" where
  "bindTaskRunHostReceipt pl p dir req n =
     bindE (requireNonEmptyString (getprop req ''actor'')) (\<lambda>actor.
     bindE (requireNonEmptyString (getprop req ''runId'')) (\<lambda>runId.
     bindE (parseHostBinding (host_request (spread (getprop req ''host''))
         (plus_one (getprop req ''expectedRevision'')) (replicate 64 (CHR ''0'')))) (\<lambda>requestedHost.
     let fingerprint = fingerprintTaskValue pl
           (JObj [(''runId'', JStr runId), (''host'', host_json requestedHost)]) in
     mutateTaskKernel pl p dir (getprop req ''expectedRevision'') (JStr actor)
       (getprop req ''idempotencyKey'') fingerprint
       (bindTaskRunHostReceipt_step pl actor runId requestedHost fingerprint) n)))"

section \<open>Settlement references\<close>

definition appendOnly :: "string list \<Rightarrow> jsval \<Rightarrow> string list outcome" where
  "appendOnly existing added =
     (case added of
        JArr vs \<Rightarrow> throwIf (list_ex (\<lambda>v. \<not> nonblank_str v) vs) invalid_request
          (Inr (unique (existing @ map str_of vs)))
      | _ \<Rightarrow> Inl invalid_request)"

definition appendTaskRunHostSettlementRefs_step ::
    "platform \<Rightarrow> string \<Rightarrow> string \<Rightarrow> jsval \<Rightarrow> jsval \<Rightarrow> jsval \<Rightarrow> string \<Rightarrow> string \<Rightarrow> operation" where
  "appendTaskRunHostSettlementRefs_step pl actor runId requestRefs eventRefs resultRefs fingerprint idem current n =
     bindE (runAt current runId) (\<lambda>(run, index).
     orThrow (run_host run) (KernelError INVALID_TRANSITION) (\<lambda>host.
     throwIf (host_stopReceipt host \<noteq> None) (KernelError INVALID_TRANSITION)
     (throwIf (\<not> active_run run) (KernelError INVALID_TRANSITION)
     (bindE (appendOnly (host_requestRefs host) requestRefs) (\<lambda>requests.
      bindE (appendOnly (host_eventRefs host) eventRefs) (\<lambda>events.
      bindE (appendOnly (host_resultRefs host) resultRefs) (\<lambda>results.
      throwIf (length requests = length (host_requestRefs host) \<and>
               length events = length (host_eventRefs host) \<and>
               length results = length (host_resultRefs host)) invalid_request
      (let next_host = host\<lparr>host_requestRefs := requests, host_eventRefs := events,
             host_resultRefs := results\<rparr> in
       Inr (appendDomainEvent pl (replaceRun current index (run\<lparr>run_host := Some next_host\<rparr>))
         actor idem EvHostSettlementRecorded runId fingerprint n)))))))))"

definition appendTaskRunHostSettlementRefs ::
    "platform \<Rightarrow> project \<Rightarrow> string \<Rightarrow> jsobj \<Rightarrow> nat \<Rightarrow> (mutation_result \<times> project \<times> nat) outcome" where
  "appendTaskRunHostSettlementRefs pl p dir req n =
     bindE (requireNonEmptyString (getprop req ''actor'')) (\<lambda>actor.
     bindE (requireNonEmptyString (getprop req ''runId'')) (\<lambda>runId.
     let requestRefs = or_default (getprop req ''requestRefs'') (JArr []);
         eventRefs = or_default (getprop req ''eventRefs'') (JArr []);
         resultRefs = or_default (getprop req ''resultRefs'') (JArr []);
         fingerprint = fingerprintTaskValue pl (JObj [(''runId'', JStr runId), (''additions'',
           JObj [(''requestRefs'', requestRefs), (''eventRefs'', eventRefs), (''resultRefs'', resultRefs)])]) in
     mutateTaskKernel pl p dir (getprop req ''expectedRevision'') (JStr actor)
       (getprop req ''idempotencyKey'') fingerprint
       (appendTaskRunHostSettlementRefs_step pl actor runId requestRefs eventRefs resultRefs fingerprint) n))"

section \<open>The stop receipt\<close>

definition receipt_mismatch :: "platform \<Rightarrow> task_kernel \<Rightarrow> task_run \<Rightarrow> host_binding \<Rightarrow> host_stop_receipt \<Rightarrow> bool" where
  "receipt_mismatch pl k run host receipt \<longleftrightarrow>
     stop_taskId receipt \<noteq> ker_taskId k \<or> stop_runId receipt \<noteq> run_id run \<or>
     stop_sessionId receipt \<noteq> host_sessionId host \<or> stop_threadId receipt \<noteq> host_threadId host \<or>
     stop_contractFingerprint receipt \<noteq> host_contractFingerprint host \<or>
     stop_contractFingerprint receipt \<noteq> fingerprintTaskValue pl (definition_json (ker_definition k)) \<or>
     stop_contractStale receipt \<or> ker_revision k < stop_receiptKernelRevision receipt"

definition receipt_unbound :: "host_binding \<Rightarrow> host_stop_receipt \<Rightarrow> bool" where
  "receipt_unbound host receipt \<longleftrightarrow>
     stop_startRequestId receipt \<notin> set (host_requestRefs host) \<or>
     stop_settleReceiptId receipt \<notin> set (host_eventRefs host) \<or>
     stop_evidenceRef receipt \<notin> set (host_resultRefs host) \<and>
     stop_receiptRef receipt \<notin> set (host_resultRefs host)"

definition codex_stop :: "host_binding \<Rightarrow> host_stop_receipt \<Rightarrow> bool" where
  "codex_stop host receipt \<longleftrightarrow>
     host_host host = ''codex-desktop'' \<and> stop_source receipt = ''codex-desktop-bridge'' \<and>
     stop_assurance receipt = ''host-reported'' \<and> stop_evidenceLevel receipt = ''desktop-native'' \<and>
     stop_terminalStatus receipt = ''completed''"

definition pi_stop :: "host_binding \<Rightarrow> host_stop_receipt \<Rightarrow> bool" where
  "pi_stop host receipt \<longleftrightarrow>
     host_host host = ''pi'' \<and> stop_source receipt = ''pactile-pi-rpc'' \<and>
     stop_assurance receipt = ''manager-owned-child-exit'' \<and>
     (stop_terminalStatus receipt = ''exited'' \<or> stop_terminalStatus receipt = ''cancelled'')"

text \<open>The branches on \<open>run.candidateSnapshot\<close>: they all refuse alike.\<close>

definition candidate_mismatch :: "candidate_snapshot option \<Rightarrow> host_stop_receipt \<Rightarrow> bool" where
  "candidate_mismatch candidate receipt \<longleftrightarrow>
     (case candidate of
        Some c \<Rightarrow>
          stop_candidateSnapshotId receipt \<noteq> Some (cand_id c) \<or>
          stop_candidateFingerprint receipt \<noteq> Some (cand_fingerprint c) \<or>
          stop_candidateSource receipt = None
      | None \<Rightarrow>
          stop_candidateSnapshotId receipt \<noteq> None \<or> stop_candidateFingerprint receipt \<noteq> None \<or>
          stop_candidateSource receipt \<noteq> None)"

definition recordTaskRunHostStopReceipt_step ::
    "platform \<Rightarrow> string \<Rightarrow> string \<Rightarrow> host_stop_receipt \<Rightarrow> string \<Rightarrow> string \<Rightarrow> operation" where
  "recordTaskRunHostStopReceipt_step pl actor runId receipt fingerprint idem current n =
     bindE (runAt current runId) (\<lambda>(run, index).
     orThrow (run_host run) (KernelError INVALID_TRANSITION) (\<lambda>host.
     throwIf (active_run run) (KernelError INVALID_TRANSITION)
     (throwIf (receipt_mismatch pl current run host receipt) invalid_request
     (throwIf (receipt_unbound host receipt) invalid_request
     (throwIf (\<not> codex_stop host receipt \<and> \<not> pi_stop host receipt) invalid_request
     (throwIf (candidate_mismatch (run_candidateSnapshot run) receipt) invalid_request
     (throwIf (host_stopReceipt host \<noteq> None) (KernelError INVALID_TRANSITION)
     (Inr (appendDomainEvent pl
        (replaceRun current index (run\<lparr>run_host := Some (host\<lparr>host_stopReceipt := Some receipt\<rparr>)\<rparr>))
        actor idem EvHostSettled runId fingerprint n)))))))))"

definition recordTaskRunHostStopReceipt ::
    "platform \<Rightarrow> project \<Rightarrow> string \<Rightarrow> jsobj \<Rightarrow> nat \<Rightarrow> (mutation_result \<times> project \<times> nat) outcome" where
  "recordTaskRunHostStopReceipt pl p dir req n =
     bindE (requireNonEmptyString (getprop req ''actor'')) (\<lambda>actor.
     bindE (requireNonEmptyString (getprop req ''runId'')) (\<lambda>runId.
     bindE (parseHostStopReceipt (getprop req ''receipt'')) (\<lambda>receipt.
     let fingerprint = fingerprintTaskValue pl
           (JObj [(''runId'', JStr runId), (''receipt'', stop_receipt_json receipt)]) in
     mutateTaskKernel pl p dir (getprop req ''expectedRevision'') (JStr actor)
       (getprop req ''idempotencyKey'') fingerprint
       (recordTaskRunHostStopReceipt_step pl actor runId receipt fingerprint) n)))"

section \<open>What the operations do\<close>

lemma appendOnly_iff:
  "appendOnly existing added = Inr refs \<longleftrightarrow>
     (\<exists>ss. added = strs_val ss \<and> list_all (\<lambda>s. \<not> blank s) ss \<and> refs = unique (existing @ ss))"
proof (cases added)
  case (JArr vs)
  show ?thesis
    unfolding JArr appendOnly_def strs_val_def
    by (simp only: jsval.case throwIf_eq_Inr nonblank_list) (auto simp: comp_def)
qed (simp_all add: appendOnly_def strs_val_def)

lemma bind_host_cases:
  assumes "bindTaskRunHostReceipt_step pl actor runId h fp idem k n = Inr (k', n')"
  obtains run i host where "runAt k runId = Inr (run, i)" "latest_run_id k = Some runId" "active_run run"
    "run_host run = None" "wf_host host" "host_stopReceipt host = None"
    "host_kernelRevision host = ker_revision k + 1"
    "host_contractFingerprint host = fingerprintTaskValue pl (definition_json (ker_definition k))"
    "appendDomainEvent pl (replaceRun k i (run\<lparr>run_host := Some host\<rparr>)) actor idem EvHostBound runId fp n = (k', n')"
proof -
  obtain run i host where s: "runAt k runId = Inr (run, i)" "latest_run_id k = Some runId" "active_run run"
    "run_host run = None"
    "parseHostBinding (host_request (spread (host_json h)) (nat_val (ker_revision k + 1))
         (fingerprintTaskValue pl (definition_json (ker_definition k)))) = Inr host"
    "appendDomainEvent pl (replaceRun k i (run\<lparr>run_host := Some host\<rparr>)) actor idem EvHostBound runId fp n = (k', n')"
    using assms by (auto simp: bindTaskRunHostReceipt_step_def result_simps)
  have "host_stopReceipt host = None \<and> host_kernelRevision host = ker_revision k + 1 \<and>
    host_contractFingerprint host = fingerprintTaskValue pl (definition_json (ker_definition k))"
    using s(5) by (auto simp: parseHostBinding_def host_request_def result_simps prop_with_prop nullishE_def)
  with s parseHostBinding_sound [OF s(5)] show thesis by (intro that) auto
qed

lemma settle_cases:
  assumes "appendTaskRunHostSettlementRefs_step pl actor runId a b c fp idem k n = Inr (k', n')"
  obtains run i host as bs cs where "runAt k runId = Inr (run, i)" "run_host run = Some host"
    "host_stopReceipt host = None" "active_run run"
    "list_all (\<lambda>s. \<not> blank s) (as @ bs @ cs)" "a = strs_val as" "b = strs_val bs" "c = strs_val cs"
    "appendDomainEvent pl (replaceRun k i (run\<lparr>run_host := Some (host
       \<lparr>host_requestRefs := unique (host_requestRefs host @ as), host_eventRefs := unique (host_eventRefs host @ bs),
        host_resultRefs := unique (host_resultRefs host @ cs)\<rparr>)\<rparr>))
       actor idem EvHostSettlementRecorded runId fp n = (k', n')"
    "\<not> (length (unique (host_requestRefs host @ as)) = length (host_requestRefs host) \<and>
        length (unique (host_eventRefs host @ bs)) = length (host_eventRefs host) \<and>
        length (unique (host_resultRefs host @ cs)) = length (host_resultRefs host))"
  using assms
  by (auto simp: appendTaskRunHostSettlementRefs_step_def result_simps appendOnly_iff Let_def)

lemma stop_cases:
  assumes "recordTaskRunHostStopReceipt_step pl actor runId receipt fp idem k n = Inr (k', n')"
  obtains run i host where "runAt k runId = Inr (run, i)" "run_host run = Some host" "\<not> active_run run"
    "\<not> receipt_mismatch pl k run host receipt" "\<not> receipt_unbound host receipt"
    "codex_stop host receipt \<or> pi_stop host receipt"
    "\<not> candidate_mismatch (run_candidateSnapshot run) receipt" "host_stopReceipt host = None"
    "appendDomainEvent pl (replaceRun k i (run\<lparr>run_host := Some (host\<lparr>host_stopReceipt := Some receipt\<rparr>)\<rparr>))
       actor idem EvHostSettled runId fp n = (k', n')"
  using assms by (auto simp: recordTaskRunHostStopReceipt_step_def result_simps)

text \<open>A Run whose host changes stays well-formed.\<close>

lemma run_host_wf:
  assumes "wf_run pl r" and "pred_option wf_host h"
  shows "wf_run pl (r\<lparr>run_host := h\<rparr>)"
  using assms
  by (simp add: wf_run_def wf_run_fields_def run_phase_ok_def run_baseline_ok_def active_run_def)

lemma run_host_readable: "run_readable (r\<lparr>run_host := h\<rparr>) \<longleftrightarrow> run_readable r"
  by (simp add: run_readable_def run_base_sha_ok_def manager_readable_def baseline_readable_def result_readable_def)

lemma runAt_host_wf: "runAt k runId = Inr (r, i) \<Longrightarrow> wf_kernel pl k \<Longrightarrow> run_host r = Some h \<Longrightarrow> wf_host h"
  using runAt_wf(1) by (fastforce simp: wf_run_def wf_run_fields_def)

interpretation bind_host: wf_operation pl actor fp "bindTaskRunHostReceipt_step pl actor runId h fp" "\<not> blank runId"
  for pl actor runId h fp
proof
  fix idem k n k' n'
  assume op: "bindTaskRunHostReceipt_step pl actor runId h fp idem k n = Inr (k', n')"
  from op obtain run i host where s: "runAt k runId = Inr (run, i)" "wf_host host"
    "appendDomainEvent pl (replaceRun k i (run\<lparr>run_host := Some host\<rparr>)) actor idem EvHostBound runId fp n = (k', n')"
    by (rule bind_host_cases)
  note e = replace_event [OF s(1) _ s(3)]
  show "extends pl actor idem fp k n k' n'" by (rule e) simp
  show "run_id ` set (ker_runs k') \<subseteq> run_id ` set (ker_runs k) \<union> randomUUID pl ` {n..<n'}" by (rule e) simp
  show "\<not> blank (evt_entityId (last (ker_events k')))" if "\<not> blank runId" using that e(4) by simp
  show "wf_content pl k'" if "wf_kernel pl k"
    using that runAt_wf(1) [OF s(1) that] s(2) by (intro e) (simp_all add: run_host_wf)
qed

interpretation settle_host: wf_operation pl actor fp
  "appendTaskRunHostSettlementRefs_step pl actor runId a b c fp" "\<not> blank runId"
  for pl actor runId a b c fp
proof
  fix idem k n k' n'
  assume op: "appendTaskRunHostSettlementRefs_step pl actor runId a b c fp idem k n = Inr (k', n')"
  from op obtain run i host as bs cs where s: "runAt k runId = Inr (run, i)" "run_host run = Some host"
    "list_all (\<lambda>s. \<not> blank s) (as @ bs @ cs)"
    "appendDomainEvent pl (replaceRun k i (run\<lparr>run_host := Some (host
       \<lparr>host_requestRefs := unique (host_requestRefs host @ as), host_eventRefs := unique (host_eventRefs host @ bs),
        host_resultRefs := unique (host_resultRefs host @ cs)\<rparr>)\<rparr>))
       actor idem EvHostSettlementRecorded runId fp n = (k', n')"
    by (rule settle_cases)
  note e = replace_event [OF s(1) _ s(4)]
  show "extends pl actor idem fp k n k' n'" by (rule e) simp
  show "run_id ` set (ker_runs k') \<subseteq> run_id ` set (ker_runs k) \<union> randomUUID pl ` {n..<n'}" by (rule e) simp
  show "\<not> blank (evt_entityId (last (ker_events k')))" if "\<not> blank runId" using that e(4) by simp
  show "wf_content pl k'" if "wf_kernel pl k"
    using that runAt_wf(1) [OF s(1) that] runAt_host_wf [OF s(1) that s(2)] s(3)
    by (intro e run_host_wf) (auto simp: wf_host_def list_all_iff)
qed

interpretation stop_host: wf_operation pl actor fp
  "recordTaskRunHostStopReceipt_step pl actor runId receipt fp" "\<not> blank runId \<and> wf_stop_receipt receipt"
  for pl actor runId receipt fp
proof
  fix idem k n k' n'
  assume op: "recordTaskRunHostStopReceipt_step pl actor runId receipt fp idem k n = Inr (k', n')"
  from op obtain run i host where s: "runAt k runId = Inr (run, i)" "run_host run = Some host"
    "appendDomainEvent pl (replaceRun k i (run\<lparr>run_host := Some (host\<lparr>host_stopReceipt := Some receipt\<rparr>)\<rparr>))
       actor idem EvHostSettled runId fp n = (k', n')"
    by (rule stop_cases)
  note e = replace_event [OF s(1) _ s(3)]
  show "extends pl actor idem fp k n k' n'" by (rule e) simp
  show "run_id ` set (ker_runs k') \<subseteq> run_id ` set (ker_runs k) \<union> randomUUID pl ` {n..<n'}" by (rule e) simp
  show "\<not> blank (evt_entityId (last (ker_events k')))" if "\<not> blank runId \<and> wf_stop_receipt receipt"
    using that e(4) by simp
  show "wf_content pl k'" if "\<not> blank runId \<and> wf_stop_receipt receipt" "wf_kernel pl k"
    using that runAt_wf(1) [OF s(1)] runAt_host_wf [OF s(1) _ s(2)]
    by (intro e run_host_wf) (auto simp: wf_host_def)
qed

text \<open>
  References are only added, and with no reference recorded twice at least one of them is new.
\<close>

lemma settle_grows:
  assumes "appendTaskRunHostSettlementRefs_step pl actor runId a b c fp idem k n = Inr (k', n')"
    and "runAt k runId = Inr (run, i)" and "run_host run = Some host"
    and "distinct (host_requestRefs host)" and "distinct (host_eventRefs host)" and "distinct (host_resultRefs host)"
  shows "\<exists>host'. run_host (ker_runs k' ! i) = Some host' \<and>
    set (host_requestRefs host) \<subseteq> set (host_requestRefs host') \<and>
    set (host_eventRefs host) \<subseteq> set (host_eventRefs host') \<and>
    set (host_resultRefs host) \<subseteq> set (host_resultRefs host') \<and>
    (set (host_requestRefs host) \<noteq> set (host_requestRefs host') \<or>
     set (host_eventRefs host) \<noteq> set (host_eventRefs host') \<or>
     set (host_resultRefs host) \<noteq> set (host_resultRefs host'))"
proof -
  from assms(1) obtain run' i' host' as bs cs where s: "runAt k runId = Inr (run', i')" "run_host run' = Some host'"
    "appendDomainEvent pl (replaceRun k i' (run'\<lparr>run_host := Some (host'
       \<lparr>host_requestRefs := unique (host_requestRefs host' @ as), host_eventRefs := unique (host_eventRefs host' @ bs),
        host_resultRefs := unique (host_resultRefs host' @ cs)\<rparr>)\<rparr>))
       actor idem EvHostSettlementRecorded runId fp n = (k', n')"
    "\<not> (length (unique (host_requestRefs host' @ as)) = length (host_requestRefs host') \<and>
        length (unique (host_eventRefs host' @ bs)) = length (host_eventRefs host') \<and>
        length (unique (host_resultRefs host' @ cs)) = length (host_resultRefs host'))"
    by (rule settle_cases)
  have same: "run' = run" "i' = i" "host' = host" using s(1,2) assms(2,3) by simp_all
  have "i < length (ker_runs k)" using assms(2) by (simp add: runAt_iff)
  then show ?thesis
    using s(4) assms(4-6) replace_event(3) [OF s(1) _ s(3)]
    unfolding same by (auto simp: unique_append_length)
qed

end
