(* ===== verification/History.thy ===== *)
theory History
  imports Host Close "HOL-Library.Sublist"
begin

text \<open>
  What every kernel operation leaves of the past, beyond the journal: Runs keep their contract and,
  once ended, their outcome; Reviews are only appended; the definition only gains dependencies, and
  only while the Task is being defined; a closed Task keeps its closure.

  \<open>evolves\<close> is that relation, \<open>sane\<close> the facts about a kernel that reading it back does not check and
  the operations establish.  The locale \<open>tracked_operation\<close> asks an operation for both, and every
  operation of the kernel is an interpretation.
\<close>

section \<open>The relation\<close>

definition host_evolves :: "host_binding \<Rightarrow> host_binding \<Rightarrow> bool" where
  "host_evolves h h' \<longleftrightarrow>
     (host_stopReceipt h \<noteq> None \<longrightarrow> h' = h) \<and>
     set (host_requestRefs h) \<subseteq> set (host_requestRefs h') \<and>
     set (host_eventRefs h) \<subseteq> set (host_eventRefs h') \<and>
     set (host_resultRefs h) \<subseteq> set (host_resultRefs h') \<and>
     h' = h\<lparr>host_requestRefs := host_requestRefs h', host_eventRefs := host_eventRefs h',
            host_resultRefs := host_resultRefs h', host_stopReceipt := host_stopReceipt h'\<rparr>"

definition workspace_evolves :: "workspace_binding \<Rightarrow> workspace_binding \<Rightarrow> bool" where
  "workspace_evolves w w' \<longleftrightarrow>
     (ws_integrationState w = Integrated \<and> ws_integrationReceipt w \<noteq> None \<longrightarrow>
        ws_integrationState w' = Integrated \<and> ws_integrationReceipt w' = ws_integrationReceipt w) \<and>
     w' = w\<lparr>ws_integrationState := ws_integrationState w', ws_reclamationState := ws_reclamationState w',
            ws_manager := ws_manager w', ws_integrationReceipt := ws_integrationReceipt w',
            ws_cleanupLease := ws_cleanupLease w'\<rparr>"

text \<open>What is bound stays bound, to what it may become\<close>

definition kept :: "('a \<Rightarrow> 'a \<Rightarrow> bool) \<Rightarrow> 'a option \<Rightarrow> 'a option \<Rightarrow> bool" where
  "kept R x y \<longleftrightarrow> (case x of None \<Rightarrow> True | Some a \<Rightarrow> (case y of None \<Rightarrow> False | Some b \<Rightarrow> R a b))"

lemma kept_simps [simp]: "kept R None y" "kept R (Some a) (Some b) = R a b" "\<not> kept R (Some a) None"
  by (simp_all add: kept_def)

lemma kept_trans: "kept R x y \<Longrightarrow> kept R y z \<Longrightarrow> (\<And>a b c. R a b \<Longrightarrow> R b c \<Longrightarrow> R a c) \<Longrightarrow> kept R x z"
  by (cases x; cases y; cases z) auto

definition ended_same :: "task_run \<Rightarrow> task_run \<Rightarrow> bool" where
  "ended_same r r' \<longleftrightarrow>
     run_state r' = run_state r \<and> run_candidateSnapshot r' = run_candidateSnapshot r \<and>
     run_result r' = run_result r \<and> run_failure r' = run_failure r \<and> run_completedAt r' = run_completedAt r \<and>
     run_candidateBaseSha r' = run_candidateBaseSha r \<and>
     run_candidateBaseBranch r' = run_candidateBaseBranch r \<and>
     (run_workspace r' = None \<longleftrightarrow> run_workspace r = None) \<and> (run_host r' = None \<longleftrightarrow> run_host r = None)"

definition run_evolves :: "task_run \<Rightarrow> task_run \<Rightarrow> bool" where
  "run_evolves r r' \<longleftrightarrow>
     same_contract r r' \<and> (\<not> active_run r \<longrightarrow> ended_same r r') \<and>
     (run_state r = RunRunning \<longrightarrow> run_state r' \<noteq> RunWaiting) \<and>
     kept host_evolves (run_host r) (run_host r') \<and> kept workspace_evolves (run_workspace r) (run_workspace r')"

definition phase_step :: "(kernel_phase \<times> kernel_phase) set" where
  "phase_step = {(p, q). phase_allowed p q}"

definition closed_same :: "task_kernel \<Rightarrow> task_kernel \<Rightarrow> bool" where
  "closed_same k k' \<longleftrightarrow>
     ker_closure k' = ker_closure k \<and> ker_definition k' = ker_definition k \<and> ker_phase k' = ker_phase k \<and>
     ker_outcome k' = ker_outcome k \<and> ker_reviews k' = ker_reviews k \<and>
     length (ker_runs k') = length (ker_runs k)"

definition evolves :: "task_kernel \<Rightarrow> task_kernel \<Rightarrow> bool" where
  "evolves k k' \<longleftrightarrow>
     ker_taskId k' = ker_taskId k \<and> length (ker_runs k) \<le> length (ker_runs k') \<and>
     (\<forall>i < length (ker_runs k). run_evolves (ker_runs k ! i) (ker_runs k' ! i)) \<and>
     prefix (ker_reviews k) (ker_reviews k') \<and>
     (ker_phase k, ker_phase k') \<in> phase_step\<^sup>* \<and>
     (\<exists>ds. ker_definition k' =
         (ker_definition k)\<lparr>def_dependencies := def_dependencies (ker_definition k) @ ds\<rparr> \<and>
       (ker_phase k \<noteq> PhDefine \<longrightarrow> ds = [])) \<and>
     (ker_closure k \<noteq> None \<longrightarrow> closed_same k k')"

lemma host_evolves_refl [simp]: "host_evolves h h"
  by (simp add: host_evolves_def)

lemma workspace_evolves_refl [simp]: "workspace_evolves w w"
  by (simp add: workspace_evolves_def)

lemma same_contract_refl [simp]: "same_contract r r"
  by (simp add: same_contract_def)

lemma run_evolves_refl [simp]: "run_evolves r r"
  by (cases "run_host r"; cases "run_workspace r") (simp_all add: run_evolves_def ended_same_def)

lemma host_evolves_trans: "host_evolves a b \<Longrightarrow> host_evolves b c \<Longrightarrow> host_evolves a c"
  by (cases a, cases b, cases c) (auto simp: host_evolves_def)

lemma workspace_evolves_trans: "workspace_evolves a b \<Longrightarrow> workspace_evolves b c \<Longrightarrow> workspace_evolves a c"
  by (cases a, cases b, cases c) (auto simp: workspace_evolves_def)

lemma same_contract_trans: "same_contract a b \<Longrightarrow> same_contract b c \<Longrightarrow> same_contract a c"
  by (simp add: same_contract_def)

lemma ended_same_trans: "ended_same a b \<Longrightarrow> ended_same b c \<Longrightarrow> ended_same a c"
  by (simp add: ended_same_def)

lemma ended_same_active: "ended_same r r' \<Longrightarrow> active_run r' \<longleftrightarrow> active_run r"
  by (simp add: ended_same_def active_run_def)

lemma run_evolves_trans:
  assumes "run_evolves a b" and "run_evolves b c"
  shows "run_evolves a c"
proof -
  have "ended_same a c" if "\<not> active_run a"
    using assms that ended_same_active unfolding run_evolves_def by (blast intro: ended_same_trans)
  moreover have "run_state c \<noteq> RunWaiting" if "run_state a = RunRunning"
  proof (cases "run_state b = RunRunning")
    case False
    then have "\<not> active_run b" using assms(1) that by (simp add: run_evolves_def active_run_def)
    then show ?thesis using assms(2) by (auto simp: run_evolves_def ended_same_def active_run_def)
  qed (use assms(2) in \<open>simp add: run_evolves_def\<close>)
  moreover have "kept host_evolves (run_host a) (run_host c)" "kept workspace_evolves (run_workspace a) (run_workspace c)"
    using assms unfolding run_evolves_def
    by (blast intro: kept_trans [where R = host_evolves] host_evolves_trans
        kept_trans [where R = workspace_evolves] workspace_evolves_trans)+
  moreover have "same_contract a c" using assms same_contract_trans unfolding run_evolves_def by blast
  ultimately show ?thesis by (simp add: run_evolves_def)
qed

lemma evolves_refl [simp]: "evolves k k"
  by (auto simp: evolves_def closed_same_def intro!: exI [of _ "[]"])

lemma phase_out_of_define: "(p, q) \<in> phase_step\<^sup>* \<Longrightarrow> p \<noteq> PhDefine \<Longrightarrow> q \<noteq> PhDefine"
  by (induction rule: rtrancl_induct) (auto simp: phase_step_def phase_allowed_def)

lemma evolves_trans:
  assumes "evolves a b" and "evolves b c"
  shows "evolves a c"
proof -
  obtain ds where ds: "ker_definition b = (ker_definition a)\<lparr>def_dependencies := def_dependencies (ker_definition a) @ ds\<rparr>"
    "ker_phase a \<noteq> PhDefine \<longrightarrow> ds = []" using assms(1) by (auto simp: evolves_def)
  obtain es where es: "ker_definition c = (ker_definition b)\<lparr>def_dependencies := def_dependencies (ker_definition b) @ es\<rparr>"
    "ker_phase b \<noteq> PhDefine \<longrightarrow> es = []" using assms(2) by (auto simp: evolves_def)
  have "ker_phase a \<noteq> PhDefine \<Longrightarrow> ker_phase b \<noteq> PhDefine"
    using assms(1) phase_out_of_define by (auto simp: evolves_def)
  then have "ker_definition c = (ker_definition a)\<lparr>def_dependencies := def_dependencies (ker_definition a) @ ds @ es\<rparr>"
    "ker_phase a \<noteq> PhDefine \<longrightarrow> ds @ es = []"
    using ds es by auto
  moreover have "run_evolves (ker_runs a ! i) (ker_runs c ! i)" if "i < length (ker_runs a)" for i
    using that assms run_evolves_trans unfolding evolves_def by (meson order_less_le_trans)
  moreover have "ker_closure a \<noteq> None \<longrightarrow> closed_same a c"
    using assms by (auto simp: evolves_def closed_same_def)
  moreover have "(ker_phase a, ker_phase c) \<in> phase_step\<^sup>*"
    using assms unfolding evolves_def by (blast intro: rtrancl_trans)
  moreover have "prefix (ker_reviews a) (ker_reviews c)" "length (ker_runs a) \<le> length (ker_runs c)"
    "ker_taskId c = ker_taskId a"
    using assms unfolding evolves_def by (auto intro: prefix_order.trans)
  ultimately show ?thesis unfolding evolves_def by blast
qed

section \<open>What reading does not check\<close>

text \<open>
  Only the last Run may be active, and none once the Task is closed; a Review is by someone who neither
  started nor approved its Run; and a closed Task is in the phase \<open>close\<close>, on a passing Review.
\<close>

definition last_active :: "task_run list \<Rightarrow> bool" where
  "last_active rs \<longleftrightarrow> (\<forall>i. Suc i < length rs \<longrightarrow> \<not> active_run (rs ! i))"

definition independent :: "task_run list \<Rightarrow> task_review \<Rightarrow> bool" where
  "independent rs v \<longleftrightarrow> (\<forall>r \<in> set rs. run_id r = rev_runId v \<longrightarrow>
     rev_reviewer v \<noteq> run_startedBy r \<and> rev_reviewer v \<noteq> auth_approvedBy (run_authorization r))"

definition closed_ok :: "task_kernel \<Rightarrow> bool" where
  "closed_ok k \<longleftrightarrow>
     (case ker_closure k of
        None \<Rightarrow> ker_phase k \<noteq> PhClose
      | Some c \<Rightarrow> ker_phase k = PhClose \<and> list_all (\<lambda>r. \<not> active_run r) (ker_runs k) \<and>
          (\<exists>v \<in> set (ker_reviews k). rev_id v = clo_reviewId c \<and> rev_decision v = DecPass))"

definition sane :: "task_kernel \<Rightarrow> bool" where
  "sane k \<longleftrightarrow> last_active (ker_runs k) \<and> (\<forall>v \<in> set (ker_reviews k). independent (ker_runs k) v) \<and> closed_ok k"

lemma last_active_append: "last_active (rs @ [r]) \<longleftrightarrow> list_all (\<lambda>r. \<not> active_run r) rs"
  by (auto simp: last_active_def list_all_length nth_append)

lemma last_active_update:
  assumes "last_active rs" and "i < length rs" and "active_run r \<longrightarrow> active_run (rs ! i)"
  shows "last_active (rs[i := r])"
  using assms by (auto simp: last_active_def nth_list_update)

lemma independent_update:
  assumes "independent rs v" and "i < length rs" and "same_contract (rs ! i) r"
  shows "independent (rs[i := r]) v"
  using assms by (auto simp: independent_def same_contract_def dest!: set_update_cases)

text \<open>What an operation that only touches Runs keeps\<close>

definition same_rest :: "task_kernel \<Rightarrow> task_kernel \<Rightarrow> bool" where
  "same_rest k k' \<longleftrightarrow>
     ker_taskId k' = ker_taskId k \<and> ker_reviews k' = ker_reviews k \<and> ker_definition k' = ker_definition k \<and>
     ker_closure k' = ker_closure k \<and> ker_phase k' = ker_phase k \<and> ker_outcome k' = ker_outcome k"

lemma replaced_evolves:
  assumes "runAt k runId = Inr (r, i)" and "ker_runs k' = (ker_runs k)[i := r']" and "same_rest k k'"
    and "run_evolves r r'"
  shows "evolves k k'"
  using assms
  by (auto simp: evolves_def closed_same_def same_rest_def runAt_iff nth_list_update intro!: exI [of _ "[]"])

lemma replaced_sane:
  assumes "runAt k runId = Inr (r, i)" and "ker_runs k' = (ker_runs k)[i := r']" and "same_rest k k'"
    and "same_contract r r'" and "active_run r' \<longrightarrow> active_run r" and "sane k"
  shows "sane k'"
proof -
  have i: "i < length (ker_runs k)" "ker_runs k ! i = r" using assms(1) by (simp_all add: runAt_iff)
  have "list_all (\<lambda>r. \<not> active_run r) ((ker_runs k)[i := r'])" if "list_all (\<lambda>r. \<not> active_run r) (ker_runs k)"
    using that assms(5) i by (auto simp: list_all_length nth_list_update)
  then show ?thesis
    using assms i by (auto simp: sane_def closed_ok_def same_rest_def last_active_update independent_update
        split: option.splits)
qed

lemma event_same_rest:
  "appendDomainEvent pl k1 actor idem type entity fp n = (k', n') \<Longrightarrow> same_rest k k1 \<Longrightarrow> same_rest k k'"
  by (simp add: same_rest_def appendDomainEvent_content)

lemma same_rest_replaceRun [simp]: "same_rest k (replaceRun k i r)"
  "same_rest k (replaceRun (k\<lparr>ker_condition := c\<rparr>) i r)"
  by (simp_all add: same_rest_def replaceRun_def)

section \<open>The contract\<close>

locale tracked_operation = wf_operation +
  fixes added :: "string list"
  assumes op_added: "input_ok \<Longrightarrow> op idem k n = Inr (k', n') \<Longrightarrow> ker_definition k' =
      (ker_definition k)\<lparr>def_dependencies := def_dependencies (ker_definition k) @ added\<rparr>"
    and op_evolves: "input_ok \<Longrightarrow> op idem k n = Inr (k', n') \<Longrightarrow> wf_kernel pl k \<Longrightarrow> sane k \<Longrightarrow> evolves k k'"
    and op_sane: "input_ok \<Longrightarrow> op idem k n = Inr (k', n') \<Longrightarrow> wf_kernel pl k \<Longrightarrow> uuid_fresh pl n k \<Longrightarrow>
      sane k \<Longrightarrow> sane k'"
begin

text \<open>A mutation of a sane kernel yields one that it evolves to.\<close>

lemma mutate_evolves:
  assumes ok: input_ok and mutate: "mutateTaskKernel pl p dir expected a keyv fp op n = Inr (res, p', n')"
    and k: "holds pl (dir_or_empty p dir) k" "uuid_fresh pl n k" "sane k"
  shows "evolves k (mut_kernel res) \<and> sane (mut_kernel res)"
proof (cases "mut_idempotent res")
  case True
  then have "mut_kernel res = k"
    using mutate k(1) by (auto simp: mutate_iff performs_def replays_holds)
  with k(3) show ?thesis by simp
next
  case False
  obtain idem t' where p: "performs pl (dir_or_empty p dir) expected idem fp op n k res t' n'"
    using mutate False performs_holds [OF _ k(1)] by (auto simp: mutate_iff replays_def)
  then have step: "op idem k n = Inr (mut_kernel res, n')" by (simp add: performs_def)
  have "wf_kernel pl k" using k(1) by (simp add: holds_def)
  then show ?thesis using op_evolves [OF ok step] op_sane [OF ok step] k by blast
qed

end

text \<open>An operation that replaces one Run and appends its event\<close>

lemma replace_tracked:
  assumes "runAt k runId = Inr (r, i)"
    and "appendDomainEvent pl k1 actor idem type entity fp n = (k', n')"
    and "k1 = replaceRun k i r' \<or> k1 = replaceRun (k\<lparr>ker_condition := c\<rparr>) i r'" and "run_evolves r r'"
  shows "evolves k k'" and "active_run r' \<longrightarrow> active_run r \<Longrightarrow> sane k \<Longrightarrow> sane k'"
    and "ker_definition k' = ker_definition k"
proof -
  have runs: "ker_runs k' = (ker_runs k)[i := r']"
    using assms(3) by (auto simp: appendDomainEvent_content [OF assms(2)] replaceRun_def)
  have rest: "same_rest k k'" by (rule event_same_rest [OF assms(2)]) (use assms(3) in auto)
  show "evolves k k'" by (rule replaced_evolves [OF assms(1) runs rest assms(4)])
  show "ker_definition k' = ker_definition k" using rest by (simp add: same_rest_def)
  show "sane k'" if "active_run r' \<longrightarrow> active_run r" "sane k"
    using replaced_sane [OF assms(1) runs rest _ that] assms(4) by (simp add: run_evolves_def)
qed

lemma run_evolves_host:
  assumes "run_host r = None \<and> active_run r \<or> (\<exists>h. run_host r = Some h \<and> host_evolves h h')"
  shows "run_evolves r (r\<lparr>run_host := Some h'\<rparr>)"
  using assms by (cases "run_workspace r")
    (auto simp: run_evolves_def same_contract_def ended_same_def active_run_def)

lemma run_evolves_workspace:
  assumes "run_workspace r = Some w" and "workspace_evolves w w'"
  shows "run_evolves r (r\<lparr>run_workspace := Some w'\<rparr>)"
  using assms by (cases "run_host r") (auto simp: run_evolves_def same_contract_def ended_same_def active_run_def)

lemma active_run_update [simp]:
  "active_run (r\<lparr>run_host := h\<rparr>) = active_run r" "active_run (r\<lparr>run_workspace := w\<rparr>) = active_run r"
  "active_run (with_workspace r b) = active_run r" "active_run (r\<lparr>run_measurementRefs := m\<rparr>) = active_run r"
  by (simp_all add: active_run_def with_workspace_def)

section \<open>Every operation meets it\<close>

text \<open>
  The interpretations name the operations again: the contract they met in the theory that defines them
  is what \<open>tracked_operation\<close> extends.
\<close>

lemma latest_last: "latest_run_id k = Some i \<Longrightarrow> ker_runs k \<noteq> [] \<and> run_id (last (ker_runs k)) = i"
  by (auto simp: latest_run_id_def last_opt_eq_Some)

lemma sane_open: "sane k \<Longrightarrow> ker_phase k \<noteq> PhClose \<Longrightarrow> ker_closure k = None"
  by (auto simp: sane_def closed_ok_def split: option.splits)

interpretation tracked_bind_host: tracked_operation pl actor fp "bindTaskRunHostReceipt_step pl actor runId h fp"
  "\<not> blank runId" "[]"
  for pl actor runId h fp
proof
  fix idem k n k' n'
  assume op: "bindTaskRunHostReceipt_step pl actor runId h fp idem k n = Inr (k', n')"
  from op obtain run i host where s: "runAt k runId = Inr (run, i)" "active_run run" "run_host run = None"
    "appendDomainEvent pl (replaceRun k i (run\<lparr>run_host := Some host\<rparr>)) actor idem EvHostBound runId fp n = (k', n')"
    by (rule bind_host_cases)
  note r = replace_tracked [OF s(1,4) disjI1 [OF refl] run_evolves_host]
  show "ker_definition k' = (ker_definition k)\<lparr>def_dependencies := def_dependencies (ker_definition k) @ []\<rparr>"
    using r(3) s by simp
  show "evolves k k'" by (rule r) (use s in auto)
  show "sane k'" if "sane k" by (rule r(2) [OF _ _ that]) (use s in auto)
qed

interpretation tracked_settle_host: tracked_operation pl actor fp
  "appendTaskRunHostSettlementRefs_step pl actor runId a b c fp" "\<not> blank runId" "[]"
  for pl actor runId a b c fp
proof
  fix idem k n k' n'
  assume op: "appendTaskRunHostSettlementRefs_step pl actor runId a b c fp idem k n = Inr (k', n')"
  from op obtain run i host as bs cs where s: "runAt k runId = Inr (run, i)" "run_host run = Some host"
    "host_stopReceipt host = None"
    "appendDomainEvent pl (replaceRun k i (run\<lparr>run_host := Some (host
       \<lparr>host_requestRefs := unique (host_requestRefs host @ as), host_eventRefs := unique (host_eventRefs host @ bs),
        host_resultRefs := unique (host_resultRefs host @ cs)\<rparr>)\<rparr>))
       actor idem EvHostSettlementRecorded runId fp n = (k', n')"
    by (rule settle_cases)
  let ?host = "host\<lparr>host_requestRefs := unique (host_requestRefs host @ as),
    host_eventRefs := unique (host_eventRefs host @ bs), host_resultRefs := unique (host_resultRefs host @ cs)\<rparr>"
  have "host_evolves host ?host" using s(3) by (auto simp: host_evolves_def)
  then have e: "run_evolves run (run\<lparr>run_host := Some ?host\<rparr>)" using s(2) by (intro run_evolves_host) blast
  note r = replace_tracked [OF s(1,4) disjI1 [OF refl] e]
  show "ker_definition k' = (ker_definition k)\<lparr>def_dependencies := def_dependencies (ker_definition k) @ []\<rparr>"
    by (simp add: r(3))
  show "evolves k k'" by (rule r)
  show "sane k'" if "sane k" by (rule r(2) [OF _ that]) simp
qed

interpretation tracked_stop_host: tracked_operation pl actor fp
  "recordTaskRunHostStopReceipt_step pl actor runId receipt fp" "\<not> blank runId \<and> wf_stop_receipt receipt" "[]"
  for pl actor runId receipt fp
proof
  fix idem k n k' n'
  assume op: "recordTaskRunHostStopReceipt_step pl actor runId receipt fp idem k n = Inr (k', n')"
  from op obtain run i host where s: "runAt k runId = Inr (run, i)" "run_host run = Some host"
    "host_stopReceipt host = None"
    "appendDomainEvent pl (replaceRun k i (run\<lparr>run_host := Some (host\<lparr>host_stopReceipt := Some receipt\<rparr>)\<rparr>))
       actor idem EvHostSettled runId fp n = (k', n')"
    by (rule stop_cases)
  have "host_evolves host (host\<lparr>host_stopReceipt := Some receipt\<rparr>)" using s(3) by (simp add: host_evolves_def)
  then have e: "run_evolves run (run\<lparr>run_host := Some (host\<lparr>host_stopReceipt := Some receipt\<rparr>)\<rparr>)"
    using s(2) by (intro run_evolves_host) blast
  note r = replace_tracked [OF s(1,4) disjI1 [OF refl] e]
  show "ker_definition k' = (ker_definition k)\<lparr>def_dependencies := def_dependencies (ker_definition k) @ []\<rparr>"
    by (simp add: r(3))
  show "evolves k k'" by (rule r)
  show "sane k'" if "sane k" by (rule r(2) [OF _ that]) simp
qed

interpretation tracked_bind_workspace: tracked_operation pl actor fp
  "bindTaskRunWorkspace_step pl w root actor runId ws fp" "\<not> blank runId \<and> wf_workspace pl runId ws" "[]"
  for pl actor fp w root runId ws
proof
  fix idem k n k' n'
  assume op: "bindTaskRunWorkspace_step pl w root actor runId ws fp idem k n = Inr (k', n')"
  from op obtain run i n1 where s: "runAt k runId = Inr (run, i)" "active_run run" "run_workspace run = None"
    "appendDomainEvent pl (replaceRun k i (with_workspace run ws)) actor idem EvWorkspaceBound runId fp n1 = (k', n')"
    by (rule bind_workspace_cases)
  have e: "run_evolves run (with_workspace run ws)"
    using s(2,3) by (cases "run_host run")
      (auto simp: run_evolves_def same_contract_def with_workspace_def active_run_def)
  note r = replace_tracked [OF s(1,4) disjI1 [OF refl] e]
  show "ker_definition k' = (ker_definition k)\<lparr>def_dependencies := def_dependencies (ker_definition k) @ []\<rparr>"
    by (simp add: r(3))
  show "evolves k k'" by (rule r)
  show "sane k'" if "sane k" by (rule r(2) [OF _ that]) simp
qed

interpretation tracked_integrate: tracked_operation pl actor fp
  "recordTaskRunWorkspaceIntegration_step pl actor runId receipt fp" "\<not> blank runId \<and> wf_receipt receipt" "[]"
  for pl actor fp runId receipt
proof
  fix idem k n k' n'
  assume op: "recordTaskRunWorkspaceIntegration_step pl actor runId receipt fp idem k n = Inr (k', n')"
  from op obtain run i ws where s: "runAt k runId = Inr (run, i)" "run_workspace run = Some ws"
    "ws_integrationReceipt ws = None"
    "appendDomainEvent pl (replaceRun k i (run\<lparr>run_workspace := Some (ws
            \<lparr>ws_integrationState := Integrated, ws_reclamationState := RecPending,
             ws_integrationReceipt := Some receipt\<rparr>)\<rparr>)) actor idem EvWorkspaceIntegrated runId fp n = (k', n')"
    by (rule integration_cases)
  note r = replace_tracked [OF s(1,4) disjI1 [OF refl] run_evolves_workspace [OF s(2)]]
  show "ker_definition k' = (ker_definition k)\<lparr>def_dependencies := def_dependencies (ker_definition k) @ []\<rparr>"
    by (simp add: r(3) workspace_evolves_def finished_workspace_def s(3))
  show "evolves k k'" by (rule r) (simp add: workspace_evolves_def s(3))
  show "sane k'" if "sane k" by (rule r(2) [OF _ _ that]) (simp_all add: workspace_evolves_def s(3))
qed

interpretation tracked_acquire: tracked_operation pl actor fp
  "acquireTaskRunWorkspaceCleanupLease_step pl actor runId lease fp" "\<not> blank runId \<and> wf_lease lease" "[]"
  for pl actor fp runId lease
proof
  fix idem k n k' n'
  assume op: "acquireTaskRunWorkspaceCleanupLease_step pl actor runId lease fp idem k n = Inr (k', n')"
  from op obtain run i ws where s: "runAt k runId = Inr (run, i)" "run_workspace run = Some ws"
    "appendDomainEvent pl (replaceRun k i (run\<lparr>run_workspace := Some (ws
               \<lparr>ws_cleanupLease := Some lease, ws_reclamationState := RecPending\<rparr>)\<rparr>))
       actor idem EvCleanupAcquired runId fp n = (k', n')"
    by (rule acquire_cases)
  note r = replace_tracked [OF s(1,3) disjI1 [OF refl] run_evolves_workspace [OF s(2)]]
  show "ker_definition k' = (ker_definition k)\<lparr>def_dependencies := def_dependencies (ker_definition k) @ []\<rparr>"
    by (simp add: r(3) workspace_evolves_def finished_workspace_def)
  show "evolves k k'" by (rule r) (simp add: workspace_evolves_def)
  show "sane k'" if "sane k" by (rule r(2) [OF _ _ that]) (simp_all add: workspace_evolves_def)
qed

interpretation tracked_finish: tracked_operation pl actor fp
  "finishTaskRunWorkspaceCleanup_step pl actor runId leaseId result reason update fp"
  "\<not> blank runId \<and> pred_option (\<lambda>s. \<not> blank s) reason" "[]"
  for pl actor fp runId leaseId result reason update
proof
  fix idem k n k' n'
  assume op: "finishTaskRunWorkspaceCleanup_step pl actor runId leaseId result reason update fp idem k n = Inr (k', n')"
  from op obtain run i ws lease where s: "runAt k runId = Inr (run, i)" "run_workspace run = Some ws"
    "appendDomainEvent pl (replaceRun k i (run\<lparr>run_workspace :=
           Some (finished_workspace ws lease result reason update)\<rparr>)) actor idem (cleanup_event result) runId fp n =
       (k', n')"
    by (rule finish_cases)
  note r = replace_tracked [OF s(1,3) disjI1 [OF refl] run_evolves_workspace [OF s(2)]]
  show "ker_definition k' = (ker_definition k)\<lparr>def_dependencies := def_dependencies (ker_definition k) @ []\<rparr>"
    by (simp add: r(3) workspace_evolves_def finished_workspace_def)
  show "evolves k k'" by (rule r) (simp add: workspace_evolves_def finished_workspace_def)
  show "sane k'" if "sane k" by (rule r(2) [OF _ _ that]) (simp_all add: workspace_evolves_def finished_workspace_def)
qed

interpretation tracked_resume: tracked_operation pl actor fp "resumeTaskRun_step pl actor runId fp" True "[]"
  for pl actor fp runId
proof
  fix idem k n k' n'
  assume op: "resumeTaskRun_step pl actor runId fp idem k n = Inr (k', n')"
  from op obtain r i where s: "runAt k (run_id r) = Inr (r, i)" "run_state r = RunWaiting"
    "appendDomainEvent pl (replaceRun (k\<lparr>ker_condition := CndActive\<rparr>) i (r\<lparr>run_state := RunRunning\<rparr>)) actor idem
       EvRunResumed (run_id r) fp n = (k', n')"
    by (rule resume_cases)
  have e: "run_evolves r (r\<lparr>run_state := RunRunning\<rparr>)"
    using s(2) by (cases "run_host r"; cases "run_workspace r")
      (auto simp: run_evolves_def same_contract_def active_run_def)
  note r = replace_tracked [OF s(1,3) disjI2 [OF refl] e]
  show "ker_definition k' = (ker_definition k)\<lparr>def_dependencies := def_dependencies (ker_definition k) @ []\<rparr>"
    by (simp add: r(3))
  show "evolves k k'" by (rule r)
  show "sane k'" if "sane k" by (rule r(2) [OF _ that]) (simp add: active_run_def s(2))
qed

interpretation tracked_refusal: tracked_operation pl actor fp "record_refusal_step pl actor runId type evidence fp" True "[]"
  for pl actor fp runId type evidence
proof
  fix idem k n k' n'
  assume op: "record_refusal_step pl actor runId type evidence fp idem k n = Inr (k', n')"
  from op obtain run i where s: "runAt k runId = Inr (run, i)"
    "appendMutation pl k actor idem type (run_id run) fp no_patch evidence n = (k', n')"
    by (rule refusal_cases)
  note content = appendMutation_content [OF s(2)]
  have i: "ker_runs k' = (ker_runs k)[i := run]" "same_rest k k'"
    using s(1) by (auto simp: content same_rest_def runAt_iff kernel_state_of_def)
  show "ker_definition k' = (ker_definition k)\<lparr>def_dependencies := def_dependencies (ker_definition k) @ []\<rparr>"
    using i(2) by (simp add: same_rest_def)
  show "evolves k k'" by (rule replaced_evolves [OF s(1) i]) simp
  show "sane k'" if "sane k" by (rule replaced_sane [OF s(1) i _ _ that]) simp_all
qed

interpretation tracked_dependency: tracked_operation pl actor fp "addTaskDependency_step pl p dir actor d fp" "is_task_id d" "[d]"
  for pl p dir actor d fp
proof
  fix idem k n k' n'
  assume op: "addTaskDependency_step pl p dir actor d fp idem k n = Inr (k', n')"
  note step = addTaskDependency_cases [OF op]
  note content = appendMutation_content [OF step(6)]
  have closure: "ker_closure k' = ker_closure k"
    "ker_definition k' = (ker_definition k)\<lparr>def_dependencies := def_dependencies (ker_definition k) @ [d]\<rparr>"
    by (simp_all add: content apply_patch_def no_patch_def)
  show "ker_definition k' = (ker_definition k)\<lparr>def_dependencies := def_dependencies (ker_definition k) @ [d]\<rparr>"
    by (rule closure)
  show "evolves k k'" if "sane k"
    using sane_open [OF that] step(1) closure by (auto simp: evolves_def content)
  show "sane k'" if "sane k"
    using that sane_open [OF that] step(1) closure(1) unfolding sane_def closed_ok_def by (simp add: content(2,3,6))
qed

lemma phase_step_start:
  assumes "start_phases pl actor idem k n = Inr (k', n')"
  shows "(ker_phase k, ker_phase k') \<in> phase_step\<^sup>*" and "ker_definition k' = ker_definition k"
proof -
  obtain k1 n1 where k1: "k1 = k \<and> n1 = n \<or>
      appendPhase pl k PhApprove actor (idem @ ''#approve'') ''Run authorization recorded.'' None None n = Inr (k1, n1)"
    and k': "appendPhase pl k1 PhExecute actor (idem @ ''#execute'') ''Run started.'' None None n1 = Inr (k', n')"
    using assms by (auto simp: start_phases_def result_simps split: if_splits)
  have "(ker_phase k, ker_phase k1) \<in> phase_step\<^sup>* \<and> ker_definition k1 = ker_definition k"
    using k1 by (auto simp: phase_step_def appendPhase_content)
  moreover have "(ker_phase k1, ker_phase k') \<in> phase_step"
    using appendPhase_content(6,9) [OF k'] by (simp add: phase_step_def)
  ultimately show "(ker_phase k, ker_phase k') \<in> phase_step\<^sup>*" "ker_definition k' = ker_definition k"
    using appendPhase_content(4) [OF k'] by auto
qed

interpretation tracked_start: tracked_operation pl actor fp "startTaskRun_step pl w p root dir actor req fp" True "[]"
  for pl actor fp w p root dir req
proof
  fix idem k n k' n'
  assume op: "startTaskRun_step pl w p root dir actor req fp idem k n = Inr (k', n')"
  from op obtain r kernel c type n0 n1 where s: "ker_closure k = None" "\<not> list_ex active_run (ker_runs k)"
    "run_id r = randomUUID pl n" "start_phases pl actor idem k n0 = Inr (kernel, n1)"
    "appendDomainEvent pl (kernel\<lparr>ker_condition := c, ker_runs := ker_runs kernel @ [r]\<rparr>) actor idem type
       (run_id r) fp n1 = (k', n')"
    by (rule start_cases)
  note phases = start_phases_advances [OF s(4)] phase_step_start [OF s(4)]
  note content = appendDomainEvent_content [OF s(5)]
  have k': "ker_runs k' = ker_runs k @ [r]" "ker_reviews k' = ker_reviews k" "ker_closure k' = None"
    "ker_definition k' = ker_definition k" "ker_taskId k' = ker_taskId k" "ker_phase k' = PhExecute"
    using s(1) by (simp_all add: content phases)
  show "ker_definition k' = (ker_definition k)\<lparr>def_dependencies := def_dependencies (ker_definition k) @ []\<rparr>"
    by (simp add: k')
  show "evolves k k'"
    using s(1) phases k' by (auto simp: evolves_def nth_append intro!: exI [of _ "[]"])
  show "sane k'" if k: "wf_kernel pl k" "uuid_fresh pl n k" "sane k"
  proof -
    have "rev_runId v \<in> run_id ` set (ker_runs k)" if "v \<in> set (ker_reviews k)" for v
    proof -
      have "review_bound (ker_runs k) v" using k(1) that by (simp add: wf_kernel_defs reviews_ok_iff list_all_iff)
      then obtain x where "List.find (\<lambda>r. run_id r = rev_runId v) (ker_runs k) = Some x"
        by (auto simp: review_bound_def split: option.splits)
      from find_Some_in_set [OF this] show ?thesis by (auto simp: image_iff intro: sym)
    qed
    moreover have "run_id r \<notin> run_id ` set (ker_runs k)" using k(2) s(3) by (auto simp: uuid_fresh_def)
    ultimately have "independent (ker_runs k @ [r]) v" if "v \<in> set (ker_reviews k)" for v
      using k(3) that by (fastforce simp: sane_def independent_def)
    then show ?thesis
      using s(2) by (auto simp: sane_def closed_ok_def k' last_active_append list_all_iff list_ex_iff)
  qed
qed

interpretation tracked_result: tracked_operation pl actor fp
  "recordTaskRunResult_step pl w root dir actor state supplied req fp" "state \<in> set RUN_OUTCOMES" "[]"
  for pl actor fp w root dir state supplied req
proof
  fix idem k n k' n'
  assume op: "recordTaskRunResult_step pl w root dir actor state supplied req fp idem k n = Inr (k', n')"
    and state: "state \<in> set RUN_OUTCOMES"
  from op obtain prior i r kernel n0 n1 where s: "runAt k (run_id prior) = Inr (prior, i)"
    "run_state prior = RunRunning" "ker_phase k = PhExecute" "run_state r = state"
    "result_phase pl actor idem state (replaceRun k i r) n0 = Inr (kernel, n1)"
    "appendDomainEvent pl kernel actor idem (result_event state) (run_id r) fp n1 = (k', n')"
    "same_contract prior r" "same_place prior r"
    by (rule result_cases) blast
  note phase = result_phase_advances [OF s(5)]
  note content = appendDomainEvent_content [OF s(6)]
  have i: "i < length (ker_runs k)" "ker_runs k ! i = prior" using s(1) by (simp_all add: runAt_iff)
  have ended: "\<not> active_run r" using state s(4) by (auto simp: RUN_OUTCOMES_def active_run_def)
  have "run_evolves prior r"
    using s(2,4,7,8) ended
    by (cases "run_host prior"; cases "run_workspace prior")
      (auto simp: run_evolves_def same_place_def active_run_def)
  moreover have k': "ker_runs k' = (ker_runs k)[i := r]" "ker_reviews k' = ker_reviews k"
    "ker_closure k' = ker_closure k" "ker_taskId k' = ker_taskId k"
    "ker_phase k' = (if state = RunCompleted then PhVerify else PhExecute)" "ker_definition k' = ker_definition k"
    using s(5) by (auto simp: content phase replaceRun_def result_phase_def appendPhase_content split: if_splits)
  ultimately show "evolves k k'" if "sane k"
    using sane_open [OF that] s(3) i
    by (auto simp: evolves_def nth_list_update phase_step_def phase_allowed_def intro!: exI [of _ "[]"])
  show "ker_definition k' = (ker_definition k)\<lparr>def_dependencies := def_dependencies (ker_definition k) @ []\<rparr>"
    by (simp add: k')
  show "sane k'" if "sane k"
    using that sane_open [OF that] s(3,7) i ended
    by (auto simp: sane_def closed_ok_def k' last_active_update independent_update)
qed

interpretation tracked_review: tracked_operation pl actor fp "recordTaskReview_step pl w root dir actor req fp" True "[]"
  for pl actor fp w root dir req
proof
  fix idem k n k' n'
  assume op: "recordTaskReview_step pl w root dir actor req fp idem k n = Inr (k', n')"
  from op obtain r i c v m n0 n1 n2 where s: "ker_phase k = PhVerify" "runAt k (run_id r) = Inr (r, i)"
    "rev_runId v = run_id r" "rev_reviewer v = actor" "actor \<noteq> run_startedBy r"
    "actor \<noteq> auth_approvedBy (run_authorization r)"
    "appendDomainEvent pl (k\<lparr>ker_condition := (if rev_decision v = DecPass then CndReady else CndBlocked),
       ker_runs := (ker_runs k)[i := r\<lparr>run_measurementRefs := m\<rparr>], ker_reviews := ker_reviews k @ [v]\<rparr>) actor idem
       EvReviewRecorded (rev_id v) fp n2 = (k', n')"
    by (rule review_cases)
  note content = appendDomainEvent_content [OF s(7)]
  let ?r = "r\<lparr>run_measurementRefs := m\<rparr>"
  have i: "i < length (ker_runs k)" "ker_runs k ! i = r" using s(2) by (simp_all add: runAt_iff)
  have r: "same_contract r ?r" "run_evolves r ?r"
    by (cases "run_host r"; cases "run_workspace r"; simp add: run_evolves_def same_contract_def ended_same_def active_run_def)+
  show "ker_definition k' = (ker_definition k)\<lparr>def_dependencies := def_dependencies (ker_definition k) @ []\<rparr>"
    by (simp add: content)
  show "evolves k k'" if "sane k"
    using sane_open [OF that] s(1) i r(2)
    by (auto simp: evolves_def content nth_list_update intro!: exI [of _ "[]"])
  show "sane k'" if k: "wf_kernel pl k" "sane k"
  proof -
    have "x = r" if "x \<in> set (ker_runs k)" "run_id x = run_id r" for x
      using k(1) that i nth_mem [OF i(1)]
      by (auto simp: wf_kernel_defs runs_ok_iff distinct_map dest: inj_onD)
    then have "independent (ker_runs k) v" using s(3-6) by (auto simp: independent_def)
    then show ?thesis
      using k(2) sane_open [OF k(2)] s(1) i r(1)
      by (auto simp: sane_def closed_ok_def content last_active_update independent_update)
  qed
qed

interpretation tracked_close: tracked_operation pl actor fp "closeTaskKernel_step pl w p root dir actor req fp"
  "github_urls pl" "[]"
  for pl actor fp w p root dir req
proof
  fix idem k n k' n'
  assume op: "closeTaskKernel_step pl w p root dir actor req fp idem k n = Inr (k', n')"
  from op obtain ver run review c o' x d kernel clo n1 n2 where
    e: "evaluateTaskClose pl w p root k (getprop req ''runId'') (getprop req ''reviewId'')
       (getprop req ''candidateObservation'') (getprop req ''deliveryEvidence'') (Some dir) n = Inr (ver, n1)"
    "clv_errors ver = []" "run_by_id k (getprop req ''runId'') = Some run"
    "review_by_id k (getprop req ''reviewId'') = Some review" "run_candidateSnapshot run = Some c"
    and phase: "appendPhase pl k PhClose actor (idem @ ''#close'')
        ''Task acceptance and machine-observed delivery evidence satisfied.'' None None (Suc n1) = Inr (kernel, n2)"
    and clo: "clo = \<lparr>clo_runId = run_id run, clo_reviewId = rev_id review,
            clo_candidateSnapshotId = cand_id c, clo_candidateFingerprint = cand_fingerprint c,
            clo_candidateObservation = o', clo_deliveryEvidence = d\<lparr>dev_path := Some (dver_path x)\<rparr>,
            clo_deliveryVerification = Some x, clo_acceptanceEvidence = rev_acceptanceEvidence review,
            clo_closedAt = isoNow pl n1, clo_closedBy = actor\<rparr>"
    and k': "appendDomainEvent pl (kernel\<lparr>ker_outcome := Some OutCompleted, ker_condition := CndReady, ker_closure := Some clo\<rparr>)
       actor idem EvTaskClosed (ker_taskId k) fp n2 = (k', n')"
    by (rule close_cases)
  note content = appendDomainEvent_content [OF k'] appendPhase_content [OF phase]
  from e(1,2) have close: "ker_phase k = PhVerify" "ker_closure k = None" "run_state run = RunCompleted"
    "latest_run_id k = Some (run_id run)" "rev_decision review = DecPass"
    by (rule evaluate_closes; use e(3-5) in \<open>simp add: closing_review_def\<close>)+
  show "ker_definition k' = (ker_definition k)\<lparr>def_dependencies := def_dependencies (ker_definition k) @ []\<rparr>"
    by (simp add: content)
  show "evolves k k'"
    using close(1,2) by (auto simp: evolves_def content phase_step_def phase_allowed_def intro!: exI [of _ "[]"])
  show "sane k'" if k: "wf_kernel pl k" "sane k"
  proof -
    have run: "run \<in> set (ker_runs k)" using e(3) by (auto dest: run_by_id_Some)
    have last: "ker_runs k \<noteq> []" "run_id (last (ker_runs k)) = run_id run" using latest_last [OF close(4)] by simp_all
    have "last (ker_runs k) = run"
      using k(1) last run by (auto simp: wf_kernel_defs runs_ok_iff distinct_map dest: inj_onD)
    then have runs: "ker_runs k = butlast (ker_runs k) @ [run]" using last(1) by (metis append_butlast_last_id)
    have "list_all (\<lambda>r. \<not> active_run r) (butlast (ker_runs k))"
      using k(2) last_active_append [of "butlast (ker_runs k)" run] runs by (simp add: sane_def)
    then have "list_all (\<lambda>r. \<not> active_run r) (ker_runs k)"
      by (subst runs) (simp add: active_run_def close(3))
    moreover have "review \<in> set (ker_reviews k)" using e(4) by (auto dest: review_by_id_Some)
    ultimately show ?thesis
      using k(2) close(5) clo by (auto simp: sane_def closed_ok_def content)
  qed
qed

end
