(* ===== verification/Lifecycle.thy ===== *)
theory Lifecycle
  imports History
begin

text \<open>
  The requests of the Task Kernel as one system.  \<open>serve\<close> dispatches a request to the operation that
  answers it; every request but the one that creates a Task is a mutation under one contract, whatever
  the world, the project and the directory it meets (\<open>serve_mutates\<close>).  \<open>reaches\<close> are the projects a
  sequence of requests leads to, and the invariants below hold of each of them.
\<close>

section \<open>Requests\<close>

datatype kernel_request =
    CreateTask jsobj | AddDependency jsobj
  | StartRun jsobj | ResumeRun jsobj | RecordResult "snapshot_entry list option" jsobj
  | RecordReview jsobj | CloseTask jsobj
  | BindHost jsobj | SettleHost jsobj | StopHost jsobj
  | BindWorkspace jsobj | IntegrateWorkspace jsobj | AcquireLease jsobj
  | FinishCleanup cleanup_result "manager_binding option" jsobj
  | RefuseCleanup jsobj | RefuseClaim jsobj

fun serve ::
    "platform \<Rightarrow> world \<Rightarrow> project \<Rightarrow> string \<Rightarrow> string \<Rightarrow> kernel_request \<Rightarrow> nat \<Rightarrow> (mutation_result \<times> project \<times> nat) outcome"
where
  "serve pl w p root dir (CreateTask req) n = createTaskKernel pl p dir req n"
| "serve pl w p root dir (AddDependency req) n = addTaskDependency pl p dir req n"
| "serve pl w p root dir (StartRun req) n = startTaskRun pl w p root dir req n"
| "serve pl w p root dir (ResumeRun req) n = resumeTaskRun pl p dir req n"
| "serve pl w p root dir (RecordResult es req) n = recordTaskRunResult pl w p root dir es req n"
| "serve pl w p root dir (RecordReview req) n = recordTaskReview pl w p root dir req n"
| "serve pl w p root dir (CloseTask req) n = closeTaskKernel pl w p root dir req n"
| "serve pl w p root dir (BindHost req) n = bindTaskRunHostReceipt pl p dir req n"
| "serve pl w p root dir (SettleHost req) n = appendTaskRunHostSettlementRefs pl p dir req n"
| "serve pl w p root dir (StopHost req) n = recordTaskRunHostStopReceipt pl p dir req n"
| "serve pl w p root dir (BindWorkspace req) n = bindTaskRunWorkspace pl w p root dir req n"
| "serve pl w p root dir (IntegrateWorkspace req) n = recordTaskRunWorkspaceIntegration pl p dir req n"
| "serve pl w p root dir (AcquireLease req) n = acquireTaskRunWorkspaceCleanupLease pl p dir req n"
| "serve pl w p root dir (FinishCleanup result update req) n =
     finishTaskRunWorkspaceCleanup pl p dir result update req n"
| "serve pl w p root dir (RefuseCleanup req) n = recordTaskRunWorkspaceCleanupRefusal pl p dir req n"
| "serve pl w p root dir (RefuseClaim req) n = recordTaskRunWorkspaceClaimRefusal pl p dir req n"

text \<open>The object a request comes as\<close>

fun request_object :: "kernel_request \<Rightarrow> jsobj" where
  "request_object (CreateTask req) = req"
| "request_object (AddDependency req) = req"
| "request_object (StartRun req) = req"
| "request_object (ResumeRun req) = req"
| "request_object (RecordResult es req) = req"
| "request_object (RecordReview req) = req"
| "request_object (CloseTask req) = req"
| "request_object (BindHost req) = req"
| "request_object (SettleHost req) = req"
| "request_object (StopHost req) = req"
| "request_object (BindWorkspace req) = req"
| "request_object (IntegrateWorkspace req) = req"
| "request_object (AcquireLease req) = req"
| "request_object (FinishCleanup result update req) = req"
| "request_object (RefuseCleanup req) = req"
| "request_object (RefuseClaim req) = req"

definition request_key :: "kernel_request \<Rightarrow> jsval" where
  "request_key rq = getprop (request_object rq) ''idempotencyKey''"

definition request_revision :: "kernel_request \<Rightarrow> jsval" where
  "request_revision rq = getprop (request_object rq) ''expectedRevision''"

fun creates :: "kernel_request \<Rightarrow> bool" where
  "creates (CreateTask _) \<longleftrightarrow> True"
| "creates _ \<longleftrightarrow> False"

section \<open>Every other request is a mutation\<close>

text \<open>What a request comes down to: the arguments of the mutation, and the operation in its context\<close>

type_synonym operation_in = "world \<Rightarrow> project \<Rightarrow> string \<Rightarrow> string \<Rightarrow> string \<Rightarrow> operation"

definition mutates ::
    "platform \<Rightarrow> kernel_request \<Rightarrow> string \<Rightarrow> string \<Rightarrow> jsval \<Rightarrow> jsval \<Rightarrow> string list \<Rightarrow> operation_in \<Rightarrow> bool" where
  "mutates pl rq actor fp expected keyv added op \<longleftrightarrow>
     is_fingerprint fp \<and> (added = [] \<or> (\<exists>req. rq = AddDependency req)) \<and>
     keyv = request_key rq \<and> expected = request_revision rq \<and>
     (\<forall>w p root dir. tracked_operation pl actor fp (op w p root dir) True added) \<and>
     (\<forall>w p root dir n. serve pl w p root dir rq n =
        mutateTaskKernel pl p dir expected (JStr actor) keyv fp (op w p root dir) n)"

lemma tracked_True:
  "tracked_operation pl actor fp op ok added \<Longrightarrow> ok \<Longrightarrow> tracked_operation pl actor fp op True added"
  by simp

lemma mutatesI:
  assumes "\<And>w p root dir. tracked_operation pl actor fp (op w p root dir) ok added" and ok and "added = [] \<or> (\<exists>req. rq = AddDependency req)"
    and "platform_ok pl" and "fp = fingerprintTaskValue pl v"
    and "keyv = request_key rq \<and> expected = request_revision rq"
    and "\<And>w p root dir n. serve pl w p root dir rq n =
        mutateTaskKernel pl p dir expected (JStr actor) keyv fp (op w p root dir) n"
  shows "\<exists>actor fp expected keyv added op. mutates pl rq actor fp expected keyv added op"
  using assms platform_okD(7) [OF assms(4)] unfolding mutates_def
  by (intro exI [of _ actor] exI [of _ fp] exI [of _ expected] exI [of _ keyv] exI [of _ added] exI [of _ op]) auto

lemma enum_of_in_set: "enum_of f xs v = Some x \<Longrightarrow> x \<in> set xs"
  by (auto dest: enum_of_SomeD)

lemma cleanup_reason_not_blank:
  assumes "cleanup_reason result v = Inr reason"
  shows "pred_option (\<lambda>s. \<not> blank s) reason"
  using assms optional_trim_not_blank
  by (cases reason) (auto simp: cleanup_reason_def result_simps split: if_splits)

text \<open>What the front of a request ensures of its inputs\<close>

lemmas request_inputs = requireNonEmptyString_iff requireTaskId_iff parseHostStopReceipt_sound
  parseWorkspaceBinding_sound parseWorkspaceIntegrationReceipt_sound parseWorkspaceCleanupLease_sound
  cleanup_reason_not_blank enum_of_in_set start_fingerprint_def review_fingerprint_def close_fingerprint_def

lemmas request_fields = request_key_def request_revision_def

lemma serve_mutates:
  assumes served: "serve pl w p root dir rq n = Inr x" and "\<not> creates rq"
    and ok: "platform_ok pl" "github_urls pl"
  shows "\<exists>actor fp expected keyv added op. mutates pl rq actor fp expected keyv added op"
proof (cases rq)
  case (AddDependency req)
  with served obtain actor d where s: "requireNonEmptyString (getprop req ''actor'') = Inr actor"
    "requireTaskId (getprop req ''dependencyId'') = Inr d"
    by (cases x) (auto simp: addTaskDependency_def result_simps Let_def)
  show ?thesis
    by (rule mutatesI [rotated 6], simp add: AddDependency addTaskDependency_def s Let_def,
        rule tracked_dependency.tracked_operation_axioms) (use s ok in \<open>auto simp: request_inputs request_fields AddDependency\<close>)
next
  case (StartRun req)
  with served obtain actor where s: "requireNonEmptyString (getprop req ''actor'') = Inr actor"
    by (cases x) (auto simp: startTaskRun_def result_simps Let_def)
  show ?thesis
    by (rule mutatesI [rotated 6], simp add: StartRun startTaskRun_def s Let_def,
        rule tracked_start.tracked_operation_axioms) (use s ok in \<open>auto simp: request_inputs request_fields StartRun\<close>)
next
  case (ResumeRun req)
  with served obtain actor where s: "requireNonEmptyString (getprop req ''actor'') = Inr actor"
    by (cases x) (auto simp: resumeTaskRun_def result_simps Let_def)
  show ?thesis
    by (rule mutatesI [rotated 6], simp add: ResumeRun resumeTaskRun_def s Let_def,
        rule tracked_resume.tracked_operation_axioms) (use s ok in \<open>auto simp: request_inputs request_fields ResumeRun\<close>)
next
  case (RecordResult es req)
  with served obtain actor state where s: "requireNonEmptyString (getprop req ''actor'') = Inr actor"
    "enum_of run_state_name RUN_OUTCOMES (getprop req ''outcome'') = Some state"
    by (cases x) (auto simp: recordTaskRunResult_def result_simps Let_def)
  show ?thesis
    by (rule mutatesI [rotated 6], simp add: RecordResult recordTaskRunResult_def s Let_def,
        rule tracked_result.tracked_operation_axioms) (use s ok in \<open>auto simp: request_inputs request_fields RecordResult\<close>)
next
  case (RecordReview req)
  with served obtain actor where s: "requireNonEmptyString (getprop req ''actor'') = Inr actor"
    by (cases x) (auto simp: recordTaskReview_def result_simps Let_def)
  show ?thesis
    by (rule mutatesI [rotated 6], simp add: RecordReview recordTaskReview_def s Let_def,
        rule tracked_review.tracked_operation_axioms) (use s ok in \<open>auto simp: request_inputs request_fields RecordReview\<close>)
next
  case (CloseTask req)
  with served obtain actor where s: "requireNonEmptyString (getprop req ''actor'') = Inr actor"
    by (cases x) (auto simp: closeTaskKernel_def result_simps Let_def)
  show ?thesis
    by (rule mutatesI [rotated 6], simp add: CloseTask closeTaskKernel_def s Let_def,
        rule tracked_close.tracked_operation_axioms) (use s ok in \<open>auto simp: request_inputs request_fields CloseTask\<close>)
next
  case (BindHost req)
  with served obtain actor runId h where s: "requireNonEmptyString (getprop req ''actor'') = Inr actor"
    "requireNonEmptyString (getprop req ''runId'') = Inr runId"
    "parseHostBinding (host_request (spread (getprop req ''host''))
         (plus_one (getprop req ''expectedRevision'')) (replicate 64 (CHR ''0''))) = Inr h"
    by (cases x) (auto simp: bindTaskRunHostReceipt_def result_simps Let_def)
  show ?thesis
    by (rule mutatesI [rotated 6], simp add: BindHost bindTaskRunHostReceipt_def s Let_def,
        rule tracked_bind_host.tracked_operation_axioms) (use s ok in \<open>auto simp: request_inputs request_fields BindHost\<close>)
next
  case (SettleHost req)
  with served obtain actor runId where s: "requireNonEmptyString (getprop req ''actor'') = Inr actor"
    "requireNonEmptyString (getprop req ''runId'') = Inr runId"
    by (cases x) (auto simp: appendTaskRunHostSettlementRefs_def result_simps Let_def)
  show ?thesis
    by (rule mutatesI [rotated 6], simp add: SettleHost appendTaskRunHostSettlementRefs_def s Let_def,
        rule tracked_settle_host.tracked_operation_axioms) (use s ok in \<open>auto simp: request_inputs request_fields SettleHost\<close>)
next
  case (StopHost req)
  with served obtain actor runId receipt where s: "requireNonEmptyString (getprop req ''actor'') = Inr actor"
    "requireNonEmptyString (getprop req ''runId'') = Inr runId"
    "parseHostStopReceipt (getprop req ''receipt'') = Inr receipt"
    by (cases x) (auto simp: recordTaskRunHostStopReceipt_def result_simps Let_def)
  show ?thesis
    by (rule mutatesI [rotated 6], simp add: StopHost recordTaskRunHostStopReceipt_def s Let_def,
        rule tracked_stop_host.tracked_operation_axioms) (use s ok in \<open>auto simp: request_inputs request_fields StopHost\<close>)
next
  case (BindWorkspace req)
  with served obtain actor runId ws where s: "requireNonEmptyString (getprop req ''actor'') = Inr actor"
    "requireNonEmptyString (getprop req ''runId'') = Inr runId"
    "parseWorkspaceBinding pl runId (getprop req ''workspace'') = Inr ws"
    "ws_manager ws \<noteq> None"
    "ws_integrationState ws = NotIntegrated" "ws_integrationReceipt ws = None" "ws_cleanupLease ws = None"
    by (cases x) (auto simp: bindTaskRunWorkspace_def result_simps Let_def)
  show ?thesis
    by (rule mutatesI [rotated 6], simp add: BindWorkspace bindTaskRunWorkspace_def s Let_def,
        rule tracked_bind_workspace.tracked_operation_axioms) (use s ok in \<open>auto simp: request_inputs request_fields BindWorkspace\<close>)
next
  case (IntegrateWorkspace req)
  with served obtain actor runId receipt where s: "requireNonEmptyString (getprop req ''actor'') = Inr actor"
    "requireNonEmptyString (getprop req ''runId'') = Inr runId"
    "parseWorkspaceIntegrationReceipt (getprop req ''receipt'') = Inr receipt"
    by (cases x) (auto simp: recordTaskRunWorkspaceIntegration_def result_simps Let_def)
  show ?thesis
    by (rule mutatesI [rotated 6], simp add: IntegrateWorkspace recordTaskRunWorkspaceIntegration_def s Let_def,
        rule tracked_integrate.tracked_operation_axioms) (use s ok in \<open>auto simp: request_inputs request_fields IntegrateWorkspace\<close>)
next
  case (AcquireLease req)
  with served obtain actor runId lease where s: "requireNonEmptyString (getprop req ''actor'') = Inr actor"
    "requireNonEmptyString (getprop req ''runId'') = Inr runId"
    "parseWorkspaceCleanupLease (JObj (with_prop (with_prop (spread (getprop req ''lease''))
         ''state'' (JStr ''held'')) ''reason'' JNull)) = Inr lease"
    "lease_riskDisclosure lease = Some TASK_RUN_WORKSPACE_CLEANUP_RISK_DISCLOSURE"
    by (cases x) (auto simp: acquireTaskRunWorkspaceCleanupLease_def result_simps Let_def)
  show ?thesis
    by (rule mutatesI [rotated 6], simp add: AcquireLease acquireTaskRunWorkspaceCleanupLease_def s Let_def,
        rule tracked_acquire.tracked_operation_axioms) (use s ok in \<open>auto simp: request_inputs request_fields AcquireLease\<close>)
next
  case (FinishCleanup result update req)
  with served obtain actor runId leaseId reason where s: "requireNonEmptyString (getprop req ''actor'') = Inr actor"
    "requireNonEmptyString (getprop req ''runId'') = Inr runId"
    "requireNonEmptyString (getprop req ''leaseId'') = Inr leaseId"
    "cleanup_reason result (getprop req ''reason'') = Inr reason"
    by (cases x) (auto simp: finishTaskRunWorkspaceCleanup_def result_simps Let_def)
  show ?thesis
    by (rule mutatesI [rotated 6], simp add: FinishCleanup finishTaskRunWorkspaceCleanup_def s Let_def,
        rule tracked_finish.tracked_operation_axioms) (use s ok in \<open>auto simp: request_inputs request_fields FinishCleanup\<close>)
next
  case (RefuseCleanup req)
  with served obtain actor runId raw where s: "requireNonEmptyString (getprop req ''actor'') = Inr actor"
    "requireNonEmptyString (getprop req ''runId'') = Inr runId"
    "requireNonEmptyString (getprop req ''reason'') = Inr raw"
    "clean_reason raw \<noteq> []"
    by (cases x) (auto simp: recordTaskRunWorkspaceCleanupRefusal_def result_simps Let_def)
  show ?thesis
    by (rule mutatesI [rotated 6], simp add: RefuseCleanup recordTaskRunWorkspaceCleanupRefusal_def s Let_def,
        rule tracked_refusal.tracked_operation_axioms) (use s ok in \<open>auto simp: request_inputs request_fields RefuseCleanup\<close>)
next
  case (RefuseClaim req)
  with served obtain actor runId operation code reason where s: "requireNonEmptyString (getprop req ''actor'') = Inr actor"
    "requireNonEmptyString (getprop req ''runId'') = Inr runId"
    "enum_of id [''create'', ''adopt'', ''reconcile''] (getprop req ''operation'') = Some operation"
    "enum_of id TASK_RUN_WORKSPACE_CLAIM_ERROR_CODES (getprop req ''errorCode'') = Some code"
    "map_of WORKSPACE_CLAIM_REFUSAL_REASONS code = Some reason"
    "reason \<noteq> []"
    by (cases x) (auto simp: recordTaskRunWorkspaceClaimRefusal_def result_simps Let_def)
  show ?thesis
    by (rule mutatesI [rotated 6], simp add: RefuseClaim recordTaskRunWorkspaceClaimRefusal_def s Let_def,
        rule tracked_refusal.tracked_operation_axioms) (use s ok in \<open>auto simp: request_inputs request_fields RefuseClaim\<close>)
qed (use assms in simp_all)

section \<open>Sound projects\<close>

text \<open>
  Every kernel that can be read from a directory is the one the directory holds, with identifiers that
  will not be given out again, and is sane.  A directory with no V1 \<open>task.json\<close> has no V1 kernel to read.
\<close>

definition kernel_in :: "platform \<Rightarrow> task_dir \<Rightarrow> task_kernel outcome" where
  "kernel_in pl t = bindE (current_document t) (parseTaskKernelSnapshotV2 pl)"

definition sound_dir :: "platform \<Rightarrow> nat \<Rightarrow> task_dir \<Rightarrow> bool" where
  "sound_dir pl n t \<longleftrightarrow>
     (\<forall>k. kernel_in pl t = Inr k \<longrightarrow> holds pl t k \<and> uuid_fresh pl n k \<and> sane k) \<and>
     (\<not> td_taskJson t \<longrightarrow> td_legacy t = None)"

definition sound_project :: "platform \<Rightarrow> nat \<Rightarrow> project \<Rightarrow> bool" where
  "sound_project pl n p \<longleftrightarrow> distinct (map td_dir p) \<and> list_all (sound_dir pl n) p"

lemma holds_kernel_in: "holds pl t k \<Longrightarrow> kernel_in pl t = Inr k"
  by (simp add: kernel_in_def holds_def holds_parse readable_base_shas parseTaskKernelSnapshotV2_codec)

lemma fresh_later: "uuid_fresh pl n k \<Longrightarrow> n \<le> n' \<Longrightarrow> uuid_fresh pl n' k"
  by (auto simp: uuid_fresh_def)

lemma sound_later: "sound_project pl n p \<Longrightarrow> n \<le> n' \<Longrightarrow> sound_project pl n' p"
  by (auto simp: sound_project_def sound_dir_def list_all_iff intro: fresh_later)

lemma sound_put:
  assumes "sound_project pl n p" and "sound_dir pl n t"
  shows "sound_project pl n (put_dir p t)"
proof -
  have dist: "distinct (map td_dir p)" using assms(1) by (simp add: sound_project_def)
  obtain xs ys where q: "put_dir p t = xs @ t # ys" "td_dir t \<notin> set (map td_dir (xs @ ys))"
    and p: "p = xs @ ys \<or> (\<exists>u. p = xs @ u # ys)"
    using put_dir_split [OF dist, of t] by blast
  then show ?thesis using assms dist by (elim disjE exE) (simp_all add: sound_project_def disjoint_iff)
qed

text \<open>The directory a kernel is read from is one of the project's.\<close>

lemma kernel_in_mem:
  assumes "kernel_in pl (dir_or_empty p dir) = Inr k"
  shows "dir_or_empty p dir \<in> set p" and "find_dir p dir = Some (dir_or_empty p dir)"
proof -
  have "find_dir p dir \<noteq> None"
  proof
    assume "find_dir p dir = None"
    then have "parseTaskKernelSnapshotV2 pl JNull = Inr k"
      using assms by (simp add: kernel_in_def dir_or_empty_def empty_dir_def current_document_def readKernelStateDocument_def)
    from parse_is_v2 [OF this] show False by (simp add: is_v2_document_def)
  qed
  then show "find_dir p dir = Some (dir_or_empty p dir)" by (auto simp: dir_or_empty_def)
  then show "dir_or_empty p dir \<in> set p" by (auto simp: find_dir_def dest: find_Some_in_set)
qed

lemma sound_at:
  assumes "sound_project pl n p" and "kernel_in pl (dir_or_empty p dir) = Inr k"
  shows "holds pl (dir_or_empty p dir) k" and "uuid_fresh pl n k" and "sane k"
  using assms kernel_in_mem(1) [OF assms(2)] by (auto simp: sound_project_def sound_dir_def list_all_iff)

lemma commit_document_v1:
  "commit_document pl t current next = Inr t' \<Longrightarrow> td_taskJson t' = td_taskJson t \<and> td_legacy t' = td_legacy t"
  by (auto simp: commit_document_def result_simps split: option.splits)

text \<open>What a request appends to the journal of the kernel it finds\<close>

definition journal_grows :: "task_kernel \<Rightarrow> task_kernel \<Rightarrow> bool" where
  "journal_grows k k' \<longleftrightarrow>
     prefix (ker_audit k) (ker_audit k') \<and> prefix (ker_events k) (ker_events k') \<and>
     ker_revision k \<le> ker_revision k' \<and> (ker_revision k = ker_revision k' \<longrightarrow> k = k')"

lemma journal_grows_refl [simp]: "journal_grows k k"
  by (simp add: journal_grows_def)

lemma journal_grows_trans: "journal_grows a b \<Longrightarrow> journal_grows b c \<Longrightarrow> journal_grows a c"
  by (auto simp: journal_grows_def intro: prefix_order.trans)

lemma extendsE:
  assumes "extends pl actor idem fp k n k' n'"
  obtains as e where "n \<le> n'" "as \<noteq> []" "ker_audit k' = ker_audit k @ as" "ker_events k' = ker_events k @ [e]"
    "ker_revision k' = ker_revision k + length as"
  using assms unfolding extends_def by blast

lemma extends_journal:
  assumes "extends pl actor idem fp k n k' n'"
  shows "n \<le> n' \<and> journal_grows k k'"
proof -
  obtain as e where "n \<le> n'" "as \<noteq> []" "ker_audit k' = ker_audit k @ as" "ker_events k' = ker_events k @ [e]"
    "ker_revision k' = ker_revision k + length as"
    using assms unfolding extends_def by blast
  then show ?thesis by (simp add: journal_grows_def)
qed

context tracked_operation
begin

text \<open>A mutation takes a sound project to a sound project.\<close>

lemma mutate_reads:
  assumes "mutateTaskKernel pl p dir expected a keyv fp op n = Inr (res, p', n')"
  obtains k where "kernel_in pl (dir_or_empty p dir) = Inr k" "import_refusal (dir_or_empty p dir) = None"
  using assms by (auto simp: mutate_iff replays_def performs_def kernel_in_def)

lemma mutate_sound:
  assumes ok: input_ok "platform_ok pl" "is_fingerprint fp"
    and m: "mutateTaskKernel pl p dir expected (JStr actor) keyv fp op n = Inr (res, p', n')"
    and p: "sound_project pl n p" and readable: "readable (mut_kernel res)"
  shows "sound_project pl n' p'" and "n \<le> n'"
    and "\<exists>k. kernel_in pl (dir_or_empty p dir) = Inr k \<and> evolves k (mut_kernel res) \<and> journal_grows k (mut_kernel res)"
    and "holds pl (dir_or_empty p' dir) (mut_kernel res)"
proof -
  let ?t = "dir_or_empty p dir"
  obtain k where k: "kernel_in pl ?t = Inr k" using m by (rule mutate_reads)
  note at = sound_at [OF p k]
  note holds = mutate_holds [OF ok(1) m ok(2,3) at(1,2) readable]
    and evolves = mutate_evolves [OF ok(1) m at]
  show "holds pl (dir_or_empty p' dir) (mut_kernel res)" using holds by blast
  have "sound_project pl n' p' \<and> n \<le> n' \<and> journal_grows k (mut_kernel res)"
  proof (cases "mut_idempotent res")
    case True
    then have "p' = p" "n' = n" "mut_kernel res = k"
      using m at(1) by (auto simp: mutate_iff performs_def replays_holds)
    with p show ?thesis by simp
  next
    case False
    obtain idem t' where step: "performs pl ?t expected idem fp op n k res t' n'" and p': "p' = put_dir p t'"
      using m False performs_holds [OF _ at(1)] by (auto simp: mutate_iff replays_def)
    have t': "dir_or_empty p' dir = t'"
      using p' performs_commit(2) [OF step] dir_or_empty_put [of p t'] by simp
    have "td_taskJson t' = td_taskJson ?t \<and> td_legacy t' = td_legacy ?t"
      using step by (auto simp: performs_def dest: commit_document_v1)
    moreover have "sound_dir pl n ?t"
      using p kernel_in_mem(1) [OF k] by (simp add: sound_project_def list_all_iff)
    moreover have h: "holds pl t' (mut_kernel res)" "uuid_fresh pl n' (mut_kernel res)" using holds t' by simp_all
    moreover note holds_kernel_in [OF h(1)] conjunct2 [OF evolves]
    ultimately have t'_ok: "sound_dir pl n' t'" by (simp add: sound_dir_def)
    have "op idem k n = Inr (mut_kernel res, n')" using step by (simp add: performs_def)
    then have "extends pl actor idem fp k n (mut_kernel res) n'" by (rule op_extends)
    then have "n \<le> n' \<and> journal_grows k (mut_kernel res)" by (rule extends_journal)
    then show ?thesis using p' sound_put [OF sound_later [OF p] t'_ok] by blast
  qed
  then show "sound_project pl n' p'" "n \<le> n'"
    "\<exists>k. kernel_in pl ?t = Inr k \<and> evolves k (mut_kernel res) \<and> journal_grows k (mut_kernel res)"
    using evolves k by auto
qed

end

section \<open>Creating a Task\<close>

definition new_kernel :: "platform \<Rightarrow> string \<Rightarrow> string \<Rightarrow> string \<Rightarrow> task_definition \<Rightarrow> nat \<Rightarrow> task_kernel" where
  "new_kernel pl actor idem fp d n =
     \<lparr>ker_taskId = def_taskId d, ker_revision = 1, ker_phase = PhDefine, ker_condition = CndReady,
      ker_outcome = None, ker_definition = d, ker_runs = [], ker_reviews = [], ker_closure = None,
      ker_audit = [\<lparr>aud_id = randomUUID pl (n + 1), aud_at = isoNow pl (n + 2), aud_actor = actor,
        aud_idempotencyKey = idem, aud_evidence = Some ''Task defined.'',
        aud_from = with_revision (deriveStateForPhase PhDefine) 0,
        aud_to = with_revision (deriveStateForPhase PhDefine) 1\<rparr>],
      ker_events = [\<lparr>evt_id = randomUUID pl (n + 3), evt_revision = 1, evt_at = isoNow pl (n + 4), evt_actor = actor,
        evt_idempotencyKey = idem, evt_type = EvTaskCreated, evt_entityId = def_taskId d,
        evt_requestFingerprint = fp\<rparr>]\<rparr>"

text \<open>
  Creating a Task either replays the creation of the one that is there, or, in a directory with no
  kernel, adds a Task with an id of its own whose dependencies can be located and do not lead back to it.
\<close>

lemma create_cases:
  assumes "createTaskKernel pl p dir req n = Inr (res, p', n')"
  obtains (replayed) idem fp v where "p' = p" "n \<le> n'" "mut_idempotent res"
      "readKernelStateDocument (dir_or_empty p dir) = Inr v" "parseTaskKernelSnapshotV2 pl v = Inr (mut_kernel res)"
      "findIdempotent (mut_kernel res) idem fp = Inr (Some (mut_event res))"
    | (created) actor idem fp d where "\<not> blank actor" "\<not> blank idem" "fp = fingerprintTaskValue pl
          (JObj [(''definition'', getprop req ''definition''), (''actor'', JStr actor)])"
      "wf_definition d" "\<not> td_archived (dir_or_empty p dir)" "\<not> td_taskJson (dir_or_empty p dir)"
      "readKernelStateDocument (dir_or_empty p dir) = Inr JNull"
      "assertUniqueTaskId pl p (def_taskId d) dir = Inr ()"
      "assertDependenciesResolvable pl p (def_taskId d) (def_dependencies d) (Some dir) = Inr ()"
      "\<exists>g. assertNoDependencyCycle pl p (def_taskId d) (def_dependencies d) dir = Inr g"
      "mut_kernel res = new_kernel pl actor idem fp d n" "\<not> mut_idempotent res" "n' = n + 5"
      "p' = put_dir p ((dir_or_empty p dir)\<lparr>td_document := Document (snapshot_json (mut_kernel res))\<rparr>)"
proof -
  obtain v where v: "readKernelStateDocument (dir_or_empty p dir) = Inr v"
    using assms by (cases res) (clarsimp simp: createTaskKernel_def result_simps Let_def)
  show thesis
  proof (cases "v = JNull")
    case True
    with v assms obtain actor idem d where "\<not> blank actor" "\<not> blank idem" "parseDefinition (JObj (with_prop (with_prop
        (spread (getprop req ''definition'')) ''createdAt'' (JStr (isoNow pl n))) ''createdBy'' (JStr actor))) = Inr d"
      "\<not> td_archived (dir_or_empty p dir)" "\<not> td_taskJson (dir_or_empty p dir)"
      "assertUniqueTaskId pl p (def_taskId d) dir = Inr ()"
      "assertDependenciesResolvable pl p (def_taskId d) (def_dependencies d) (Some dir) = Inr ()"
      "\<exists>g. assertNoDependencyCycle pl p (def_taskId d) (def_dependencies d) dir = Inr g"
      "mut_kernel res = new_kernel pl actor idem (fingerprintTaskValue pl
          (JObj [(''definition'', getprop req ''definition''), (''actor'', JStr actor)])) d n"
      "\<not> mut_idempotent res" "n' = n + 5"
      "p' = put_dir p ((dir_or_empty p dir)\<lparr>td_document := Document (snapshot_json (mut_kernel res))\<rparr>)"
      by (cases res) (clarsimp simp: createTaskKernel_def result_simps Let_def new_kernel_def makeAudit_def makeEvent_def
          eval_nat_numeral)
    with v [unfolded True] show thesis by (intro created [OF _ _ refl parseDefinition_sound])
  next
    case False
    obtain idem fp where "p' = p" "n \<le> n'" "mut_idempotent res"
      "parseTaskKernelSnapshotV2 pl v = Inr (mut_kernel res)"
      "findIdempotent (mut_kernel res) idem fp = Inr (Some (mut_event res))"
      using False v assms
      by (cases res) (clarsimp simp: createTaskKernel_def result_simps Let_def split: option.split_asm)
    with v show thesis by (intro replayed)
  qed
qed

lemma new_kernel_simps [simp]:
  "ker_runs (new_kernel pl actor idem fp d n) = []" "ker_reviews (new_kernel pl actor idem fp d n) = []"
  "ker_closure (new_kernel pl actor idem fp d n) = None" "ker_definition (new_kernel pl actor idem fp d n) = d"
  "ker_taskId (new_kernel pl actor idem fp d n) = def_taskId d" "ker_phase (new_kernel pl actor idem fp d n) = PhDefine"
  by (simp_all add: new_kernel_def)

lemma new_kernel_ok:
  assumes "platform_ok pl" and "\<not> blank actor" and "\<not> blank idem" and "wf_definition d" and "is_fingerprint fp"
  shows "wf_kernel pl (new_kernel pl actor idem fp d n)" and "readable (new_kernel pl actor idem fp d n)"
    and "sane (new_kernel pl actor idem fp d n)" and "uuid_fresh pl (n + 5) (new_kernel pl actor idem fp d n)"
proof -
  have "is_task_id (def_taskId d)" using assms(4) by (simp add: wf_definition_def)
  then show "wf_kernel pl (new_kernel pl actor idem fp d n)"
    using assms platform_okD(2,3) [OF assms(1)] is_task_id_not_blank
    by (simp add: wf_kernel_defs new_kernel_def wf_audit_def wf_event_def with_revision_def)
  show "readable (new_kernel pl actor idem fp d n)" "sane (new_kernel pl actor idem fp d n)"
    by (simp_all add: readable_def sane_def closed_ok_def last_active_def)
  show "uuid_fresh pl (n + 5) (new_kernel pl actor idem fp d n)"
    using injD [OF platform_okD(1) [OF assms(1)]] by (fastforce simp: uuid_fresh_def new_kernel_def)
qed

lemma dir_or_empty_sound: "sound_project pl n p \<Longrightarrow> sound_dir pl n (dir_or_empty p dir)"
proof (cases "find_dir p dir")
  case None
  then have "kernel_in pl (dir_or_empty p dir) \<noteq> Inr k" for k
    using kernel_in_mem(2) [of pl p dir k] by auto
  then show ?thesis using None by (simp add: sound_dir_def dir_or_empty_def empty_dir_def)
next
  case (Some t)
  moreover assume "sound_project pl n p"
  ultimately show ?thesis
    by (auto simp: sound_project_def list_all_iff dir_or_empty_def find_dir_def dest: find_Some_in_set)
qed

lemma create_sound:
  assumes create: "createTaskKernel pl p dir req n = Inr (res, p', n')" and ok: "platform_ok pl"
    and p: "sound_project pl n p"
  shows "sound_project pl n' p'" and "n \<le> n'"
    and "kernel_in pl (dir_or_empty p dir) = Inr k \<Longrightarrow> kernel_in pl (dir_or_empty p' dir) = Inr k"
    and "d \<noteq> dir \<Longrightarrow> find_dir p' d = find_dir p d"
proof -
  let ?t = "dir_or_empty p dir"
  have "sound_project pl n' p' \<and> n \<le> n' \<and>
    (\<forall>k. kernel_in pl ?t = Inr k \<longrightarrow> kernel_in pl (dir_or_empty p' dir) = Inr k) \<and>
    (\<forall>d. d \<noteq> dir \<longrightarrow> find_dir p' d = find_dir p d)"
    using create
  proof (cases rule: create_cases)
    case replayed
    then show ?thesis using sound_later [OF p] by simp
  next
    case (created actor idem fp d)
    let ?k = "mut_kernel res" and ?t' = "?t\<lparr>td_document := Document (snapshot_json (mut_kernel res))\<rparr>"
    have "is_fingerprint fp" using created(3) platform_okD(7) [OF ok] by simp
    note new = new_kernel_ok [OF ok created(1,2,4) this, of n, folded created(11)]
    have t: "sound_dir pl n ?t" using p by (rule dir_or_empty_sound)
    have dir: "td_dir ?t' = dir" by simp
    have same: "current_document ?t' = current_document ?t" if "td_import ?t \<noteq> None"
      using that by (auto simp: current_document_def)
    have "sound_dir pl (n + 5) ?t' \<and> (\<forall>k. kernel_in pl ?t = Inr k \<longrightarrow> kernel_in pl ?t' = Inr k)"
    proof (cases "td_import ?t")
      case None
      then have "holds pl ?t' ?k"
        using new(1,2) by (simp add: holds_def current_document_def readKernelStateDocument_def)
      moreover have "kernel_in pl ?t \<noteq> Inr k" for k
        using None created(7) parse_is_v2 [of pl JNull k] by (auto simp: kernel_in_def current_document_def is_v2_document_def)
      ultimately show ?thesis
        using new(3,4) t holds_kernel_in [of pl ?t' ?k] by (simp add: sound_dir_def)
    next
      case (Some r)
      then have "kernel_in pl ?t' = kernel_in pl ?t" "\<And>k. holds pl ?t k \<Longrightarrow> holds pl ?t' k"
        using same by (simp_all add: kernel_in_def holds_def)
      then show ?thesis using t by (auto simp: sound_dir_def intro: fresh_later)
    qed
    moreover have "dir_or_empty p' dir = ?t'" using created(14) dir_or_empty_put [of p ?t'] dir by simp
    ultimately show ?thesis
      using created(13,14) sound_put [OF sound_later [OF p]] dir by (simp add: find_dir_put)
  qed
  then show "sound_project pl n' p'" "n \<le> n'"
    "kernel_in pl ?t = Inr k \<Longrightarrow> kernel_in pl (dir_or_empty p' dir) = Inr k"
    "d \<noteq> dir \<Longrightarrow> find_dir p' d = find_dir p d"
    by blast+
qed

section \<open>Every request\<close>

text \<open>
  A request that returns keeps the project sound, and every kernel there was has evolved to the one there is.
  \<open>readable\<close> asks that the kernel it stores can be read back: it names the inputs the code does not check.
\<close>

lemma serve_sound:
  assumes served: "serve pl w p root dir rq n = Inr (res, p', n')" and ok: "platform_ok pl" "github_urls pl"
    and p: "sound_project pl n p" and readable: "readable (mut_kernel res)"
  shows "sound_project pl n' p'" and "n \<le> n'"
    and "kernel_in pl (dir_or_empty p d) = Inr k \<Longrightarrow>
      \<exists>k'. kernel_in pl (dir_or_empty p' d) = Inr k' \<and> evolves k k' \<and> journal_grows k k'"
proof -
  have "sound_project pl n' p' \<and> n \<le> n' \<and> (\<forall>d k. kernel_in pl (dir_or_empty p d) = Inr k \<longrightarrow>
      (\<exists>k'. kernel_in pl (dir_or_empty p' d) = Inr k' \<and> evolves k k' \<and> journal_grows k k'))"
  proof (cases "creates rq")
    case True
    then obtain req where create: "createTaskKernel pl p dir req n = Inr (res, p', n')"
      using served by (cases rq) auto
    note c = create_sound [OF create ok(1) p]
    have "kernel_in pl (dir_or_empty p' d) = Inr k" if "kernel_in pl (dir_or_empty p d) = Inr k" for d k
      using that c(3,4) by (cases "d = dir") (simp_all add: dir_or_empty_def)
    then show ?thesis using c(1,2) by auto
  next
    case False
    then obtain actor fp expected keyv added op where m: "mutates pl rq actor fp expected keyv added op"
      using serve_mutates [OF served _ ok] by blast
    then have t: "tracked_operation pl actor fp (op w p root dir) True added" and fp: "is_fingerprint fp"
      and mutate: "mutateTaskKernel pl p dir expected (JStr actor) keyv fp (op w p root dir) n = Inr (res, p', n')"
      using served by (auto simp: mutates_def)
    note sound = tracked_operation.mutate_sound [OF t TrueI ok(1) fp mutate p readable]
    have "\<exists>k'. kernel_in pl (dir_or_empty p' d) = Inr k' \<and> evolves k k' \<and> journal_grows k k'"
      if "kernel_in pl (dir_or_empty p d) = Inr k" for d k
    proof (cases "d = dir")
      case True
      with that sound(3) holds_kernel_in [OF sound(4)] show ?thesis by auto
    next
      case False
      with that mutate_frame [OF mutate False] show ?thesis by (auto simp: dir_or_empty_def)
    qed
    then show ?thesis using sound(1,2) by blast
  qed
  then show "sound_project pl n' p'" "n \<le> n'" "kernel_in pl (dir_or_empty p d) = Inr k \<Longrightarrow>
      \<exists>k'. kernel_in pl (dir_or_empty p' d) = Inr k' \<and> evolves k k' \<and> journal_grows k k'"
    by blast+
qed

section \<open>The dependency graph\<close>

lemma kernel_in_reads_as: "reads_as pl t k \<longleftrightarrow> import_refusal t = None \<and> kernel_in pl t = Inr k"
  by (auto simp: reads_as_def kernel_in_def result_simps)

text \<open>Rewriting a kernel that keeps its dependencies adds no edge.\<close>

lemma graph_same_dependencies:
  assumes "distinct (map td_dir p)" and "find_dir p (td_dir t) = Some u"
    and "reads_as pl u k" and "reads_as pl t k'" and "td_superseded t = td_superseded u"
    and "ker_taskId k' = ker_taskId k" and deps: "ker_definition k' = ker_definition k"
  shows "dependency_graph pl (put_dir p t) \<subseteq> dependency_graph pl p"
proof clarify
  note other = find_other_task [OF assms(1-6)]
  fix a b assume "(a, b) \<in> dependency_graph pl (put_dir p t)"
  then obtain l where l: "findTaskById pl (put_dir p t) None a = Inr (Some l)" "b \<in> set (loc_dependencies l)"
    by (auto simp: dependency_graph_def depends_on_def)
  show "(a, b) \<in> dependency_graph pl p"
  proof (cases "a = ker_taskId k")
    case True
    with l other(3) [of l] deps show ?thesis by (auto simp: dependency_graph_def depends_on_def location_of_def)
  next
    case False
    with l other(1) [of a] show ?thesis by (auto simp: dependency_graph_def depends_on_def)
  qed
qed

text \<open>Adding a dependency keeps the graph acyclic.\<close>

lemma add_dependency_acyclic:
  assumes op: "addTaskDependency pl p dir req n = Inr (res, p', n')"
    and ok: "platform_ok pl" and dirs: "distinct (map td_dir p)"
    and k: "holds pl (dir_or_empty p dir) k" and fresh: "uuid_fresh pl n k"
    and before: "acyclic (dependency_graph pl p)"
  shows "acyclic (dependency_graph pl p')"
proof -
  obtain actor d fp where d: "is_task_id d" and fp: "is_fingerprint fp"
    and m: "mutateTaskKernel pl p dir (getprop req ''expectedRevision'') (JStr actor)
      (getprop req ''idempotencyKey'') fp (addTaskDependency_step pl p dir actor d fp) n = Inr (res, p', n')"
    using op platform_okD(7) [OF ok]
    by (auto simp: addTaskDependency_def result_simps Let_def)
  show ?thesis
  proof (cases "mut_idempotent res")
    case True
    then show ?thesis using mutate_replay_frame [OF m] before by simp
  next
    case False
    obtain idem t' where p: "performs pl (dir_or_empty p dir) (getprop req ''expectedRevision'') idem fp
        (addTaskDependency_step pl p dir actor d fp) n k res t' n'"
      and p': "p' = put_dir p t'" and refusal: "import_refusal (dir_or_empty p dir) = None"
      using m False performs_holds [OF _ k] by (auto simp: mutate_iff replays_def)
    have step: "addTaskDependency_step pl p dir actor d fp idem k n = Inr (mut_kernel res, n')"
      using p by (simp add: performs_def)
    note cases = addTaskDependency_cases [OF step] and commit = performs_commit [OF p]
    note content = appendMutation_content [OF cases(6)]
    have readable: "readable (mut_kernel res)"
      using k content(2,3) by (simp add: holds_def readable_def)
    then have "holds pl (dir_or_empty p' dir) (mut_kernel res)"
      using add_dependency.mutate_holds [OF d m ok fp k fresh] by blast
    then have holds': "holds pl t' (mut_kernel res)"
      using p' commit(2) dir_or_empty_put [of p t'] by simp
    have u: "find_dir p (td_dir t') = Some (dir_or_empty p dir)"
      using holds_find_dir [OF k] commit(2) by simp
    show ?thesis
      unfolding p'
    proof (rule dependency_added_acyclic [OF dirs u _ _ _ _ _ _ before])
      show "reads_as pl (dir_or_empty p dir) k" "reads_as pl t' (mut_kernel res)"
        using k holds' refusal commit(4) by (auto simp: reads_as_def holds_def intro: holds_parse)
      show "def_dependencies (ker_definition (mut_kernel res)) = def_dependencies (ker_definition k) @ [d]"
        using content(4) by (simp add: apply_patch_def no_patch_def)
      then show "\<exists>g. assertNoDependencyCycle pl p (ker_taskId k)
          (def_dependencies (ker_definition (mut_kernel res))) (td_dir t') = Inr g"
        using cases(4) commit(2) by simp
      show "ker_taskId (mut_kernel res) = ker_taskId k" by (rule content)
    qed (rule commit(5))
  qed
qed

text \<open>A new Task adds the edges to its dependencies, none of which leads back to it.\<close>

lemma acyclic_fan:
  assumes "acyclic R" and "\<forall>d \<in> set ds. (d, a) \<notin> R\<^sup>*"
  shows "acyclic (R \<union> {a} \<times> set ds)"
  using assms(2)
proof (induction ds)
  case (Cons d ds)
  let ?R = "R \<union> {a} \<times> set ds"
  have into: "(x, a) \<in> ?R\<^sup>* \<Longrightarrow> (x, a) \<in> R\<^sup>* \<or> (\<exists>d \<in> set ds. (d, a) \<in> R\<^sup>*) \<or> x = a" for x
  proof (induction rule: converse_rtrancl_induct)
    case (step x y)
    then show ?case by (auto intro: converse_rtrancl_into_rtrancl)
  qed simp
  have "d \<noteq> a" using Cons.prems by auto
  then have "(d, a) \<notin> ?R\<^sup>*" using into [of d] Cons.prems by auto
  moreover have "acyclic ?R" using Cons by simp
  ultimately have step: "acyclic (insert (a, d) ?R)" by (simp add: acyclic_insert)
  have eq: "R \<union> {a} \<times> set (d # ds) = insert (a, d) ?R" by auto
  show ?case unfolding eq by (rule step)
qed (simp add: assms(1))

lemma find_at_new:
  assumes "distinct (map td_dir p)" and "td_dir u = td_dir t"
    and "find_dir p (td_dir t) = Some u \<or> find_dir p (td_dir t) = None"
    and empty: "\<And>a. located_in pl None a u = []"
    and new: "\<And>a. located_in pl None a t = (if td_superseded t \<or> a \<noteq> i then [] else [l])"
    and unique: "\<And>l. findTaskById pl p (Some (td_dir t)) i \<noteq> Inr (Some l)"
    and one: "\<exists>found. findTaskById pl p (Some (td_dir t)) i = Inr found"
  shows "findTaskById pl p (Some (td_dir t)) a = findTaskById pl p None a"
    and "a \<noteq> i \<Longrightarrow> findTaskById pl (put_dir p t) None a = findTaskById pl p None a"
    and "findTaskById pl (put_dir p t) None i = Inr (Some m) \<Longrightarrow> m = l"
proof -
  obtain xs ys where q: "put_dir p t = xs @ t # ys" and out: "td_dir t \<notin> set (map td_dir (xs @ ys))"
    and p: "p = xs @ ys \<or> p = xs @ u # ys"
    using put_dir_split [OF assms(1), of t] assms(3) by auto
  have skip: "located_in pl (Some (td_dir t)) a w = located_in pl None a w" if "w \<in> set (xs @ ys)" for w a
    using that out by (auto simp: located_in_def)
  have hidden: "located_in pl (Some (td_dir t)) a u = []" for a using assms(2) by (simp add: located_in_def)
  have maps: "map (located_in pl (Some (td_dir t)) a) xs = map (located_in pl None a) xs"
    "map (located_in pl (Some (td_dir t)) a) ys = map (located_in pl None a) ys" for a
    using skip by auto
  show find: "findTaskById pl p (Some (td_dir t)) a = findTaskById pl p None a" for a
    using p by (elim disjE) (simp_all only: findTaskById_def Let_def map_append list.map concat_append
        concat.simps maps hidden empty append.simps)
  show "findTaskById pl (put_dir p t) None a = findTaskById pl p None a" if "a \<noteq> i"
    using p new [of a] that empty by (auto simp: findTaskById_def q)
  have none: "concat (map (located_in pl None i) (xs @ ys)) = []"
    using one unique p find [of i] empty
    by (auto simp: findTaskById_def result_simps Let_def throwIf_def split: list.splits if_splits)
  then have none: "concat (map (located_in pl None i) xs) = []" "concat (map (located_in pl None i) ys) = []"
    by simp_all
  have "findTaskById pl (put_dir p t) None i = Inr (if td_superseded t then None else Some l)"
    unfolding findTaskById_def q Let_def map_append list.map concat_append concat.simps none new by simp
  then show "m = l" if "findTaskById pl (put_dir p t) None i = Inr (Some m)"
    using that by (simp split: if_splits)
qed

lemma located_in_imported:
  "td_import t = Some r \<Longrightarrow> located_in pl i a (t\<lparr>td_document := x\<rparr>) = located_in pl i a t"
  by (simp add: located_in_def split: sum.split)

lemma create_acyclic:
  assumes create: "createTaskKernel pl p dir req n = Inr (res, p', n')" and ok: "platform_ok pl"
    and p: "sound_project pl n p" and before: "acyclic (dependency_graph pl p)"
  shows "acyclic (dependency_graph pl p')"
  using create
proof (cases rule: create_cases)
  case replayed
  with before show ?thesis by simp
next
  case (created actor idem fp d)
  let ?t = "dir_or_empty p dir" and ?k = "mut_kernel res"
  let ?t' = "?t\<lparr>td_document := Document (snapshot_json ?k)\<rparr>"
  have dist: "distinct (map td_dir p)" using p by (simp add: sound_project_def)
  have dir: "td_dir ?t' = dir" "td_dir ?t = dir" by simp_all
  have at: "find_dir p dir = Some ?t \<or> find_dir p dir = None" by (cases "find_dir p dir") (simp_all add: dir_or_empty_def)
  show ?thesis
  proof (cases "td_import ?t")
    case None
    let ?i = "def_taskId d"
    have "is_fingerprint fp" using created(3) platform_okD(7) [OF ok] by simp
    note new = new_kernel_ok [OF ok created(1,2,4) this, of n, folded created(11)]
    have "holds pl ?t' ?k"
      using None new(1,2) by (simp add: holds_def current_document_def readKernelStateDocument_def)
    then have "reads_as pl ?t' ?k"
      using None holds_kernel_in [of pl ?t' ?k] by (simp add: kernel_in_reads_as import_refusal_def)
    note reads = located_in_reads_as [OF this]
    have k: "ker_taskId ?k = ?i" "ker_definition ?k = d" using created(11) by simp_all
    have "td_legacy ?t = None" using created(6) dir_or_empty_sound [OF p] by (simp add: sound_dir_def)
    then have empty: "located_in pl None a ?t = []" for a
      using None created(7) by (simp add: located_in_def is_v2_document_def)
    obtain x where x: "findTaskById pl p (Some dir) ?i = Inr x"
      using created(8) by (auto simp: assertUniqueTaskId_def result_simps)
    then have "x = None"
      using created(8) findTaskById_dir [of pl p "Some dir" ?i]
      by (cases x) (auto simp: assertUniqueTaskId_def result_simps)
    with x have unique: "findTaskById pl p (Some (td_dir ?t')) ?i = Inr None" by simp
    have found: "located_in pl None a ?t' =
        (if td_superseded ?t' \<or> a \<noteq> ?i then [] else [location_of dir ?k])" for a
      using reads [of None a] k by simp
    have at': "find_dir p (td_dir ?t') = Some ?t \<or> find_dir p (td_dir ?t') = None" using at dir by simp
    note new_at = find_at_new [OF dist _ at' empty found, unfolded unique, unfolded dir, simplified]
    show ?thesis
    proof (rule acyclic_subset [OF acyclic_fan [OF before]])
      have "y \<noteq> ?i" if "(depends_on pl p (Some dir))\<^sup>*\<^sup>* b y" "b \<in> set (def_dependencies d)" for b y
        using created(10) that unfolding assertNoDependencyCycle_ok by blast
      moreover have "depends_on pl p (Some dir) = depends_on pl p None"
        by (intro ext) (simp add: depends_on_def new_at(1))
      ultimately show "\<forall>b \<in> set (def_dependencies d). (b, ?i) \<notin> (dependency_graph pl p)\<^sup>*"
        by (auto simp: dependency_graph_def rtranclp_rtrancl_eq)
      show "dependency_graph pl p' \<subseteq> dependency_graph pl p \<union> {?i} \<times> set (def_dependencies d)"
      proof (rule subrelI)
        fix a b assume "(a, b) \<in> dependency_graph pl p'"
        then obtain l where l: "findTaskById pl p' None a = Inr (Some l)" "b \<in> set (loc_dependencies l)"
          by (auto simp: dependency_graph_def depends_on_def)
        show "(a, b) \<in> dependency_graph pl p \<union> {?i} \<times> set (def_dependencies d)"
        proof (cases "a = ?i")
          case True
          with l new_at(3) [of l] created(14) k show ?thesis by (simp add: location_of_def)
        next
          case False
          from new_at(2) [OF this] l created(14) show ?thesis by (simp add: dependency_graph_def depends_on_def)
        qed
      qed
    qed
  next
    case (Some r)
    then have "find_dir p dir = Some ?t" using at by (auto simp: dir_or_empty_def empty_dir_def)
    then obtain xs ys where q: "put_dir p ?t' = xs @ ?t' # ys" "p = xs @ ?t # ys"
      using put_dir_split [OF dist, of ?t'] dir by auto
    have "located_in pl i a ?t' = located_in pl i a ?t" for i a using Some by (rule located_in_imported)
    then have "findTaskById pl p' i a = findTaskById pl p i a" for i a
      unfolding created(14) q(1) by (subst q(2)) (simp add: findTaskById_def)
    then show ?thesis using before by (simp add: dependency_graph_def depends_on_def)
  qed
qed

lemma serve_acyclic:
  assumes served: "serve pl w p root dir rq n = Inr (res, p', n')" and ok: "platform_ok pl" "github_urls pl"
    and p: "sound_project pl n p" and readable: "readable (mut_kernel res)"
    and before: "acyclic (dependency_graph pl p)"
  shows "acyclic (dependency_graph pl p')"
proof (cases "creates rq")
  case True
  then show ?thesis using served create_acyclic [OF _ ok(1) p before] by (cases rq) auto
next
  case False
  then obtain actor fp expected keyv added op where m: "mutates pl rq actor fp expected keyv added op"
    using serve_mutates [OF served _ ok] by blast
  then have t: "tracked_operation pl actor fp (op w p root dir) True added" and fp: "is_fingerprint fp"
    and mutate: "mutateTaskKernel pl p dir expected (JStr actor) keyv fp (op w p root dir) n = Inr (res, p', n')"
    and added: "added = [] \<or> (\<exists>req. rq = AddDependency req)"
    using served by (auto simp: mutates_def)
  have dist: "distinct (map td_dir p)" using p by (simp add: sound_project_def)
  obtain k where k: "kernel_in pl (dir_or_empty p dir) = Inr k" and refusal: "import_refusal (dir_or_empty p dir) = None"
    using tracked_operation.mutate_reads [OF t mutate] by blast
  note at = sound_at [OF p k]
  show ?thesis
  proof (cases "\<exists>req. rq = AddDependency req")
    case True
    then show ?thesis using served add_dependency_acyclic [OF _ ok(1) dist at(1,2) before] by auto
  next
    case False
    then have none: "added = []" using added by blast
    show ?thesis
    proof (cases "mut_idempotent res")
      case True
      then show ?thesis using mutate_replay_frame [OF mutate] before by simp
    next
      case False
      obtain idem t' where step: "performs pl (dir_or_empty p dir) expected idem fp (op w p root dir) n k res t' n'"
        and p': "p' = put_dir p t'"
        using mutate False performs_holds [OF _ at(1)] by (auto simp: mutate_iff replays_def)
      note commit = performs_commit [OF step]
      have op': "op w p root dir idem k n = Inr (mut_kernel res, n')" using step by (simp add: performs_def)
      have def_same: "ker_definition (mut_kernel res) = ker_definition k"
        using tracked_operation.op_added [OF t TrueI op'] none by simp
      have "evolves k (mut_kernel res)"
        using tracked_operation.mutate_evolves [OF t TrueI mutate at] by blast
      then have id: "ker_taskId (mut_kernel res) = ker_taskId k" by (simp add: evolves_def)
      have "dir_or_empty p' dir = t'" using p' commit(2) dir_or_empty_put [of p t'] by simp
      then have "holds pl t' (mut_kernel res)"
        using tracked_operation.mutate_sound(4) [OF t TrueI ok(1) fp mutate p readable] by simp
      then have reads: "reads_as pl (dir_or_empty p dir) k" "reads_as pl t' (mut_kernel res)"
        using k refusal commit(4) by (simp_all add: kernel_in_reads_as holds_kernel_in)
      have u: "find_dir p (td_dir t') = Some (dir_or_empty p dir)"
        using kernel_in_mem(2) [OF k] commit(2) by simp
      show ?thesis
        unfolding p'
        by (rule acyclic_subset [OF before graph_same_dependencies [OF dist u reads commit(5) id def_same]])
    qed
  qed
qed

section \<open>Reachable projects\<close>

text \<open>
  \<open>reaches pl p n p' n'\<close>: a sequence of requests leads from \<open>p\<close> to \<open>p'\<close>.  The world, the project root and
  the directory may differ from request to request, and time passes in between, for requests that fail too.
\<close>

inductive reaches :: "platform \<Rightarrow> project \<Rightarrow> nat \<Rightarrow> project \<Rightarrow> nat \<Rightarrow> bool"
  for pl :: platform and p :: project and n :: nat where
  start: "reaches pl p n p n"
| wait: "reaches pl p n p' n' \<Longrightarrow> n' \<le> n'' \<Longrightarrow> reaches pl p n p' n''"
| served: "reaches pl p n p' n' \<Longrightarrow> serve pl w p' root dir rq n' = Inr (res, p'', n'') \<Longrightarrow>
    readable (mut_kernel res) \<Longrightarrow> reaches pl p n p'' n''"

lemma reaches_sound:
  assumes "reaches pl p n p' n'" and ok: "platform_ok pl" "github_urls pl"
    and p: "sound_project pl n p"
  shows "sound_project pl n' p'" and "acyclic (dependency_graph pl p) \<Longrightarrow> acyclic (dependency_graph pl p')"
    and "kernel_in pl (dir_or_empty p d) = Inr k \<Longrightarrow>
      \<exists>k'. kernel_in pl (dir_or_empty p' d) = Inr k' \<and> evolves k k' \<and> journal_grows k k'"
proof -
  have "sound_project pl n' p' \<and> (acyclic (dependency_graph pl p) \<longrightarrow> acyclic (dependency_graph pl p')) \<and>
    (\<forall>d k. kernel_in pl (dir_or_empty p d) = Inr k \<longrightarrow>
      (\<exists>k'. kernel_in pl (dir_or_empty p' d) = Inr k' \<and> evolves k k' \<and> journal_grows k k'))"
    using assms(1)
  proof induction
    case start
    show ?case using p by auto
  next
    case (wait p' n' n'')
    then show ?case using sound_later by blast
  next
    case (served p' n' w root dir rq res p'' n'')
    then have sound: "sound_project pl n' p'" by blast
    note step = serve_sound [OF served.hyps(2) ok sound served.hyps(3)]
    have "\<exists>k'. kernel_in pl (dir_or_empty p'' d) = Inr k' \<and> evolves k k' \<and> journal_grows k k'"
      if k: "kernel_in pl (dir_or_empty p d) = Inr k" for d k
    proof -
      obtain k1 where k1: "kernel_in pl (dir_or_empty p' d) = Inr k1" "evolves k k1" "journal_grows k k1"
        using k served.IH by blast
      obtain k2 where "kernel_in pl (dir_or_empty p'' d) = Inr k2" "evolves k1 k2" "journal_grows k1 k2"
        using step(3) [OF k1(1)] by blast
      then show ?thesis using k1 by (blast intro: evolves_trans journal_grows_trans)
    qed
    then show ?case
      using step(1) serve_acyclic [OF served.hyps(2) ok sound served.hyps(3)] served.IH by blast
  qed
  then show "sound_project pl n' p'" "acyclic (dependency_graph pl p) \<Longrightarrow> acyclic (dependency_graph pl p')"
    "kernel_in pl (dir_or_empty p d) = Inr k \<Longrightarrow>
      \<exists>k'. kernel_in pl (dir_or_empty p' d) = Inr k' \<and> evolves k k' \<and> journal_grows k k'"
    by blast+
qed

section \<open>The kernel as a log of requests\<close>

text \<open>
  The contract a client relies on: a log of keys, each with the fingerprint of the request it was used
  for.  A key that is in the log is answered from it, or refused for another request; a new one is added.
\<close>

type_synonym request_log = "(string \<times> string) list"

datatype log_answer = Recorded | Replayed | Mismatched

definition log_step :: "request_log \<Rightarrow> string \<Rightarrow> string \<Rightarrow> log_answer \<times> request_log" where
  "log_step l i fp =
     (case map_of l i of
        None \<Rightarrow> (Recorded, l @ [(i, fp)])
      | Some fp' \<Rightarrow> (if fp' = fp then Replayed else Mismatched, l))"

definition log_of :: "task_kernel \<Rightarrow> request_log" where
  "log_of k = map (\<lambda>e. (evt_idempotencyKey e, evt_requestFingerprint e)) (ker_events k)"

lemma map_of_find:
  "map_of (map (\<lambda>e. (f e, g e)) es) i = map_option g (List.find (\<lambda>e. f e = i) es)"
  by (induction es) auto

lemma findIdempotent_log:
  "findIdempotent k idem fp = Inr None \<longleftrightarrow> log_step (log_of k) idem fp = (Recorded, log_of k @ [(idem, fp)])"
  "(\<exists>e. findIdempotent k idem fp = Inr (Some e)) \<longleftrightarrow> log_step (log_of k) idem fp = (Replayed, log_of k)"
  "findIdempotent k idem fp = Inl (KernelError IDEMPOTENCY_MISMATCH) \<longleftrightarrow>
     log_step (log_of k) idem fp = (Mismatched, log_of k)"
  by (cases "List.find (\<lambda>e. evt_idempotencyKey e = idem) (ker_events k)";
      auto simp: findIdempotent_def log_step_def log_of_def map_of_find throwIf_def split: if_splits)+

context tracked_operation
begin

lemma op_later:
  assumes "op idem k n = Inr (k', n')"
  shows "ker_revision k < ker_revision k'"
proof -
  have "extends pl actor idem fp k n k' n'" using assms by (rule op_extends)
  then show ?thesis by (rule extendsE) simp
qed

text \<open>A request that is performed leaves its event and its audit entries.\<close>

lemma mutate_recorded:
  assumes "mutateTaskKernel pl p dir expected (JStr actor) keyv fp op n = Inr (res, p', n')" and "\<not> mut_idempotent res"
  obtains idem r as where "keyv = JStr idem" "\<not> blank idem" "\<not> blank actor" "expected = nat_val r"
    "\<not> td_archived (dir_or_empty p dir)" "import_refusal (dir_or_empty p dir) = None"
    "mut_event res \<in> set (ker_events (mut_kernel res))" "evt_idempotencyKey (mut_event res) = idem"
    "evt_requestFingerprint (mut_event res) = fp" "set as \<subseteq> set (ker_audit (mut_kernel res))" "as \<noteq> []"
    "list_all (audit_of_key idem) as"
proof -
  obtain idem r k t' where step: "performs pl (dir_or_empty p dir) expected idem fp op n k res t' n'"
    and key: "keyv = JStr idem" "\<not> blank idem" "\<not> blank actor" "expected = nat_val r"
      "\<not> td_archived (dir_or_empty p dir)" "import_refusal (dir_or_empty p dir) = None"
    using assms by (auto simp: mutate_iff replays_def)
  then have "extends pl actor idem fp k n (mut_kernel res) n'" by (auto simp: performs_def intro: op_extends)
  then obtain e as where e: "ker_events (mut_kernel res) = ker_events k @ [e]" "evt_idempotencyKey e = idem"
      "evt_requestFingerprint e = fp"
    and as: "ker_audit (mut_kernel res) = ker_audit k @ as" "as \<noteq> []" "list_all (own_audit pl actor idem) as"
    by (auto simp: extends_def own_event_def)
  have "mut_event res = e" using step e by (auto simp: performs_def last_opt_eq_Some)
  moreover have "list_all (audit_of_key idem) as" using as(3) by (auto simp: list_all_iff own_audit_def)
  ultimately show thesis using key e as by (intro that [of idem r as]) simp_all
qed

lemma mutate_log:
  assumes m: "mutateTaskKernel pl p dir expected (JStr actor) keyv fp op n = Inr (res, p', n')"
    and k: "holds pl (dir_or_empty p dir) k"
  shows "\<exists>i. keyv = JStr i \<and>
    log_step (log_of k) i fp = (if mut_idempotent res then Replayed else Recorded, log_of (mut_kernel res))"
proof (cases "mut_idempotent res")
  case True
  obtain i where i: "keyv = JStr i" "replays pl (dir_or_empty p dir) i fp res"
    using m True by (auto simp: mutate_iff performs_def)
  have "mut_kernel res = k" using i(2) k by (rule replays_holds)
  moreover have "\<exists>e. findIdempotent (mut_kernel res) i fp = Inr (Some e)" using i(2) by (auto simp: replays_def)
  ultimately show ?thesis using i(1) True findIdempotent_log(2) [of k i fp] by simp
next
  case False
  obtain i t' where i: "keyv = JStr i" and step: "performs pl (dir_or_empty p dir) expected i fp op n k res t' n'"
    using m False performs_holds [OF _ k] by (auto simp: mutate_iff replays_def)
  have op': "op i k n = Inr (mut_kernel res, n')" and none: "findIdempotent k i fp = Inr None"
    using step by (simp_all add: performs_def)
  obtain e where "ker_events (mut_kernel res) = ker_events k @ [e]" "evt_idempotencyKey e = i" "evt_requestFingerprint e = fp"
    using op_extends [OF op'] by (auto simp: extends_def own_event_def)
  then have "log_of (mut_kernel res) = log_of k @ [(i, fp)]" by (simp add: log_of_def)
  then show ?thesis using i False none findIdempotent_log(1) [of k i fp] by simp
qed

end

section \<open>Replays, later\<close>

text \<open>What no request changes of a directory\<close>

lemma dir_or_empty_at_put: "dir_or_empty (put_dir p t) d = (if d = td_dir t then t else dir_or_empty p d)"
  by (simp add: dir_or_empty_def find_dir_put)

lemma serve_frame:
  assumes served: "serve pl w p root dir rq n = Inr (res, p', n')" and ok: "platform_ok pl" "github_urls pl"
  shows "td_archived (dir_or_empty p' d) = td_archived (dir_or_empty p d)"
    and "import_refusal (dir_or_empty p' d) = import_refusal (dir_or_empty p d)"
proof -
  obtain t where "p' = p \<or> p' = put_dir p t \<and> td_dir t = dir \<and>
      td_archived t = td_archived (dir_or_empty p dir) \<and> import_refusal t = import_refusal (dir_or_empty p dir)"
  proof (cases "creates rq")
    case True
    then obtain req where c: "createTaskKernel pl p dir req n = Inr (res, p', n')" using served by (cases rq) auto
    from c show thesis
    proof (cases rule: create_cases)
      case created
      then show thesis by (intro that [of "(dir_or_empty p dir)\<lparr>td_document := Document (snapshot_json (mut_kernel res))\<rparr>"])
        (simp add: import_refusal_def)
    qed (use that in blast)
  next
    case False
    then obtain actor fp expected keyv added op where "mutates pl rq actor fp expected keyv added op"
      using serve_mutates [OF served _ ok] by blast
    then have "mutateTaskKernel pl p dir expected (JStr actor) keyv fp (op w p root dir) n = Inr (res, p', n')"
      using served by (auto simp: mutates_def)
    then show thesis using that performs_commit by (fastforce simp: mutate_iff)
  qed
  then show "td_archived (dir_or_empty p' d) = td_archived (dir_or_empty p d)"
    "import_refusal (dir_or_empty p' d) = import_refusal (dir_or_empty p d)"
    by (auto simp: dir_or_empty_at_put split: if_splits)
qed

lemma reaches_frame:
  assumes "reaches pl p n p' n'" and "platform_ok pl" and "github_urls pl"
  shows "td_archived (dir_or_empty p' d) = td_archived (dir_or_empty p d)"
    and "import_refusal (dir_or_empty p' d) = import_refusal (dir_or_empty p d)"
  using assms(1) serve_frame [OF _ assms(2,3)] by induction auto

text \<open>
  A request that was performed is answered from the log in every project that is reached from there,
  with the kernel of that project and the event of old.
\<close>

lemma serve_replayed:
  assumes served: "serve pl w p root dir rq n = Inr (res, p1, n1)" and new: "\<not> mut_idempotent res"
    and later: "reaches pl p1 n1 p' n'" and ok: "platform_ok pl" "github_urls pl"
    and p: "sound_project pl n p" and readable: "readable (mut_kernel res)" and "\<not> creates rq"
  shows "\<exists>k audit. kernel_in pl (dir_or_empty p' dir) = Inr k \<and> journal_grows (mut_kernel res) k \<and>
    serve pl w' p' root' dir rq m =
      Inr (\<lparr>mut_kernel = k, mut_idempotent = True, mut_audit = audit, mut_event = mut_event res\<rparr>, p', m)"
proof -
  obtain actor fp expected keyv added op where m: "mutates pl rq actor fp expected keyv added op"
    using serve_mutates [OF served assms(8) ok] by blast
  then have t: "tracked_operation pl actor fp (op w p root dir) True added" and fp: "is_fingerprint fp"
    and mutate: "mutateTaskKernel pl p dir expected (JStr actor) keyv fp (op w p root dir) n = Inr (res, p1, n1)"
    using served by (auto simp: mutates_def)
  note sound = tracked_operation.mutate_sound [OF t TrueI ok(1) fp mutate p readable]
  obtain k where k: "kernel_in pl (dir_or_empty p' dir) = Inr k" "journal_grows (mut_kernel res) k"
    using reaches_sound(3) [OF later ok sound(1) holds_kernel_in [OF sound(4)]] by blast
  have h: "holds pl (dir_or_empty p' dir) k"
    using sound_at(1) [OF reaches_sound(1) [OF later ok sound(1)] k(1)] .
  obtain idem r as where key: "keyv = JStr idem" "\<not> blank idem" "\<not> blank actor" "expected = nat_val r"
    and t0: "\<not> td_archived (dir_or_empty p dir)" "import_refusal (dir_or_empty p dir) = None"
    and e: "mut_event res \<in> set (ker_events (mut_kernel res))" "evt_idempotencyKey (mut_event res) = idem"
      "evt_requestFingerprint (mut_event res) = fp"
    and as: "set as \<subseteq> set (ker_audit (mut_kernel res))" "as \<noteq> []" "list_all (audit_of_key idem) as"
    using tracked_operation.mutate_recorded [OF t mutate new] by blast
  let ?e = "mut_event res"
  have as_in: "set as \<subseteq> set (ker_audit k)" and "?e \<in> set (ker_events k)"
    using k(2) e as by (auto simp: journal_grows_def dest!: set_mono_prefix)
  moreover have "distinct (map evt_idempotencyKey (ker_events k))"
    using h by (simp add: holds_def wf_kernel_defs events_ok_iff)
  ultimately have "List.find (\<lambda>e. evt_idempotencyKey e = idem) (ker_events k) = Some ?e"
    using e(2) by (intro find_unique_key)
  then have found: "findIdempotent k idem fp = Inr (Some ?e)" using e(3) by (simp add: findIdempotent_def)
  have "List.find (audit_of_key idem) (ker_audit k) \<noteq> None"
    using as as_in by (cases as) (auto simp: find_None_iff)
  then obtain audit where audit: "findAuditForKey k idem = Inr audit" by (auto simp: findAuditForKey_def)
  let ?res = "\<lparr>mut_kernel = k, mut_idempotent = True, mut_audit = audit, mut_event = ?e\<rparr>"
  have "replays pl (dir_or_empty p' dir) idem fp ?res"
    using h holds_parse [OF h] found audit by (simp add: replays_def holds_def)
  moreover have "\<not> td_archived (dir_or_empty p' dir)" "import_refusal (dir_or_empty p' dir) = None"
    using t0 serve_frame [OF served ok] reaches_frame [OF later ok] by simp_all
  ultimately have "mutateTaskKernel pl p' dir expected (JStr actor) keyv fp (op w' p' root' dir) m = Inr (?res, p', m)"
    using key by (auto simp: mutate_iff)
  then show ?thesis using m k by (auto simp: mutates_def)
qed

section \<open>What a served request was\<close>

lemma served_mutation:
  assumes "serve pl w p root dir rq n = Inr (res, p', n')" and "\<not> creates rq"
    and "platform_ok pl" and "github_urls pl"
  obtains actor fp op added where "tracked_operation pl actor fp op True added" "is_fingerprint fp"
    "mutateTaskKernel pl p dir (request_revision rq) (JStr actor) (request_key rq) fp op n = Inr (res, p', n')"
proof -
  obtain actor fp expected keyv added op where "mutates pl rq actor fp expected keyv added op"
    using serve_mutates [OF assms(1-4)] by blast
  then show thesis using assms(1) by (intro that [of actor fp "op w p root dir" added]) (auto simp: mutates_def)
qed

lemma serve_other_dirs:
  assumes "serve pl w p root dir rq n = Inr (res, p', n')" and "platform_ok pl" and "github_urls pl"
  shows "d \<noteq> dir \<Longrightarrow> dir_or_empty p' d = dir_or_empty p d" and "mut_idempotent res \<Longrightarrow> p' = p"
proof -
  have "(\<forall>d. d \<noteq> dir \<longrightarrow> dir_or_empty p' d = dir_or_empty p d) \<and> (mut_idempotent res \<longrightarrow> p' = p)"
  proof (cases "creates rq")
    case True
    then obtain req where c: "createTaskKernel pl p dir req n = Inr (res, p', n')" using assms(1) by (cases rq) auto
    from c show ?thesis by (cases rule: create_cases) (simp_all add: dir_or_empty_at_put)
  next
    case False
    from served_mutation [OF assms(1) this assms(2,3)] obtain actor fp op where
      "mutateTaskKernel pl p dir (request_revision rq) (JStr actor) (request_key rq) fp op n = Inr (res, p', n')" .
    then show ?thesis using mutate_frame mutate_replay_frame by (auto simp: dir_or_empty_def)
  qed
  then show "d \<noteq> dir \<Longrightarrow> dir_or_empty p' d = dir_or_empty p d" "mut_idempotent res \<Longrightarrow> p' = p" by blast+
qed

end
