(* ===== verification/Demo.thy ===== *)
theory Demo
  imports Lifecycle Example "HOL-Library.Code_Target_Nat"
begin

text \<open>
  A Task from its creation to its close, in a project of one file that nothing changes: the requests
  below are served one after the other, and the projects they lead to are where the hypotheses of
  the theorems hold.
\<close>

section \<open>Evaluation\<close>

lemma sameStat_refl [code]: "sameStat a b \<longleftrightarrow> a = b \<or> statFingerprint a = statFingerprint b"
  by (auto simp: sameStat_def)

section \<open>The host\<close>

text \<open>A project of the file \<open>f\<close> with the given content, without Git\<close>

definition demo_stat :: "file_kind \<Rightarrow> nat \<Rightarrow> nat \<Rightarrow> file_stat" where
  "demo_stat kind inode bytes = \<lparr>fs_kind = kind, fs_dev = 1, fs_ino = inode, fs_mode = 420, fs_size = bytes,
     fs_mtimeMs = JInt 0, fs_ctimeMs = JInt 0\<rparr>"

definition demo_files :: "string \<Rightarrow> (string \<times> file_stat) list" where
  "demo_files content =
     [(''/p'', demo_stat KDirectory 1 0), (''/p/.pactile'', demo_stat KDirectory 2 0),
      (''/p/.pactile/a'', demo_stat KDirectory 3 0), (''/p/f'', demo_stat KRegular 4 (length content))]"

definition demo_world :: "string \<Rightarrow> world" where
  "demo_world content =
     (let files = demo_files content; read = (\<lambda>n p. if p = ''/p/f'' then Some content else None) in
      \<lparr>w_git = (\<lambda>n d args. NotStarted), w_gh = (\<lambda>n args. NotStarted),
       w_lstat = (\<lambda>n p. case map_of files p of None \<Rightarrow> NoEntry | Some s \<Rightarrow> Stat s),
       w_stat = (\<lambda>n p. map_of files p), w_realpath = (\<lambda>n p. map_option (\<lambda>_. p) (map_of files p)),
       w_readlink = (\<lambda>n p. None), w_readFile = read,
       w_readdir = (\<lambda>n p. if p = ''/p'' then Some ([''f'', ''.pactile''], True) else None),
       w_openable = (\<lambda>n p. p = ''/p/f''), w_fstat = (\<lambda>n p. map_of files p), w_readFd = read,
       w_resolve = id, w_parseJson = (\<lambda>s. None), w_utf8 = (\<lambda>s. True), w_resume = (\<lambda>n. 0)\<rparr>)"

section \<open>The requests\<close>

definition demo_dir :: string where
  "demo_dir = ''/p/.pactile/a''"

definition demo_request :: "string \<Rightarrow> string \<Rightarrow> task_kernel \<Rightarrow> jsobj \<Rightarrow> jsobj" where
  "demo_request actor idem k rest =
     [(''actor'', JStr actor), (''idempotencyKey'', JStr idem), (''expectedRevision'', nat_val (ker_revision k))] @ rest"

text \<open>The names of the latest Run and of its candidate\<close>

definition demo_names :: "task_kernel \<Rightarrow> string \<times> string \<times> string" where
  "demo_names k =
     (case ker_runs k of
        [] \<Rightarrow> ([], [], [])
      | r # rs \<Rightarrow> (run_id r, case run_candidateSnapshot r of None \<Rightarrow> ([], []) | Some c \<Rightarrow> (cand_id c, cand_fingerprint c)))"

definition demo_start :: "task_kernel \<Rightarrow> kernel_request" where
  "demo_start k = StartRun (demo_request ''ann'' ''k1'' k
     [(''writeSetSnapshot'', strs_val [''f'']),
      (''authorization'', JObj [(''approvedBy'', JStr ''ann''), (''approvedAt'', JStr ''now''),
         (''scope'', JStr ''s''), (''evidenceRef'', JStr ''e'')]),
      (''input'', JObj [(''summary'', JStr ''s''), (''references'', JArr [])])])"

definition demo_result :: "task_kernel \<Rightarrow> kernel_request" where
  "demo_result k = RecordResult None (demo_request ''ann'' ''k2'' k
     [(''runId'', JStr (fst (demo_names k))), (''outcome'', JStr ''completed''), (''summary'', JStr ''s''),
      (''evidenceRefs'', strs_val [''f''])])"

definition demo_review :: "task_kernel \<Rightarrow> kernel_request" where
  "demo_review k = (case demo_names k of (run, candidate, fp) \<Rightarrow>
     RecordReview (demo_request ''bob'' ''k3'' k
       [(''runId'', JStr run), (''candidateSnapshotId'', JStr candidate), (''candidateFingerprint'', JStr fp),
        (''reviewer'', JStr ''bob''), (''reviewId'', JStr ''v''), (''decision'', JStr ''pass''),
        (''evidenceRefs'', strs_val [''f'']), (''acceptanceEvidence'', JObj [(''c'', strs_val [''f''])])]))"

definition demo_close :: "task_kernel \<Rightarrow> kernel_request" where
  "demo_close k = (case demo_names k of (run, candidate, fp) \<Rightarrow>
     CloseTask (demo_request ''bob'' ''k4'' k
       [(''runId'', JStr run), (''reviewId'', JStr ''v''),
        (''candidateObservation'', JObj [(''snapshotId'', JStr candidate), (''fingerprint'', JStr fp),
           (''observedBy'', JStr ''bob''), (''observedAt'', JStr ''now''), (''source'', JStr ''s''),
           (''evidenceRef'', JStr ''f'')]),
        (''deliveryEvidence'', JObj [(''level'', JStr ''local-result''), (''reference'', JStr ''f''),
           (''summary'', JStr ''s'')])]))"

section \<open>The kernels\<close>

definition demo_fp :: "char \<Rightarrow> string" where
  "demo_fp d = d # ''aaaaaaaaaaaaaaaaaaaaaaaaaaaaaaaaaaaaaaaaaaaaaaaaaaaaaaaaaaaaaaa''"

definition demo_state :: "kernel_phase \<Rightarrow> kernel_condition \<Rightarrow> nat \<Rightarrow> state_revision" where
  "demo_state phase condition revision =
     \<lparr>st_phase = phase, st_condition = condition,
      st_outcome = (if phase = PhClose then Some OutCompleted else None), st_revision = revision\<rparr>"

definition demo_audit :: "string \<Rightarrow> string \<Rightarrow> string \<Rightarrow> string \<Rightarrow> state_revision \<Rightarrow> state_revision \<Rightarrow> kernel_audit" where
  "demo_audit i actor idem evidence from to =
     \<lparr>aud_id = i, aud_at = ''now'', aud_actor = actor, aud_idempotencyKey = idem, aud_evidence = Some evidence,
      aud_from = from, aud_to = to\<rparr>"

definition demo_event :: "string \<Rightarrow> nat \<Rightarrow> string \<Rightarrow> string \<Rightarrow> event_type \<Rightarrow> string \<Rightarrow> char \<Rightarrow> kernel_event" where
  "demo_event i revision actor idem type entity d =
     \<lparr>evt_id = i, evt_revision = revision, evt_at = ''now'', evt_actor = actor, evt_idempotencyKey = idem,
      evt_type = type, evt_entityId = entity, evt_requestFingerprint = demo_fp d\<rparr>"

text \<open>After the creation\<close>

definition demo_k1 :: task_kernel where
  "demo_k1 =
     \<lparr>ker_taskId = ''a'', ker_revision = 1, ker_phase = PhDefine, ker_condition = CndReady, ker_outcome = None,
      ker_definition =
        \<lparr>def_taskId = ''a'', def_title = ''T'', def_description = [], def_deliverable = ''D'',
         def_deliveryLevel = LocalResult, def_acceptanceCriteria = [\<lparr>crit_id = ''c'', crit_description = ''d''\<rparr>],
         def_dependencies = [], def_createdAt = ''now'', def_createdBy = ''ann''\<rparr>,
      ker_runs = [], ker_reviews = [], ker_closure = None,
      ker_audit =
        [demo_audit ''id1'' ''ann'' ''k'' ''Task defined.'' (demo_state PhDefine CndReady 0) (demo_state PhDefine CndReady 1)],
      ker_events = [demo_event ''id3'' 1 ''ann'' ''k'' EvTaskCreated ''a'' CHR ''2'']\<rparr>"

text \<open>While the Run is active\<close>

definition demo_run :: task_run where
  "demo_run =
     \<lparr>run_id = ''id5'', run_taskId = ''a'', run_attempt = 1, run_sequence = 1, run_state = RunRunning,
      run_startedAt = ''now'', run_startedBy = ''ann'',
      run_input = \<lparr>inp_summary = ''s'', inp_references = [], inp_fingerprint = demo_fp CHR ''3''\<rparr>,
      run_authorization =
        \<lparr>auth_approvedBy = ''ann'', auth_approvedAt = ''now'', auth_scope = ''s'', auth_evidenceRef = ''e''\<rparr>,
      run_writeSetSnapshot = [''f''],
      run_estimatedDurations = \<lparr>dur_executionMs = None, dur_waitingMs = None, dur_reviewMs = None\<rparr>,
      run_measurementRefs = \<lparr>msr_execution = None, msr_waiting = None, msr_review = None\<rparr>,
      run_candidateBaseSha = None, run_candidateBaseBranch = None,
      run_candidateFileBaseline = Some
        \<lparr>base_rootIdentitySha256 = demo_fp CHR ''2'',
         base_files = [\<lparr>bent_path = ''f'', bent_sizeBytes = 3, bent_sha256 = demo_fp CHR ''3''\<rparr>],
         base_fingerprint = demo_fp CHR ''0''\<rparr>,
      run_workspace = None, run_host = None, run_candidateSnapshot = None, run_result = None, run_failure = None,
      run_completedAt = None\<rparr>"

definition demo_k2 :: task_kernel where
  "demo_k2 = demo_k1\<lparr>ker_revision := 4, ker_phase := PhExecute, ker_condition := CndActive, ker_runs := [demo_run],
     ker_audit := ker_audit demo_k1 @
       [demo_audit ''id52'' ''ann'' ''k1#approve'' ''Run authorization recorded.'' (demo_state PhDefine CndReady 1)
          (demo_state PhApprove CndWaiting 2),
        demo_audit ''id54'' ''ann'' ''k1#execute'' ''Run started.'' (demo_state PhApprove CndWaiting 2)
          (demo_state PhExecute CndActive 3),
        demo_audit ''id56'' ''ann'' ''k1'' ''run.started'' (demo_state PhExecute CndActive 3)
          (demo_state PhExecute CndActive 4)],
     ker_events := ker_events demo_k1 @ [demo_event ''id58'' 4 ''ann'' ''k1'' EvRunStarted ''id5'' CHR ''2'']\<rparr>"

text \<open>With its result\<close>

definition demo_completed :: task_run where
  "demo_completed = demo_run\<lparr>run_state := RunCompleted, run_completedAt := Some ''now'',
     run_candidateSnapshot := Some
       \<lparr>cand_id = ''id106'',
        cand_entries = [\<lparr>ent_ref = ''f'', ent_fingerprint = demo_fp CHR ''1''\<rparr>,
          \<lparr>ent_ref = ''pactile:verification:project-files-v1'', ent_fingerprint = demo_fp CHR ''3''\<rparr>],
        cand_fingerprint = demo_fp CHR ''3''\<rparr>,
     run_result := Some
       \<lparr>res_summary = ''s'', res_evidenceRefs = [''f''],
        res_evidenceVerification = Some
          \<lparr>rver_observedAt = ''now'', rver_runId = ''id5'', rver_candidateSnapshotId = ''id106'',
           rver_candidateFingerprint = demo_fp CHR ''3'',
           rver_items = [\<lparr>rei_ref = ''f'', rei_sha256 = demo_fp CHR ''1'', rei_sizeBytes = 5, rei_source = RunEvCandidate\<rparr>]\<rparr>\<rparr>\<rparr>"

definition demo_k3 :: task_kernel where
  "demo_k3 = demo_k2\<lparr>ker_revision := 6, ker_phase := PhVerify, ker_condition := CndWaiting,
     ker_runs := [demo_completed],
     ker_audit := ker_audit demo_k2 @
       [demo_audit ''id154'' ''ann'' ''k2#verify'' ''Run produced a candidate snapshot.'' (demo_state PhExecute CndActive 4)
          (demo_state PhVerify CndWaiting 5),
        demo_audit ''id156'' ''ann'' ''k2'' ''run.completed'' (demo_state PhVerify CndWaiting 5)
          (demo_state PhVerify CndWaiting 6)],
     ker_events := ker_events demo_k2 @ [demo_event ''id158'' 6 ''ann'' ''k2'' EvRunCompleted ''id5'' CHR ''2'']\<rparr>"

text \<open>With a Review of it\<close>

definition demo_k4 :: task_kernel where
  "demo_k4 = demo_k3\<lparr>ker_revision := 7, ker_condition := CndReady,
     ker_reviews :=
       [\<lparr>rev_id = ''v'', rev_taskId = ''a'', rev_runId = ''id5'', rev_candidateSnapshotId = ''id106'',
         rev_candidateFingerprint = demo_fp CHR ''3'', rev_reviewer = ''bob'', rev_decision = DecPass,
         rev_evidenceRefs = [''f''], rev_acceptanceEvidence = [(''c'', [''f''])],
         rev_evidenceVerification = Some
           \<lparr>vver_observedAt = ''now'', vver_runId = ''id5'', vver_candidateSnapshotId = ''id106'',
            vver_candidateFingerprint = demo_fp CHR ''3'',
            vver_items = [\<lparr>vei_ref = ''f'', vei_sha256 = demo_fp CHR ''1'', vei_sizeBytes = 5, vei_source = RevEvCandidate\<rparr>]\<rparr>,
         rev_unresolvedBlockers = [], rev_reviewedAt = ''now''\<rparr>],
     ker_audit := ker_audit demo_k3 @
       [demo_audit ''id209'' ''bob'' ''k3'' ''review.recorded'' (demo_state PhVerify CndReady 6)
          (demo_state PhVerify CndReady 7)],
     ker_events := ker_events demo_k3 @ [demo_event ''id211'' 7 ''bob'' ''k3'' EvReviewRecorded ''v'' CHR ''1'']\<rparr>"

text \<open>Closed\<close>

definition demo_k5 :: task_kernel where
  "demo_k5 = demo_k4\<lparr>ker_revision := 9, ker_phase := PhClose, ker_outcome := Some OutCompleted,
     ker_closure := Some
       \<lparr>clo_runId = ''id5'', clo_reviewId = ''v'', clo_candidateSnapshotId = ''id106'',
        clo_candidateFingerprint = demo_fp CHR ''3'',
        clo_candidateObservation =
          \<lparr>obs_snapshotId = ''id106'', obs_fingerprint = demo_fp CHR ''3'', obs_observedBy = ''pactile-core-task-close'',
           obs_observedAt = ''now'', obs_source = ''project-files-v1'',
           obs_evidenceRef = ''pactile:verification:project-files-v1''\<rparr>,
        clo_deliveryEvidence =
          \<lparr>dev_level = LocalResult, dev_reference = ''f'', dev_summary = ''s'', dev_path = Some ''f'', dev_targetBranch = None\<rparr>,
        clo_deliveryVerification = Some
          \<lparr>dver_observedAt = ''now'', dver_candidateFingerprint = demo_fp CHR ''3'', dver_candidateSource = ProjectFiles,
           dver_candidateHead = None, dver_level = LocalResult, dver_path = ''f'', dver_fileSha256 = demo_fp CHR ''1'',
           dver_gitBlobSha256 = None, dver_targetBranch = None, dver_targetSha = None, dver_integrationCommitSha = None,
           dver_ancestryVerified = None, dver_pullRequest = None\<rparr>,
        clo_acceptanceEvidence = [(''c'', [''f''])], clo_closedAt = ''now'', clo_closedBy = ''bob''\<rparr>,
     ker_audit := ker_audit demo_k4 @
       [demo_audit ''id308'' ''bob'' ''k4#close'' ''Task acceptance and machine-observed delivery evidence satisfied.''
          (demo_state PhVerify CndReady 7) (demo_state PhClose CndReady 8),
        demo_audit ''id310'' ''bob'' ''k4'' ''task.closed'' (demo_state PhClose CndReady 8) (demo_state PhClose CndReady 9)],
     ker_events := ker_events demo_k4 @ [demo_event ''id312'' 9 ''bob'' ''k4'' EvTaskClosed ''a'' CHR ''0'']\<rparr>"

section \<open>The requests, served\<close>

text \<open>The project whose one directory holds a kernel, and the answer that leads to it\<close>

definition demo_project :: "task_kernel \<Rightarrow> project" where
  "demo_project k = [(empty_dir demo_dir)\<lparr>td_document := Document (snapshot_json k)\<rparr>]"

definition demo_answer :: "task_kernel \<Rightarrow> nat \<Rightarrow> (mutation_result \<times> project \<times> nat) outcome" where
  "demo_answer k n =
     Inr (\<lparr>mut_kernel = k, mut_idempotent = False, mut_audit = last (ker_audit k), mut_event = last (ker_events k)\<rparr>,
       demo_project k, n)"

definition demo_serve :: "string \<Rightarrow> task_kernel \<Rightarrow> kernel_request \<Rightarrow> nat \<Rightarrow> (mutation_result \<times> project \<times> nat) outcome" where
  "demo_serve content k rq n = serve demo_platform (demo_world content) (demo_project k) ''/p'' demo_dir rq n"

lemma demo_created: "serve demo_platform w [] root demo_dir (CreateTask (demo_create ''a'' [])) 0 = demo_answer demo_k1 5"
proof -
  have "createTaskKernel demo_platform [] demo_dir (demo_create ''a'' []) 0 = demo_answer demo_k1 5" by code_simp
  then show ?thesis by simp
qed

lemma demo_started: "demo_serve ''old'' demo_k1 (demo_start demo_k1) 5 = demo_answer demo_k2 60"
  by code_simp

lemma demo_finished: "demo_serve ''hello'' demo_k2 (demo_result demo_k2) 60 = demo_answer demo_k3 160"
  by code_simp

lemma demo_reviewed: "demo_serve ''hello'' demo_k3 (demo_review demo_k3) 160 = demo_answer demo_k4 213"
  by code_simp

lemma demo_closed: "demo_serve ''hello'' demo_k4 (demo_close demo_k4) 213 = demo_answer demo_k5 314"
  by code_simp

section \<open>The projects they lead to\<close>

lemmas demo_kernel_defs = demo_k1_def demo_k2_def demo_k3_def demo_k4_def demo_k5_def demo_run_def demo_completed_def

lemma demo_path:
  "\<not> blank ''f''" "\<not> named_as_directory \<lparr>bent_path = ''f'', bent_sizeBytes = n, bent_sha256 = h\<rparr>"
proof -
  show "\<not> blank ''f''" by code_simp
  have "\<not> excluded_directory (last (split_on CHR ''/'' ''f''))" by code_simp
  then show "\<not> named_as_directory \<lparr>bent_path = ''f'', bent_sizeBytes = n, bent_sha256 = h\<rparr>"
    by (simp only: named_as_directory_def baseline_entry.simps not_False_eq_True)
qed

lemma demo_readable: "readable demo_k1" "readable demo_k2" "readable demo_k3" "readable demo_k4" "readable demo_k5"
  by (simp_all add: demo_kernel_defs readable_def run_readable_def manager_readable_def untrimmed_branch_def run_base_sha_ok_def
      baseline_readable_def result_readable_def review_expected_refs_def
      review_readable_def demo_path)

lemma demo_reaches_more:
  assumes "reaches demo_platform p n (demo_project k) m" and "demo_serve content k rq m = demo_answer k' m'"
    and "readable k'"
  shows "reaches demo_platform p n (demo_project k') m'"
  by (rule served [OF assms(1) assms(2) [unfolded demo_serve_def demo_answer_def]]) (simp add: assms(3))

lemma demo_reaches:
  "reaches demo_platform [] 0 (demo_project demo_k1) 5"
  "reaches demo_platform (demo_project demo_k1) 5 (demo_project demo_k2) 60"
  "reaches demo_platform (demo_project demo_k2) 60 (demo_project demo_k5) 314"
proof -
  show "reaches demo_platform [] 0 (demo_project demo_k1) 5"
    by (rule served [OF start demo_created [unfolded demo_answer_def]]) (simp add: demo_readable)
  show "reaches demo_platform (demo_project demo_k1) 5 (demo_project demo_k2) 60"
    by (rule demo_reaches_more [OF start demo_started]) (rule demo_readable)
  show "reaches demo_platform (demo_project demo_k2) 60 (demo_project demo_k5) 314"
    by (rule demo_reaches_more [OF demo_reaches_more [OF demo_reaches_more [OF start demo_finished] _ ] _ ])
       (rule demo_reviewed demo_closed demo_readable)+
qed

lemma demo_sound:
  "sound_project demo_platform 5 (demo_project demo_k1)"
  "sound_project demo_platform 60 (demo_project demo_k2)"
  "sound_project demo_platform 160 (demo_project demo_k3)"
  "sound_project demo_platform 213 (demo_project demo_k4)"
  "sound_project demo_platform 314 (demo_project demo_k5)"
proof -
  have empty: "sound_project demo_platform 0 []" by (simp add: sound_project_def)
  note sound = reaches_sound(1) [OF _ demo_platform_ok demo_github_urls]
  show k1: "sound_project demo_platform 5 (demo_project demo_k1)" by (rule sound [OF demo_reaches(1) empty])
  show k2: "sound_project demo_platform 60 (demo_project demo_k2)" by (rule sound [OF demo_reaches(2) k1])
  show k3: "sound_project demo_platform 160 (demo_project demo_k3)"
    by (rule sound [OF demo_reaches_more [OF start demo_finished] k2]) (rule demo_readable)
  show k4: "sound_project demo_platform 213 (demo_project demo_k4)"
    by (rule sound [OF demo_reaches_more [OF start demo_reviewed] k3]) (rule demo_readable)
  show "sound_project demo_platform 314 (demo_project demo_k5)"
    by (rule sound [OF demo_reaches(3) k2])
qed

lemma demo_dir_or_empty: "dir_or_empty (demo_project k) demo_dir = (empty_dir demo_dir)\<lparr>td_document := Document (snapshot_json k)\<rparr>"
  by (simp add: dir_or_empty_def find_dir_def demo_project_def empty_dir_def)

lemma demo_kernel_in:
  "kernel_in demo_platform (dir_or_empty (demo_project demo_k1) demo_dir) = Inr demo_k1"
  "kernel_in demo_platform (dir_or_empty (demo_project demo_k2) demo_dir) = Inr demo_k2"
  "kernel_in demo_platform (dir_or_empty (demo_project demo_k3) demo_dir) = Inr demo_k3"
  "kernel_in demo_platform (dir_or_empty (demo_project demo_k4) demo_dir) = Inr demo_k4"
  "kernel_in demo_platform (dir_or_empty (demo_project demo_k5) demo_dir) = Inr demo_k5"
  by code_simp+

end
