(* ===== verification/Served.thy ===== *)
theory Served
  imports Lifecycle
begin

text \<open>
  Facts the properties of the operations share: the step a performed request took, what satisfied
  dependencies are, and what a candidate consists of.
\<close>

section \<open>The step of a request\<close>

lemma mutate_step:
  assumes "mutateTaskKernel pl p dir expected a keyv fp op n = Inr (res, p', n')" and "\<not> mut_idempotent res"
    and "sound_project pl n p"
  obtains k idem where "kernel_in pl (dir_or_empty p dir) = Inr k" "holds pl (dir_or_empty p dir) k"
    "uuid_fresh pl n k" "sane k" "keyv = JStr idem" "op idem k n = Inr (mut_kernel res, n')"
proof -
  obtain idem k t' where "keyv = JStr idem" "performs pl (dir_or_empty p dir) expected idem fp op n k res t' n'"
    using assms(1,2) by (auto simp: mutate_iff replays_def)
  moreover from this have "kernel_in pl (dir_or_empty p dir) = Inr k" by (auto simp: performs_def kernel_in_def)
  ultimately show thesis using that sound_at [OF assms(3)] by (auto simp: performs_def)
qed

text \<open>A request is performed at the revision it expects, and leaves a later one.\<close>

lemma performed_revision:
  assumes "serve pl w p root dir rq n = Inr (res, p', n')" and "\<not> mut_idempotent res" and "\<not> creates rq"
    and "platform_ok pl" and "github_urls pl" and "sound_project pl n p"
  obtains k where "kernel_in pl (dir_or_empty p dir) = Inr k" "request_revision rq = nat_val (ker_revision k)"
    "ker_revision k < ker_revision (mut_kernel res)"
    "readable (mut_kernel res) \<longrightarrow> sound_project pl n' p' \<and> kernel_in pl (dir_or_empty p' dir) = Inr (mut_kernel res)"
proof -
  obtain actor fp op added where t: "tracked_operation pl actor fp op True added" and fp: "is_fingerprint fp" and
    m: "mutateTaskKernel pl p dir (request_revision rq) (JStr actor) (request_key rq) fp op n = Inr (res, p', n')"
    using served_mutation [OF assms(1,3-5)] .
  obtain k where k: "kernel_in pl (dir_or_empty p dir) = Inr k"
    using tracked_operation.mutate_reads [OF t m] by blast
  obtain idem t' where step: "performs pl (dir_or_empty p dir) (request_revision rq) idem fp op n k res t' n'"
    using m assms(2) performs_holds [OF _ sound_at(1) [OF assms(6) k]] by (auto simp: mutate_iff replays_def)
  have "ker_revision k < ker_revision (mut_kernel res)"
    using tracked_operation.op_later [OF t] step by (auto simp: performs_def)
  with k step show thesis
    using tracked_operation.mutate_sound(1,4) [OF t TrueI assms(4) fp m assms(6)] holds_kernel_in
    by (intro that) (auto simp: performs_def)
qed

lemma reaches_trans: "reaches pl p n p' n' \<Longrightarrow> reaches pl p' n' p'' n'' \<Longrightarrow> reaches pl p n p'' n''"
  by (rotate_tac, induction rule: reaches.induct) (auto intro: reaches.intros)

lemma run_at_fresh:
  assumes "uuid_fresh pl n k" and "run_id r = randomUUID pl n"
  shows "run_id r \<notin> run_id ` set (ker_runs k)"
  using assms by (auto simp: uuid_fresh_def)

text \<open>The latest Run is the last.\<close>

lemma latest_run_split:
  assumes "holds pl t k" and "runAt k x = Inr (r, i)" and "latest_run_id k = Some (run_id r)"
  obtains rs where "ker_runs k = rs @ [r]" "i = length rs" "run_id r \<notin> run_id ` set rs"
proof -
  have d: "distinct (map run_id (ker_runs k))" using assms(1) by (simp add: holds_def wf_kernel_defs runs_ok_iff)
  have at: "i < length (ker_runs k)" "ker_runs k ! i = r" using assms(2) by (simp_all add: runAt_iff)
  obtain rs q where rs: "ker_runs k = rs @ [q]" "run_id q = run_id r"
    using latest_last [OF assms(3)] by (metis append_butlast_last_id)
  then have "i = length rs"
    using d at by (auto simp: nth_append image_iff split: if_splits)
  with rs at d show thesis by (intro that [of rs]) auto
qed

section \<open>Satisfied dependencies\<close>

text \<open>A dependency is satisfied when the Task it names is closed as completed.\<close>

definition completed_task :: "platform \<Rightarrow> project \<Rightarrow> string option \<Rightarrow> string \<Rightarrow> bool" where
  "completed_task pl p ignored d \<longleftrightarrow>
     (\<exists>l. findTaskById pl p ignored d = Inr (Some l) \<and> loc_phase l = PhClose \<and> loc_outcome l = Some OutCompleted)"

lemma dependencies_completed_iff:
  "assertHardDependenciesSatisfied pl p ds ignored = Inr () \<longleftrightarrow> (\<forall>d \<in> set ds. completed_task pl p ignored d)"
proof -
  have "list_all2 (\<lambda>d l. findTaskById pl p ignored d = Inr l) ds ls \<Longrightarrow>
      list_ex (\<lambda>l. \<not> satisfied l) ls \<longleftrightarrow> \<not> (\<forall>d \<in> set ds. completed_task pl p ignored d)" for ls
    by (induction rule: list_all2_induct) (auto simp: completed_task_def satisfied_def split: option.splits)
  moreover have "\<exists>ls. list_all2 (\<lambda>d l. findTaskById pl p ignored d = Inr l) ds ls"
    if "\<forall>d \<in> set ds. completed_task pl p ignored d"
    using that by (induction ds) (auto simp: completed_task_def list_all2_Cons1)
  ultimately show ?thesis
    by (auto simp: assertHardDependenciesSatisfied_def result_simps mapE_eq_Inr)
qed

section \<open>What a candidate consists of\<close>

text \<open>An entry is the observer's own, or a file that was observed inside the write set, with its digest.\<close>

definition observed_entry :: "platform \<Rightarrow> task_run \<Rightarrow> run_observation \<Rightarrow> snapshot_entry \<Rightarrow> bool" where
  "observed_entry pl run b e \<longleftrightarrow>
     e = \<lparr>ent_ref = taskCandidateObservationEntryRef b, ent_fingerprint = observation_fingerprint b\<rparr> \<or>
     (\<exists>f \<in> set (observation_files b). cur_path f = ent_ref e \<and> cur_kind f = CurRegular \<and>
        cur_sha256 f = Some (ent_fingerprint e) \<and> isTaskRunPathInWriteSet pl run (ent_ref e) = Inr True)"

lemma observed_files_mem:
  "observed_files pl run fs = Inr files \<Longrightarrow> (p, sha) \<in> set files \<Longrightarrow>
   \<exists>f \<in> set fs. cur_path f = p \<and> cur_kind f = CurRegular \<and> cur_sha256 f = Some sha \<and>
     isTaskRunPathInWriteSet pl run p = Inr True"
  by (induction fs arbitrary: files)
     (fastforce simp: result_simps regular_file_def split: option.splits if_splits)+

lemma file_entries_mem:
  assumes "e \<in> set (file_entries_of files)"
  shows "(ent_ref e, ent_fingerprint e) \<in> set files"
proof -
  obtain p where p: "p \<in> fst ` set files" "e = \<lparr>ent_ref = p, ent_fingerprint = the (map_of (rev files) p)\<rparr>"
    using assms by (auto simp: file_entries_of_def)
  then have "map_of (rev files) p \<noteq> None" by (simp add: map_of_eq_None_iff)
  then obtain sha where "map_of (rev files) p = Some sha" by blast
  moreover from this have "(p, sha) \<in> set (rev files)" by (rule map_of_SomeD)
  ultimately show ?thesis using p by simp
qed

lemma parse_entry_exact: "parse_entry (entry_json e) = Inr e' \<Longrightarrow> e' = e"
  by (auto simp: parse_entry_def entry_json_def result_simps)

lemma parse_entries_exact: "parseSnapshotEntries pl (entries_json es) = Inr es' \<Longrightarrow> set es' = set es"
proof -
  assume "parseSnapshotEntries pl (entries_json es) = Inr es'"
  then obtain parsed where "list_all2 (\<lambda>e e'. parse_entry (entry_json e) = Inr e') es parsed"
    "es' = Sorting_Algorithms.sort (by_ref pl) parsed"
    by (auto simp: parseSnapshotEntries_def entries_json_def result_simps Let_def mapE_eq_Inr list_all2_map1 parseArray_def)
  moreover from this(1) have "parsed = es"
    by (induction rule: list_all2_induct) (auto dest: parse_entry_exact)
  ultimately show "set es' = set es" by simp
qed

lemma completed_candidate:
  assumes step: "completed_run pl w root dir prior sv supplied refs ms now n = Inr (r, n')" and ok: "platform_ok pl"
  obtains b k1 k2 c s v where "observe_run pl w root prior k1 = Inr (b, k2)" "observation_scope b = WithinWriteSet"
    "run_candidateSnapshot r = Some c" "\<forall>e \<in> set (cand_entries c). observed_entry pl prior b e"
    "\<lparr>ent_ref = taskCandidateObservationEntryRef b, ent_fingerprint = observation_fingerprint b\<rparr> \<in> set (cand_entries c)"
    "run_result r = Some \<lparr>res_summary = s, res_evidenceRefs = map rei_ref (rver_items v), res_evidenceVerification = Some v\<rparr>"
    "rver_candidateFingerprint v = cand_fingerprint c" "run_state r = RunCompleted"
  using step
proof (rule completed_run_cases)
  fix s b k e files c j v
  assume b: "observe_run pl w root prior n = Inr (b, k)" and e: "createTaskCandidateEntry pl b = Inr e"
    and files: "observed_files pl prior (observation_files b) = Inr files"
    and c: "createTaskCandidateSnapshot pl (entries_json (file_entries_of files @ [e])) k = Inr (c, j)"
    and v: "freezeTaskRunEvidenceV1 pl w root dir (prior\<lparr>run_state := RunCompleted, run_candidateSnapshot := Some c,
           run_result := Some \<lparr>res_summary = s, res_evidenceRefs = refs, res_evidenceVerification = None\<rparr>,
           run_failure := None, run_completedAt := Some now, run_measurementRefs := ms\<rparr>) j = Inr (v, n')"
    and r: "r = prior\<lparr>run_state := RunCompleted, run_candidateSnapshot := Some c,
       run_result := Some \<lparr>res_summary = s, res_evidenceRefs = map rei_ref (rver_items v),
         res_evidenceVerification = Some v\<rparr>,
       run_failure := None, run_completedAt := Some now, run_measurementRefs := ms\<rparr>"
  have e': "e = \<lparr>ent_ref = taskCandidateObservationEntryRef b, ent_fingerprint = observation_fingerprint b\<rparr>"
    "observation_scope b = WithinWriteSet"
    using e by (auto simp: createTaskCandidateEntry_def result_simps Let_def)
  have entries: "set (cand_entries c) = set (file_entries_of files @ [e])"
    using c by (auto simp: createTaskCandidateSnapshot_def result_simps dest: parse_entries_exact)
  have "observed_entry pl prior b x" if "x \<in> set (file_entries_of files)" for x
    using observed_files_mem [OF files file_entries_mem [OF that]] by (auto simp: observed_entry_def)
  then have "\<forall>x \<in> set (cand_entries c). observed_entry pl prior b x"
    using entries e'(1) by (auto simp: observed_entry_def)
  moreover have "wf_candidate pl c" using createTaskCandidateSnapshot_wf [OF c] platform_okD(2) [OF ok] by simp
  then have "rver_candidateFingerprint v = cand_fingerprint c" using freeze_result(3) [OF v ok] by simp
  ultimately show thesis using that [OF b e'(2), of c s v] entries e'(1) r by simp
qed

text \<open>The step of a completed result\<close>

lemma completed_step:
  assumes step: "recordTaskRunResult_step pl w root dir actor RunCompleted supplied req fp idem k n = Inr (k', n')"
  obtains prior i r sv refs ms now n0 n1 where "runAt k (run_id prior) = Inr (prior, i)" "run_state prior = RunRunning"
    "ker_phase k = PhExecute" "ker_runs k' = (ker_runs k)[i := r]"
    "completed_run pl w root dir prior sv supplied refs ms now n0 = Inr (r, n1)"
proof -
  obtain prior i refs ms r kernel n0 n1 where at: "runAt k (run_id prior) = Inr (prior, i)" "run_state prior = RunRunning"
    "ker_phase k = PhExecute"
    and run: "completed_run pl w root dir prior (getprop req ''summary'') supplied refs ms (isoNow pl n) (Suc n) = Inr (r, n0)"
    and phase: "result_phase pl actor idem RunCompleted (replaceRun k i r) n0 = Inr (kernel, n1)"
    and event: "appendDomainEvent pl kernel actor idem (result_event RunCompleted) (run_id r) fp n1 = (k', n')"
    using step unfolding recordTaskRunResult_step_def by (clarsimp simp: result_simps run_at_request_iff)
  have "ker_runs k' = (ker_runs k)[i := r]"
    using appendDomainEvent_content [OF event] result_phase_advances(2) [OF phase] by (simp add: replaceRun_def)
  then show thesis using that at run by blast
qed

section \<open>Requests that succeed\<close>

text \<open>A mutation succeeds when its operation does, and what it writes can be read back.\<close>

context tracked_operation
begin

lemma mutate_progress:
  assumes ok: input_ok "platform_ok pl" "is_fingerprint fp" "\<not> blank actor" "\<not> blank idem"
    and k: "holds pl (dir_or_empty p dir) k" "uuid_fresh pl n k"
    and t: "\<not> td_archived (dir_or_empty p dir)" "import_refusal (dir_or_empty p dir) = None"
    and new: "findIdempotent k idem fp = Inr None" and step: "op idem k n = Inr (k', n')" and readable: "readable k'"
  shows "\<exists>res p'. mutateTaskKernel pl p dir (nat_val (ker_revision k)) (JStr actor) (JStr idem) fp op n = Inr (res, p', n') \<and>
    mut_kernel res = k' \<and> \<not> mut_idempotent res"
proof -
  let ?t = "dir_or_empty p dir"
  have ext: "extends pl actor idem fp k n k' n'" using step by (rule op_extends)
  from ext have audit: "ker_audit k' \<noteq> []" by (rule extendsE) simp
  from ext have events: "ker_events k' \<noteq> []" by (rule extendsE) simp
  have "wf_kernel pl k" using k(1) by (simp add: holds_def)
  then have "wf_kernel pl k'" by (rule op_wf_kernel(1) [OF ok(1) step ok(2,4,5,3) _ k(2) readable new])
  then have "parseTaskKernelSnapshotV2 pl (snapshot_json k') = Inr k'"
    using readable by (simp add: parseTaskKernelSnapshotV2_codec readable_base_shas)
  moreover have "ker_revision k < ker_revision k'" using step by (rule op_later)
  ultimately obtain t' where t': "commit_document pl ?t k k' = Inr t'"
    by (cases "td_import ?t") (auto simp: commit_document_def throwIf_def)
  let ?res = "\<lparr>mut_kernel = k', mut_idempotent = False, mut_audit = last (ker_audit k'), mut_event = last (ker_events k')\<rparr>"
  have "performs pl ?t (nat_val (ker_revision k)) idem fp op n k ?res t' n'"
    using k(1) holds_parse [OF k(1)] new step t' audit events by (simp add: performs_def holds_def last_opt_eq_Some)
  then have "mutateTaskKernel pl p dir (nat_val (ker_revision k)) (JStr actor) (JStr idem) fp op n =
      Inr (?res, put_dir p t', n')"
    using ok t by (auto simp: mutate_iff)
  then show ?thesis by simp
qed

end

section \<open>The close gate\<close>

text \<open>Programs that always return\<close>

definition total :: "'a io \<Rightarrow> bool" where
  "total m \<longleftrightarrow> (\<forall>n. \<exists>a n'. m n = Inr (a, n'))"

lemma total_okO [intro]: "total (okO a)"
  by (simp add: total_def okO_def)

lemma total_bindO [intro]:
  assumes "total m" and "\<And>a. total (f a)"
  shows "total (bindO m f)"
proof (unfold total_def, intro allI)
  fix n
  obtain a k where m: "m n = Inr (a, k)" using assms(1) unfolding total_def by blast
  obtain b j where "f a k = Inr (b, j)" using assms(2) [of a] unfolding total_def by blast
  then have "bindO m f n = Inr (b, j)" using m by (simp add: bindO_def)
  then show "\<exists>b j. bindO m f n = Inr (b, j)" by blast
qed

lemma total_catchO [intro]:
  assumes "\<And>e. total (h e)"
  shows "total (catchO w m h)"
proof (unfold total_def, intro allI)
  fix n
  show "\<exists>a n'. catchO w m h n = Inr (a, n')"
  proof (cases "m n")
    case (Inl e)
    then show ?thesis using assms [of e] by (simp add: catchO_def total_def)
  next
    case (Inr r)
    then show ?thesis by (cases r) (simp add: catchO_def)
  qed
qed

lemma total_evidence_errors: "total (evidence_errors pl w root dir run review)"
  unfolding evidence_errors_def caught_def by (auto split: option.split)

lemma total_review_part: "total (review_part pl w root dir k run review)"
  unfolding review_part_def by (auto split: option.split intro: total_evidence_errors)

lemma total_reobserve: "total (reobserve pl w root run v)"
  unfolding reobserve_def by (auto split: option.split)

lemma total_delivery_part: "total (delivery_part pl w run parsed current trusted)"
  unfolding delivery_part_def by (auto split: option.split sum.split)

lemma total_evaluateTaskClose: "total (evaluateTaskClose pl w p root k runId reviewId observationInput deliveryInput dir)"
  unfolding evaluateTaskClose_def Let_def
  by (intro total_bindO total_review_part total_reobserve total_delivery_part total_okO)
     (auto intro: total_review_part total_reobserve total_delivery_part)

text \<open>Without a message, the close goes through.\<close>

lemma close_step_succeeds:
  assumes e: "evaluateTaskClose pl w p root k (getprop req ''runId'') (getprop req ''reviewId'')
      (getprop req ''candidateObservation'') (getprop req ''deliveryEvidence'') (Some dir) n = Inr (ver, n1)"
    and none: "clv_errors ver = []"
  shows "\<exists>k' n'. closeTaskKernel_step pl w p root dir actor req fp idem k n = Inr (k', n')"
  using e none
proof (rule evaluate_closes)
  fix run review c b d n1' n2
  assume run: "run_by_id k (getprop req ''runId'') = Some run" "review_by_id k (getprop req ''reviewId'') = Some review"
      "run_candidateSnapshot run = Some c"
    and phase: "ker_phase k = PhVerify" and fresh: "fresh_candidate pl w root run c n1' b n2"
    and trusted: "clv_candidateObservation ver = trusted_observation c b"
    and d: "parseDeliveryEvidence pl (Some (def_deliveryLevel (ker_definition k))) (getprop req ''deliveryEvidence'') = Inr d"
    and x: "\<exists>x. clv_deliveryVerification ver = Some x \<and> verifyDelivery pl w run d b n2 = Inr (x, n1)"
  obtain o' where "clv_candidateObservation ver = Some o'" using trusted fresh trusted_fresh by auto
  moreover obtain x where "clv_deliveryVerification ver = Some x" using x by blast
  moreover obtain kernel n3 where "appendPhase pl k PhClose actor (idem @ ''#close'')
      ''Task acceptance and machine-observed delivery evidence satisfied.'' None None (n1 + 1) = Inr (kernel, n3)"
    using phase by (cases "makeAudit pl (kernel_state_of k) (ker_revision k) (deriveStateForPhase PhClose)
        (ker_revision k + 1) actor (idem @ ''#close'') ''Task acceptance and machine-observed delivery evidence satisfied.'' (n1 + 1)")
       (simp add: appendPhase_def phase_allowed_def throwIf_def Let_def)
  ultimately obtain y where "closeTaskKernel_step pl w p root dir actor req fp idem k n = Inr y"
    using e none run d
    by (simp add: closeTaskKernel_step_def bindO_def throwO_def throwIf_def needO_def liftO_def askO_def emit_def)
  then show ?thesis by (cases y) blast
qed

end
