(* ===== verification/Task_Properties.thy ===== *)
theory Task_Properties
  imports Demo Served
begin

text \<open>
  How a Task comes to be.
\<close>

text \<open>
  C21: a Task is created only in a directory without a kernel and without a record of an older format.  No other
  directory has a Task of its identifier, every Task it depends on is another one that can be located, and none of
  these depends on it.  It starts in the phase \<open>define\<close>, at revision 1, with the definition of the request, one audit
  entry and one event, and neither Runs nor Reviews.
\<close>

theorem task_created:
  assumes "createTaskKernel pl p dir req n = Inr (res, p', n')" and "\<not> mut_idempotent res"
  shows "\<exists>d a e. wf_definition d \<and>
    readKernelStateDocument (dir_or_empty p dir) = Inr JNull \<and> \<not> td_taskJson (dir_or_empty p dir) \<and>
    findTaskById pl p (Some dir) (def_taskId d) = Inr None \<and>
    (\<forall>x \<in> set (def_dependencies d). x \<noteq> def_taskId d \<and> (\<exists>l. findTaskById pl p (Some dir) x = Inr (Some l)) \<and>
       (x, def_taskId d) \<notin> {(a, b). depends_on pl p (Some dir) a b}\<^sup>*) \<and>
    mut_kernel res = \<lparr>ker_taskId = def_taskId d, ker_revision = 1, ker_phase = PhDefine, ker_condition = CndReady,
      ker_outcome = None, ker_definition = d, ker_runs = [], ker_reviews = [], ker_closure = None,
      ker_audit = [a], ker_events = [e]\<rparr> \<and>
    evt_type e = EvTaskCreated \<and> evt_entityId e = def_taskId d \<and> getprop req ''actor'' = JStr (evt_actor e) \<and>
    td_document (dir_or_empty p' dir) = Document (snapshot_json (mut_kernel res))"
  using assms(1)
proof (cases rule: create_cases)
  case (created actor idem fp d)
  have "findTaskById pl p (Some dir) (def_taskId d) = Inr None"
  proof -
    obtain found where found: "findTaskById pl p (Some dir) (def_taskId d) = Inr found"
      "case found of None \<Rightarrow> True | Some l \<Rightarrow> loc_dir l = dir"
      using created(8) by (auto simp: assertUniqueTaskId_def result_simps split: option.splits)
    with findTaskById_dir [of pl p "Some dir" "def_taskId d"] show ?thesis by (cases found) auto
  qed
  moreover have "x \<noteq> def_taskId d \<and> (\<exists>l. findTaskById pl p (Some dir) x = Inr (Some l)) \<and>
      (x, def_taskId d) \<notin> {(a, b). depends_on pl p (Some dir) a b}\<^sup>*" if "x \<in> set (def_dependencies d)" for x
  proof -
    have "x \<noteq> def_taskId d" "\<exists>l. findTaskById pl p (Some dir) x = Inr (Some l)"
      using created(9) that by (auto simp: assertDependenciesResolvable_def result_simps)
    moreover have "(x, def_taskId d) \<notin> {(a, b). depends_on pl p (Some dir) a b}\<^sup>*"
      using created(10) that assertNoDependencyCycle_ok by (fastforce simp: rtranclp_rtrancl_eq)
    ultimately show ?thesis by blast
  qed
  moreover have "getprop req ''actor'' = JStr actor"
    using assms created by (cases res) (auto simp: createTaskKernel_def result_simps Let_def new_kernel_def makeAudit_def makeEvent_def)
  moreover have "td_document (dir_or_empty p' dir) = Document (snapshot_json (mut_kernel res))"
    using created(14) dir_or_empty_put [of p "(dir_or_empty p dir)\<lparr>td_document := Document (snapshot_json (mut_kernel res))\<rparr>"]
    by simp
  ultimately show ?thesis
    using created(4,6,7,11)
    by (intro exI [of _ d] exI [of _ "hd (ker_audit (mut_kernel res))"] exI [of _ "hd (ker_events (mut_kernel res))"])
      (simp add: new_kernel_def)
qed (use assms(2) in simp)

theorem task_created_witness:
  "\<exists>res. createTaskKernel demo_platform [] demo_dir (demo_create ''a'' []) 0 = Inr (res, demo_project demo_k1, 5) \<and>
     ker_phase (mut_kernel res) = PhDefine \<and> ker_revision (mut_kernel res) = 1"
proof -
  obtain res where r: "createTaskKernel demo_platform [] demo_dir (demo_create ''a'' []) 0 = Inr (res, demo_project demo_k1, 5)"
    "\<not> mut_idempotent res"
    using demo_created by (auto simp: demo_answer_def)
  from task_created [OF r] r(1) show ?thesis by auto
qed

end
