(* ===== verification/Lifecycle_Properties.thy ===== *)
theory Lifecycle_Properties
  imports Demo Served
begin

text \<open>
  What holds of a project after any sequence of requests: its kernels can be read and are well-formed, the
  dependency graph has no cycle, what was recorded stays recorded, and a request is performed once.
\<close>

section \<open>Reachable projects\<close>



text \<open>
  C7: at any time at most the latest Run of a Task is active, and none once the Task is closed; every Review
  is by someone who neither started nor approved the Run it is of.
\<close>

theorem reachable_sane:
  assumes "reaches pl p n p' n'" and "platform_ok pl" and "github_urls pl" and "sound_project pl n p"
    and "kernel_in pl (dir_or_empty p' d) = Inr k"
  shows "(\<forall>i. Suc i < length (ker_runs k) \<longrightarrow> \<not> active_run (ker_runs k ! i)) \<and>
    (ker_closure k \<noteq> None \<longleftrightarrow> ker_phase k = PhClose) \<and>
    (ker_closure k \<noteq> None \<longrightarrow> (\<forall>r \<in> set (ker_runs k). \<not> active_run r)) \<and>
    (\<forall>v \<in> set (ker_reviews k). \<forall>r \<in> set (ker_runs k). run_id r = rev_runId v \<longrightarrow>
       rev_reviewer v \<noteq> run_startedBy r \<and> rev_reviewer v \<noteq> auth_approvedBy (run_authorization r))"
  using sound_at(3) [OF reaches_sound(1) [OF assms(1-4)] assms(5)]
  by (auto simp: sane_def last_active_def closed_ok_def independent_def list_all_iff split: option.splits)

theorem reachable_sane_witness:
  "\<exists>v. ker_phase demo_k5 = PhClose \<and> ker_reviews demo_k5 = [v] \<and> rev_reviewer v \<noteq> ''ann''"
proof -
  note sane = reachable_sane [OF demo_reaches(3) demo_platform_ok demo_github_urls demo_sound(2) demo_kernel_in(5)]
  have "ker_closure demo_k5 \<noteq> None" by (simp add: demo_kernel_defs)
  moreover have "\<exists>r \<in> set (ker_runs demo_k5). run_id r = ''id5'' \<and> run_startedBy r = ''ann''"
    by (simp add: demo_kernel_defs)
  moreover have "\<exists>v. ker_reviews demo_k5 = [v] \<and> rev_runId v = ''id5''" by (simp add: demo_kernel_defs)
  ultimately show ?thesis using sane by fastforce
qed

section \<open>History\<close>

text \<open>
  C11: the past of a Task is kept by every later request.  Its audit trail, its events and its Reviews are
  only appended to, its revision grows with every request that is performed, and a Run that has ended keeps
  its state, its candidate, its result and its failure.
\<close>

theorem history_kept:
  assumes "reaches pl p n p' n'" and "platform_ok pl" and "github_urls pl" and "sound_project pl n p"
    and "kernel_in pl (dir_or_empty p d) = Inr k"
  shows "\<exists>k'. kernel_in pl (dir_or_empty p' d) = Inr k' \<and>
    prefix (ker_audit k) (ker_audit k') \<and> prefix (ker_events k) (ker_events k') \<and>
    prefix (ker_reviews k) (ker_reviews k') \<and>
    (k' = k \<or> ker_revision k < ker_revision k') \<and>
    (\<forall>i < length (ker_runs k). i < length (ker_runs k') \<and> run_id (ker_runs k' ! i) = run_id (ker_runs k ! i) \<and>
       (\<not> active_run (ker_runs k ! i) \<longrightarrow>
          run_state (ker_runs k' ! i) = run_state (ker_runs k ! i) \<and>
          run_candidateSnapshot (ker_runs k' ! i) = run_candidateSnapshot (ker_runs k ! i) \<and>
          run_result (ker_runs k' ! i) = run_result (ker_runs k ! i) \<and>
          run_failure (ker_runs k' ! i) = run_failure (ker_runs k ! i)))"
proof -
  obtain k' where k': "kernel_in pl (dir_or_empty p' d) = Inr k'" "evolves k k'" "journal_grows k k'"
    using reaches_sound(3) [OF assms] by blast
  have "k' = k \<or> ker_revision k < ker_revision k'" using k'(3) by (auto simp: journal_grows_def)
  with k' show ?thesis
    by (auto simp: evolves_def journal_grows_def run_evolves_def ended_same_def same_contract_def)
qed

theorem history_kept_witness:
  "prefix (ker_audit demo_k2) (ker_audit demo_k5) \<and> ker_revision demo_k2 < ker_revision demo_k5 \<and>
   run_id (ker_runs demo_k5 ! 0) = ''id5''"
proof -
  have "demo_k5 \<noteq> demo_k2" "0 < length (ker_runs demo_k2)" "run_id (ker_runs demo_k2 ! 0) = ''id5''"
    by (simp_all add: demo_kernel_defs)
  then show ?thesis
    using history_kept [OF demo_reaches(3) demo_platform_ok demo_github_urls demo_sound(2) demo_kernel_in(2)]
      demo_kernel_in(5) by auto
qed

text \<open>
  C12: a Task that is closed stays as it was closed: no later request changes its closure, phase, outcome,
  definition or Reviews, or starts another Run.
\<close>

theorem closure_final:
  assumes "reaches pl p n p' n'" and "platform_ok pl" and "github_urls pl" and "sound_project pl n p"
    and "kernel_in pl (dir_or_empty p d) = Inr k" and "ker_closure k = Some c"
  shows "\<exists>k'. kernel_in pl (dir_or_empty p' d) = Inr k' \<and> ker_closure k' = Some c \<and> ker_phase k' = PhClose \<and>
    ker_outcome k' = ker_outcome k \<and> ker_definition k' = ker_definition k \<and> ker_reviews k' = ker_reviews k \<and>
    length (ker_runs k') = length (ker_runs k)"
proof -
  have "ker_phase k = PhClose"
    using sound_at(3) [OF assms(4,5)] assms(6) by (simp add: sane_def closed_ok_def)
  moreover obtain k' where "kernel_in pl (dir_or_empty p' d) = Inr k'" "evolves k k'"
    using reaches_sound(3) [OF assms(1-5)] by blast
  ultimately show ?thesis using assms(6) by (auto simp: evolves_def closed_same_def)
qed

theorem closure_final_witness:
  "\<exists>c k'. ker_closure demo_k5 = Some c \<and>
     kernel_in demo_platform (dir_or_empty (demo_project demo_k5) demo_dir) = Inr k' \<and> ker_closure k' = Some c"
proof -
  obtain c where c: "ker_closure demo_k5 = Some c" by (simp add: demo_kernel_defs)
  have "reaches demo_platform (demo_project demo_k5) 314 (demo_project demo_k5) 400"
    by (rule wait [OF start]) simp
  from closure_final [OF this demo_platform_ok demo_github_urls demo_sound(5) demo_kernel_in(5) c] c
  show ?thesis by blast
qed

text \<open>
  C22: once a Task has left the phase \<open>define\<close> its definition is fixed, and before that the only change it
  sees is an added dependency; the phase itself moves along the steps the store allows.
\<close>

theorem contract_fixed:
  assumes "reaches pl p n p' n'" and "platform_ok pl" and "github_urls pl" and "sound_project pl n p"
    and "kernel_in pl (dir_or_empty p d) = Inr k"
  shows "\<exists>k' ds. kernel_in pl (dir_or_empty p' d) = Inr k' \<and>
    ker_definition k' = (ker_definition k)\<lparr>def_dependencies := def_dependencies (ker_definition k) @ ds\<rparr> \<and>
    (ker_phase k \<noteq> PhDefine \<longrightarrow> ds = []) \<and>
    (ker_phase k, ker_phase k') \<in> {(a, b). phase_allowed a b}\<^sup>*"
proof -
  obtain k' where k': "kernel_in pl (dir_or_empty p' d) = Inr k'" "evolves k k'"
    using reaches_sound(3) [OF assms] by blast
  then show ?thesis unfolding evolves_def phase_step_def by blast
qed

theorem contract_fixed_witness:
  "ker_definition demo_k5 = ker_definition demo_k2 \<and>
   (PhExecute, PhClose) \<in> {(a, b). phase_allowed a b}\<^sup>*"
proof -
  have "ker_phase demo_k2 = PhExecute" "ker_phase demo_k5 = PhClose" by (simp_all add: demo_kernel_defs)
  then show ?thesis
    using contract_fixed [OF demo_reaches(3) demo_platform_ok demo_github_urls demo_sound(2) demo_kernel_in(2)]
      demo_kernel_in(5) by auto
qed

section \<open>Requests\<close>

text \<open>
  C34: a request changes only the directory it names, and there only the document: it neither archives the
  Task nor changes its record of the import.
\<close>

theorem request_frame:
  assumes "serve pl w p root dir rq n = Inr (res, p', n')" and "platform_ok pl" and "github_urls pl"
  shows "(\<forall>d. d \<noteq> dir \<longrightarrow> dir_or_empty p' d = dir_or_empty p d) \<and>
    td_archived (dir_or_empty p' dir) = td_archived (dir_or_empty p dir) \<and>
    import_refusal (dir_or_empty p' dir) = import_refusal (dir_or_empty p dir) \<and>
    (mut_idempotent res \<longrightarrow> p' = p)"
  using serve_other_dirs [OF assms] serve_frame [OF assms] by simp

theorem request_frame_witness:
  "\<exists>res. demo_serve ''old'' demo_k1 (demo_start demo_k1) 5 = Inr (res, demo_project demo_k2, 60) \<and>
     dir_or_empty (demo_project demo_k2) ''/elsewhere'' = dir_or_empty (demo_project demo_k1) ''/elsewhere''"
proof -
  obtain res where r: "demo_serve ''old'' demo_k1 (demo_start demo_k1) 5 = Inr (res, demo_project demo_k2, 60)"
    by (simp add: demo_started demo_answer_def)
  from request_frame [OF r [unfolded demo_serve_def] demo_platform_ok demo_github_urls] r show ?thesis
    by (simp add: demo_dir_def)
qed

text \<open>
  C13: the kernel refines a log of idempotency keys.  A request that is answered finds its key new, and leaves
  it recorded with its fingerprint; or finds it recorded for the same request, and leaves the log as it was.
  The log is the one the directory holds afterwards.
\<close>

theorem requests_refine_log:
  assumes "serve pl w p root dir rq n = Inr (res, p', n')" and "\<not> creates rq"
    and "platform_ok pl" and "github_urls pl" and "sound_project pl n p" and "readable (mut_kernel res)"
  shows "\<exists>i fp k. kernel_in pl (dir_or_empty p dir) = Inr k \<and> request_key rq = JStr i \<and>
    log_step (log_of k) i fp = (if mut_idempotent res then Replayed else Recorded, log_of (mut_kernel res)) \<and>
    kernel_in pl (dir_or_empty p' dir) = Inr (mut_kernel res)"
proof -
  obtain actor fp op added where t: "tracked_operation pl actor fp op True added" and fp: "is_fingerprint fp" and
    m: "mutateTaskKernel pl p dir (request_revision rq) (JStr actor) (request_key rq) fp op n = Inr (res, p', n')"
    using served_mutation [OF assms(1-4)] .
  obtain k where k: "kernel_in pl (dir_or_empty p dir) = Inr k"
    using tracked_operation.mutate_reads [OF t m] by blast
  have "kernel_in pl (dir_or_empty p' dir) = Inr (mut_kernel res)"
    using tracked_operation.mutate_sound(4) [OF t TrueI assms(3) fp m assms(5,6)] holds_kernel_in by blast
  then show ?thesis using tracked_operation.mutate_log [OF t m sound_at(1) [OF assms(5) k]] k by blast
qed

theorem requests_refine_log_witness:
  "\<exists>i fp. log_step (log_of demo_k4) i fp = (Recorded, log_of demo_k5)"
proof -
  have "creates (demo_close demo_k4) = False" by (simp add: demo_close_def split: prod.splits)
  then show ?thesis
    using requests_refine_log [OF demo_closed [unfolded demo_serve_def demo_answer_def] _ demo_platform_ok
        demo_github_urls demo_sound(4)] demo_readable demo_kernel_in(4) by auto
qed

text \<open>
  C3: a request that was performed is never performed again: in whatever state later requests have brought
  the project to, repeating it returns the event of the first time and changes nothing.
\<close>

theorem performed_once:
  assumes "serve pl w p root dir rq n = Inr (res, p1, n1)" and "\<not> mut_idempotent res" and "\<not> creates rq"
    and "reaches pl p1 n1 p' n'" and "platform_ok pl" and "github_urls pl"
    and "sound_project pl n p" and "readable (mut_kernel res)"
  shows "\<exists>again. serve pl w' p' root' dir rq m = Inr (again, p', m) \<and> mut_idempotent again \<and>
    mut_event again = mut_event res \<and> kernel_in pl (dir_or_empty p' dir) = Inr (mut_kernel again)"
  using serve_replayed [OF assms(1,2,4-8,3)] by fastforce

theorem performed_once_witness:
  "\<exists>again. demo_serve ''hello'' demo_k5 (demo_start demo_k1) 314 = Inr (again, demo_project demo_k5, 314) \<and>
     mut_idempotent again \<and> mut_kernel again = demo_k5"
proof -
  have "\<not> creates (demo_start demo_k1)" by (simp add: demo_start_def)
  then show ?thesis
    using performed_once [OF demo_started [unfolded demo_serve_def demo_answer_def] _ _ demo_reaches(3)
        demo_platform_ok demo_github_urls demo_sound(1), of "demo_world ''hello''" "''/p''" 314]
      demo_readable demo_kernel_in(5) by (auto simp: demo_serve_def)
qed

text \<open>
  C4: no update is lost.  Of two different requests for a Task that name the same expected revision, only
  one is performed: after the first, however much later, the second is not.
\<close>

theorem no_lost_update:
  assumes "serve pl w p root dir rq n = Inr (res, p1, n1)" and "\<not> mut_idempotent res" and "\<not> creates rq"
    and "reaches pl p1 n1 p' n'" and "platform_ok pl" and "github_urls pl"
    and "sound_project pl n p" and "readable (mut_kernel res)"
    and "\<not> creates other" and "request_revision other = request_revision rq"
    and "serve pl w' p' root' dir other m = Inr (res', p'', m')" and "n' \<le> m"
  shows "mut_idempotent res' \<and> p'' = p'"
proof -
  obtain k where "kernel_in pl (dir_or_empty p dir) = Inr k"
    and k: "request_revision rq = nat_val (ker_revision k)" "ker_revision k < ker_revision (mut_kernel res)"
    and "readable (mut_kernel res) \<longrightarrow> sound_project pl n1 p1 \<and> kernel_in pl (dir_or_empty p1 dir) = Inr (mut_kernel res)"
    by (rule performed_revision [OF assms(1-3,5-7)])
  then have first: "sound_project pl n1 p1" "kernel_in pl (dir_or_empty p1 dir) = Inr (mut_kernel res)"
    using assms(8) by blast+
  note later = reaches_sound(1) [OF assms(4-6) first(1)]
  obtain k1 where k1: "kernel_in pl (dir_or_empty p' dir) = Inr k1" "journal_grows (mut_kernel res) k1"
    using reaches_sound(3) [OF assms(4-6) first] by blast
  have "mut_idempotent res'"
  proof (rule ccontr)
    assume "\<not> mut_idempotent res'"
    then obtain k2 where "kernel_in pl (dir_or_empty p' dir) = Inr k2" "request_revision other = nat_val (ker_revision k2)"
      by (rule performed_revision [OF assms(11) _ assms(9,5,6) sound_later [OF later assms(12)]])
    then show False using k k1 assms(10) by (auto simp: journal_grows_def)
  qed
  then show ?thesis using serve_other_dirs(2) [OF assms(11,5,6)] by simp
qed

theorem no_lost_update_witness:
  "\<exists>res. demo_serve ''hello'' demo_k5 (demo_start demo_k1) 314 = Inr (res, demo_project demo_k5, 314) \<and>
     mut_idempotent res"
proof -
  have c: "\<not> creates (demo_start demo_k1)" by (simp add: demo_start_def)
  obtain res where res: "demo_serve ''hello'' demo_k5 (demo_start demo_k1) 314 = Inr (res, demo_project demo_k5, 314)"
    using serve_replayed [OF demo_started [unfolded demo_serve_def demo_answer_def] _ demo_reaches(3)
        demo_platform_ok demo_github_urls demo_sound(1) _ c, of "demo_world ''hello''" "''/p''" 314] demo_readable
    by (auto simp: demo_serve_def)
  then show ?thesis
    using no_lost_update [OF demo_started [unfolded demo_serve_def demo_answer_def] _ c demo_reaches(3)
        demo_platform_ok demo_github_urls demo_sound(1) _ c _ res [unfolded demo_serve_def]] demo_readable
    by auto
qed

text \<open>
  C27: how a mutation is refused.  Under a lock, with the kernel read, an archived Task is refused first; then a
  key that the log has for another request; then a revision that is not the current one; and last what the
  operation refuses.  A refusal says nothing of a new project.
\<close>

theorem mutation_refusals:
  assumes "holds pl (dir_or_empty p dir) k" and "\<not> blank actor" and "\<not> blank idem"
    and "import_refusal (dir_or_empty p dir) = None"
    and m: "m = mutateTaskKernel pl p dir (nat_val r) (JStr actor) (JStr idem) fp op n"
  shows "(td_archived (dir_or_empty p dir) \<longrightarrow> m = Inl invalid_request) \<and>
    (\<not> td_archived (dir_or_empty p dir) \<longrightarrow>
      (log_step (log_of k) idem fp = (Mismatched, log_of k) \<longrightarrow> m = Inl (KernelError IDEMPOTENCY_MISMATCH)) \<and>
      (fst (log_step (log_of k) idem fp) = Recorded \<longrightarrow>
        (r \<noteq> ker_revision k \<longrightarrow> m = Inl (KernelError REVISION_CONFLICT)) \<and>
        (\<forall>e. r = ker_revision k \<and> op idem k n = Inl e \<longrightarrow> m = Inl e)))"
proof -
  obtain v where v: "current_document (dir_or_empty p dir) = Inr v" "parseTaskKernelSnapshotV2 pl v = Inr k"
    using holds_parse [OF assms(1)] assms(1) by (auto simp: holds_def)
  have "fst (log_step (log_of k) idem fp) = Recorded \<longleftrightarrow> findIdempotent k idem fp = Inr None"
    unfolding findIdempotent_log(1) by (auto simp: log_step_def split: option.splits if_splits)
  moreover have "log_step (log_of k) idem fp = (Mismatched, log_of k) \<longleftrightarrow>
      findIdempotent k idem fp = Inl (KernelError IDEMPOTENCY_MISMATCH)"
    using findIdempotent_log(3) by blast
  ultimately show ?thesis
    using assms(2-4) v by (auto simp: m mutateTaskKernel_def throwIf_def requireNonEmptyString_def)
qed

theorem mutation_refusals_witness:
  "mutateTaskKernel demo_platform (demo_project demo_k5) demo_dir (nat_val 3) (JStr ''eve'') (JStr ''k9'') [] (\<lambda>i k n. Inl corrupt) 0 =
     Inl (KernelError REVISION_CONFLICT) \<and>
   mutateTaskKernel demo_platform (demo_project demo_k5) demo_dir (nat_val 9) (JStr ''eve'') (JStr ''k4'') [] (\<lambda>i k n. Inl corrupt) 0 =
     Inl (KernelError IDEMPOTENCY_MISMATCH)"
proof -
  have "log_of demo_k5 = [(''k'', demo_fp CHR ''2''), (''k1'', demo_fp CHR ''2''), (''k2'', demo_fp CHR ''2''),
      (''k3'', demo_fp CHR ''1''), (''k4'', demo_fp CHR ''0'')]" "ker_revision demo_k5 = 9"
    by (simp_all add: demo_kernel_defs log_of_def demo_event_def)
  moreover have "\<not> blank ''eve''" "\<not> blank ''k9''" "\<not> blank ''k4''" by code_simp+
  ultimately show ?thesis
    using mutation_refusals [OF sound_at(1) [OF demo_sound(5) demo_kernel_in(5)]]
    by (simp add: demo_dir_or_empty empty_dir_def import_refusal_def log_step_def demo_fp_def)
qed

end
