(* ===== verification/Run_Properties.thy ===== *)
theory Run_Properties
  imports Demo Served
begin

text \<open>
  When a Run starts, resumes and ends, and what its result records.
\<close>

text \<open>
  C16: a Run starts only in a Task that is open, has no active Run, and whose every dependency is closed as
  completed.  It is added after the others, under an identifier no other Run has, by the actor, and the Task
  is in the phase \<open>execute\<close>.
\<close>

theorem run_starts:
  assumes "startTaskRun pl w p root dir req n = Inr (res, p', n')" and "\<not> mut_idempotent res"
    and "platform_ok pl" and "sound_project pl n p"
  shows "\<exists>k r. kernel_in pl (dir_or_empty p dir) = Inr k \<and> ker_closure k = None \<and>
    (\<forall>q \<in> set (ker_runs k). \<not> active_run q) \<and>
    (\<forall>d \<in> set (def_dependencies (ker_definition k)). completed_task pl p (Some dir) d) \<and>
    ker_runs (mut_kernel res) = ker_runs k @ [r] \<and> active_run r \<and>
    run_id r \<notin> run_id ` set (ker_runs k) \<and> run_attempt r = length (ker_runs k) + 1 \<and>
    getprop req ''actor'' = JStr (run_startedBy r) \<and> ker_phase (mut_kernel res) = PhExecute"
proof -
  obtain actor where actor: "getprop req ''actor'' = JStr actor"
    and m: "mutateTaskKernel pl p dir (getprop req ''expectedRevision'') (JStr actor) (getprop req ''idempotencyKey'')
      (start_fingerprint pl actor req) (startTaskRun_step pl w p root dir actor req (start_fingerprint pl actor req)) n =
      Inr (res, p', n')"
    using assms(1) by (auto simp: startTaskRun_def result_simps)
  obtain k idem where k: "kernel_in pl (dir_or_empty p dir) = Inr k" "uuid_fresh pl n k"
    and step: "startTaskRun_step pl w p root dir actor req (start_fingerprint pl actor req) idem k n = Inr (mut_kernel res, n')"
    using mutate_step [OF m assms(2,4)] by blast
  from step show ?thesis
  proof (rule start_cases)
    fix r kernel c type n0 n1
    assume guard: "ker_closure k = None" "\<not> list_ex active_run (ker_runs k)"
      "assertHardDependenciesSatisfied pl p (def_dependencies (ker_definition k)) (Some dir) = Inr ()"
      and r: "run_id r = randomUUID pl n" "active_run r" "run_startedBy r = actor" "run_attempt r = length (ker_runs k) + 1"
      and phases: "start_phases pl actor idem k n0 = Inr (kernel, n1)"
      and event: "appendDomainEvent pl (kernel\<lparr>ker_condition := c, ker_runs := ker_runs kernel @ [r]\<rparr>) actor idem type
        (run_id r) (start_fingerprint pl actor req) n1 = (mut_kernel res, n')"
    have "ker_runs (mut_kernel res) = ker_runs k @ [r]" "ker_phase (mut_kernel res) = PhExecute"
      using appendDomainEvent_content [OF event] start_phases_advances [OF phases] by simp_all
    then show ?thesis
      using k guard r actor run_at_fresh [OF k(2) r(1)] by (auto simp: dependencies_completed_iff list_ex_iff)
  qed
qed

theorem run_starts_witness:
  "\<exists>res. startTaskRun demo_platform (demo_world ''old'') (demo_project demo_k1) ''/p'' demo_dir
      (request_object (demo_start demo_k1)) 5 = Inr (res, demo_project demo_k2, 60) \<and>
    (\<exists>r. ker_runs (mut_kernel res) = ker_runs demo_k1 @ [r] \<and> active_run r)"
proof -
  have "\<exists>req. demo_start demo_k1 = StartRun req" by (simp add: demo_start_def)
  then obtain res where r: "startTaskRun demo_platform (demo_world ''old'') (demo_project demo_k1) ''/p'' demo_dir
      (request_object (demo_start demo_k1)) 5 = Inr (res, demo_project demo_k2, 60)" "\<not> mut_idempotent res"
    using demo_started by (auto simp: demo_serve_def demo_answer_def)
  from run_starts [OF r demo_platform_ok demo_sound(1)] r(1) show ?thesis
    by (auto simp: demo_kernel_in(1))
qed

text \<open>
  C35: only the latest Run can be resumed, and only while it waits and no other Run is running; resuming
  changes its state, and nothing else of the Runs.
\<close>

theorem run_resumes:
  assumes "resumeTaskRun pl p dir req n = Inr (res, p', n')" and "\<not> mut_idempotent res"
    and "platform_ok pl" and "sound_project pl n p"
  shows "\<exists>k rs r. kernel_in pl (dir_or_empty p dir) = Inr k \<and> ker_runs k = rs @ [r] \<and>
    getprop req ''runId'' = JStr (run_id r) \<and> run_state r = RunWaiting \<and>
    (\<forall>q \<in> set rs. run_state q \<noteq> RunRunning) \<and>
    ker_runs (mut_kernel res) = rs @ [r\<lparr>run_state := RunRunning\<rparr>] \<and> ker_reviews (mut_kernel res) = ker_reviews k"
proof -
  obtain actor fp where m: "mutateTaskKernel pl p dir (getprop req ''expectedRevision'') (JStr actor)
      (getprop req ''idempotencyKey'') fp (resumeTaskRun_step pl actor (getprop req ''runId'') fp) n = Inr (res, p', n')"
    using assms(1) by (auto simp: resumeTaskRun_def result_simps Let_def)
  obtain k idem where k: "kernel_in pl (dir_or_empty p dir) = Inr k" "holds pl (dir_or_empty p dir) k"
    and step: "resumeTaskRun_step pl actor (getprop req ''runId'') fp idem k n = Inr (mut_kernel res, n')"
    using mutate_step [OF m assms(2,4)] by blast
  from step show ?thesis
  proof (rule resume_cases)
    fix r i
    assume r: "getprop req ''runId'' = JStr (run_id r)" "runAt k (run_id r) = Inr (r, i)" "run_state r = RunWaiting"
      "latest_run_id k = Some (run_id r)" "\<forall>q \<in> set (ker_runs k). run_id q \<noteq> run_id r \<longrightarrow> run_state q \<noteq> RunRunning"
      and event: "appendDomainEvent pl (replaceRun (k\<lparr>ker_condition := CndActive\<rparr>) i (r\<lparr>run_state := RunRunning\<rparr>)) actor
        idem EvRunResumed (run_id r) fp n = (mut_kernel res, n')"
    obtain rs where rs: "ker_runs k = rs @ [r]" "i = length rs" "run_id r \<notin> run_id ` set rs"
      using latest_run_split [OF k(2) r(2,4)] by blast
    have "\<forall>q \<in> set rs. run_state q \<noteq> RunRunning"
    proof
      fix q assume "q \<in> set rs"
      moreover from this have "run_id q \<noteq> run_id r" using rs(3) by (metis image_eqI)
      ultimately show "run_state q \<noteq> RunRunning" using r(5) rs(1) by simp
    qed
    with k r rs appendDomainEvent_content [OF event] show ?thesis by (auto simp: replaceRun_def)
  qed
qed

text \<open>A Run that was queued, and its resumption\<close>

definition demo_wait :: kernel_request where
  "demo_wait = StartRun (with_prop (request_object (demo_start demo_k1)) ''initialState'' (JStr ''waiting''))"

definition demo_queued :: task_kernel where
  "demo_queued = demo_k2\<lparr>ker_condition := CndWaiting, ker_runs := [demo_run\<lparr>run_state := RunWaiting\<rparr>],
     ker_audit := butlast (ker_audit demo_k2) @
       [demo_audit ''id56'' ''ann'' ''k1'' ''run.queued'' (demo_state PhExecute CndWaiting 3)
          (demo_state PhExecute CndWaiting 4)],
     ker_events := ker_events demo_k1 @ [demo_event ''id58'' 4 ''ann'' ''k1'' EvRunQueued ''id5'' CHR ''2'']\<rparr>"

definition demo_resume :: jsobj where
  "demo_resume = demo_request ''ann'' ''k2'' demo_queued [(''runId'', JStr ''id5'')]"

lemma demo_queued: "demo_serve ''old'' demo_k1 demo_wait 5 = demo_answer demo_queued 60"
  by code_simp

lemma demo_resumed:
  "case resumeTaskRun demo_platform (demo_project demo_queued) demo_dir demo_resume 60 of
     Inl e \<Rightarrow> False | Inr (res, p, n) \<Rightarrow> \<not> mut_idempotent res"
  by code_simp

lemma demo_queued_sound: "sound_project demo_platform 60 (demo_project demo_queued)"
proof -
  have "readable demo_queued"
    using demo_readable(2) by (simp add: readable_def run_readable_def demo_queued_def demo_k2_def demo_k1_def
        manager_readable_def run_base_sha_ok_def baseline_readable_def result_readable_def)
  then show ?thesis
    using reaches_sound(1) [OF demo_reaches_more [OF start demo_queued] demo_platform_ok demo_github_urls demo_sound(1)] by simp
qed

theorem run_resumes_witness:
  "\<exists>res p n. resumeTaskRun demo_platform (demo_project demo_queued) demo_dir demo_resume 60 = Inr (res, p, n) \<and>
     (\<exists>rs r. ker_runs (mut_kernel res) = rs @ [r\<lparr>run_state := RunRunning\<rparr>] \<and> run_state r = RunWaiting)"
proof -
  obtain res p n where r: "resumeTaskRun demo_platform (demo_project demo_queued) demo_dir demo_resume 60 = Inr (res, p, n)"
    "\<not> mut_idempotent res"
    using demo_resumed by (auto split: sum.splits)
  from run_resumes [OF r demo_platform_ok demo_queued_sound] r(1) show ?thesis by blast
qed

text \<open>
  C9: a completed Run records what Core observed, not what its caller claims.  Its candidate lists the
  observation itself, which lies within the write set, and besides that only files that were observed in the
  write set, each with the digest it was observed with; its evidence is the evidence that was read then.
\<close>

theorem completed_run_observed:
  assumes "recordTaskRunResult pl w p root dir supplied req n = Inr (res, p', n')" and "\<not> mut_idempotent res"
    and "platform_ok pl" and "sound_project pl n p" and "getprop req ''outcome'' = JStr ''completed''"
  shows "\<exists>k prior r i b c v k1 k2. kernel_in pl (dir_or_empty p dir) = Inr k \<and>
    runAt k (run_id prior) = Inr (prior, i) \<and> run_state prior = RunRunning \<and> ker_phase k = PhExecute \<and>
    ker_runs (mut_kernel res) = (ker_runs k)[i := r] \<and> run_state r = RunCompleted \<and>
    observe_run pl w root prior k1 = Inr (b, k2) \<and> observation_scope b = WithinWriteSet \<and>
    run_candidateSnapshot r = Some c \<and>
    \<lparr>ent_ref = taskCandidateObservationEntryRef b, ent_fingerprint = observation_fingerprint b\<rparr> \<in> set (cand_entries c) \<and>
    (\<forall>e \<in> set (cand_entries c). observed_entry pl prior b e) \<and>
    run_receipt r = Some v \<and> rver_candidateFingerprint v = cand_fingerprint c \<and>
    option.map_option res_evidenceRefs (run_result r) = Some (map rei_ref (rver_items v))"
proof -
  obtain actor fp es where m: "mutateTaskKernel pl p dir (getprop req ''expectedRevision'') (JStr actor)
      (getprop req ''idempotencyKey'') fp (recordTaskRunResult_step pl w root dir actor RunCompleted es req fp) n =
      Inr (res, p', n')"
    using assms(1,5) by (auto simp: recordTaskRunResult_def result_simps Let_def RUN_OUTCOMES_def enum_of_def)
  obtain k idem where k: "kernel_in pl (dir_or_empty p dir) = Inr k"
    and step: "recordTaskRunResult_step pl w root dir actor RunCompleted es req fp idem k n = Inr (mut_kernel res, n')"
    using mutate_step [OF m assms(2,4)] by blast
  obtain prior i r sv refs ms now n0 n1 where at: "runAt k (run_id prior) = Inr (prior, i)" "run_state prior = RunRunning"
    "ker_phase k = PhExecute" "ker_runs (mut_kernel res) = (ker_runs k)[i := r]"
    and run: "completed_run pl w root dir prior sv es refs ms now n0 = Inr (r, n1)"
    using completed_step [OF step] .
  obtain b k1 k2 c s v where "observe_run pl w root prior k1 = Inr (b, k2)" "observation_scope b = WithinWriteSet"
    "run_candidateSnapshot r = Some c" "\<forall>e \<in> set (cand_entries c). observed_entry pl prior b e"
    "\<lparr>ent_ref = taskCandidateObservationEntryRef b, ent_fingerprint = observation_fingerprint b\<rparr> \<in> set (cand_entries c)"
    "run_result r = Some \<lparr>res_summary = s, res_evidenceRefs = map rei_ref (rver_items v), res_evidenceVerification = Some v\<rparr>"
    "rver_candidateFingerprint v = cand_fingerprint c" "run_state r = RunCompleted"
    using completed_candidate [OF run assms(3)] .
  moreover from this(6) have "run_receipt r = Some v" by (simp add: run_receipt_def)
  ultimately show ?thesis
    using k at by (intro exI [of _ k] exI [of _ prior] exI [of _ r] exI [of _ i] exI [of _ b] exI [of _ c] exI [of _ v]
        exI [of _ k1] exI [of _ k2]) simp
qed

theorem completed_run_observed_witness:
  "\<exists>res. recordTaskRunResult demo_platform (demo_world ''hello'') (demo_project demo_k2) ''/p'' demo_dir None
      (request_object (demo_result demo_k2)) 60 = Inr (res, demo_project demo_k3, 160) \<and>
    (\<exists>r b c. ker_runs (mut_kernel res) = [r] \<and> run_candidateSnapshot r = Some c \<and>
      list_all (observed_entry demo_platform demo_run b) (cand_entries c))"
proof -
  have "\<exists>req. demo_result demo_k2 = RecordResult None req" by (simp add: demo_result_def)
  then obtain res where r: "recordTaskRunResult demo_platform (demo_world ''hello'') (demo_project demo_k2) ''/p'' demo_dir None
      (request_object (demo_result demo_k2)) 60 = Inr (res, demo_project demo_k3, 160)" "\<not> mut_idempotent res"
    using demo_finished by (auto simp: demo_serve_def demo_answer_def)
  have "getprop (request_object (demo_result demo_k2)) ''outcome'' = JStr ''completed''"
    by (simp add: demo_result_def demo_request_def getprop_def)
  from completed_run_observed [OF r demo_platform_ok demo_sound(2) this] obtain prior q i b c where
    "runAt demo_k2 (run_id prior) = Inr (prior, i)" "ker_runs (mut_kernel res) = (ker_runs demo_k2)[i := q]"
    "run_candidateSnapshot q = Some c" "\<forall>e \<in> set (cand_entries c). observed_entry demo_platform prior b e"
    by (auto simp: demo_kernel_in(2))
  moreover have "ker_runs demo_k2 = [demo_run]" by (simp add: demo_k2_def)
  ultimately have "ker_runs (mut_kernel res) = [q]" "\<forall>e \<in> set (cand_entries c). observed_entry demo_platform demo_run b e"
    by (auto simp: runAt_iff)
  then show ?thesis using r(1) \<open>run_candidateSnapshot q = Some c\<close> by (auto simp: list_all_iff)
qed

end
