(* ===== verification/Close_Properties.thy ===== *)
theory Close_Properties
  imports Demo Served
begin

text \<open>
  What a Review and a close require, what the closure records, and that a close goes through exactly when the
  check before it has nothing to say.
\<close>

section \<open>Reviews\<close>

text \<open>
  C10: a Review is recorded in the phase \<open>verify\<close>, of the latest Run, which is completed, and of the candidate
  frozen with it.  Its author is the actor of the request, who neither started nor approved the Run; its
  identifier is new; a pass leaves no blocker and no acceptance criterion without evidence.  It is added after
  the Reviews there are, and of the Runs only the measurements of the reviewed one change.
\<close>

theorem review_recorded:
  assumes "recordTaskReview pl w p root dir req n = Inr (res, p', n')" and "\<not> mut_idempotent res"
    and "platform_ok pl" and "sound_project pl n p"
  shows "\<exists>k rs r c v m. kernel_in pl (dir_or_empty p dir) = Inr k \<and> ker_phase k = PhVerify \<and>
    ker_runs k = rs @ [r] \<and> run_state r = RunCompleted \<and> run_candidateSnapshot r = Some c \<and>
    rev_runId v = run_id r \<and> rev_candidateSnapshotId v = cand_id c \<and> rev_candidateFingerprint v = cand_fingerprint c \<and>
    getprop req ''actor'' = JStr (rev_reviewer v) \<and> rev_reviewer v \<noteq> run_startedBy r \<and>
    rev_reviewer v \<noteq> auth_approvedBy (run_authorization r) \<and> rev_id v \<notin> rev_id ` set (ker_reviews k) \<and>
    (rev_decision v = DecPass \<longrightarrow> rev_unresolvedBlockers v = [] \<and>
       (\<forall>x \<in> set (def_acceptanceCriteria (ker_definition k)). \<not> lacks_evidence (rev_acceptanceEvidence v) x)) \<and>
    ker_reviews (mut_kernel res) = ker_reviews k @ [v] \<and>
    ker_runs (mut_kernel res) = rs @ [r\<lparr>run_measurementRefs := m\<rparr>] \<and> ker_phase (mut_kernel res) = PhVerify"
proof -
  obtain actor fp where actor: "getprop req ''actor'' = JStr actor"
    and m: "mutateTaskKernel pl p dir (getprop req ''expectedRevision'') (JStr actor) (getprop req ''idempotencyKey'') fp
      (recordTaskReview_step pl w root dir actor req fp) n = Inr (res, p', n')"
    using assms(1) by (auto simp: recordTaskReview_def result_simps)
  obtain k idem where k: "kernel_in pl (dir_or_empty p dir) = Inr k" "holds pl (dir_or_empty p dir) k"
    and step: "recordTaskReview_step pl w root dir actor req fp idem k n = Inr (mut_kernel res, n')"
    using mutate_step [OF m assms(2,4)] by blast
  from step show ?thesis
  proof (rule review_cases)
    fix r i c v ms n2
    assume r: "ker_phase k = PhVerify" "runAt k (run_id r) = Inr (r, i)" "run_candidateSnapshot r = Some c"
        "run_state r = RunCompleted" "latest_run_id k = Some (run_id r)"
      and v: "rev_runId v = run_id r" "rev_candidateSnapshotId v = cand_id c" "rev_candidateFingerprint v = cand_fingerprint c"
        "rev_reviewer v = actor" "actor \<noteq> run_startedBy r" "actor \<noteq> auth_approvedBy (run_authorization r)"
        "rev_id v \<notin> rev_id ` set (ker_reviews k)" "rev_decision v = DecPass \<longrightarrow> rev_unresolvedBlockers v = []"
      and e: "parseAcceptanceEvidence (or_default (getprop req ''acceptanceEvidence'') (JObj []))
         (def_acceptanceCriteria (ker_definition k)) (rev_decision v = DecPass) = Inr (rev_acceptanceEvidence v)"
      and event: "appendDomainEvent pl (k\<lparr>ker_condition := (if rev_decision v = DecPass then CndReady else CndBlocked),
          ker_runs := (ker_runs k)[i := r\<lparr>run_measurementRefs := ms\<rparr>], ker_reviews := ker_reviews k @ [v]\<rparr>) actor idem
        EvReviewRecorded (rev_id v) fp n2 = (mut_kernel res, n')"
    obtain rs where rs: "ker_runs k = rs @ [r]" "i = length rs" using latest_run_split [OF k(2) r(2,5)] by blast
    have "rev_decision v = DecPass \<longrightarrow>
        (\<forall>x \<in> set (def_acceptanceCriteria (ker_definition k)). \<not> lacks_evidence (rev_acceptanceEvidence v) x)"
      using e by (auto simp: parseAcceptanceEvidence_def result_simps filter_empty_conv)
    moreover have "ker_runs (mut_kernel res) = rs @ [r\<lparr>run_measurementRefs := ms\<rparr>]"
      "ker_reviews (mut_kernel res) = ker_reviews k @ [v]" "ker_phase (mut_kernel res) = PhVerify"
      using appendDomainEvent_content [OF event] rs r(1) by simp_all
    ultimately show ?thesis
      using k(1) r rs(1) v actor
      by (intro exI [of _ k] exI [of _ rs] exI [of _ r] exI [of _ c] exI [of _ v] exI [of _ ms]) simp
  qed
qed

theorem review_recorded_witness:
  "\<exists>res v. recordTaskReview demo_platform (demo_world ''hello'') (demo_project demo_k3) ''/p'' demo_dir
      (request_object (demo_review demo_k3)) 160 = Inr (res, demo_project demo_k4, 213) \<and>
    ker_reviews (mut_kernel res) = [v] \<and> rev_reviewer v \<noteq> ''ann''"
proof -
  have "\<exists>req. demo_review demo_k3 = RecordReview req" by (simp add: demo_review_def split: prod.splits)
  then obtain res where r: "recordTaskReview demo_platform (demo_world ''hello'') (demo_project demo_k3) ''/p'' demo_dir
      (request_object (demo_review demo_k3)) 160 = Inr (res, demo_project demo_k4, 213)" "\<not> mut_idempotent res"
    using demo_reviewed by (auto simp: demo_serve_def demo_answer_def)
  obtain q where q: "ker_runs demo_k3 = [q]" "run_startedBy q = ''ann''" and "ker_reviews demo_k3 = []"
    by (simp add: demo_kernel_defs)
  from review_recorded [OF r demo_platform_ok demo_sound(3)] obtain v rs x where
    "ker_runs demo_k3 = rs @ [x]" "rev_reviewer v \<noteq> run_startedBy x" "ker_reviews (mut_kernel res) = ker_reviews demo_k3 @ [v]"
    unfolding demo_kernel_in(3) by blast
  with q \<open>ker_reviews demo_k3 = []\<close> have "ker_reviews (mut_kernel res) = [v]" "rev_reviewer v \<noteq> ''ann''"
    by simp_all
  with r(1) show ?thesis by blast
qed

text \<open>
  C26: the evidence a Review rests on is read, not claimed: it names the Run and the candidate, every reference
  of the request once, with the digest of what was read, and stays within the limits of its number and size.
\<close>

theorem review_evidence_observed:
  assumes "recordTaskReview pl w p root dir req n = Inr (res, p', n')" and "\<not> mut_idempotent res"
    and "platform_ok pl" and "sound_project pl n p"
  shows "\<exists>v x. last_opt (ker_reviews (mut_kernel res)) = Some v \<and> rev_evidenceVerification v = Some x \<and>
    vver_runId x = rev_runId v \<and> vver_candidateSnapshotId x = rev_candidateSnapshotId v \<and>
    vver_candidateFingerprint x = rev_candidateFingerprint v \<and>
    map vei_ref (vver_items x) = map forward_slashes (review_refs (rev_evidenceRefs v) (rev_acceptanceEvidence v)) \<and>
    distinct (map vei_ref (vver_items x)) \<and> (\<forall>i \<in> set (vver_items x). is_fingerprint (vei_sha256 i)) \<and>
    length (vver_items x) \<le> MAX_EVIDENCE_REFS \<and>
    sum_list (map vei_sizeBytes (vver_items x)) \<le> MAX_TOTAL_EVIDENCE_BYTES"
proof -
  obtain actor fp where m: "mutateTaskKernel pl p dir (getprop req ''expectedRevision'') (JStr actor)
      (getprop req ''idempotencyKey'') fp (recordTaskReview_step pl w root dir actor req fp) n = Inr (res, p', n')"
    using assms(1) by (auto simp: recordTaskReview_def result_simps)
  obtain k idem where k: "holds pl (dir_or_empty p dir) k"
    and step: "recordTaskReview_step pl w root dir actor req fp idem k n = Inr (mut_kernel res, n')"
    using mutate_step [OF m assms(2,4)] by blast
  from step show ?thesis
  proof (rule review_cases)
    fix r i c v ms n0 n1 n2 x
    assume at: "runAt k (run_id r) = Inr (r, i)"
      and v: "rev_runId v = run_id r" "rev_candidateSnapshotId v = cand_id c" "rev_candidateFingerprint v = cand_fingerprint c"
        "rev_evidenceVerification v = Some x"
      and x: "resolveTaskReviewEvidenceV1 pl w root dir r (cand_id c) (cand_fingerprint c) True True
         (review_refs (rev_evidenceRefs v) (rev_acceptanceEvidence v)) n0 = Inr (x, n1)"
      and event: "appendDomainEvent pl (k\<lparr>ker_condition := (if rev_decision v = DecPass then CndReady else CndBlocked),
          ker_runs := (ker_runs k)[i := r\<lparr>run_measurementRefs := ms\<rparr>], ker_reviews := ker_reviews k @ [v]\<rparr>) actor idem
        EvReviewRecorded (rev_id v) fp n2 = (mut_kernel res, n')"
    have "last_opt (ker_reviews (mut_kernel res)) = Some v"
      using appendDomainEvent_content [OF event] by (simp add: last_opt_eq_Some)
    moreover have "wf_run pl r" using runAt_wf [OF at] k by (simp add: holds_def)
    ultimately show ?thesis
      using v by (intro exI [of _ v] exI [of _ x]) (rule resolve_result [OF x assms(3)],
        simp_all add: wf_review_evidence_item_def list_all_iff)
  qed
qed

theorem review_evidence_observed_witness:
  "\<exists>res v x. recordTaskReview demo_platform (demo_world ''hello'') (demo_project demo_k3) ''/p'' demo_dir
      (request_object (demo_review demo_k3)) 160 = Inr (res, demo_project demo_k4, 213) \<and>
    last_opt (ker_reviews (mut_kernel res)) = Some v \<and> rev_evidenceVerification v = Some x \<and>
    length (vver_items x) \<le> MAX_EVIDENCE_REFS"
proof -
  have "\<exists>req. demo_review demo_k3 = RecordReview req" by (simp add: demo_review_def split: prod.splits)
  then obtain res where r: "recordTaskReview demo_platform (demo_world ''hello'') (demo_project demo_k3) ''/p'' demo_dir
      (request_object (demo_review demo_k3)) 160 = Inr (res, demo_project demo_k4, 213)" "\<not> mut_idempotent res"
    using demo_reviewed by (auto simp: demo_serve_def demo_answer_def)
  from review_evidence_observed [OF r demo_platform_ok demo_sound(3)] r(1) show ?thesis by blast
qed

section \<open>Closes\<close>

lemma demo_close_answer:
  obtains res where "closeTaskKernel demo_platform (demo_world ''hello'') (demo_project demo_k4) ''/p'' demo_dir
      (request_object (demo_close demo_k4)) 213 = Inr (res, demo_project demo_k5, 314)" "\<not> mut_idempotent res"
proof -
  have "\<exists>req. demo_close demo_k4 = CloseTask req" by (simp add: demo_close_def split: prod.splits)
  then show thesis using demo_closed that by (auto simp: demo_serve_def demo_answer_def)
qed

text \<open>What a close that is performed has found, and what it leaves\<close>

lemma closing_facts:
  assumes "closeTaskKernel pl w p root dir req n = Inr (res, p', n')" and "\<not> mut_idempotent res"
    and "sound_project pl n p"
  obtains k actor rs run review c b d x n1 n2 n3 at where "kernel_in pl (dir_or_empty p dir) = Inr k" "wf_kernel pl k"
    "getprop req ''actor'' = JStr actor" "ker_phase k = PhVerify" "ker_closure k = None"
    "ker_runs k = rs @ [run]" "run_state run = RunCompleted" "run_candidateSnapshot run = Some c"
    "review \<in> set (ker_reviews k)" "closing_review k run c review"
    "\<exists>y i. rev_evidenceVerification review = Some y \<and>
       verifyTaskReviewEvidenceV1 pl w root dir run (cand_id c) (cand_fingerprint c) True True
         (review_refs (rev_evidenceRefs review) (rev_acceptanceEvidence review)) y i = Inr ((), n1)"
    "fresh_candidate pl w root run c n1 b n2"
    "assertHardDependenciesSatisfied pl p (def_dependencies (ker_definition k)) (Some dir) = Inr ()"
    "wf_delivery_evidence pl d" "dev_level d = def_deliveryLevel (ker_definition k)"
    "verifyDelivery pl w run d b n2 = Inr (x, n3)"
    "ker_closure (mut_kernel res) = Some \<lparr>clo_runId = run_id run, clo_reviewId = rev_id review,
       clo_candidateSnapshotId = cand_id c, clo_candidateFingerprint = cand_fingerprint c,
       clo_candidateObservation = the (trusted_observation c b), clo_deliveryEvidence = d\<lparr>dev_path := Some (dver_path x)\<rparr>,
       clo_deliveryVerification = Some x, clo_acceptanceEvidence = rev_acceptanceEvidence review,
       clo_closedAt = at, clo_closedBy = actor\<rparr>"
    "ker_phase (mut_kernel res) = PhClose" "ker_outcome (mut_kernel res) = Some OutCompleted"
    "ker_runs (mut_kernel res) = ker_runs k" "ker_reviews (mut_kernel res) = ker_reviews k"
proof -
  obtain actor fp where actor: "getprop req ''actor'' = JStr actor"
    and m: "mutateTaskKernel pl p dir (getprop req ''expectedRevision'') (JStr actor) (getprop req ''idempotencyKey'') fp
      (closeTaskKernel_step pl w p root dir actor req fp) n = Inr (res, p', n')"
    using assms(1) by (auto simp: closeTaskKernel_def result_simps)
  obtain k idem where k: "kernel_in pl (dir_or_empty p dir) = Inr k" "holds pl (dir_or_empty p dir) k"
    and step: "closeTaskKernel_step pl w p root dir actor req fp idem k n = Inr (mut_kernel res, n')"
    using mutate_step [OF m assms(2,3)] by blast
  obtain ver run review c o' x d kernel clo n1 n2 where
    e: "evaluateTaskClose pl w p root k (getprop req ''runId'') (getprop req ''reviewId'')
       (getprop req ''candidateObservation'') (getprop req ''deliveryEvidence'') (Some dir) n = Inr (ver, n1)"
    "clv_errors ver = []" and run: "run_by_id k (getprop req ''runId'') = Some run"
    "review_by_id k (getprop req ''reviewId'') = Some review" "run_candidateSnapshot run = Some c"
    and ver: "clv_candidateObservation ver = Some o'" "clv_deliveryVerification ver = Some x"
    and d: "parseDeliveryEvidence pl (Some (def_deliveryLevel (ker_definition k))) (getprop req ''deliveryEvidence'') = Inr d"
    and phase: "appendPhase pl k PhClose actor (idem @ ''#close'')
        ''Task acceptance and machine-observed delivery evidence satisfied.'' None None (Suc n1) = Inr (kernel, n2)"
    and clo: "clo = \<lparr>clo_runId = run_id run, clo_reviewId = rev_id review,
            clo_candidateSnapshotId = cand_id c, clo_candidateFingerprint = cand_fingerprint c,
            clo_candidateObservation = o', clo_deliveryEvidence = d\<lparr>dev_path := Some (dver_path x)\<rparr>,
            clo_deliveryVerification = Some x, clo_acceptanceEvidence = rev_acceptanceEvidence review,
            clo_closedAt = isoNow pl n1, clo_closedBy = actor\<rparr>"
    and event: "appendDomainEvent pl (kernel\<lparr>ker_outcome := Some OutCompleted, ker_condition := CndReady, ker_closure := Some clo\<rparr>)
       actor idem EvTaskClosed (ker_taskId k) fp n2 = (mut_kernel res, n')"
    using step by (rule close_cases)
  note content = appendDomainEvent_content [OF event] and append = appendPhase_content [OF phase]
  have "review \<in> set (ker_reviews k)" "getprop req ''runId'' = JStr (run_id run)" "run \<in> set (ker_runs k)"
    using review_by_id_Some [OF run(2)] run_by_id_Some [OF run(1)] by simp_all
  moreover from e obtain b i n3 n4 where facts: "ker_phase k = PhVerify" "ker_closure k = None" "run_state run = RunCompleted"
    "latest_run_id k = Some (run_id run)" "closing_review k run c review"
    "\<exists>y i. rev_evidenceVerification review = Some y \<and>
       verifyTaskReviewEvidenceV1 pl w root dir run (cand_id c) (cand_fingerprint c) True True
         (review_refs (rev_evidenceRefs review) (rev_acceptanceEvidence review)) y i = Inr ((), n3)"
    "fresh_candidate pl w root run c n3 b n4" "clv_candidateObservation ver = trusted_observation c b"
    "assertHardDependenciesSatisfied pl p (def_dependencies (ker_definition k)) (Some dir) = Inr ()"
    "verifyDelivery pl w run d b n4 = Inr (x, n1)"
    by (rule evaluate_closes) (use run d ver in \<open>clarsimp; blast\<close>)
  moreover obtain rs where "ker_runs k = rs @ [run]"
  proof -
    obtain rs q where rs: "ker_runs k = rs @ [q]" "run_id q = run_id run"
      using latest_last [OF facts(4)] by (metis append_butlast_last_id)
    moreover have "distinct (map run_id (ker_runs k))" using k(2) by (simp add: holds_def wf_kernel_defs runs_ok_iff)
    ultimately have "q = run" using \<open>run \<in> set (ker_runs k)\<close> by (auto simp: image_iff)
    with rs(1) show thesis by (intro that) simp
  qed
  moreover have "o' = the (trusted_observation c b)" using facts(8) ver(1) by (metis option.sel)
  moreover have "wf_delivery_evidence pl d" "dev_level d = def_deliveryLevel (ker_definition k)"
    using parseDeliveryEvidence_sound [OF d] by simp_all
  ultimately show thesis
    using that [of k actor rs run c review n3 b n4 d x n1 "isoNow pl n1"] k actor run(3) clo content append
    by (simp add: holds_def)
qed

text \<open>
  C2: a Task is closed only from the phase \<open>verify\<close>, once, on its latest Run, which is completed, and on a passing
  Review of the candidate frozen with it, the last there is of that candidate, by someone who neither started nor
  approved the Run, with no blocker and with evidence for every criterion.  At the close the evidence is read again,
  the candidate is observed again and found to be the frozen one, and every dependency is closed as completed.
  The closure names the Run, the Review, the candidate and the actor.
\<close>

theorem close_requires:
  assumes "closeTaskKernel pl w p root dir req n = Inr (res, p', n')" and "\<not> mut_idempotent res"
    and "sound_project pl n p"
  shows "\<exists>k rs run review c b clo i1 i2 i3 y. kernel_in pl (dir_or_empty p dir) = Inr k \<and>
    ker_phase k = PhVerify \<and> ker_closure k = None \<and> ker_runs k = rs @ [run] \<and> run_state run = RunCompleted \<and>
    run_candidateSnapshot run = Some c \<and> review \<in> set (ker_reviews k) \<and> closing_review k run c review \<and>
    rev_evidenceVerification review = Some y \<and>
    verifyTaskReviewEvidenceV1 pl w root dir run (cand_id c) (cand_fingerprint c) True True
      (review_refs (rev_evidenceRefs review) (rev_acceptanceEvidence review)) y i1 = Inr ((), i2) \<and>
    fresh_candidate pl w root run c i2 b i3 \<and>
    (\<forall>d \<in> set (def_dependencies (ker_definition k)). completed_task pl p (Some dir) d) \<and>
    ker_closure (mut_kernel res) = Some clo \<and> clo_runId clo = run_id run \<and> clo_reviewId clo = rev_id review \<and>
    clo_candidateSnapshotId clo = cand_id c \<and> clo_candidateFingerprint clo = cand_fingerprint c \<and>
    clo_acceptanceEvidence clo = rev_acceptanceEvidence review \<and> getprop req ''actor'' = JStr (clo_closedBy clo) \<and>
    ker_phase (mut_kernel res) = PhClose \<and> ker_outcome (mut_kernel res) = Some OutCompleted \<and>
    ker_runs (mut_kernel res) = ker_runs k \<and> ker_reviews (mut_kernel res) = ker_reviews k"
  using assms
proof (rule closing_facts)
  fix k actor rs run review c b d x n1 n2 n3 at
  assume facts: "kernel_in pl (dir_or_empty p dir) = Inr k" "getprop req ''actor'' = JStr actor"
    "ker_phase k = PhVerify" "ker_closure k = None" "ker_runs k = rs @ [run]" "run_state run = RunCompleted"
    "run_candidateSnapshot run = Some c" "review \<in> set (ker_reviews k)" "closing_review k run c review"
    "fresh_candidate pl w root run c n1 b n2"
    "assertHardDependenciesSatisfied pl p (def_dependencies (ker_definition k)) (Some dir) = Inr ()"
    "ker_phase (mut_kernel res) = PhClose" "ker_outcome (mut_kernel res) = Some OutCompleted"
    "ker_runs (mut_kernel res) = ker_runs k" "ker_reviews (mut_kernel res) = ker_reviews k"
    and clo: "ker_closure (mut_kernel res) = Some \<lparr>clo_runId = run_id run, clo_reviewId = rev_id review,
       clo_candidateSnapshotId = cand_id c, clo_candidateFingerprint = cand_fingerprint c,
       clo_candidateObservation = the (trusted_observation c b), clo_deliveryEvidence = d\<lparr>dev_path := Some (dver_path x)\<rparr>,
       clo_deliveryVerification = Some x, clo_acceptanceEvidence = rev_acceptanceEvidence review,
       clo_closedAt = at, clo_closedBy = actor\<rparr>"
    and "\<exists>y i. rev_evidenceVerification review = Some y \<and>
       verifyTaskReviewEvidenceV1 pl w root dir run (cand_id c) (cand_fingerprint c) True True
         (review_refs (rev_evidenceRefs review) (rev_acceptanceEvidence review)) y i = Inr ((), n1)"
  then obtain y i where y: "rev_evidenceVerification review = Some y"
    "verifyTaskReviewEvidenceV1 pl w root dir run (cand_id c) (cand_fingerprint c) True True
       (review_refs (rev_evidenceRefs review) (rev_acceptanceEvidence review)) y i = Inr ((), n1)"
    by blast
  show ?thesis
    by (intro exI [of _ k] exI [of _ rs] exI [of _ run] exI [of _ review] exI [of _ c] exI [of _ b]
        exI [of _ "the (ker_closure (mut_kernel res))"] exI [of _ i] exI [of _ n1] exI [of _ n2] exI [of _ y])
      (use facts y clo dependencies_completed_iff in simp)
qed

theorem close_requires_witness:
  "\<exists>res clo. closeTaskKernel demo_platform (demo_world ''hello'') (demo_project demo_k4) ''/p'' demo_dir
      (request_object (demo_close demo_k4)) 213 = Inr (res, demo_project demo_k5, 314) \<and>
    ker_closure (mut_kernel res) = Some clo \<and> clo_runId clo = ''id5''"
proof -
  obtain res where r: "closeTaskKernel demo_platform (demo_world ''hello'') (demo_project demo_k4) ''/p'' demo_dir
      (request_object (demo_close demo_k4)) 213 = Inr (res, demo_project demo_k5, 314)" "\<not> mut_idempotent res"
    by (rule demo_close_answer)
  obtain q where q: "ker_runs demo_k4 = [q]" "run_id q = ''id5''" by (simp add: demo_kernel_defs)
  from close_requires [OF r demo_sound(4)] obtain rs run clo where "ker_runs demo_k4 = rs @ [run]"
    "ker_closure (mut_kernel res) = Some clo" "clo_runId clo = run_id run"
    unfolding demo_kernel_in(4) by blast
  with q r(1) show ?thesis by simp
qed



section \<open>The check before a close\<close>

text \<open>
  C25: the evaluation of a close returns, whatever the request, the kernel and the host: what fails on the way
  becomes a message.
\<close>

theorem close_evaluation_returns:
  "\<exists>ver n'. evaluateTaskClose pl w p root k runId reviewId observationInput deliveryInput dir n = Inr (ver, n')"
  using total_evaluateTaskClose unfolding total_def by blast

lemma readTaskKernelV2_kernel_in:
  "import_refusal (dir_or_empty p dir) = None \<Longrightarrow> kernel_in pl (dir_or_empty p dir) = Inr k \<Longrightarrow>
   readTaskKernelV2 pl p dir = Inr k"
  by (auto simp: readTaskKernelV2_def kernel_in_def result_simps Let_def throwIf_def dest: parse_is_v2)

lemma close_step_keeps:
  assumes "closeTaskKernel_step pl w p root dir actor req fp idem k n = Inr (k', n')"
  shows "ker_runs k' = ker_runs k \<and> ker_reviews k' = ker_reviews k"
  using assms
proof (rule close_cases)
  fix kernel clo n1 n2
  assume phase: "appendPhase pl k PhClose actor (idem @ ''#close'')
      ''Task acceptance and machine-observed delivery evidence satisfied.'' None None (Suc n1) = Inr (kernel, n2)"
    and event: "appendDomainEvent pl (kernel\<lparr>ker_outcome := Some OutCompleted, ker_condition := CndReady, ker_closure := Some clo\<rparr>)
      actor idem EvTaskClosed (ker_taskId k) fp n2 = (k', n')"
  then show ?thesis using appendPhase_content(2,3) [OF phase] appendDomainEvent_content [OF event] by simp
qed

text \<open>
  C5: the check before a close is exact.  For a request with a new key and an actor, of a Task that is not
  archived, it reports nothing exactly when the close, asked for instead of the check, is performed.
\<close>

theorem close_check_exact:
  assumes "platform_ok pl" and "github_urls pl" and "sound_project pl n p"
    and k: "kernel_in pl (dir_or_empty p dir) = Inr k"
    and "import_refusal (dir_or_empty p dir) = None" and "\<not> td_archived (dir_or_empty p dir)"
    and actor: "getprop req ''actor'' = JStr actor" "\<not> blank actor"
    and idem: "getprop req ''idempotencyKey'' = JStr idem" "\<not> blank idem"
    and new: "findIdempotent k idem (close_fingerprint pl req) = Inr None"
  shows "(\<exists>m. checkTaskClose pl w p root dir req n = Inr ([], m)) \<longleftrightarrow>
    (\<exists>res p' n'. closeTaskKernel pl w p root dir req n = Inr (res, p', n') \<and> \<not> mut_idempotent res)"
proof -
  let ?eval = "evaluateTaskClose pl w p root k (getprop req ''runId'') (getprop req ''reviewId'')
      (getprop req ''candidateObservation'') (getprop req ''deliveryEvidence'') (Some dir)"
    and ?op = "closeTaskKernel_step pl w p root dir actor req (close_fingerprint pl req)"
  have close: "closeTaskKernel pl w p root dir req n = mutateTaskKernel pl p dir (getprop req ''expectedRevision'')
      (JStr actor) (JStr idem) (close_fingerprint pl req) ?op n"
    using actor idem(1) by (simp add: closeTaskKernel_def requireNonEmptyString_def)
  obtain ver m where e: "?eval n = Inr (ver, m)"
    using total_evaluateTaskClose unfolding total_def by blast
  have check: "(\<exists>m. checkTaskClose pl w p root dir req n = Inr ([], m)) \<longleftrightarrow>
      getprop req ''expectedRevision'' = nat_val (ker_revision k) \<and> clv_errors ver = []"
    using e readTaskKernelV2_kernel_in [OF assms(5) k]
    by (simp add: checkTaskClose_def taskCloseErrors_def bindO_def liftO_def okO_def push_if_def)
  note sound = sound_at [OF assms(3) k]
  show ?thesis
    unfolding check
  proof
    assume c: "getprop req ''expectedRevision'' = nat_val (ker_revision k) \<and> clv_errors ver = []"
    then obtain k' n' where step: "?op idem k n = Inr (k', n')" using close_step_succeeds [OF e] by blast
    then have "readable k'" using close_step_keeps [OF step] sound(1) by (simp add: holds_def readable_def)
    moreover have "is_fingerprint (close_fingerprint pl req)"
      using platform_okD(7) [OF assms(1)] by (simp add: close_fingerprint_def)
    ultimately show "\<exists>res p' n'. closeTaskKernel pl w p root dir req n = Inr (res, p', n') \<and> \<not> mut_idempotent res"
      using tracked_close.mutate_progress [OF assms(2,1) _ actor(2) idem(2) sound(1,2) assms(6,5) new step] c close by auto
  next
    assume "\<exists>res p' n'. closeTaskKernel pl w p root dir req n = Inr (res, p', n') \<and> \<not> mut_idempotent res"
    then obtain res t' n' where step: "performs pl (dir_or_empty p dir) (getprop req ''expectedRevision'') idem
        (close_fingerprint pl req) ?op n k res t' n'"
      using performs_holds [OF _ sound(1)] by (auto simp: close mutate_iff replays_def)
    then have "?op idem k n = Inr (mut_kernel res, n')" by (simp add: performs_def)
    then have "\<exists>ver m. ?eval n = Inr (ver, m) \<and> clv_errors ver = []" by (rule close_cases) blast
    then show "getprop req ''expectedRevision'' = nat_val (ker_revision k) \<and> clv_errors ver = []"
      using e step by (auto simp: performs_def)
  qed
qed

theorem close_check_exact_witness:
  "\<exists>m. checkTaskClose demo_platform (demo_world ''hello'') (demo_project demo_k4) ''/p'' demo_dir
     (request_object (demo_close demo_k4)) 213 = Inr ([], m)"
proof -
  obtain res where r: "closeTaskKernel demo_platform (demo_world ''hello'') (demo_project demo_k4) ''/p'' demo_dir
      (request_object (demo_close demo_k4)) 213 = Inr (res, demo_project demo_k5, 314)" "\<not> mut_idempotent res"
    by (rule demo_close_answer)
  have "getprop (request_object (demo_close demo_k4)) ''actor'' = JStr ''bob''"
    "getprop (request_object (demo_close demo_k4)) ''idempotencyKey'' = JStr ''k4''"
    by (simp_all add: demo_close_def demo_request_def getprop_def split: prod.splits)
  moreover have "\<not> blank ''bob''" "\<not> blank ''k4''" by code_simp+
  moreover have "log_of demo_k4 = [(''k'', demo_fp CHR ''2''), (''k1'', demo_fp CHR ''2''), (''k2'', demo_fp CHR ''2''),
      (''k3'', demo_fp CHR ''1'')]"
    by (simp add: demo_kernel_defs log_of_def demo_event_def)
  then have "findIdempotent demo_k4 ''k4'' (close_fingerprint demo_platform (request_object (demo_close demo_k4))) = Inr None"
    unfolding findIdempotent_log(1) by (simp add: log_step_def)
  ultimately show ?thesis
    using close_check_exact [OF demo_platform_ok demo_github_urls demo_sound(4) demo_kernel_in(4)] r
    by (auto simp: demo_dir_or_empty empty_dir_def import_refusal_def)
qed

end
