(* ===== verification/Demo_Workspace.thy ===== *)
theory Demo_Workspace
  imports Demo
begin

text \<open>
  The Task of \<open>Demo\<close> with a host session, and with a managed workspace: kernels that the requests of
  the next theory are made of.
\<close>

section \<open>A host session\<close>

definition demo_contract :: string where
  "demo_contract = fingerprintTaskValue demo_platform (definition_json (ker_definition demo_k1))"

definition demo_host :: host_binding where
  "demo_host =
     \<lparr>host_host = ''pi'', host_role = ''worker'', host_sessionId = Some ''s1'', host_hostId = None, host_threadId = None,
      host_kernelRevision = 3, host_contractFingerprint = demo_contract, host_requestRefs = [''r''],
      host_eventRefs = [''e''], host_resultRefs = [''x''], host_assuranceSource = None, host_stopReceipt = None\<rparr>"

definition demo_stop :: host_stop_receipt where
  "demo_stop =
     \<lparr>stop_source = ''pactile-pi-rpc'', stop_assurance = ''manager-owned-child-exit'', stop_evidenceLevel = ''process'',
      stop_taskId = ''a'', stop_runId = ''id5'', stop_sessionId = Some ''s1'', stop_threadId = None,
      stop_startRequestId = ''r'', stop_settleReceiptId = ''e'', stop_terminalStatus = ''exited'',
      stop_requestKernelRevision = 3, stop_receiptKernelRevision = 6, stop_contractFingerprint = demo_contract,
      stop_contractStale = False, stop_candidateSnapshotId = Some ''id106'',
      stop_candidateFingerprint = Some (demo_fp CHR ''3''), stop_candidateSource = Some (hd STOP_CANDIDATE_SOURCES),
      stop_receiptRef = ''x'', stop_evidenceRef = ''x'', stop_recordedAt = ''now''\<rparr>"

definition demo_settling :: task_kernel where
  "demo_settling = demo_k2\<lparr>ker_runs := [demo_run\<lparr>run_host := Some demo_host\<rparr>]\<rparr>"

definition demo_hosted :: task_kernel where
  "demo_hosted = demo_k3\<lparr>ker_runs := [demo_completed\<lparr>run_host := Some demo_host\<rparr>]\<rparr>"

definition demo_settle_request :: jsobj where
  "demo_settle_request = demo_request ''ann'' ''h1'' demo_settling
     [(''runId'', JStr ''id5''), (''eventRefs'', strs_val [''e2''])]"

definition demo_stop_request :: jsobj where
  "demo_stop_request = demo_request ''ann'' ''h2'' demo_hosted
     [(''runId'', JStr ''id5''), (''receipt'', stop_receipt_json demo_stop)]"

section \<open>A managed workspace\<close>

definition demo_sha :: string where
  "demo_sha = ''aaaaaaaaaaaaaaaaaaaaaaaaaaaaaaaaaaaaaaaa''"

definition demo_manager :: manager_binding where
  "demo_manager =
     \<lparr>mgr_credentialId = ''c'', mgr_projectRoot = ''/p'', mgr_commonDir = ''/p/.git'', mgr_gitDir = ''/p/.git/w'',
      mgr_source = hd MANAGER_SOURCES, mgr_recordedAt = ''now''\<rparr>"

definition demo_workspace :: workspace_binding where
  "demo_workspace =
     \<lparr>ws_ownerRunId = ''id5'', ws_canonicalPath = ''/w'', ws_branch = ''main'', ws_baseSha = demo_sha,
      ws_writeSet = [''f''], ws_integrationState = NotIntegrated, ws_reclamationState = RecPending,
      ws_manager = Some demo_manager, ws_integrationReceipt = None, ws_cleanupLease = None\<rparr>"

definition demo_receipt :: integration_receipt where
  "demo_receipt =
     \<lparr>rcpt_runId = ''id5'', rcpt_worktreeHeadSha = demo_sha, rcpt_targetRef = ''refs/heads/main'',
      rcpt_targetBranch = ''main'', rcpt_targetHeadSha = demo_sha, rcpt_verifiedAt = ''now'',
      rcpt_resultEvidenceRefs = [''f''], rcpt_candidateSnapshotId = ''id106'',
      rcpt_candidateFingerprint = demo_fp CHR ''3'', rcpt_contentFingerprint = Some (demo_fp CHR ''3'')\<rparr>"

definition demo_lease :: cleanup_lease where
  "demo_lease =
     \<lparr>lease_leaseId = ''l'', lease_state = LeaseHeld, lease_processId = 1, lease_acquiredAt = ''now'',
      lease_expectedHeadSha = demo_sha, lease_targetBranch = ''main'', lease_targetHeadSha = demo_sha,
      lease_receiptRef = ''x'', lease_reason = None,
      lease_riskDisclosure = Some TASK_RUN_WORKSPACE_CLEANUP_RISK_DISCLOSURE\<rparr>"

text \<open>The Run of a Git checkout, before a workspace is bound to it\<close>

definition in_checkout :: "task_run \<Rightarrow> task_run" where
  "in_checkout r = r\<lparr>run_candidateFileBaseline := None, run_candidateBaseSha := Some demo_sha,
     run_candidateBaseBranch := Some ''main''\<rparr>"

definition demo_unbound :: task_kernel where
  "demo_unbound = demo_k2\<lparr>ker_runs := [in_checkout demo_run]\<rparr>"

definition demo_bind_request :: jsobj where
  "demo_bind_request = demo_request ''ann'' ''w1'' demo_unbound
     [(''runId'', JStr ''id5''), (''workspace'', workspace_json demo_workspace)]"

text \<open>Closed, with its result integrated\<close>

definition demo_managed :: "cleanup_lease option \<Rightarrow> task_kernel" where
  "demo_managed lease = demo_k5\<lparr>ker_runs :=
     [(in_checkout demo_completed)
        \<lparr>run_host := Some (demo_host\<lparr>host_stopReceipt := Some demo_stop\<rparr>),
         run_workspace := Some (demo_workspace\<lparr>ws_integrationState := Integrated,
           ws_integrationReceipt := Some demo_receipt, ws_cleanupLease := lease\<rparr>)\<rparr>]\<rparr>"

definition demo_lease_request :: jsobj where
  "demo_lease_request = demo_request ''ann'' ''w2'' (demo_managed None)
     [(''runId'', JStr ''id5''), (''lease'', lease_json demo_lease)]"

definition demo_finish_request :: jsobj where
  "demo_finish_request = demo_request ''ann'' ''w3'' (demo_managed (Some demo_lease))
     [(''runId'', JStr ''id5''), (''leaseId'', JStr ''l'')]"

definition demo_refusal_request :: jsobj where
  "demo_refusal_request = demo_request ''ann'' ''w4'' (demo_managed None)
     [(''runId'', JStr ''id5''), (''reason'', JStr ''not clean'')]"

section \<open>The requests, answered\<close>

definition performed :: "(mutation_result \<times> project \<times> nat) outcome \<Rightarrow> bool" where
  "performed x \<longleftrightarrow> (case x of Inl e \<Rightarrow> False | Inr (res, p, n) \<Rightarrow> \<not> mut_idempotent res)"

lemma performedE:
  assumes "performed x"
  obtains res p n where "x = Inr (res, p, n)" "\<not> mut_idempotent res"
  using assms by (auto simp: performed_def split: sum.splits)

lemma demo_settled:
  "performed (appendTaskRunHostSettlementRefs demo_platform (demo_project demo_settling) demo_dir demo_settle_request 60)"
  by code_simp

lemma demo_stopped:
  "performed (recordTaskRunHostStopReceipt demo_platform (demo_project demo_hosted) demo_dir demo_stop_request 160)"
  by code_simp

lemma demo_bound:
  "performed (bindTaskRunWorkspace demo_platform (demo_world ''old'') (demo_project demo_unbound) ''/p'' demo_dir
     demo_bind_request 60)"
  by code_simp

lemma demo_leased:
  "performed (acquireTaskRunWorkspaceCleanupLease demo_platform (demo_project (demo_managed None)) demo_dir
     demo_lease_request 314)"
  by code_simp

lemma demo_reclaimed:
  "performed (finishTaskRunWorkspaceCleanup demo_platform (demo_project (demo_managed (Some demo_lease))) demo_dir
     CleanupReclaimed None demo_finish_request 314)"
  by code_simp

lemma demo_refused:
  "performed (recordTaskRunWorkspaceCleanupRefusal demo_platform (demo_project (demo_managed None)) demo_dir
     demo_refusal_request 314)"
  by code_simp

end
