(* ===== verification/Workspace_Properties.thy ===== *)
theory Workspace_Properties
  imports Demo_Workspace Served
begin

text \<open>
  The host session and the managed workspace of a Run: what settles them, and when a checkout may be cleaned up.
\<close>

section \<open>Requests about one Run\<close>

text \<open>The step of a performed request, of which nothing is assumed\<close>

lemma performed_step:
  assumes "mutateTaskKernel pl p dir expected a keyv fp op n = Inr (res, p', n')" and "\<not> mut_idempotent res"
  obtains k idem where "kernel_in pl (dir_or_empty p dir) = Inr k" "op idem k n = Inr (mut_kernel res, n')"
  using assms by (auto simp: mutate_iff replays_def performs_def kernel_in_def)

text \<open>What a step that replaces one Run leaves of the kernel\<close>

definition only_run_changed :: "task_kernel \<Rightarrow> nat \<Rightarrow> task_run \<Rightarrow> task_kernel \<Rightarrow> bool" where
  "only_run_changed k i r k' \<longleftrightarrow>
     ker_runs k' = (ker_runs k)[i := r] \<and> ker_reviews k' = ker_reviews k \<and> ker_definition k' = ker_definition k \<and>
     ker_phase k' = ker_phase k \<and> ker_condition k' = ker_condition k \<and> ker_outcome k' = ker_outcome k \<and>
     ker_closure k' = ker_closure k"

lemma replaced_run:
  assumes "appendDomainEvent pl (replaceRun k i r) actor idem type entity fp n = (k', n')"
  shows "only_run_changed k i r k'"
  using appendDomainEvent_content [OF assms] by (simp add: only_run_changed_def replaceRun_def)


section \<open>The host session\<close>

text \<open>
  C23: a stop receipt is recorded once, for a Run that has ended and a host that is bound to it, and only when it
  is a receipt of that session: it names the Task, the Run, the session, the thread and the contract the host was
  bound with, which is the contract of the Task, rests on references the host has recorded before, and names the
  candidate of the Run, or none when there is none.
\<close>

theorem stop_receipt_matches:
  assumes "recordTaskRunHostStopReceipt pl p dir req n = Inr (res, p', n')" and "\<not> mut_idempotent res"
  shows "\<exists>k run i host r. kernel_in pl (dir_or_empty p dir) = Inr k \<and>
    getprop req ''runId'' = JStr (run_id run) \<and> runAt k (run_id run) = Inr (run, i) \<and> \<not> active_run run \<and>
    run_host run = Some host \<and> host_stopReceipt host = None \<and>
    parseHostStopReceipt (getprop req ''receipt'') = Inr r \<and>
    stop_taskId r = ker_taskId k \<and> stop_runId r = run_id run \<and> stop_sessionId r = host_sessionId host \<and>
    stop_threadId r = host_threadId host \<and> \<not> stop_contractStale r \<and>
    stop_contractFingerprint r = host_contractFingerprint host \<and>
    stop_contractFingerprint r = fingerprintTaskValue pl (definition_json (ker_definition k)) \<and>
    stop_receiptKernelRevision r \<le> ker_revision k \<and>
    stop_startRequestId r \<in> set (host_requestRefs host) \<and> stop_settleReceiptId r \<in> set (host_eventRefs host) \<and>
    {stop_evidenceRef r, stop_receiptRef r} \<inter> set (host_resultRefs host) \<noteq> {} \<and>
    stop_candidateSnapshotId r = map_option cand_id (run_candidateSnapshot run) \<and>
    stop_candidateFingerprint r = map_option cand_fingerprint (run_candidateSnapshot run) \<and>
    only_run_changed k i (run\<lparr>run_host := Some (host\<lparr>host_stopReceipt := Some r\<rparr>)\<rparr>) (mut_kernel res)"
proof -
  obtain actor runId r fp where runId: "getprop req ''runId'' = JStr runId"
    and r: "parseHostStopReceipt (getprop req ''receipt'') = Inr r"
    and m: "mutateTaskKernel pl p dir (getprop req ''expectedRevision'') (JStr actor) (getprop req ''idempotencyKey'') fp
      (recordTaskRunHostStopReceipt_step pl actor runId r fp) n = Inr (res, p', n')"
    using assms(1) by (auto simp: recordTaskRunHostStopReceipt_def result_simps Let_def)
  obtain k idem where k: "kernel_in pl (dir_or_empty p dir) = Inr k"
    and step: "recordTaskRunHostStopReceipt_step pl actor runId r fp idem k n = Inr (mut_kernel res, n')"
    using performed_step [OF m assms(2)] .
  from step show ?thesis
  proof (rule stop_cases)
    fix run i and host :: host_binding
    assume s: "runAt k runId = Inr (run, i)" "run_host run = Some host" "\<not> active_run run"
      "\<not> receipt_mismatch pl k run host r" "\<not> receipt_unbound host r"
      "\<not> candidate_mismatch (run_candidateSnapshot run) r" "host_stopReceipt host = None"
      and event: "appendDomainEvent pl (replaceRun k i (run\<lparr>run_host := Some (host\<lparr>host_stopReceipt := Some r\<rparr>)\<rparr>))
        actor idem EvHostSettled runId fp n = (mut_kernel res, n')"
    have "run_id run = runId" using s(1) by (simp add: runAt_iff)
    then show ?thesis
      using k runId r s replaced_run [OF event]
      by (intro exI [of _ k] exI [of _ run] exI [of _ i] exI [of _ host] exI [of _ r])
        (auto simp: receipt_mismatch_def receipt_unbound_def candidate_mismatch_def not_less split: option.splits)
  qed
qed

theorem stop_receipt_matches_witness:
  "\<exists>res p n (run :: task_run) (host :: host_binding) (r :: host_stop_receipt). recordTaskRunHostStopReceipt demo_platform (demo_project demo_hosted) demo_dir
      demo_stop_request 160 = Inr (res, p, n) \<and>
    run_host run = Some host \<and> stop_sessionId r = host_sessionId host"
proof -
  obtain res p n where r: "recordTaskRunHostStopReceipt demo_platform (demo_project demo_hosted) demo_dir
      demo_stop_request 160 = Inr (res, p, n)" "\<not> mut_idempotent res"
    using demo_stopped by (rule performedE)
  from stop_receipt_matches [OF r] r(1) show ?thesis by blast
qed



section \<open>The managed workspace\<close>

text \<open>
  C28: a workspace is bound to the latest Run, while it is active and has none, by a manager whose project is the
  one the Task is in, for the write set of the Run, and from the commit the Run started at, when one is known.
\<close>

theorem workspace_bound:
  assumes "bindTaskRunWorkspace pl w p root dir req n = Inr (res, p', n')" and "\<not> mut_idempotent res"
  shows "\<exists>k run i ws m. kernel_in pl (dir_or_empty p dir) = Inr k \<and>
    getprop req ''runId'' = JStr (run_id run) \<and> runAt k (run_id run) = Inr (run, i) \<and>
    latest_run_id k = Some (run_id run) \<and> active_run run \<and> run_workspace run = None \<and>
    parseWorkspaceBinding pl (run_id run) (getprop req ''workspace'') = Inr ws \<and> ws_ownerRunId ws = run_id run \<and>
    ws_manager ws = Some m \<and> ws_integrationState ws = NotIntegrated \<and> ws_cleanupLease ws = None \<and>
    (\<exists>j j'. sameProjectDirectory w (mgr_projectRoot m) root j = Inr (True, j')) \<and>
    taskRunWorkspaceWriteSetsEqual pl (ws_writeSet ws) (List.sort (run_writeSetSnapshot run)) \<and>
    (\<forall>sha. run_candidateBaseSha run = Some sha \<longrightarrow> sha = [] \<or> to_lower sha = to_lower (ws_baseSha ws)) \<and>
    only_run_changed k i (with_workspace run ws) (mut_kernel res)"
proof -
  obtain actor runId ws fp where runId: "getprop req ''runId'' = JStr runId"
    and ws: "parseWorkspaceBinding pl runId (getprop req ''workspace'') = Inr ws"
      "ws_integrationState ws = NotIntegrated" "ws_cleanupLease ws = None"
    and m: "mutateTaskKernel pl p dir (getprop req ''expectedRevision'') (JStr actor) (getprop req ''idempotencyKey'') fp
      (bindTaskRunWorkspace_step pl w root actor runId ws fp) n = Inr (res, p', n')"
    using assms(1) by (auto simp: bindTaskRunWorkspace_def result_simps Let_def)
  have owner: "ws_ownerRunId ws = runId" using parseWorkspaceBinding_sound [OF ws(1)] by (simp add: wf_workspace_def)
  obtain k idem where k: "kernel_in pl (dir_or_empty p dir) = Inr k"
    and step: "bindTaskRunWorkspace_step pl w root actor runId ws fp idem k n = Inr (mut_kernel res, n')"
    using performed_step [OF m assms(2)] .
  then obtain run i m j where s: "runAt k runId = Inr (run, i)" "latest_run_id k = Some runId" "active_run run"
    "run_workspace run = None" "ws_manager ws = Some m" "sameProjectDirectory w (mgr_projectRoot m) root n = Inr (True, j)"
    "taskRunWorkspaceWriteSetsEqual pl (ws_writeSet ws) (List.sort (run_writeSetSnapshot run))" "\<not> base_sha_differs run ws"
    and event: "appendDomainEvent pl (replaceRun k i (with_workspace run ws)) actor idem EvWorkspaceBound runId fp j =
      (mut_kernel res, n')"
    by (auto simp: bindTaskRunWorkspace_step_def result_simps)
  have "run_id run = runId" using s(1) by (simp add: runAt_iff)
  then show ?thesis
    using k runId ws owner s replaced_run [OF event]
    by (intro exI [of _ k] exI [of _ run] exI [of _ i] exI [of _ ws] exI [of _ m]) (auto simp: base_sha_differs_def)
qed

theorem workspace_bound_witness:
  "\<exists>res p n (run :: task_run) (ws :: workspace_binding). bindTaskRunWorkspace demo_platform (demo_world ''old'') (demo_project demo_unbound) ''/p'' demo_dir
      demo_bind_request 60 = Inr (res, p, n) \<and>
    run_workspace run = None \<and> ws_ownerRunId ws = run_id run"
proof -
  obtain res p n where r: "bindTaskRunWorkspace demo_platform (demo_world ''old'') (demo_project demo_unbound) ''/p'' demo_dir
      demo_bind_request 60 = Inr (res, p, n)" "\<not> mut_idempotent res"
    using demo_bound by (rule performedE)
  from workspace_bound [OF r] r(1) show ?thesis by blast
qed

text \<open>
  C17: a checkout may be cleaned up only after its result is integrated and the Task closed on it.  The lease is
  given for a completed Run whose frozen candidate the closure names, whose workspace is integrated by a receipt
  with the fingerprint of its content, and whose host has ended by itself; it is a held lease for the head and the
  target of that receipt, it names the receipt of the host, the risk has been disclosed, and no other lease is open.
\<close>

theorem cleanup_after_close:
  assumes "acquireTaskRunWorkspaceCleanupLease pl p dir req n = Inr (res, p', n')" and "\<not> mut_idempotent res"
  shows "\<exists>k run i ws receipt c clo host stop lease. kernel_in pl (dir_or_empty p dir) = Inr k \<and>
    getprop req ''runId'' = JStr (run_id run) \<and> runAt k (run_id run) = Inr (run, i) \<and> run_state run = RunCompleted \<and>
    run_candidateSnapshot run = Some c \<and> ker_phase k = PhClose \<and> ker_closure k = Some clo \<and>
    clo_runId clo = run_id run \<and> clo_candidateSnapshotId clo = cand_id c \<and>
    clo_candidateFingerprint clo = cand_fingerprint c \<and>
    run_workspace run = Some ws \<and> ws_integrationState ws = Integrated \<and> ws_integrationReceipt ws = Some receipt \<and>
    rcpt_contentFingerprint receipt \<noteq> None \<and>
    run_host run = Some host \<and> host_stopReceipt host = Some stop \<and> stop_runId stop = run_id run \<and>
    \<not> stop_contractStale stop \<and> eligible_host host stop \<and>
    lease_state lease = LeaseHeld \<and> lease_reason lease = None \<and>
    lease_riskDisclosure lease = Some TASK_RUN_WORKSPACE_CLEANUP_RISK_DISCLOSURE \<and>
    to_lower (lease_expectedHeadSha lease) = to_lower (rcpt_worktreeHeadSha receipt) \<and>
    lease_targetBranch lease = rcpt_targetBranch receipt \<and>
    to_lower (lease_targetHeadSha lease) = to_lower (rcpt_targetHeadSha receipt) \<and>
    lease_receiptRef lease = stop_receiptRef stop \<and>
    (\<forall>l. ws_cleanupLease ws = Some l \<longrightarrow> lease_state l = LeaseReclaimed \<or> lease_state l = LeaseRetained) \<and>
    only_run_changed k i (run\<lparr>run_workspace := Some (ws\<lparr>ws_cleanupLease := Some lease,
      ws_reclamationState := RecPending\<rparr>)\<rparr>) (mut_kernel res)"
proof -
  obtain actor runId lease fp where runId: "getprop req ''runId'' = JStr runId"
    and lease: "parseWorkspaceCleanupLease (JObj (with_prop (with_prop (spread (getprop req ''lease''))
         ''state'' (JStr ''held'')) ''reason'' JNull)) = Inr lease"
      "lease_riskDisclosure lease = Some TASK_RUN_WORKSPACE_CLEANUP_RISK_DISCLOSURE"
    and m: "mutateTaskKernel pl p dir (getprop req ''expectedRevision'') (JStr actor) (getprop req ''idempotencyKey'') fp
      (acquireTaskRunWorkspaceCleanupLease_step pl actor runId lease fp) n = Inr (res, p', n')"
    using assms(1) by (auto simp: acquireTaskRunWorkspaceCleanupLease_def result_simps Let_def)
  have held: "lease_state lease = LeaseHeld" "lease_reason lease = None"
    using lease(1) by (auto simp: parseWorkspaceCleanupLease_def result_simps prop_with_prop enum_of_def LEASE_STATES_def
        nullE_def split: if_splits)
  obtain k idem where k: "kernel_in pl (dir_or_empty p dir) = Inr k"
    and step: "acquireTaskRunWorkspaceCleanupLease_step pl actor runId lease fp idem k n = Inr (mut_kernel res, n')"
    using performed_step [OF m assms(2)] .
  then obtain run i ws receipt c host stop where s: "runAt k runId = Inr (run, i)" "run_workspace run = Some ws"
    "ws_integrationReceipt ws = Some receipt" "ws_integrationState ws = Integrated" "run_state run = RunCompleted"
    "run_candidateSnapshot run = Some c" "\<not> unclosed_candidate k run c" "run_host run = Some host"
    "host_stopReceipt host = Some stop" "stop_runId stop = run_id run" "\<not> stop_contractStale stop"
    "eligible_host host stop" "\<not> lease_differs lease receipt stop" "\<not> unsettled_lease (ws_cleanupLease ws)"
    "\<not> (case rcpt_contentFingerprint receipt of None \<Rightarrow> True | Some s \<Rightarrow> s = [])"
    and event: "appendDomainEvent pl (replaceRun k i (run\<lparr>run_workspace := Some (ws
       \<lparr>ws_cleanupLease := Some lease, ws_reclamationState := RecPending\<rparr>)\<rparr>)) actor idem EvCleanupAcquired runId fp n =
      (mut_kernel res, n')"
    by (auto simp: acquireTaskRunWorkspaceCleanupLease_step_def result_simps)
  obtain clo where clo: "ker_phase k = PhClose" "ker_closure k = Some clo" "clo_runId clo = run_id run"
    "clo_candidateSnapshotId clo = cand_id c" "clo_candidateFingerprint clo = cand_fingerprint c"
    using s(7) by (auto simp: unclosed_candidate_def split: option.splits)
  have "\<forall>l. ws_cleanupLease ws = Some l \<longrightarrow> lease_state l = LeaseReclaimed \<or> lease_state l = LeaseRetained"
    using s(14) by (auto simp: unsettled_lease_def) (metis lease_state.exhaust)
  moreover have "rcpt_contentFingerprint receipt \<noteq> None" using s(15) by (auto split: option.splits)
  moreover have "run_id run = runId" using s(1) by (simp add: runAt_iff)
  moreover have "to_lower (lease_expectedHeadSha lease) = to_lower (rcpt_worktreeHeadSha receipt)"
    "lease_targetBranch lease = rcpt_targetBranch receipt"
    "to_lower (lease_targetHeadSha lease) = to_lower (rcpt_targetHeadSha receipt)" "lease_receiptRef lease = stop_receiptRef stop"
    using s(13) by (auto simp: lease_differs_def)
  ultimately show ?thesis
    using k runId lease(2) held s clo replaced_run [OF event]
    by (intro exI [of _ k] exI [of _ run] exI [of _ i] exI [of _ ws] exI [of _ receipt] exI [of _ c] exI [of _ clo]
        exI [of _ host] exI [of _ stop] exI [of _ lease]) simp
qed

theorem cleanup_after_close_witness:
  "\<exists>res p n (k :: task_kernel) (clo :: task_closure). acquireTaskRunWorkspaceCleanupLease demo_platform (demo_project (demo_managed None)) demo_dir
      demo_lease_request 314 = Inr (res, p, n) \<and>
    ker_phase k = PhClose \<and> ker_closure k = Some clo"
proof -
  obtain res p n where r: "acquireTaskRunWorkspaceCleanupLease demo_platform (demo_project (demo_managed None)) demo_dir
      demo_lease_request 314 = Inr (res, p, n)" "\<not> mut_idempotent res"
    using demo_leased by (rule performedE)
  from cleanup_after_close [OF r] r(1) show ?thesis by blast
qed

text \<open>
  C29: a lease is settled once, by who holds it: only a held lease takes a result, and a lease in recovery only a
  new place of the checkout.  The lease keeps its name and the workspace its receipt; what the manager may change
  is where the checkout is, never whose it is.
\<close>

theorem cleanup_settled:
  assumes "finishTaskRunWorkspaceCleanup pl p dir result update req n = Inr (res, p', n')" and "\<not> mut_idempotent res"
  shows "\<exists>k run i ws m m' lease reason. kernel_in pl (dir_or_empty p dir) = Inr k \<and>
    getprop req ''runId'' = JStr (run_id run) \<and> runAt k (run_id run) = Inr (run, i) \<and>
    run_workspace run = Some ws \<and> ws_manager ws = Some m \<and> ws_cleanupLease ws = Some lease \<and>
    getprop req ''leaseId'' = JStr (lease_leaseId lease) \<and>
    (lease_state lease = LeaseHeld \<or> lease_state lease = LeaseRecovery \<and> result = CleanupRecovery) \<and>
    only_run_changed k i (run\<lparr>run_workspace := Some (ws\<lparr>ws_manager := Some m',
      ws_cleanupLease := Some (lease\<lparr>lease_state := cleanup_lease_state result, lease_reason := reason\<rparr>),
      ws_reclamationState := cleanup_reclamation result\<rparr>)\<rparr>) (mut_kernel res) \<and>
    (reason = None \<longleftrightarrow> result = CleanupReclaimed) \<and>
    mgr_credentialId m' = mgr_credentialId m \<and> mgr_projectRoot m' = mgr_projectRoot m \<and>
    mgr_commonDir m' = mgr_commonDir m \<and> mgr_source m' = mgr_source m"
proof -
  obtain actor runId leaseId reason fp where runId: "getprop req ''runId'' = JStr runId"
    and leaseId: "getprop req ''leaseId'' = JStr leaseId" and reason: "cleanup_reason result (getprop req ''reason'') = Inr reason"
    and m: "mutateTaskKernel pl p dir (getprop req ''expectedRevision'') (JStr actor) (getprop req ''idempotencyKey'') fp
      (finishTaskRunWorkspaceCleanup_step pl actor runId leaseId result reason update fp) n = Inr (res, p', n')"
    using assms(1) by (auto simp: finishTaskRunWorkspaceCleanup_def result_simps Let_def)
  have reason': "reason = None \<longleftrightarrow> result = CleanupReclaimed"
    using reason by (auto simp: cleanup_reason_def result_simps split: if_splits)
  obtain k idem where k: "kernel_in pl (dir_or_empty p dir) = Inr k"
    and step: "finishTaskRunWorkspaceCleanup_step pl actor runId leaseId result reason update fp idem k n = Inr (mut_kernel res, n')"
    using performed_step [OF m assms(2)] .
  from step show ?thesis
  proof (rule finish_cases)
    fix run i ws lease and m :: manager_binding
    assume s: "runAt k runId = Inr (run, i)" "run_workspace run = Some ws" "ws_manager ws = Some m"
      "ws_cleanupLease ws = Some lease" "lease_leaseId lease = leaseId"
      "lease_state lease = LeaseHeld \<or> lease_state lease = LeaseRecovery \<and> result = CleanupRecovery \<and> update \<noteq> None"
      "pred_option (\<lambda>u. \<not> manager_update_refused pl m u) update"
      and event: "appendDomainEvent pl (replaceRun k i (run\<lparr>run_workspace :=
           Some (finished_workspace ws lease result reason update)\<rparr>)) actor idem (cleanup_event result) runId fp n =
        (mut_kernel res, n')"
    let ?m = "case update of None \<Rightarrow> m | Some u \<Rightarrow> u"
    have "mgr_credentialId ?m = mgr_credentialId m" "mgr_projectRoot ?m = mgr_projectRoot m"
      "mgr_commonDir ?m = mgr_commonDir m" "mgr_source ?m = mgr_source m"
      using s(7) by (cases update; simp add: manager_update_refused_def)+
    moreover
    have "ws\<lparr>ws_manager := (case update of None \<Rightarrow> ws_manager ws | Some u \<Rightarrow> Some u),
        ws_cleanupLease := Some (lease\<lparr>lease_state := cleanup_lease_state result, lease_reason := reason\<rparr>),
        ws_reclamationState := cleanup_reclamation result\<rparr> = ws\<lparr>ws_manager := Some ?m,
        ws_cleanupLease := Some (lease\<lparr>lease_state := cleanup_lease_state result, lease_reason := reason\<rparr>),
        ws_reclamationState := cleanup_reclamation result\<rparr>"
      using s(3) by (cases update) simp_all
    then have "only_run_changed k i (run\<lparr>run_workspace := Some (ws\<lparr>ws_manager := Some ?m,
        ws_cleanupLease := Some (lease\<lparr>lease_state := cleanup_lease_state result, lease_reason := reason\<rparr>),
        ws_reclamationState := cleanup_reclamation result\<rparr>)\<rparr>) (mut_kernel res)"
      using replaced_run [OF event] by (simp only: finished_workspace_def)
    moreover have "run_id run = runId" using s(1) by (simp add: runAt_iff)
    ultimately show ?thesis
      using k runId leaseId reason' s(1-6)
      by (intro exI [of _ k] exI [of _ run] exI [of _ i] exI [of _ ws] exI [of _ m] exI [of _ ?m] exI [of _ lease]
          exI [of _ reason]) blast
  qed
qed

theorem cleanup_settled_witness:
  "\<exists>res p n (lease :: cleanup_lease). finishTaskRunWorkspaceCleanup demo_platform (demo_project (demo_managed (Some demo_lease)))
      demo_dir CleanupReclaimed None demo_finish_request 314 = Inr (res, p, n) \<and>
    getprop demo_finish_request ''leaseId'' = JStr (lease_leaseId lease)"
proof -
  obtain res p n where r: "finishTaskRunWorkspaceCleanup demo_platform (demo_project (demo_managed (Some demo_lease)))
      demo_dir CleanupReclaimed None demo_finish_request 314 = Inr (res, p, n)" "\<not> mut_idempotent res"
    using demo_reclaimed by (rule performedE)
  from cleanup_settled [OF r] r(1) show ?thesis by blast
qed

text \<open>A mutation without a patch appends an audit entry and an event.\<close>

lemma unpatched_mutation:
  "appendMutation pl k actor idem type entity fp no_patch evidence n = (k', n') \<Longrightarrow>
   \<exists>a e. k' = k\<lparr>ker_revision := ker_revision k + 1, ker_audit := ker_audit k @ [a], ker_events := ker_events k @ [e]\<rparr> \<and>
     aud_evidence a = Some evidence \<and> evt_type e = type \<and> evt_entityId e = entity"
  by (cases k) (auto simp: appendMutation_def apply_patch_def no_patch_def patched_state_def with_state_def
      makeAudit_def makeEvent_def Let_def)

text \<open>
  C37: a refused cleanup is journalled and changes nothing else: there is one audit entry and one event more, and
  the text that is kept of the reason has at most 500 characters, whatever the request says.
\<close>

theorem refusal_only_journalled:
  assumes "recordTaskRunWorkspaceCleanupRefusal pl p dir req n = Inr (res, p', n')" and "\<not> mut_idempotent res"
  shows "\<exists>k a e reason. kernel_in pl (dir_or_empty p dir) = Inr k \<and>
    mut_kernel res = k\<lparr>ker_revision := ker_revision k + 1, ker_audit := ker_audit k @ [a], ker_events := ker_events k @ [e]\<rparr> \<and>
    aud_evidence a = Some (''Workspace cleanup refused: '' @ reason) \<and> reason \<noteq> [] \<and> length reason \<le> 500 \<and>
    evt_type e = EvCleanupRefused \<and> getprop req ''runId'' = JStr (evt_entityId e) \<and>
    evt_entityId e \<in> run_id ` set (ker_runs k)"
proof -
  obtain actor runId raw fp where runId: "getprop req ''runId'' = JStr runId" and reason: "clean_reason raw \<noteq> []"
    and m: "mutateTaskKernel pl p dir (getprop req ''expectedRevision'') (JStr actor) (getprop req ''idempotencyKey'') fp
      (record_refusal_step pl actor runId EvCleanupRefused (''Workspace cleanup refused: '' @ clean_reason raw) fp) n =
      Inr (res, p', n')"
    using assms(1) by (auto simp: recordTaskRunWorkspaceCleanupRefusal_def result_simps Let_def)
  obtain k idem where k: "kernel_in pl (dir_or_empty p dir) = Inr k"
    and step: "record_refusal_step pl actor runId EvCleanupRefused (''Workspace cleanup refused: '' @ clean_reason raw) fp
      idem k n = Inr (mut_kernel res, n')"
    using performed_step [OF m assms(2)] .
  obtain run i where run: "runAt k runId = Inr (run, i)"
    and append: "appendMutation pl k actor idem EvCleanupRefused (run_id run) fp no_patch
      (''Workspace cleanup refused: '' @ clean_reason raw) n = (mut_kernel res, n')"
    using step by (rule refusal_cases)
  obtain a e where "mut_kernel res = k\<lparr>ker_revision := ker_revision k + 1, ker_audit := ker_audit k @ [a],
      ker_events := ker_events k @ [e]\<rparr>" "aud_evidence a = Some (''Workspace cleanup refused: '' @ clean_reason raw)"
    "evt_type e = EvCleanupRefused" "evt_entityId e = run_id run"
    using unpatched_mutation [OF append] by blast
  moreover have "length (clean_reason raw) \<le> 500" by (simp add: clean_reason_def)
  moreover have "run_id run = runId" using run by (simp add: runAt_iff)
  moreover have "run_id run \<in> run_id ` set (ker_runs k)" using runAt_mem [OF run] by simp
  ultimately show ?thesis using k runId reason by (intro exI [of _ k] exI [of _ a] exI [of _ e] exI [of _ "clean_reason raw"]) simp
qed

theorem refusal_only_journalled_witness:
  "\<exists>res p n (k :: task_kernel) (a :: kernel_audit) (reason :: string). recordTaskRunWorkspaceCleanupRefusal demo_platform (demo_project (demo_managed None)) demo_dir
      demo_refusal_request 314 = Inr (res, p, n) \<and>
    aud_evidence a = Some (''Workspace cleanup refused: '' @ reason) \<and> length reason \<le> 500"
proof -
  obtain res p n where r: "recordTaskRunWorkspaceCleanupRefusal demo_platform (demo_project (demo_managed None)) demo_dir
      demo_refusal_request 314 = Inr (res, p, n)" "\<not> mut_idempotent res"
    using demo_refused by (rule performedE)
  from refusal_only_journalled [OF r] r(1) show ?thesis by blast
qed

end
