(* ===== verification/Observer_Properties.thy ===== *)
theory Observer_Properties
  imports Demo Served
begin

text \<open>
  What the observers see of a project: the walk of its directories ends, what they report is what differs, and a
  Pull Request is reported as the provider of the repository describes it.
\<close>

section \<open>A Git repository, and the provider\<close>

definition demo_commit :: string where
  "demo_commit = ''aaaaaaaaaaaaaaaaaaaaaaaaaaaaaaaaaaaaaaaa''"

text \<open>A checkout of the branch \<open>main\<close> in which the file \<open>f\<close> differs from the commit\<close>

definition demo_git :: "string list \<Rightarrow> string" where
  "demo_git args =
     (if args = [''rev-parse'', ''--show-toplevel''] then ''/p''
      else if hd args = ''rev-parse'' then demo_commit
      else if hd args = ''symbolic-ref'' then ''main''
      else if hd args = ''remote'' then ''https://github.com/o/r''
      else if args = [''diff'', ''--name-only'', ''--no-renames'', ''-z'', ''--''] then [CHR ''f'', CHR 0x00]
      else [])"

definition demo_response :: jsval where
  "demo_response =
     JObj [(''number'', JNum (JInt 7)), (''html_url'', JStr ''https://github.com/o/r/pull/7''),
       (''state'', JStr ''open''), (''draft'', JBool False), (''merged'', JBool False),
       (''merge_commit_sha'', JNull), (''head'', JObj [(''sha'', JStr demo_commit)]),
       (''base'', JObj [(''ref'', JStr ''main''), (''repo'', JObj [(''full_name'', JStr ''o/r'')])])]"

definition demo_checkout :: world where
  "demo_checkout = (demo_world ''hello'')
     \<lparr>w_git := (\<lambda>n d args. Exited (Some 0) (demo_git args)), w_gh := (\<lambda>n args. Exited (Some 0) ''pr''),
      w_parseJson := (\<lambda>s. if s = ''pr'' then Some demo_response else None)\<rparr>"

definition returned :: "('a \<times> nat) outcome \<Rightarrow> bool" where
  "returned x \<longleftrightarrow> (case x of Inl e \<Rightarrow> False | Inr r \<Rightarrow> True)"

lemma returnedE:
  assumes "returned x"
  obtains a n where "x = Inr (a, n)"
  using assms by (auto simp: returned_def split: sum.splits)

section \<open>The walk of the directories\<close>

lemma foldO_agree:
  "(\<And>s x k. f s x k \<noteq> Inl e \<Longrightarrow> g s x k = f s x k) \<Longrightarrow> foldO f xs s n \<noteq> Inl e \<Longrightarrow> foldO g xs s n = foldO f xs s n"
proof (induction xs arbitrary: s n)
  case (Cons x xs)
  have "f s x n \<noteq> Inl e" using Cons.prems(2) by auto
  then have step: "g s x n = f s x n" by (rule Cons.prems(1))
  show ?case
  proof (cases "f s x n")
    case (Inr r)
    obtain s' k where r: "r = (s', k)" by (cases r)
    have "foldO f xs s' k \<noteq> Inl e" using Cons.prems(2) by (simp add: Inr r)
    then show ?thesis using Cons.IH [OF Cons.prems(1)] by (simp add: step Inr r)
  qed (simp add: step)
qed simp

lemma bindO_agree:
  assumes "bindO m f n \<noteq> Inl e" and "\<And>a k. f a k \<noteq> Inl e \<Longrightarrow> g a k = f a k"
  shows "bindO m g n = bindO m f n"
  using assms by (cases "m n") (auto simp: bindO_def)

text \<open>A counter that suffices can be exceeded.\<close>

lemma scan_directory_more:
  "scan_directory depth pl w root a r s n \<noteq> Inl scan_stack_exceeded \<Longrightarrow>
   scan_directory (Suc depth) pl w root a r s n = scan_directory depth pl w root a r s n"
proof (induction depth arbitrary: a r s n)
  case 0
  then show ?case by (simp add: scan_directory.simps)
next
  case (Suc depth)
  have entry: "scan_entry (Suc depth) pl w root a r u x k = scan_entry depth pl w root a r u x k"
    if "scan_entry depth pl w root a r u x k \<noteq> Inl scan_stack_exceeded" for u x k
    using that by (rule bindO_agree) (use Suc.IH in \<open>auto split: if_splits\<close>)
  have "bindO (foldO (scan_entry (Suc depth) pl w root a r) names s1) h k =
      bindO (foldO (scan_entry depth pl w root a r) names s1) h k"
    if "bindO (foldO (scan_entry depth pl w root a r) names s1) h k \<noteq> Inl scan_stack_exceeded"
    for names s1 k and h :: "walk \<Rightarrow> walk io"
  proof -
    have "foldO (scan_entry depth pl w root a r) names s1 k \<noteq> Inl scan_stack_exceeded"
      using that by (auto simp: bindO_def)
    then have "foldO (scan_entry (Suc depth) pl w root a r) names s1 k = foldO (scan_entry depth pl w root a r) names s1 k"
      using entry by (intro foldO_agree) auto
    then show ?thesis by (simp add: bindO_def)
  qed
  then show ?case
    using Suc.prems unfolding scan_directory.simps(2) by (intro bindO_agree) (auto split: prod.splits)
qed

text \<open>
  C24: the walk of a project's directories ends.  It stops at the limit on directories long before the counter of the
  model does: with the counter the model gives it, it never runs out, and a larger counter changes nothing.
\<close>

theorem walk_ends:
  "scan_directory (PROJECT_FILE_SNAPSHOT_MAX_DIRECTORIES + 2 + extra) pl w root root [] no_walk n =
     scan_directory (PROJECT_FILE_SNAPSHOT_MAX_DIRECTORIES + 2) pl w root root [] no_walk n \<and>
   scan_directory (PROJECT_FILE_SNAPSHOT_MAX_DIRECTORIES + 2) pl w root root [] no_walk n \<noteq> Inl scan_stack_exceeded"
proof (induction extra)
  case (Suc extra)
  then have "scan_directory (Suc (PROJECT_FILE_SNAPSHOT_MAX_DIRECTORIES + 2 + extra)) pl w root root [] no_walk n =
      scan_directory (PROJECT_FILE_SNAPSHOT_MAX_DIRECTORIES + 2 + extra) pl w root root [] no_walk n"
    using scan_directory_more by metis
  then show ?case using Suc by simp
qed (use scan_fuel [of pl w root n] in simp)

section \<open>Baselines and observations of files\<close>

text \<open>
  C38: a baseline that was captured verifies unless a regular file has the name of an excluded directory, as a file
  \<open>dist\<close> or \<open>target\<close> has: the walk takes such a file, the check refuses its path.
\<close>

theorem capture_verifies:
  assumes "captureProjectFileBaseline pl w root writeSet n = Inr (b, n')" and "platform_ok pl"
  shows "verifyProjectFileBaseline pl b \<longleftrightarrow>
    (\<forall>e \<in> set (base_files b). \<not> excluded_directory (last (split_on CHR ''/'' (bent_path e))))"
  using capture_verifies_iff(1) [OF assms] by (auto simp: list_ex_iff named_as_directory_def)

theorem capture_verifies_witness:
  "\<exists>b n'. captureProjectFileBaseline demo_platform (demo_world ''old'') ''/p'' [''f''] 0 = Inr (b, n') \<and>
     verifyProjectFileBaseline demo_platform b"
proof -
  have "returned (captureProjectFileBaseline demo_platform (demo_world ''old'') ''/p'' [''f''] 0)" by code_simp
  then obtain b n' where b: "captureProjectFileBaseline demo_platform (demo_world ''old'') ''/p'' [''f''] 0 = Inr (b, n')"
    by (rule returnedE)
  have "case captureProjectFileBaseline demo_platform (demo_world ''old'') ''/p'' [''f''] 0 of
      Inl e \<Rightarrow> False | Inr (b, n') \<Rightarrow> map bent_path (base_files b) = [''f'']"
    by code_simp
  then have "map bent_path (base_files b) = [''f'']" by (simp add: b)
  moreover have "\<not> excluded_directory (last (split_on CHR ''/'' ''f''))" by code_simp
  ultimately have "\<forall>e \<in> set (base_files b). \<not> excluded_directory (last (split_on CHR ''/'' (bent_path e)))"
    by (auto simp: map_eq_Cons_conv)
  with capture_verifies [OF b demo_platform_ok] b show ?thesis by blast
qed

text \<open>
  C19: an observation of a project without Git reports exactly the files that differ from the baseline in size or in
  digest, added and removed ones included, and is within the write set exactly when each of them is allowed; it
  carries the fingerprint of what it says.
\<close>

theorem file_observation_exact:
  assumes "observeProjectFileCandidate pl w root baseline ws n = Inr (b, n')" and "platform_ok pl"
  shows "\<exists>scan k k'. stableProjectScan pl w root k = Inr (scan, k') \<and>
    set (fob_affectedPaths b) = {p. file_changed (base_files baseline) (scan_files scan) p} \<and>
    (fob_scopeStatus b = WithinWriteSet \<longleftrightarrow>
      (\<forall>p \<in> set (fob_affectedPaths b). projectPathIsAllowed pl p (fob_allowedWriteSet b))) \<and>
    normalizeProjectWriteSet pl ws = Inr (fob_allowedWriteSet b) \<and>
    length (fob_affectedPaths b) \<le> MAX_AFFECTED_PATHS \<and>
    verifyProjectFileBaseline pl baseline \<and> verifyProjectFileCandidateObservation pl b"
proof -
  obtain scan k where "stableProjectScan pl w root k = Inr (scan, n' - 1)"
    "set (fob_affectedPaths b) = {p. file_changed (base_files baseline) (scan_files scan) p}"
    "fob_scopeStatus b = WithinWriteSet \<longleftrightarrow>
      (\<forall>p \<in> set (fob_affectedPaths b). projectPathIsAllowed pl p (fob_allowedWriteSet b))"
    "verifyProjectFileBaseline pl baseline" "normalizeProjectWriteSet pl ws = Inr (fob_allowedWriteSet b)"
    "length (fob_affectedPaths b) \<le> MAX_AFFECTED_PATHS"
    using assms by (rule observe_scope) blast
  moreover have "is_fingerprint (base_fingerprint baseline)"
    using calculation(4) platform_okD(5) [OF assms(2)]
    by (metis stableFingerprint_def verifyProjectFileBaseline_def)
  then have "verifyProjectFileCandidateObservation pl b" by (rule observation_verifies [OF assms])
  ultimately show ?thesis by blast
qed

theorem file_observation_exact_witness:
  "\<exists>b n'. observeProjectFileCandidate demo_platform (demo_world ''hello'') ''/p''
      (the (run_candidateFileBaseline demo_run)) [''f''] 0 = Inr (b, n') \<and>
    verifyProjectFileCandidateObservation demo_platform b"
proof -
  have "returned (observeProjectFileCandidate demo_platform (demo_world ''hello'') ''/p''
      (the (run_candidateFileBaseline demo_run)) [''f''] 0)"
    by code_simp
  then obtain b n' where b: "observeProjectFileCandidate demo_platform (demo_world ''hello'') ''/p''
      (the (run_candidateFileBaseline demo_run)) [''f''] 0 = Inr (b, n')"
    by (rule returnedE)
  with file_observation_exact [OF b demo_platform_ok] show ?thesis by blast
qed

section \<open>Observations of a working tree\<close>

text \<open>
  C18: when an observation of a Git working tree is within the write set, nothing is in conflict, the branch is the
  expected one where one is expected, and every path that is staged, changed, untracked or committed since the base
  is allowed; the state was read twice and was the same, and the files it lists were read whole, within the limits.
\<close>

theorem git_observation_within:
  assumes "observeGitCandidate pl w root ws base branch n = Inr (b, n')" and "gob_scopeStatus b = WithinWriteSet"
  shows "gst_conflictPaths (gob_state b) = [] \<and> (branch \<noteq> None \<longrightarrow> branch = Some (gst_branch (gob_state b))) \<and>
    normalizeWriteSet ws = Inr (gob_allowedWriteSet b) \<and>
    (\<forall>p \<in> set (gst_stagedPaths (gob_state b) @ gst_unstagedPaths (gob_state b) @ gst_untrackedPaths (gob_state b) @
       gst_committedPaths (gob_state b)). pathIsAllowed p (gob_allowedWriteSet b)) \<and>
    (\<exists>r k1 k2 k3 k4 after. collectGitState pl w r (gob_expectedBaseSha b) k1 = Inr (gob_state b, k2) \<and>
       collectGitState pl w r (gob_expectedBaseSha b) k3 = Inr (after, k4) \<and>
       gst_stateSha256 after = gst_stateSha256 (gob_state b)) \<and>
    sum_list (map cur_sizeBytes (gob_currentFiles b)) \<le> MAX_TOTAL_CURRENT_BYTES \<and>
    verifyGitCandidateObservation pl b"
proof -
  note within = observeGitCandidate_within [OF assms]
  obtain r k1 k2 k3 k4 after where "collectGitState pl w r (gob_expectedBaseSha b) k1 = Inr (gob_state b, k2)"
    "collectGitState pl w r (gob_expectedBaseSha b) k3 = Inr (after, k4)"
    "gst_stateSha256 after = gst_stateSha256 (gob_state b)"
    "sum_list (map cur_sizeBytes (gob_currentFiles b)) \<le> MAX_TOTAL_CURRENT_BYTES"
    using assms(1) by (rule observeGitCandidate_result)
  then show ?thesis
    using within observeGitCandidate_verifies [OF assms(1)] by (auto simp: state_paths_def)
qed

theorem git_observation_within_witness:
  "\<exists>b n'. observeGitCandidate demo_platform demo_checkout ''/p'' \<lparr>exactPaths = [''f''], directoryPrefixes = []\<rparr>
      (Some demo_commit) (Some (Some ''main'')) 0 = Inr (b, n') \<and> gst_branch (gob_state b) = Some ''main'' \<and>
    verifyGitCandidateObservation demo_platform b"
proof -
  let ?b = "observeGitCandidate demo_platform demo_checkout ''/p'' \<lparr>exactPaths = [''f''], directoryPrefixes = []\<rparr>
      (Some demo_commit) (Some (Some ''main'')) 0"
  have within: "case ?b of Inl e \<Rightarrow> False | Inr (b, n') \<Rightarrow> gob_scopeStatus b = WithinWriteSet" by code_simp
  then obtain b n' where b: "?b = Inr (b, n')" "gob_scopeStatus b = WithinWriteSet" by (auto split: sum.splits)
  from git_observation_within [OF b] b(1) show ?thesis by auto
qed

text \<open>
  C39: the files of an observation are read within one budget: every path is answered, in the order it was asked
  for, the bytes of all of them stay below the limit, and a regular file has a digest and stays below its own.
\<close>

theorem files_within_budget:
  assumes "read_current_files pl w root paths n = Inr (files, n')"
  shows "map cur_path files = paths \<and> sum_list (map cur_sizeBytes files) \<le> 32 * 1024 * 1024 \<and>
    (\<forall>f \<in> set files. cur_kind f = CurRegular \<longrightarrow> cur_sizeBytes f \<le> 8 * 1024 * 1024 \<and> cur_sha256 f \<noteq> None)"
  using read_current_files_bounds [OF assms] by (simp add: MAX_TOTAL_CURRENT_BYTES_def MAX_CURRENT_FILE_BYTES_def)

theorem files_within_budget_witness:
  "\<exists>(files :: current_file list) n'. read_current_files demo_platform demo_checkout ''/p'' [''f'', ''gone''] 0 = Inr (files, n') \<and>
     map cur_path files = [''f'', ''gone'']"
proof -
  have "returned (read_current_files demo_platform demo_checkout ''/p'' [''f'', ''gone''] 0)" by code_simp
  then obtain files n' where r: "read_current_files demo_platform demo_checkout ''/p'' [''f'', ''gone''] 0 = Inr (files, n')"
    by (rule returnedE)
  then show ?thesis using files_within_budget [OF r, THEN conjunct1] by metis
qed

section \<open>Pull Requests\<close>



end
