(* ===== verification/Deviations.thy ===== *)
theory Deviations
  imports Demo_Workspace
begin

text \<open>
  Where the code does not do what it means to: requests that are performed, and leave a document that the next
  request cannot read, or that record nothing new.
\<close>

text \<open>What the next reader finds in the directory after a request\<close>

definition unreadable_after :: "(mutation_result \<times> project \<times> nat) outcome \<Rightarrow> bool" where
  "unreadable_after x \<longleftrightarrow> (case x of
       Inl e \<Rightarrow> False
     | Inr (res, p, n) \<Rightarrow> (case kernel_in demo_platform (dir_or_empty p demo_dir) of Inl e \<Rightarrow> True | Inr k \<Rightarrow> False))"

text \<open>
  A Run that is started for a workspace whose base is not a full commit name is recorded, and its kernel cannot be
  read any more.
\<close>

definition demo_short_base :: jsobj where
  "demo_short_base = with_prop (request_object (demo_start demo_k1)) ''workspace''
     (workspace_json (demo_workspace\<lparr>ws_ownerRunId := ''id5'', ws_baseSha := ''abc''\<rparr>))"

lemma started_from_short_base:
  "unreadable_after (startTaskRun demo_platform (demo_world ''old'') (demo_project demo_k1) ''/p'' demo_dir
     (with_prop demo_short_base ''runId'' (JStr ''id5'')) 5)"
  by code_simp

text \<open>A workspace that is bound to a Run with a baseline of files leaves a kernel with both, which cannot be read.\<close>

lemma bound_to_file_baseline:
  "unreadable_after (bindTaskRunWorkspace demo_platform (demo_world ''old'') (demo_project demo_k2) ''/p'' demo_dir
     demo_bind_request 60)"
  by code_simp

text \<open>A host whose references have a duplicate is settled by a request that names no reference.\<close>

definition demo_twice :: task_kernel where
  "demo_twice = demo_k2\<lparr>ker_runs := [demo_run\<lparr>run_host := Some (demo_host\<lparr>host_requestRefs := [''r'', ''r'']\<rparr>)\<rparr>]\<rparr>"

lemma settled_without_news:
  "performed (appendTaskRunHostSettlementRefs demo_platform (demo_project demo_twice) demo_dir
     (demo_request ''ann'' ''h1'' demo_twice [(''runId'', JStr ''id5'')]) 60)"
  by code_simp

text \<open>
  The replay of a request whose key is the beginning of another key, up to a number sign, reports the audit entry of
  that other request.
\<close>

lemma replay_reports_other_request:
  "findAuditForKey (k\<lparr>ker_audit := [a\<lparr>aud_idempotencyKey := ''key#2''\<rparr>, a\<lparr>aud_idempotencyKey := ''key''\<rparr>]\<rparr>) ''key'' =
     Inr (a\<lparr>aud_idempotencyKey := ''key#2''\<rparr>)"
  by (simp add: findAuditForKey_def audit_of_key_def starts_with_def)

end
