(* ===== verification/Spec2Isabelle.thy ===== *)
theory Spec2Isabelle
  imports Schema_Properties Task_Properties Lifecycle_Properties Run_Properties Close_Properties Workspace_Properties
    Observer_Properties Deviations
begin

text \<open>
  The Task Kernel of the pactile command line tool: the modules of src/packages/cli/src/core/task/ that keep the
  state of a Task in the file kernel.json of its directory and change it.

  \<^bold>\<open>The program.\<close>  A Task moves through the phases define, approve, execute, verify and close.  It is worked on
  in Runs, at most one at a time; a completed Run freezes a candidate (what Core observed of the project), an
  independent Review judges that candidate, and the Task closes on both.  Each exported function (createTaskKernel,
  addTaskDependency, startTaskRun, resumeTaskRun, recordTaskRunResult, recordTaskReview, closeTaskKernel, the host
  and the workspace functions) hands an operation to mutateTaskKernel, which reads the document under a lock, answers
  a repeated idempotency key from the log of events, refuses a stale revision, applies the operation and writes the
  document back.  Operations observe the project through Git or through a bounded walk of its files.

  \<^bold>\<open>The model.\<close>  A JavaScript value is a \<open>jsval\<close> (Js\_Value); thrown errors are \<open>Inl\<close> (Prelude); documents are
  parsed and printed by the functions of the schema, every check in its order (Schema\_Base, Run\_Schema,
  Review\_Schema, Snapshot\_Schema over the records of Kernel\_Types and the phases of Kernel\_Contract).  A project is
  a list of task directories (Kernel\_Store); what the host provides is a parameter: \<open>platform\<close> holds random UUIDs, the
  clock, SHA-256, the URL parser and the path conventions, \<open>world\<close> (Host\_World) the file system, Git and gh.  Every
  call of the host takes a ticket from a counter and its answer is a function of the ticket, so nothing is assumed to
  stand still between two calls.

  \<^item> Write\_Set: path guards, write sets, baselines as data (task-candidate-observer.ts, project-file-observer.ts)
  \<^item> Kernel\_Operation: mutateTaskKernel, the append functions, and the locales \<open>kernel_operation\<close> and
    \<open>wf_operation\<close>, which state what an operation owes the store; each handler is interpreted in them
  \<^item> Dependencies: findTaskById, the depth-first cycle check, createTaskKernel, addTaskDependency
  \<^item> Run\_Update, Runs, Host, Workspaces, Reviews, Close: the handlers, with \<open>_step\<close> for the closure each hands to the
    store
  \<^item> Project\_Observer, Git\_Observer, Pull\_Request, Review\_Evidence: what is observed and when it is refused
  \<^item> Observer\_Tickets: observers never give a ticket back
  \<^item> History: the locale \<open>tracked_operation\<close>, what an operation keeps of the past
  \<^item> Lifecycle, Served: requests served one after the other, \<open>reaches\<close>, and what follows for any sequence of them
  \<^item> Evaluation, Example, Demo, Demo\_Workspace: a platform, a world and a Task from its creation to its close, on
    which the hypotheses of the theorems hold

  \<^bold>\<open>What is shown.\<close>  Schema\_Properties: kernels are read back from what they are printed as, and what is read
  satisfies the invariants.  Lifecycle\_Properties, Task\_Properties and this theory: every reachable project is sound,
  its dependency graph has no cycle, history is kept, a closed Task stays closed, requests refine a log of keys, no
  request is performed twice and no update is lost.  Run\_Properties, Close\_Properties, Workspace\_Properties: what each
  handler requires and leaves; the check before a close is exact.  Observer\_Properties: the walk ends, observations say
  what differs, limits hold.  Deviations: inputs on which the code does not do what it means to.

  \<^bold>\<open>Hypotheses.\<close>  \<open>platform_ok\<close>: UUIDs differ, a hash prints as 64 lower-case hexadecimal digits, printed times parse.
  \<open>github_urls\<close>: how the URL parser reads the pages of Pull Requests.  \<open>readable\<close> of a stored kernel: four inputs the
  code stores unchecked and refuses to read back (see Deviations); the theorems that need it name it.

  \<^bold>\<open>Bounds and fuel.\<close>  The cycle check counts down from one more than the number of directories, which the depth of
  the search cannot exceed (\<open>assertNoDependencyCycle_ok\<close>); the walk of the directories counts down from two more than
  the limit on directories, which it hits first (\<open>walk_ends\<close>).  Every other recursion is structural.

  \<^bold>\<open>Not modelled.\<close>  Locks and atomic writes (one request at a time is what they provide); the migration of Tasks of
  version 1, of which the store sees the record of the import; the messages of errors; timestamps as values.  The
  other directories of the tool (commands, scheduler, host bridges, installation, templates) call the kernel and are
  not part of it.
\<close>

text \<open>
  C6: adding a dependency to a Task keeps the project's dependency graph acyclic, whatever the
  request and however many directories the project has.
\<close>

theorem addTaskDependency_acyclic:
  assumes op: "addTaskDependency pl p dir req n = Inr (res, p', n')"
    and ok: "platform_ok pl" and dirs: "distinct (map td_dir p)"
    and k: "holds pl (dir_or_empty p dir) k" and fresh: "uuid_fresh pl n k"
    and before: "acyclic (dependency_graph pl p)"
  shows "acyclic (dependency_graph pl p')"
  by (rule add_dependency_acyclic [OF assms])

theorem addTaskDependency_acyclic_witness:
  "\<exists>r p'. demo_r3 = Inr (r, p', 24) \<and> \<not> mut_idempotent r \<and> acyclic (dependency_graph demo_platform p')"
proof -
  obtain r p' where r: "demo_r3 = Inr (r, p', 24)" "\<not> mut_idempotent r" using demo_r3_ok' by blast
  obtain k where k: "kernel_at demo_platform demo_p2 ''/p/b'' = Inr k"
    "holds demo_platform (dir_or_empty demo_p2 ''/p/b'') k"
    using demo_p2_holds(2) by (rule demo_holds)
  have "(case kernel_at demo_platform demo_p2 ''/p/b'' of Inl _ \<Rightarrow> False | Inr k \<Rightarrow> ids_below 20 k)"
    by code_simp
  then have "uuid_fresh demo_platform 20 k" using k(1) by (simp add: demo_fresh)
  moreover have "distinct (map td_dir demo_p2)" by code_simp
  moreover have "acyclic (dependency_graph demo_platform demo_p2)"
    by (simp add: no_dependencies_graph demo_p2_no_dependencies acyclic_def)
  ultimately have "acyclic (dependency_graph demo_platform p')"
    using addTaskDependency_acyclic [OF r(1) [unfolded demo_r3_def] demo_platform_ok] k(2) by blast
  with r show ?thesis by blast
qed

text \<open>
  C20: the depth-first check accepts a list of dependencies exactly when no Task reachable from
  them, in the directories other than the Task's own, is the Task itself, and every Task on the way
  can be located.  It needs no bound on the depth: the counter of the model never runs out.
\<close>

theorem cycle_check_exact:
  "(\<exists>g. assertNoDependencyCycle pl p taskId dependencies ignored = Inr g) \<longleftrightarrow>
   (\<forall>d y. d \<in> set dependencies \<and> (d, y) \<in> {(a, b). depends_on pl p (Some ignored) a b}\<^sup>* \<longrightarrow>
      y \<noteq> taskId \<and> (\<exists>found. findTaskById pl p (Some ignored) y = Inr found))"
  using assertNoDependencyCycle_ok [of pl p taskId dependencies ignored]
  by (auto simp: rtranclp_rtrancl_eq)

theorem cycle_check_exact_witness:
  "(\<exists>g. assertNoDependencyCycle demo_platform demo_p2 ''a'' [''b''] ''/p/a'' = Inr g) \<and>
   (\<exists>y. (''b'', y) \<in> {(a, b). depends_on demo_platform (project_of demo_r3) (Some ''/p/a'') a b}\<^sup>* \<and>
     (y = ''a'' \<or> (\<forall>found. findTaskById demo_platform (project_of demo_r3) (Some ''/p/a'') y \<noteq> Inr found)))"
proof -
  have "(case assertNoDependencyCycle demo_platform demo_p2 ''a'' [''b''] ''/p/a'' of Inl _ \<Rightarrow> False | Inr _ \<Rightarrow> True)"
    by code_simp
  moreover have "(case assertNoDependencyCycle demo_platform (project_of demo_r3) ''a'' [''b''] ''/p/a'' of
      Inl _ \<Rightarrow> True | Inr _ \<Rightarrow> False)"
    by code_simp
  ultimately show ?thesis
    using cycle_check_exact [of demo_platform "project_of demo_r3" "''a''" "[''b'']" "''/p/a''"]
    by (auto split: sum.splits)
qed

end
